(* ===== verification/Squid_Prelude.thy ===== *)
theory Squid_Prelude
  imports Main "HOL-Library.AList" "HOL-Library.Signed_Division"
begin

text \<open>
  Shared vocabulary of the development: what the indexer under
  \<^verbatim>\<open>src/contracts/squid/src\<close> uses of the JavaScript language and its standard library.

  \<^item> Exceptions are values: a fallible routine returns \<open>js_error + 'a\<close>, with \<open>Inl\<close> the
    exception; \<open>bindR\<close> sequences two such computations and \<open>foldR\<close> runs a loop that stops at
    the first exception.
  \<^item> A \<^verbatim>\<open>Map\<close> is an association list in insertion order (\<open>mset\<close> overwrites in place or
    appends), a \<^verbatim>\<open>Set\<close> a list without duplicates in insertion order (\<open>sadd\<close>).
  \<^item> \<^verbatim>\<open>undefined\<close> and \<^verbatim>\<open>null\<close> are both \<open>None\<close>: the code tests them with \<^verbatim>\<open>!x\<close> or
    \<^verbatim>\<open>x == null\<close>, and the database stores both as NULL.
  \<^item> \<^verbatim>\<open>bigint\<close> and integral \<^verbatim>\<open>number\<close> values are \<open>int\<close>; \<^verbatim>\<open>/\<close> on \<^verbatim>\<open>bigint\<close> truncates (\<open>sdiv\<close>).
  \<^item> Strings are lists of 8-bit characters; \<^verbatim>\<open>toLowerCase\<close> is the ASCII one.

  The locale \<open>map_interface\<close> is the contract the components rely on when they keep entities in
  a \<^verbatim>\<open>Map\<close>; \<open>batch\<close> is the contract of an event loop that keeps an invariant.
\<close>

named_theorems jsmap_simps "lookup laws of the JavaScript Map model"
named_theorems result_simps "case laws of fallible results"

section \<open>Exceptions as values\<close>

datatype js_error = TypeError | RangeError | SyntaxError | JsError string

type_synonym 'a result = "js_error + 'a"

definition bindR :: "'e + 'a \<Rightarrow> ('a \<Rightarrow> 'e + 'b) \<Rightarrow> 'e + 'b" where
  "bindR r f = (case r of Inl e \<Rightarrow> Inl e | Inr x \<Rightarrow> f x)"

primrec foldR :: "('s \<Rightarrow> 'x \<Rightarrow> 'e + 's) \<Rightarrow> 's \<Rightarrow> 'x list \<Rightarrow> 'e + 's" where
  "foldR step s [] = Inr s"
| "foldR step s (x # xs) = bindR (step s x) (\<lambda>s'. foldR step s' xs)"

lemma bindR_Inr [simp, result_simps]: "bindR (Inr x) f = f x"
  by (simp add: bindR_def)

lemma bindR_Inl [simp, result_simps]: "bindR (Inl e) f = Inl e"
  by (simp add: bindR_def)

lemma bindR_eq_Inr [result_simps]: "bindR r f = Inr y \<longleftrightarrow> (\<exists>x. r = Inr x \<and> f x = Inr y)"
  by (cases r) simp_all

lemma bindR_eq_Inl [result_simps]:
  "bindR r f = Inl e \<longleftrightarrow> r = Inl e \<or> (\<exists>x. r = Inr x \<and> f x = Inl e)"
  by (cases r) simp_all

lemma bindR_assoc: "bindR (bindR r f) g = bindR r (\<lambda>x. bindR (f x) g)"
  by (cases r) simp_all

lemma foldR_append: "foldR step s (xs @ ys) = bindR (foldR step s xs) (\<lambda>s'. foldR step s' ys)"
  by (induction xs arbitrary: s) (simp_all add: bindR_assoc)

definition throw_if_none :: "js_error \<Rightarrow> 'a option \<Rightarrow> 'a result" where
  "throw_if_none e v = (case v of None \<Rightarrow> Inl e | Some x \<Rightarrow> Inr x)"

lemma throw_if_none_simps [simp]:
  "throw_if_none e None = Inl e" "throw_if_none e (Some x) = Inr x"
  by (simp_all add: throw_if_none_def)

lemma throw_if_none_eq_Inr [result_simps]: "throw_if_none e v = Inr x \<longleftrightarrow> v = Some x"
  by (cases v) simp_all

text \<open>
  An event loop: \<open>step\<close> handles one event, \<open>inv\<close> is what the loop keeps, \<open>ok\<close> what a handler
  relies on about the event in the state it meets.
\<close>

primrec ok_run :: "('s \<Rightarrow> 'x \<Rightarrow> 'e + 's) \<Rightarrow> ('s \<Rightarrow> 'x \<Rightarrow> bool) \<Rightarrow> 's \<Rightarrow> 'x list \<Rightarrow> bool" where
  "ok_run step ok s [] = True"
| "ok_run step ok s (x # xs) =
     (ok s x \<and> (case step s x of Inl _ \<Rightarrow> True | Inr s' \<Rightarrow> ok_run step ok s' xs))"

lemma ok_run_True [simp]: "ok_run step (\<lambda>_ _. True) s xs"
  by (induction xs arbitrary: s) (auto split: sum.split)

locale batch =
  fixes step :: "'s \<Rightarrow> 'x \<Rightarrow> 'e + 's"
    and inv :: "'s \<Rightarrow> bool"
    and ok :: "'s \<Rightarrow> 'x \<Rightarrow> bool"
  assumes step_inv: "inv s \<Longrightarrow> ok s x \<Longrightarrow> step s x = Inr s' \<Longrightarrow> inv s'"
begin

lemma run_inv: "inv s \<Longrightarrow> ok_run step ok s xs \<Longrightarrow> foldR step s xs = Inr s' \<Longrightarrow> inv s'"
proof (induction xs arbitrary: s)
  case Nil
  then show ?case by simp
next
  case (Cons x xs)
  from Cons.prems(3) obtain t where t: "step s x = Inr t" "foldR step t xs = Inr s'"
    by (auto simp: bindR_eq_Inr)
  with Cons.prems(1,2) have "inv t" "ok_run step ok t xs"
    by (auto intro: step_inv)
  then show ?case using t(2) by (rule Cons.IH)
qed

end

section \<open>Map\<close>

type_synonym ('k, 'v) jsmap = "('k \<times> 'v) list"

definition mget :: "('k, 'v) jsmap \<Rightarrow> 'k \<Rightarrow> 'v option" where
  "mget m k = map_of m k"

definition mset :: "('k, 'v) jsmap \<Rightarrow> 'k \<Rightarrow> 'v \<Rightarrow> ('k, 'v) jsmap" where
  "mset m k v = AList.update k v m"

definition mhas :: "('k, 'v) jsmap \<Rightarrow> 'k \<Rightarrow> bool" where
  "mhas m k = (mget m k \<noteq> None)"

definition mkeys :: "('k, 'v) jsmap \<Rightarrow> 'k list" where
  "mkeys m = map fst m"

definition mvalues :: "('k, 'v) jsmap \<Rightarrow> 'v list" where
  "mvalues m = map snd m"

text \<open>A method that mutates the object stored under a key, if there is one.\<close>

definition mmodify :: "('k, 'v) jsmap \<Rightarrow> 'k \<Rightarrow> ('v \<Rightarrow> 'v) \<Rightarrow> ('k, 'v) jsmap" where
  "mmodify m k f = (case mget m k of None \<Rightarrow> m | Some v \<Rightarrow> mset m k (f v))"

definition mwf :: "('k, 'v) jsmap \<Rightarrow> bool" where
  "mwf m \<longleftrightarrow> distinct (mkeys m)"

lemma mget_Nil [simp, jsmap_simps]: "mget [] k = None"
  by (simp add: mget_def)

lemma mget_mset [simp, jsmap_simps]: "mget (mset m k v) k' = (if k = k' then Some v else mget m k')"
  by (simp add: mget_def mset_def update_conv')

lemma mget_mmodify [simp, jsmap_simps]:
  "mget (mmodify m k f) k' = (if k = k' then map_option f (mget m k) else mget m k')"
  by (simp add: mmodify_def split: option.split)

lemma mget_Cons [jsmap_simps]: "mget ((k', v) # m) k = (if k' = k then Some v else mget m k)"
  by (simp add: mget_def)

lemma mset_Nil [simp]: "mset [] k v = [(k, v)]"
  by (simp add: mset_def)

lemma mset_Cons: "mset ((k', v') # m) k v = (if k' = k then (k, v) # m else (k', v') # mset m k v)"
  by (simp add: mset_def)

lemma mwf_Nil [simp]: "mwf []"
  by (simp add: mwf_def mkeys_def)

lemma mwf_mset [simp, intro]: "mwf m \<Longrightarrow> mwf (mset m k v)"
  by (simp add: mwf_def mkeys_def mset_def distinct_update)

lemma set_mkeys: "k \<in> set (mkeys m) \<longleftrightarrow> mget m k \<noteq> None"
  by (simp add: mkeys_def mget_def map_of_eq_None_iff)

lemma mget_in_set: "mget m k = Some v \<Longrightarrow> (k, v) \<in> set m"
  by (simp add: mget_def map_of_SomeD)

lemma mwf_mget: "mwf m \<Longrightarrow> (k, v) \<in> set m \<Longrightarrow> mget m k = Some v"
  by (simp add: mwf_def mkeys_def mget_def)

lemma mset_length:
  "length (mset m k v) = (if mget m k = None then Suc (length m) else length m)"
  by (induction m) (auto simp: mset_def mget_def)

text \<open>Summing a quantity over the entities of a map: what one \<^verbatim>\<open>set\<close> adds.\<close>

definition msum :: "('v \<Rightarrow> int) \<Rightarrow> ('k, 'v) jsmap \<Rightarrow> int" where
  "msum f m = sum_list (map f (mvalues m))"

lemma msum_Nil [simp]: "msum f [] = 0"
  by (simp add: msum_def mvalues_def)

lemma msum_mset:
  "mwf m \<Longrightarrow> msum f (mset m k v) = msum f m + f v - (case mget m k of None \<Rightarrow> 0 | Some u \<Rightarrow> f u)"
  by (induction m) (auto simp: msum_def mvalues_def mset_def mget_def mwf_def mkeys_def)

text \<open>
  The contract a component relies on when it keeps its entities in a \<^verbatim>\<open>Map\<close>.
\<close>

locale map_interface =
  fixes get :: "'m \<Rightarrow> 'k \<Rightarrow> 'v option"
    and set_key :: "'m \<Rightarrow> 'k \<Rightarrow> 'v \<Rightarrow> 'm"
    and wf :: "'m \<Rightarrow> bool"
    and total :: "('v \<Rightarrow> int) \<Rightarrow> 'm \<Rightarrow> int"
  assumes get_set: "get (set_key m k v) k' = (if k = k' then Some v else get m k')"
    and wf_set: "wf m \<Longrightarrow> wf (set_key m k v)"
    and total_set: "wf m \<Longrightarrow>
      total f (set_key m k v) = total f m + f v - (case get m k of None \<Rightarrow> 0 | Some u \<Rightarrow> f u)"
begin

lemma get_set_same: "get (set_key m k v) k = Some v"
  by (simp add: get_set)

lemma get_set_other: "k \<noteq> k' \<Longrightarrow> get (set_key m k v) k' = get m k'"
  by (simp add: get_set)

lemma total_update:
  "wf m \<Longrightarrow> get m k = Some u \<Longrightarrow> total f (set_key m k v) = total f m + (f v - f u)"
  by (simp add: total_set)

lemma total_fresh: "wf m \<Longrightarrow> get m k = None \<Longrightarrow> total f (set_key m k v) = total f m + f v"
  by (simp add: total_set)

text \<open>Two writes under different keys commute, as far as lookups can tell.\<close>

lemma set_commute:
  "k \<noteq> k' \<Longrightarrow> get (set_key (set_key m k v) k' v') j = get (set_key (set_key m k' v') k v) j"
  by (auto simp: get_set)

end

interpretation jsm: map_interface mget mset mwf msum
  by unfold_locales (auto simp: msum_mset)

section \<open>Set\<close>

definition sadd :: "'a list \<Rightarrow> 'a \<Rightarrow> 'a list" where
  "sadd s x = (if x \<in> set s then s else s @ [x])"

lemma set_sadd [simp]: "set (sadd s x) = insert x (set s)"
  by (auto simp: sadd_def)

lemma distinct_sadd [simp, intro]: "distinct s \<Longrightarrow> distinct (sadd s x)"
  by (auto simp: sadd_def)

text \<open>\<^verbatim>\<open>new Set()\<close> filled from an array.\<close>

definition set_of_array :: "'a list \<Rightarrow> 'a list" where
  "set_of_array xs = foldl sadd [] xs"

lemma foldl_sadd_set: "set (foldl sadd s xs) = set s \<union> set xs"
  by (induction xs arbitrary: s) auto

lemma foldl_sadd_distinct: "distinct s \<Longrightarrow> distinct (foldl sadd s xs)"
  by (induction xs arbitrary: s) auto

lemma set_set_of_array [simp]: "set (set_of_array xs) = set xs"
  by (simp add: set_of_array_def foldl_sadd_set)

lemma distinct_set_of_array [simp]: "distinct (set_of_array xs)"
  by (simp add: set_of_array_def foldl_sadd_distinct)

lemma foldl_sadd_id: "distinct (s @ xs) \<Longrightarrow> foldl sadd s xs = s @ xs"
  by (induction xs arbitrary: s) (auto simp: sadd_def)

lemma set_of_array_id: "distinct xs \<Longrightarrow> set_of_array xs = xs"
  by (simp add: set_of_array_def foldl_sadd_id)

end
