(* ===== verification/Squid_Strings.thy ===== *)
theory Squid_Strings
  imports Squid_Prelude
begin

text \<open>
  The string operations the indexer uses: decimal printing of \<^verbatim>\<open>bigint\<close> and \<^verbatim>\<open>number\<close>
  (\<open>toStr\<close>), \<^verbatim>\<open>split\<close>, \<^verbatim>\<open>startsWith\<close>, \<^verbatim>\<open>indexOf\<close>, \<^verbatim>\<open>substr\<close>, \<^verbatim>\<open>toLowerCase\<close>,
  \<^verbatim>\<open>parseInt\<close>, \<^verbatim>\<open>BigInt(string)\<close> and \<^verbatim>\<open>Buffer.from(s, "hex")\<close>. The lemmas that matter for
  the entity keys are that printing is injective and never produces a dash inside a number that
  is not negative, so that keys of the form \<open>address-number\<close> determine both parts.
\<close>

section \<open>Printing integers\<close>

definition digit_char :: "nat \<Rightarrow> char" where
  "digit_char d = char_of (48 + d)"

fun nat_to_string :: "nat \<Rightarrow> string" where
  "nat_to_string n =
     (if n < 10 then [digit_char n] else nat_to_string (n div 10) @ [digit_char (n mod 10)])"

declare nat_to_string.simps [simp del]

definition toStr :: "int \<Rightarrow> string" where
  "toStr i = (if i < 0 then CHR ''-'' # nat_to_string (nat (- i)) else nat_to_string (nat i))"

definition digit_value :: "char \<Rightarrow> nat option" where
  "digit_value c = (let n = of_char c :: nat in if 48 \<le> n \<and> n \<le> 57 then Some (n - 48) else None)"

fun read_digits :: "nat \<Rightarrow> string \<Rightarrow> nat" where
  "read_digits acc [] = acc"
| "read_digits acc (c # cs) =
     (case digit_value c of None \<Rightarrow> acc | Some d \<Rightarrow> read_digits (10 * acc + d) cs)"

lemma digit_value_digit_char [simp]: "d < 10 \<Longrightarrow> digit_value (digit_char d) = Some d"
  by (simp add: digit_value_def digit_char_def)

lemma read_digits_append:
  "\<forall>c \<in> set xs. digit_value c \<noteq> None \<Longrightarrow> read_digits a (xs @ ys) = read_digits (read_digits a xs) ys"
  by (induction a xs rule: read_digits.induct) (auto split: option.splits)

lemma nat_to_string_digits: "\<forall>c \<in> set (nat_to_string n). digit_value c \<noteq> None"
proof (induction n rule: nat_to_string.induct)
  case (1 n)
  then show ?case by (auto simp: nat_to_string.simps [of n])
qed

lemma read_nat_to_string [simp]: "read_digits 0 (nat_to_string n) = n"
proof (induction n rule: nat_to_string.induct)
  case (1 n)
  then show ?case
    by (auto simp: nat_to_string.simps [of n] read_digits_append nat_to_string_digits)
qed

lemma nat_to_string_inject [simp]: "nat_to_string m = nat_to_string n \<longleftrightarrow> m = n"
  by (metis read_nat_to_string)

lemma nat_to_string_not_Nil [simp]: "nat_to_string n \<noteq> []"
  by (simp add: nat_to_string.simps [of n])

lemma digit_value_dash [simp]: "digit_value CHR ''-'' = None"
  by (simp add: digit_value_def)

lemma dash_notin_nat_to_string [simp]: "CHR ''-'' \<notin> set (nat_to_string n)"
  using nat_to_string_digits [of n] by force

lemma nat_to_string_not_dash: "nat_to_string n \<noteq> CHR ''-'' # s"
  using dash_notin_nat_to_string [of n] by (metis list.set_intros(1))

lemma toStr_inject [simp]: "toStr i = toStr j \<longleftrightarrow> i = j"
  using nat_to_string_not_dash by (auto simp: toStr_def) metis

lemma toStr_not_Nil [simp]: "toStr i \<noteq> []"
  by (simp add: toStr_def)

lemma dash_notin_toStr: "0 \<le> i \<Longrightarrow> CHR ''-'' \<notin> set (toStr i)"
  by (simp add: toStr_def)

text \<open>Concatenations with a single-character separator that the right part avoids.\<close>

lemma separator_inject:
  assumes "c \<notin> set y" and "c \<notin> set y'"
  shows "x @ c # y = x' @ c # y' \<longleftrightarrow> x = x' \<and> y = y'"
  using assms by (auto simp: append_eq_append_conv2 Cons_eq_append_conv append_eq_Cons_conv)

section \<open>Scanning strings\<close>

definition startsWith :: "string \<Rightarrow> string \<Rightarrow> bool" where
  "startsWith s p \<longleftrightarrow> take (length p) s = p"

text \<open>\<^verbatim>\<open>s.split(sep)\<close> for a non-empty separator.\<close>

function split_aux :: "string \<Rightarrow> string \<Rightarrow> string \<Rightarrow> string list" where
  "split_aux sep acc s =
     (if s = [] \<or> sep = [] then [acc @ s]
      else if startsWith s sep then acc # split_aux sep [] (drop (length sep) s)
      else split_aux sep (acc @ [hd s]) (tl s))"
  by pat_completeness auto
termination
  by (relation "measure (\<lambda>(sep, acc, s). length s)") (auto simp: neq_Nil_conv)

declare split_aux.simps [simp del]

definition js_split :: "string \<Rightarrow> string \<Rightarrow> string list" where
  "js_split s sep = split_aux sep [] s"

lemma split_aux_Nil [simp]: "split_aux sep acc [] = [acc]"
  by (simp add: split_aux.simps)

lemma split_aux_char [simp]:
  "split_aux [c] acc (x # xs) = (if x = c then acc # split_aux [c] [] xs else split_aux [c] (acc @ [x]) xs)"
  by (simp add: split_aux.simps [of "[c]" acc "x # xs"] startsWith_def)

lemma split_aux_free: "c \<notin> set s \<Longrightarrow> split_aux [c] acc s = [acc @ s]"
  by (induction s arbitrary: acc) auto

lemma split_aux_step:
  "c \<notin> set s \<Longrightarrow> split_aux [c] acc (s @ c # t) = (acc @ s) # split_aux [c] [] t"
  by (induction s arbitrary: acc) auto

lemma js_split_free: "c \<notin> set s \<Longrightarrow> js_split s [c] = [s]"
  by (simp add: js_split_def split_aux_free)

lemma js_split_step: "c \<notin> set s \<Longrightarrow> js_split (s @ c # t) [c] = s # js_split t [c]"
  by (simp add: js_split_def split_aux_step)

lemma js_split_not_Nil [simp]: "js_split s [c] \<noteq> []"
proof -
  have "split_aux [c] acc s \<noteq> []" for acc
    by (induction s arbitrary: acc) auto
  then show ?thesis by (simp add: js_split_def)
qed

text \<open>Joining fields with a separator they do not contain, and splitting them again.\<close>

fun js_join :: "char \<Rightarrow> string list \<Rightarrow> string" where
  "js_join c [] = []"
| "js_join c [f] = f"
| "js_join c (f # g # fs) = f @ c # js_join c (g # fs)"

lemma js_split_join:
  "fs \<noteq> [] \<Longrightarrow> \<forall>f \<in> set fs. c \<notin> set f \<Longrightarrow> js_split (js_join c fs) [c] = fs"
  by (induction c fs rule: js_join.induct) (simp_all add: js_split_free js_split_step)

text \<open>\<^verbatim>\<open>s.indexOf(p)\<close>: the first position, or -1.\<close>

fun indexOf_from :: "nat \<Rightarrow> string \<Rightarrow> string \<Rightarrow> int" where
  "indexOf_from i [] p = (if p = [] then int i else -1)"
| "indexOf_from i (c # s) p = (if startsWith (c # s) p then int i else indexOf_from (Suc i) s p)"

definition indexOf :: "string \<Rightarrow> string \<Rightarrow> int" where
  "indexOf s p = indexOf_from 0 s p"

text \<open>\<^verbatim>\<open>s.includes(p)\<close>.\<close>

definition str_includes :: "string \<Rightarrow> string \<Rightarrow> bool" where
  "str_includes s p \<longleftrightarrow> indexOf s p \<noteq> -1"

text \<open>\<^verbatim>\<open>s.substr(start, len)\<close>; a negative start counts from the end.\<close>

definition substr :: "string \<Rightarrow> int \<Rightarrow> int \<Rightarrow> string" where
  "substr s start len =
     (let n = int (length s); b = (if start < 0 then max 0 (n + start) else start)
      in take (nat len) (drop (nat b) s))"

definition lower_char :: "char \<Rightarrow> char" where
  "lower_char c = (let n = of_char c :: nat in if 65 \<le> n \<and> n \<le> 90 then char_of (n + 32) else c)"

definition toLowerCase :: "string \<Rightarrow> string" where
  "toLowerCase s = map lower_char s"

lemma toLowerCase_idem [simp]: "toLowerCase (toLowerCase s) = toLowerCase s"
  by (induction s) (auto simp: toLowerCase_def lower_char_def Let_def)

section \<open>Reading numbers\<close>

text \<open>
  \<^verbatim>\<open>parseInt(s, 10)\<close>: leading white space is skipped, then the longest prefix of decimal digits
  after an optional sign is read; \<open>None\<close> is \<^verbatim>\<open>NaN\<close>.
\<close>

definition parse_nat_prefix :: "string \<Rightarrow> nat option" where
  "parse_nat_prefix s =
     (case s of [] \<Rightarrow> None | c # _ \<Rightarrow> if digit_value c = None then None else Some (read_digits 0 s))"

definition is_space :: "char \<Rightarrow> bool" where
  "is_space c = ((of_char c :: nat) \<in> {9, 10, 11, 12, 13, 32})"

definition parseInt :: "string \<Rightarrow> int option" where
  "parseInt s =
     (case dropWhile is_space s of
        [] \<Rightarrow> None
      | c # cs \<Rightarrow>
          if c = CHR ''-'' then map_option (\<lambda>n. - int n) (parse_nat_prefix cs)
          else if c = CHR ''+'' then map_option int (parse_nat_prefix cs)
          else map_option int (parse_nat_prefix (c # cs)))"

lemma digit_value_special [simp]:
  "digit_value CHR ''+'' = None" "is_space CHR ''-'' = False" "is_space c \<Longrightarrow> digit_value c = None"
  by (auto simp: digit_value_def is_space_def)

lemma parse_nat_prefix_nat_to_string [simp]: "parse_nat_prefix (nat_to_string n) = Some n"
proof (cases "nat_to_string n")
  case Nil
  then show ?thesis by simp
next
  case (Cons c cs)
  then have "digit_value c \<noteq> None" using nat_to_string_digits [of n] by force
  moreover have "read_digits 0 (c # cs) = n"
    using Cons read_nat_to_string [of n] by simp
  ultimately show ?thesis by (simp add: parse_nat_prefix_def Cons del: read_digits.simps)
qed

lemma parseInt_toStr [simp]: "parseInt (toStr i) = Some i"
proof (cases "i < 0")
  case True
  then show ?thesis by (simp add: parseInt_def toStr_def)
next
  case False
  obtain c cs where c: "nat_to_string (nat i) = c # cs"
    by (cases "nat_to_string (nat i)") simp_all
  then have "digit_value c \<noteq> None" using nat_to_string_digits [of "nat i"] by force
  then have "\<not> is_space c \<and> c \<noteq> CHR ''-'' \<and> c \<noteq> CHR ''+''"
    by auto
  then show ?thesis using False c parse_nat_prefix_nat_to_string [of "nat i"]
    by (simp add: parseInt_def toStr_def)
qed

definition hex_value :: "char \<Rightarrow> nat option" where
  "hex_value c =
     (let n = of_char c :: nat in
      if 48 \<le> n \<and> n \<le> 57 then Some (n - 48)
      else if 97 \<le> n \<and> n \<le> 102 then Some (n - 87)
      else if 65 \<le> n \<and> n \<le> 70 then Some (n - 55)
      else None)"

fun read_hex :: "nat \<Rightarrow> string \<Rightarrow> nat option" where
  "read_hex acc [] = Some acc"
| "read_hex acc (c # cs) =
     (case hex_value c of None \<Rightarrow> None | Some d \<Rightarrow> read_hex (16 * acc + d) cs)"

text \<open>
  \<^verbatim>\<open>BigInt(s)\<close> on the hexadecimal words of a log (\<^verbatim>\<open>0x...\<close>) and on plain decimals; anything
  else is a \<^verbatim>\<open>SyntaxError\<close>.
\<close>

definition bigint_of_string :: "string \<Rightarrow> int result" where
  "bigint_of_string s =
     (if s = [] then Inr 0
      else if startsWith s ''0x'' \<and> length s > 2
        then (case read_hex 0 (drop 2 s) of None \<Rightarrow> Inl SyntaxError | Some n \<Rightarrow> Inr (int n))
      else if list_all (\<lambda>c. digit_value c \<noteq> None) s then Inr (int (read_digits 0 s))
      else Inl SyntaxError)"

text \<open>\<^verbatim>\<open>Buffer.from(s, "hex")\<close> decodes pairs of digits and stops at the first other character.\<close>

fun buffer_from_hex :: "string \<Rightarrow> nat list" where
  "buffer_from_hex (a # b # s) =
     (case (hex_value a, hex_value b) of
        (Some x, Some y) \<Rightarrow> (16 * x + y) # buffer_from_hex s
      | _ \<Rightarrow> [])"
| "buffer_from_hex s = []"

lemma hex_value_bound: "hex_value c = Some x \<Longrightarrow> x < 16"
  by (auto simp: hex_value_def Let_def split: if_splits)

lemma hex_byte_bound: "hex_value a = Some x \<Longrightarrow> hex_value b = Some y \<Longrightarrow> 16 * x + y < 256"
  using hex_value_bound [of a x] hex_value_bound [of b y] by simp

lemma buffer_from_hex_bytes: "n \<in> set (buffer_from_hex s) \<Longrightarrow> n < 256"
proof (induction s rule: buffer_from_hex.induct)
  case (1 a b s)
  show ?case
  proof (cases "\<exists>x y. hex_value a = Some x \<and> hex_value b = Some y")
    case True
    then obtain x y where "hex_value a = Some x" "hex_value b = Some y" by blast
    then show ?thesis using 1 hex_byte_bound [of a x b y] by auto
  next
    case False
    then show ?thesis using 1 by (auto split: option.splits)
  qed
qed simp_all

end
