(* ===== verification/Squid_Model.thy ===== *)
theory Squid_Model
  imports Squid_Strings
begin

text \<open>
  The entities of \<^verbatim>\<open>src/model/generated\<close>: one record per class, one field per column, with the
  enumerations as datatypes. A column that a handler may leave unset is an option. Columns that
  only mirror another table (the \<^verbatim>\<open>OneToMany\<close> sides) are not stored and have no field.

  References to other entities are what a handler can observe of them. An account reference is
  its id and its address, which no handler ever changes after \<^verbatim>\<open>createAccount\<close>; orders,
  collections, metadata, NFTs and land entities are referred to by id. An \<open>Item\<close> reached through
  an NFT is either the object of the batch's item map (\<open>SharedItem\<close>) or the copy the store loaded
  with the NFT (\<open>OwnItem\<close>). The wearable or emote of a metadata row is kept by value: the code
  writes it only together with the metadata row that holds it.
\<close>

section \<open>Enumerations\<close>

datatype network = ETHEREUM | POLYGON

datatype orderStatus = Open | Sold | Cancelled | Transferred

datatype saleType = Sale_bid | Sale_order | Sale_mint

datatype itemType =
  IT_undefined | IT_wearable_v1 | IT_wearable_v2 | IT_smart_wearable_v1 | IT_emote_v1

datatype operation = Op_native | Op_fiat | Op_cross_chain | Op_credits

datatype currency = MANA_currency | USD_currency

definition network_str :: "network \<Rightarrow> string" where
  "network_str n = (case n of ETHEREUM \<Rightarrow> ''ETHEREUM'' | POLYGON \<Rightarrow> ''POLYGON'')"

lemma network_str_inject [simp]: "network_str m = network_str n \<longleftrightarrow> m = n"
  by (cases m; cases n) (simp_all add: network_str_def)

definition itemType_str :: "itemType \<Rightarrow> string" where
  "itemType_str t =
     (case t of IT_undefined \<Rightarrow> ''undefined'' | IT_wearable_v1 \<Rightarrow> ''wearable_v1''
      | IT_wearable_v2 \<Rightarrow> ''wearable_v2'' | IT_smart_wearable_v1 \<Rightarrow> ''smart_wearable_v1''
      | IT_emote_v1 \<Rightarrow> ''emote_v1'')"

text \<open>
  \<^verbatim>\<open>Category\<close> is used with unchecked casts from arbitrary strings (\<^verbatim>\<open>category as Category\<close>), so a
  category is a string and the members of the enumeration are these constants.
\<close>

type_synonym category = string

abbreviation (input) Category_parcel :: category where "Category_parcel \<equiv> ''parcel''"
abbreviation (input) Category_estate :: category where "Category_estate \<equiv> ''estate''"
abbreviation (input) Category_wearable :: category where "Category_wearable \<equiv> ''wearable''"
abbreviation (input) Category_emote :: category where "Category_emote \<equiv> ''emote''"
abbreviation (input) Category_ens :: category where "Category_ens \<equiv> ''ens''"

text \<open>A \<^verbatim>\<open>Date\<close>: a point in time in milliseconds, or the clock at the time of the call.\<close>

datatype js_date = Date_ms int | Date_now

section \<open>Entities\<close>

record account_ref =
  ar_id :: string
  ar_address :: string

record Account =
  acc_id :: string
  acc_address :: string
  acc_sales :: int
  acc_purchases :: int
  acc_spent :: int
  acc_earned :: int
  acc_isCommitteeMember :: "bool option"
  acc_totalCurations :: "int option"
  acc_primarySales :: int
  acc_primarySalesEarned :: int
  acc_royalties :: int
  acc_uniqueAndMythicItems :: "string list"
  acc_uniqueAndMythicItemsTotal :: int
  acc_collections :: int
  acc_creatorsSupported :: "string list"
  acc_creatorsSupportedTotal :: int
  acc_uniqueCollectors :: "string list"
  acc_uniqueCollectorsTotal :: int
  acc_network :: network

definition account_refer :: "Account \<Rightarrow> account_ref" where
  "account_refer a = \<lparr>ar_id = acc_id a, ar_address = acc_address a\<rparr>"

record Data =
  data_id :: string
  data_version :: string
  data_name :: "string option"
  data_description :: "string option"
  data_ipns :: "string option"

record Parcel =
  par_id :: string
  par_tokenId :: "int option"
  par_owner :: "account_ref option"
  par_x :: "int option"
  par_y :: "int option"
  par_estate :: "string option"
  par_data :: "string option"
  par_rawData :: "string option"

record Estate =
  est_id :: string
  est_tokenId :: "int option"
  est_owner :: "account_ref option"
  est_parcelDistances :: "int list option"
  est_adjacentToRoadCount :: "int option"
  est_size :: "int option"
  est_data :: "string option"
  est_rawData :: "string option"

record ENS =
  ens_id :: string
  ens_tokenId :: "int option"
  ens_owner :: "account_ref option"
  ens_caller :: "string option"
  ens_beneficiary :: "string option"
  ens_labelHash :: "string option"
  ens_subdomain :: "string option"
  ens_createdAt :: "int option"
  ens_orderHash :: "string option"

record Wearable =
  wea_id :: string
  wea_owner :: "account_ref option"
  wea_representationId :: "string option"
  wea_collection :: "string option"
  wea_name :: "string option"
  wea_description :: "string option"
  wea_category :: "string option"
  wea_rarity :: "string option"
  wea_bodyShapes :: "string list option"
  wea_network :: "network option"

record Emote =
  emo_id :: string
  emo_collection :: string
  emo_name :: string
  emo_description :: string
  emo_category :: string
  emo_loop :: bool
  emo_rarity :: string
  emo_bodyShapes :: "string list"
  emo_hasSound :: bool
  emo_hasGeometry :: bool
  emo_outcomeType :: "string option"

record Metadata =
  met_id :: string
  met_itemType :: itemType
  met_wearable :: "Wearable option"
  met_emote :: "Emote option"
  met_network :: network

record Collection =
  col_id :: string
  col_owner :: string
  col_creator :: string
  col_name :: string
  col_symbol :: string
  col_isCompleted :: "bool option"
  col_isApproved :: "bool option"
  col_isEditable :: "bool option"
  col_minters :: "string list"
  col_managers :: "string list"
  col_urn :: string
  col_itemsCount :: int
  col_createdAt :: int
  col_updatedAt :: int
  col_reviewedAt :: int
  col_firstListedAt :: "int option"
  col_searchIsStoreMinter :: bool
  col_searchIsMarketplaceV3Minter :: bool
  col_searchText :: string
  col_baseURI :: string
  col_chainId :: int
  col_usedCredits :: bool
  col_creditValue :: "int option"
  col_txHash :: string
  col_network :: network

record Item =
  itm_id :: string
  itm_collection :: string
  itm_blockchainId :: int
  itm_creator :: string
  itm_itemType :: itemType
  itm_totalSupply :: int
  itm_maxSupply :: int
  itm_rarity :: string
  itm_creationFee :: int
  itm_available :: int
  itm_price :: int
  itm_beneficiary :: string
  itm_contentHash :: "string option"
  itm_uri :: string
  itm_image :: "string option"
  itm_minters :: "string list"
  itm_managers :: "string list"
  itm_metadata :: "string option"
  itm_rawMetadata :: string
  itm_urn :: string
  itm_createdAt :: int
  itm_updatedAt :: int
  itm_reviewedAt :: int
  itm_soldAt :: "int option"
  itm_firstListedAt :: "int option"
  itm_sales :: int
  itm_volume :: int
  itm_searchText :: "string option"
  itm_searchItemType :: "string option"
  itm_searchIsCollectionApproved :: "bool option"
  itm_searchIsStoreMinter :: bool
  itm_searchIsMarketplaceV3Minter :: bool
  itm_searchIsWearableHead :: "bool option"
  itm_searchIsWearableAccessory :: "bool option"
  itm_searchWearableCategory :: "string option"
  itm_searchWearableRarity :: "string option"
  itm_searchWearableBodyShapes :: "string list option"
  itm_searchEmoteCategory :: "string option"
  itm_searchEmoteLoop :: "bool option"
  itm_searchEmoteRarity :: "string option"
  itm_searchEmoteBodyShapes :: "string list option"
  itm_searchEmoteHasSound :: "bool option"
  itm_searchEmoteHasGeometry :: "bool option"
  itm_searchEmoteOutcomeType :: "string option"
  itm_uniqueCollectors :: "string list"
  itm_uniqueCollectorsTotal :: int
  itm_network :: network

datatype item_ref = SharedItem string | OwnItem Item

definition item_ref_id :: "item_ref \<Rightarrow> string" where
  "item_ref_id r = (case r of SharedItem i \<Rightarrow> i | OwnItem it \<Rightarrow> itm_id it)"

lemma item_ref_id_simps [simp]:
  "item_ref_id (SharedItem i) = i" "item_ref_id (OwnItem it) = itm_id it"
  by (simp_all add: item_ref_id_def)

record Order =
  ord_id :: string
  ord_marketplaceAddress :: string
  ord_category :: category
  ord_nft :: string
  ord_nftAddress :: string
  ord_tokenId :: int
  ord_txHash :: string
  ord_owner :: string
  ord_buyer :: "string option"
  ord_price :: int
  ord_status :: orderStatus
  ord_blockNumber :: int
  ord_expiresAt :: int
  ord_expiresAtNormalized :: js_date
  ord_createdAt :: int
  ord_updatedAt :: int
  ord_item :: "string option"
  ord_network :: network

record Bid =
  bid_id :: string
  bid_bidAddress :: string
  bid_category :: category
  bid_nft :: "string option"
  bid_nftAddress :: string
  bid_tokenId :: int
  bid_bidder :: "nat list"
  bid_seller :: "nat list"
  bid_price :: int
  bid_fingerprint :: "nat list"
  bid_status :: orderStatus
  bid_blockchainId :: string
  bid_blockNumber :: int
  bid_expiresAt :: int
  bid_createdAt :: int
  bid_updatedAt :: int
  bid_network :: network

end
