(* ===== verification/Squid_Model2.thy ===== *)
theory Squid_Model2
  imports Squid_Model
begin

text \<open>
  The remaining entities of \<^verbatim>\<open>src/model/generated\<close>: the NFT row with its search columns, sales,
  mints and transfers, and the aggregate rows (counters and per-day data).
\<close>

record NFT =
  nft_id :: string
  nft_tokenId :: "int option"
  nft_contractAddress :: "string option"
  nft_category :: "category option"
  nft_owner :: "account_ref option"
  nft_ownerAddress :: "string option"
  nft_tokenURI :: "string option"
  nft_activeOrder :: "string option"
  nft_name :: "string option"
  nft_image :: "string option"
  nft_parcel :: "string option"
  nft_estate :: "string option"
  nft_wearable :: "string option"
  nft_ens :: "string option"
  nft_createdAt :: "int option"
  nft_updatedAt :: "int option"
  nft_soldAt :: "int option"
  nft_transferredAt :: "int option"
  nft_sales :: "int option"
  nft_volume :: "int option"
  nft_searchOrderStatus :: "orderStatus option"
  nft_searchOrderPrice :: "int option"
  nft_searchOrderExpiresAt :: "int option"
  nft_searchOrderExpiresAtNormalized :: "js_date option"
  nft_searchOrderCreatedAt :: "int option"
  nft_searchIsLand :: "bool option"
  nft_searchText :: "string option"
  nft_searchParcelIsInBounds :: "bool option"
  nft_searchParcelX :: "int option"
  nft_searchParcelY :: "int option"
  nft_searchParcelEstateId :: "string option"
  nft_searchDistanceToPlaza :: "int option"
  nft_searchAdjacentToRoad :: "bool option"
  nft_searchEstateSize :: "int option"
  nft_searchIsWearableHead :: "bool option"
  nft_searchIsWearableAccessory :: "bool option"
  nft_searchWearableRarity :: "string option"
  nft_searchWearableCategory :: "string option"
  nft_searchWearableBodyShapes :: "string list option"
  nft_itemBlockchainId :: "int option"
  nft_issuedId :: "int option"
  nft_itemType :: "itemType option"
  nft_urn :: "string option"
  nft_collection :: "string option"
  nft_item :: "item_ref option"
  nft_metadata :: "string option"
  nft_searchItemType :: "string option"
  nft_searchEmoteCategory :: "string option"
  nft_searchEmoteLoop :: "bool option"
  nft_searchEmoteRarity :: "string option"
  nft_searchEmoteBodyShapes :: "string list option"
  nft_network :: "network option"

text \<open>\<^verbatim>\<open>new NFT({ id })\<close> and \<^verbatim>\<open>new NFT({ id, network })\<close>.\<close>

definition new_NFT :: "string \<Rightarrow> network option \<Rightarrow> NFT" where
  "new_NFT i net =
     \<lparr>nft_id = i, nft_tokenId = None, nft_contractAddress = None, nft_category = None,
      nft_owner = None, nft_ownerAddress = None, nft_tokenURI = None, nft_activeOrder = None,
      nft_name = None, nft_image = None, nft_parcel = None, nft_estate = None,
      nft_wearable = None, nft_ens = None, nft_createdAt = None, nft_updatedAt = None,
      nft_soldAt = None, nft_transferredAt = None, nft_sales = None, nft_volume = None,
      nft_searchOrderStatus = None, nft_searchOrderPrice = None,
      nft_searchOrderExpiresAt = None, nft_searchOrderExpiresAtNormalized = None,
      nft_searchOrderCreatedAt = None, nft_searchIsLand = None, nft_searchText = None,
      nft_searchParcelIsInBounds = None, nft_searchParcelX = None, nft_searchParcelY = None,
      nft_searchParcelEstateId = None, nft_searchDistanceToPlaza = None,
      nft_searchAdjacentToRoad = None, nft_searchEstateSize = None,
      nft_searchIsWearableHead = None, nft_searchIsWearableAccessory = None,
      nft_searchWearableRarity = None, nft_searchWearableCategory = None,
      nft_searchWearableBodyShapes = None, nft_itemBlockchainId = None, nft_issuedId = None,
      nft_itemType = None, nft_urn = None, nft_collection = None, nft_item = None,
      nft_metadata = None, nft_searchItemType = None, nft_searchEmoteCategory = None,
      nft_searchEmoteLoop = None, nft_searchEmoteRarity = None,
      nft_searchEmoteBodyShapes = None, nft_network = net\<rparr>"

definition new_Parcel :: "string \<Rightarrow> Parcel" where
  "new_Parcel i =
     \<lparr>par_id = i, par_tokenId = None, par_owner = None, par_x = None, par_y = None,
      par_estate = None, par_data = None, par_rawData = None\<rparr>"

definition new_Estate :: "string \<Rightarrow> Estate" where
  "new_Estate i =
     \<lparr>est_id = i, est_tokenId = None, est_owner = None, est_parcelDistances = None,
      est_adjacentToRoadCount = None, est_size = None, est_data = None, est_rawData = None\<rparr>"

definition new_ENS :: "string \<Rightarrow> ENS" where
  "new_ENS i =
     \<lparr>ens_id = i, ens_tokenId = None, ens_owner = None, ens_caller = None,
      ens_beneficiary = None, ens_labelHash = None, ens_subdomain = None,
      ens_createdAt = None, ens_orderHash = None\<rparr>"

definition new_Wearable :: "string \<Rightarrow> Wearable" where
  "new_Wearable i =
     \<lparr>wea_id = i, wea_owner = None, wea_representationId = None, wea_collection = None,
      wea_name = None, wea_description = None, wea_category = None, wea_rarity = None,
      wea_bodyShapes = None, wea_network = None\<rparr>"

record Sale =
  sal_id :: string
  sal_type :: saleType
  sal_buyer :: "string option"
  sal_realBuyer :: "string option"
  sal_operation :: "operation option"
  sal_seller :: string
  sal_price :: int
  sal_nft :: "string option"
  sal_timestamp :: int
  sal_txHash :: string
  sal_searchTokenId :: "int option"
  sal_searchContractAddress :: "string option"
  sal_searchCategory :: "string option"
  sal_beneficiary :: "nat list option"
  sal_feesCollectorCut :: "int option"
  sal_feesCollector :: "nat list option"
  sal_royaltiesCut :: "int option"
  sal_royaltiesCollector :: "nat list option"
  sal_item :: "string option"
  sal_searchItemId :: "int option"
  sal_network :: network

record Mint =
  mnt_id :: string
  mnt_nft :: string
  mnt_item :: string
  mnt_beneficiary :: string
  mnt_creator :: string
  mnt_minter :: string
  mnt_timestamp :: int
  mnt_searchContractAddress :: "string option"
  mnt_searchTokenId :: "int option"
  mnt_searchItemId :: int
  mnt_searchIssuedId :: "int option"
  mnt_searchIsStoreMinter :: bool
  mnt_searchPrimarySalePrice :: "int option"
  mnt_network :: network

record Transfer =
  trf_id :: string
  trf_nftId :: string
  trf_block :: int
  trf_from :: string
  trf_to :: string
  trf_network :: network
  trf_timestamp :: int
  trf_txHash :: string

record Count =
  cnt_id :: string
  cnt_orderTotal :: int
  cnt_orderParcel :: int
  cnt_orderEstate :: int
  cnt_orderWearable :: int
  cnt_orderENS :: int
  cnt_parcelTotal :: int
  cnt_estateTotal :: int
  cnt_wearableTotal :: int
  cnt_ensTotal :: int
  cnt_started :: int
  cnt_salesTotal :: int
  cnt_salesManaTotal :: int
  cnt_creatorEarningsManaTotal :: int
  cnt_daoEarningsManaTotal :: int
  cnt_bidTotal :: int
  cnt_collectionTotal :: int
  cnt_itemTotal :: int
  cnt_nftTotal :: int
  cnt_primarySalesTotal :: int
  cnt_primarySalesManaTotal :: int
  cnt_secondarySalesTotal :: int
  cnt_secondarySalesManaTotal :: int
  cnt_royaltiesManaTotal :: int
  cnt_network :: network

record AnalyticsDayData =
  add_id :: string
  add_date :: int
  add_sales :: int
  add_volume :: int
  add_creatorsEarnings :: int
  add_daoEarnings :: int
  add_network :: network

record ItemsDayData =
  idd_id :: string
  idd_date :: int
  idd_sales :: int
  idd_volume :: int
  idd_searchWearableCategory :: "string option"
  idd_searchEmoteCategory :: "string option"
  idd_searchRarity :: "string option"

record AccountsDayData =
  acd_id :: string
  acd_date :: int
  acd_sales :: int
  acd_purchases :: int
  acd_spent :: int
  acd_earned :: int
  acd_uniqueAndMythicItems :: "string list"
  acd_uniqueAndMythicItemsTotal :: int
  acd_creatorsSupported :: "string list"
  acd_creatorsSupportedTotal :: int
  acd_uniqueCollectors :: "string list"
  acd_uniqueCollectorsTotal :: int
  acd_uniqueCollectionsSales :: "string list"
  acd_network :: network

record Rarity =
  rar_id :: string
  rar_name :: string
  rar_price :: int
  rar_maxSupply :: int
  rar_currency :: currency

record Curation =
  cur_id :: string
  cur_txHash :: "nat list"
  cur_curator :: account_ref
  cur_collection :: string
  cur_item :: "string option"
  cur_isApproved :: bool
  cur_timestamp :: int

end
