(* ===== verification/Squid_Addresses.thy ===== *)
theory Squid_Addresses
  imports Squid_Model2
begin

text \<open>
  The contract addresses of \<^verbatim>\<open>src/eth/addresses\<close> and \<^verbatim>\<open>src/polygon/addresses\<close>: one record value
  per module. Nothing outside this theory unfolds them, apart from the facts at its end, which are
  what the handlers rely on (the registries are different contracts, no registry is a wearable
  collection).
\<close>

record eth_addresses =
  ea_LANDRegistry :: string
  ea_EstateRegistry :: string
  ea_Marketplace :: string
  ea_DCLRegistrar :: string
  ea_ERC721Bid :: string
  ea_DCLControllerV2 :: string
  ea_MarketplaceV3 :: string
  ea_MarketplaceV3_V2 :: string
  ea_Spoke :: string
  ea_MANA :: string
  ea_collections :: "(string \<times> string) list"

record poly_addresses =
  pa_CollectionFactory :: string
  pa_CollectionFactoryV3 :: string
  pa_Bid :: string
  pa_BidV2 :: string
  pa_Marketplace :: string
  pa_MarketplaceV2 :: string
  pa_OldCommittee :: string
  pa_Committee :: string
  pa_CollectionStore :: string
  pa_RaritiesWithOracle :: string
  pa_Rarity :: string
  pa_CollectionManager :: string
  pa_MarketplaceV3 :: string
  pa_MarketplaceV3_V2 :: string
  pa_MANA :: string
  pa_TRANSAK_TOKEN :: "string option"
  pa_CreditsManager :: "string list"
  pa_Spoke :: string

definition eth_mainnet :: eth_addresses where
  "eth_mainnet =
     \<lparr>ea_LANDRegistry = ''0xf87e31492faf9a91b02ee0deaad50d51d56d5d4d'',
      ea_EstateRegistry = ''0x959e104e1a4db6317fa58f8295f586e1a978c297'',
      ea_Marketplace = ''0x8e5660b4ab70168b5a6feea0e0315cb49c8cd539'',
      ea_DCLRegistrar = ''0x2a187453064356c898cae034eaed119e1663acb8'',
      ea_ERC721Bid = ''0xe479dfd9664c693b2e2992300930b00bfde08233'',
      ea_DCLControllerV2 = ''0xbe92b49aee993adea3a002adcda189a2b7dec56c'',
      ea_MarketplaceV3 = ''0x2d6b3508f9aca32d2550f92b2addba932e73c1ff'',
      ea_MarketplaceV3_V2 = ''0x1b67d0e31eeb6b52d8eeed71d3616c2f5b33b8e7'',
      ea_Spoke = ''0xfe91aaa1012b47499cfe8758874f2d2c52b22cd8'',
      ea_MANA = ''0x0f5d2fb29fb7d3cfee444a200298f468908cc942'',
      ea_collections =
        [(''AtariLaunch'', ''0x4c290f486bae507719c562b6b524bdb71a2570c9''),
         (''BinanceUsCollection'', ''0xa8ee490e4c4da48cc1653502c1a77479d4d818de''),
         (''ChinaFlying'', ''0x90958d4531258ca11d18396d4174a007edbc2b42''),
         (''CommunityContestCollection'', ''0x32b7495895264ac9d0b12d32afd435453458b1c6''),
         (''CybermikeCyberSoldier'', ''0x24d538a6265b006d4b53c45ba91af5ef60dca6cb''),
         (''CZMercenaryMTZ'', ''0xc3ca6c364b854fd0a653a43f8344f8c22ddfdd26''),
         (''DappcraftMoonminerCollection'', ''0x1e1d4e6262787c8a8783a37fee698bd42aa42bec''),
         (''DCGCollection'', ''0x3163d2cfee3183f9874e2869942cc62649eeb004''),
         (''DCLLaunchCollection'', ''0xd35147be6401dcb20811f2104c33de8e97ed6818''),
         (''DCMeta'', ''0xe7a64f6a239ed7f5bf18caa1ce2920d0c1278129''),
         (''DCNiftyblocksmith'', ''0x102daabd1e9d294d4436ec4c521dce7b1f15499e''),
         (''DGAtariDillonFrancis'', ''0x51e0b1afe5da0c038fc93a3fc8e11cf7a238b40b''),
         (''DGFall2020'', ''0x7038e9d2c6f5f84469a84cf9bc5f4909bb6ac5e0''),
         (''DGSummer2020Collection'', ''0xbf53c33235cbfc22cef5a61a83484b86342679c5''),
         (''DgtbleHeadspaceCollection'', ''0x574f64ac2e7215cba9752b85fc73030f35166bc0''),
         (''DigitalAlchemy'', ''0x5cf39e64392c615fd8086838883958752a11b486''),
         (''EtheremonWearables'', ''0x54266bcf2ffa841af934f003d144957d5934f3ab''),
         (''ExclusiveMasksCollection'', ''0xc04528c14c8ffd84c7c1fb6719b4a89853035cdd''),
         (''Halloween2019Collection'', ''0xc1f4b0eea2bd6690930e6c66efd3e197d620b9c2''),
         (''Halloween2020Collection'', ''0xfeb52cbf71b9adac957c6f948a6cf9980ac8c907''),
         (''MCHCollection'', ''0xf64dc33a192e056bb5f0e5049356a0498b502d50''),
         (''MemeDontBuyThis'', ''0x1a57f6afc902d25792c53b8f19b7e17ef84222d5''),
         (''MFSammichgamer'', ''0x30d3387ff3de2a21bef7032f82d00ff7739e403c''),
         (''MLLiondance'', ''0x0b1c6c75d511fae05e7dc696f4cf14129a9c43c9''),
         (''MLPekingopera'', ''0x60d8271c501501c4b8cd9ed5343ac59d1b79d993''),
         (''Moonshot2020Collection'', ''0x6a99abebb48819d2abe92c5e4dc4f48dc09a3ee8''),
         (''PMDreamverseEminence'', ''0x09305998a531fade369ebe30adf868c96a34e813''),
         (''PMOuttathisworldCollection'', ''0x75a3752579dc2d63ca229eebbe3537fbabf85a12''),
         (''RACBasics'', ''0x68e139552c4077ce5c9ab929c7e18ca721ffff00''),
         (''ReleaseTheKraken'', ''0xffc5043d9a00865d089d5eefa5b3d1625aec6763''),
         (''RTFKTXAtari'', ''0x6b47e7066c7db71aa04a1d5872496fe05c4c331f''),
         (''StaySafeCollection'', ''0x201c3af8c471e5842428b74d1e7c0249adda2a92''),
         (''SugarclubYumi'', ''0xb5d14052d1e2bce2a2d7459d0379256e632b855d''),
         (''TechTribalMarc0matic'', ''0x480a0f4e360e8964e68858dd231c2922f1df45ef''),
         (''ThreeLAUBasics'', ''0xe1ecb4e5130f493551c7d6df96ad19e5b431a0a9''),
         (''WinklevossCapital'', ''0xc82a864a94db3550bc71fcb4ce07228bcec21f1a''),
         (''WonderzoneMeteorchaserCollection'', ''0x34ed0aa248f60f54dd32fbc9883d6137a491f4f3''),
         (''WonderzoneSteampunk'', ''0xb96697fa4a3361ba35b774a42c58daccaad1b8e1''),
         (''WZWonderbot'', ''0x5df4602e7f38a91ea7724fc167f0c67f61604b1e''),
         (''Xmas2019Collection'', ''0xc3af02c0fd486c8e9da5788b915d6fff3f049866''),
         (''Xmas2020Collection'', ''0xecf073f91101ce5628669c487aee8f5822a101b1''),
         (''XmashUp2020'', ''0xdd9c7bc159dacb19c9f6b9d7e23948c87aa2397f'')]\<rparr>"

definition eth_sepolia :: eth_addresses where
  "eth_sepolia =
     \<lparr>ea_LANDRegistry = ''0x42f4ba48791e2de32f5fbf553441c2672864bb33'',
      ea_EstateRegistry = ''0x369a7fbe718c870c79f99fb423882e8dd8b20486'',
      ea_Marketplace = ''0xccf0c17da6cd68041b1bf0f7e015767242077d8c'',
      ea_DCLRegistrar = ''0x7518456ae93eb98f3e64571b689c626616bb7f30'',
      ea_ERC721Bid = ''0x2c2835b95852fd975e087b3b25297322728792e2'',
      ea_DCLControllerV2 = ''0xd2046364317c21fa8d121d84185c39e6e910cf89'',
      ea_MarketplaceV3 = ''0x54bdd3ffc1448bdab0251f05dd554eec803adb2f'',
      ea_MarketplaceV3_V2 = ''0x1b67d0e31eeb6b52d8eeed71d3616c2f5b33b8e7'',
      ea_Spoke = ''0xfe91aaa1012b47499cfe8758874f2d2c52b22cd8'',
      ea_MANA = ''0xfa04d2e2ba9aec166c93dfeeba7427b2303befa9'',
      ea_collections =
        [(''ExclusiveMasksCollection'', ''0x11a970e744ff69db8f461c2d0fc91d4293914301'')]\<rparr>"

definition poly_mainnet :: poly_addresses where
  "poly_mainnet =
     \<lparr>pa_CollectionFactory = ''0xb549b2442b2bd0a53795bc5cdcbfe0caf7aca9f8'',
      pa_CollectionFactoryV3 = ''0x3195e88ae10704b359764cb38e429d24f1c2f781'',
      pa_Bid = ''0x0000000000000000000000000000000000000000'',
      pa_BidV2 = ''0xb96697fa4a3361ba35b774a42c58daccaad1b8e1'',
      pa_Marketplace = ''0x02080031b45a3c67d338dd4a2cc309d28756a160'',
      pa_MarketplaceV2 = ''0x480a0f4e360e8964e68858dd231c2922f1df45ef'',
      pa_OldCommittee = ''0x71d9350ef44e1e451f00e447c0dff2d1fb75510a'',
      pa_Committee = ''0xaeec95a8aa671a6d3fec56594827d7804964fa70'',
      pa_CollectionStore = ''0x214ffc0f0103735728dc66b61a22e4f163e275ae'',
      pa_RaritiesWithOracle = ''0xa9158e22f89bb3f69c5600338895cb5fb81e5090'',
      pa_Rarity = ''0x17113b44fdd661a156cc01b5031e3acf72c32eb3'',
      pa_CollectionManager = ''0x9d32aac179153a991e832550d9f96441ea27763a'',
      pa_MarketplaceV3 = ''0x540fb08edb56aae562864b390542c97f562825ba'',
      pa_MarketplaceV3_V2 = ''0xa40b1d129b8906888720686f3a01921ddf37716f'',
      pa_MANA = ''0xa1c57f48f0deb89f569dfbe6e2b7f46d33606fd4'',
      pa_TRANSAK_TOKEN = None,
      pa_CreditsManager = [''0xe9f961e6ded4e1476bbee4faab886d63a2493eb9'', ''0x8b3a40ca1b6f5cafc99d112a4d02e897d1fd8cc5''],
      pa_Spoke = ''0xfe91aaa1012b47499cfe8758874f2d2c52b22cd8''\<rparr>"

definition poly_amoy :: poly_addresses where
  "poly_amoy =
     \<lparr>pa_CollectionFactory = ''0x2A72Ec4241Ac4fBc915ae98aC5a5b01AdE721f4B'',
      pa_CollectionFactoryV3 = ''0x802de0c509add2ee29de24de7225daaff4741c43'',
      pa_Bid = ''0x0000000000000000000000000000000000000000'',
      pa_BidV2 = ''0x4b66eab79cc03a96fb6275cfcdf23c0db431606d'',
      pa_Marketplace = ''0x2a09a000224f5dbe0E17214cA95CDe506DA7CB74'',
      pa_MarketplaceV2 = ''0x0c8ad1f6aadf89d2eb19f01a100a6143108fe2b0'',
      pa_OldCommittee = ''0x4bb5ACe5ceB3Dd51ea35fa01a8f9B5507c234270'',
      pa_Committee = ''0x53c9c388000b6fc91b91fb466742d0e869785c3b'',
      pa_CollectionStore = ''0xe36abc9ec616c83caaa386541380829106149d68'',
      pa_RaritiesWithOracle = ''0x25b6b4bac4adb582a0abd475439da6730777fbf7'',
      pa_Rarity = ''0xddb3781fff645325c8896aa1f067baa381607ecc'',
      pa_CollectionManager = ''0x5309ae874fc4eb21adcd63f8b6c3f766cc3b1849'',
      pa_MarketplaceV3 = ''0x6ab20ae56673ed65f520b7be332aeb61b3ed727d'',
      pa_MarketplaceV3_V2 = ''0x1b67d0e31eeb6b52d8eeed71d3616c2f5b33b8e7'',
      pa_MANA = ''0x7ad72b9f944ea9793cf4055d88f81138cc2c63a0'',
      pa_TRANSAK_TOKEN = Some ''0x0c86a754a29714c4fe9c6f1359fa7099ed174c0b'',
      pa_CreditsManager = [''0x8052a560e6e6ac86eeb7e711a4497f639b322fb3''],
      pa_Spoke = ''0xfe91aaa1012b47499cfe8758874f2d2c52b22cd8''\<rparr>"

text \<open>\<^verbatim>\<open>Object.values(addresses.collections)\<close>.\<close>

definition collection_addresses :: "eth_addresses \<Rightarrow> string list" where
  "collection_addresses a = map snd (ea_collections a)"

definition registries_separate :: "eth_addresses \<Rightarrow> bool" where
  "registries_separate a \<longleftrightarrow>
     distinct [ea_LANDRegistry a, ea_EstateRegistry a, ea_DCLRegistrar a] \<and>
     ea_LANDRegistry a \<notin> set (collection_addresses a) \<and>
     ea_EstateRegistry a \<notin> set (collection_addresses a) \<and>
     ea_DCLRegistrar a \<notin> set (collection_addresses a)"

lemma registries_separate_mainnet: "registries_separate eth_mainnet"
  by (simp add: registries_separate_def collection_addresses_def eth_mainnet_def)

lemma registries_separate_sepolia: "registries_separate eth_sepolia"
  by (simp add: registries_separate_def collection_addresses_def eth_sepolia_def)

end
