(* ===== verification/Squid_Config.thy ===== *)
theory Squid_Config
  imports Squid_Addresses
begin

text \<open>
  Configuration and entity keys: \<^verbatim>\<open>config.ts\<close>, \<^verbatim>\<open>common/utils/{addresses,category,network,
  catalyst,nft}.ts\<close>, \<^verbatim>\<open>common/handlers/bid.ts\<close>, \<^verbatim>\<open>polygon/modules/{item,curation}.ts\<close>.

  \<open>env\<close> is what the process reads from outside the code: the two chain-id variables, and the two
  data tables of the Ethereum processor (\<^verbatim>\<open>eth/data/lands/proximities.ts\<close> and the wearable
  catalogues of \<^verbatim>\<open>eth/data/wearables\<close>), which every definition and lemma takes as arguments. The key lemmas say when two
  tokens share a database key.
\<close>

section \<open>Environment\<close>

text \<open>An entry of a wearable catalogue (\<^verbatim>\<open>eth/data/wearables/Wearable.ts\<close>).\<close>

record representation =
  rep_id :: string
  rep_name :: string
  rep_description :: string
  rep_category :: string
  rep_rarity :: string
  rep_bodyShapes :: "string list"

record env =
  env_ETHEREUM_CHAIN_ID :: "string option"
  env_POLYGON_CHAIN_ID :: "string option"
  env_proximities :: "(string, bool \<times> int) jsmap"
  env_catalogue :: "string \<Rightarrow> representation list"

text \<open>\<^verbatim>\<open>ChainId\<close> of \<^verbatim>\<open>@dcl/schemas\<close>.\<close>

abbreviation (input) ETHEREUM_MAINNET :: int where "ETHEREUM_MAINNET \<equiv> 1"
abbreviation (input) ETHEREUM_SEPOLIA :: int where "ETHEREUM_SEPOLIA \<equiv> 11155111"
abbreviation (input) MATIC_MAINNET :: int where "MATIC_MAINNET \<equiv> 137"
abbreviation (input) MATIC_AMOY :: int where "MATIC_AMOY \<equiv> 80002"

text \<open>\<^verbatim>\<open>process.env.X || default\<close>: an unset or empty variable takes the default.\<close>

definition env_or :: "string option \<Rightarrow> string \<Rightarrow> string" where
  "env_or v d = (case v of None \<Rightarrow> d | Some s \<Rightarrow> if s = [] then d else s)"

definition eth_chainId :: "env \<Rightarrow> int option" where
  "eth_chainId e = parseInt (env_or (env_ETHEREUM_CHAIN_ID e) (toStr ETHEREUM_MAINNET))"

definition poly_chainId :: "env \<Rightarrow> int option" where
  "poly_chainId e = parseInt (env_or (env_POLYGON_CHAIN_ID e) (toStr MATIC_MAINNET))"

text \<open>\<^verbatim>\<open>getBlockRange(network).from\<close>; \<open>None\<close> where \<^verbatim>\<open>BLOCK_RANGES\<close> has no entry.\<close>

definition block_range_from :: "int option \<Rightarrow> int option" where
  "block_range_from c =
     (if c = Some ETHEREUM_MAINNET then Some 4944642
      else if c = Some ETHEREUM_SEPOLIA then Some 3831219
      else if c = Some MATIC_MAINNET then Some 0
      else if c = Some MATIC_AMOY then Some 0
      else None)"

definition getBlockRange :: "env \<Rightarrow> network \<Rightarrow> int option" where
  "getBlockRange e net =
     block_range_from (if net = ETHEREUM then eth_chainId e else poly_chainId e)"

text \<open>\<^verbatim>\<open>getAddresses(Network.ETHEREUM)\<close> and \<^verbatim>\<open>getAddresses(Network.MATIC)\<close>.\<close>

definition eth_getAddresses :: "env \<Rightarrow> eth_addresses" where
  "eth_getAddresses e =
     (if env_ETHEREUM_CHAIN_ID e = Some (toStr ETHEREUM_MAINNET) then eth_mainnet else eth_sepolia)"

definition poly_getAddresses :: "env \<Rightarrow> poly_addresses" where
  "poly_getAddresses e =
     (if env_POLYGON_CHAIN_ID e = Some (toStr MATIC_MAINNET) then poly_mainnet else poly_amoy)"

definition getNetwork :: "env \<Rightarrow> network \<Rightarrow> string" where
  "getNetwork e net =
     (if net = ETHEREUM
      then (if env_ETHEREUM_CHAIN_ID e = Some (toStr ETHEREUM_MAINNET)
            then ''ethereum'' else ''sepolia'')
      else (if env_POLYGON_CHAIN_ID e = Some (toStr MATIC_MAINNET)
            then ''matic'' else ''amoy''))"

definition getCatalystBase :: "int option \<Rightarrow> string" where
  "getCatalystBase c =
     (if c = Some ETHEREUM_MAINNET \<or> c = Some MATIC_MAINNET
      then ''https://peer.decentraland.org''
      else if c = Some ETHEREUM_SEPOLIA \<or> c = Some MATIC_AMOY
      then ''https://peer.decentraland.zone''
      else '''')"

definition baseDecentralandURN :: string where
  "baseDecentralandURN = ''urn:decentraland:''"

definition getURNForCollectionV2 :: "env \<Rightarrow> network \<Rightarrow> string \<Rightarrow> string" where
  "getURNForCollectionV2 e net collectionAddress =
     baseDecentralandURN @ getNetwork e net @ '':collections-v2:'' @ collectionAddress"

text \<open>\<^verbatim>\<open>getCategory(Network.ETHEREUM, contractAddress)\<close>, the only network it is called with.\<close>

definition getCategory :: "env \<Rightarrow> string \<Rightarrow> category" where
  "getCategory e contractAddress =
     (let addresses = eth_getAddresses e in
      if contractAddress = ea_LANDRegistry addresses then Category_parcel
      else if contractAddress = ea_EstateRegistry addresses then Category_estate
      else if contractAddress = ea_DCLRegistrar addresses then Category_ens
      else if contractAddress \<in> set (collection_addresses addresses) then Category_wearable
      else contractAddress)"

section \<open>Keys\<close>

abbreviation (input) dash :: string where "dash \<equiv> ''-''"

definition getNFTId :: "string \<Rightarrow> string \<Rightarrow> string option \<Rightarrow> string" where
  "getNFTId contractAddress tokenId category =
     (case category of
        None \<Rightarrow> contractAddress @ dash @ tokenId
      | Some c \<Rightarrow> if c = [] then contractAddress @ dash @ tokenId
                  else c @ dash @ contractAddress @ dash @ tokenId)"

definition getBidId :: "string \<Rightarrow> string \<Rightarrow> string \<Rightarrow> string" where
  "getBidId contractAddress tokenId bidder = contractAddress @ dash @ tokenId @ dash @ bidder"

definition getItemId :: "string \<Rightarrow> string \<Rightarrow> string" where
  "getItemId contractAddress itemId = contractAddress @ dash @ itemId"

definition getCurationId :: "string \<Rightarrow> string \<Rightarrow> string \<Rightarrow> string" where
  "getCurationId collectionAddress transactionHash logIndex =
     collectionAddress @ dash @ transactionHash @ dash @ logIndex"

definition getBlockWhereRescueItemsStarted :: "env \<Rightarrow> int" where
  "getBlockWhereRescueItemsStarted e =
     (if poly_chainId e = Some MATIC_MAINNET then 20841775
      else if poly_chainId e = Some MATIC_AMOY then 5706678
      else 0)"

definition ZERO_ADDRESS :: string where
  "ZERO_ADDRESS = ''0x0000000000000000000000000000000000000000''"

definition isMint :: "string \<Rightarrow> bool" where
  "isMint sender \<longleftrightarrow> sender = ''0x0000000000000000000000000000000000000000''"

text \<open>\<^verbatim>\<open>`${id}-${network}`\<close>, the key of accounts.\<close>

definition accountId :: "string \<Rightarrow> network \<Rightarrow> string" where
  "accountId i net = i @ dash @ network_str net"

text \<open>The key marketplace and bid handlers of the Ethereum processor look an NFT up with.\<close>

definition marketNFTId :: "env \<Rightarrow> string \<Rightarrow> int \<Rightarrow> string" where
  "marketNFTId e nftAddress assetId =
     (let category = getCategory e nftAddress in
      getNFTId nftAddress (toStr assetId)
        (if category \<noteq> Category_wearable then Some category else None))"

lemma accountId_inject [simp]: "accountId a m = accountId b n \<longleftrightarrow> a = b \<and> m = n"
proof -
  have dash_free: "CHR ''-'' \<notin> set (network_str k)" for k
    by (cases k) (simp_all add: network_str_def)
  show ?thesis
    using separator_inject [OF dash_free [of m] dash_free [of n], of a b]
    by (simp add: accountId_def)
qed

lemma registries_separate_env: "registries_separate (eth_getAddresses e)"
  by (simp add: eth_getAddresses_def registries_separate_mainnet registries_separate_sepolia)

lemma getCategory_registries [simp]:
  "getCategory e (ea_LANDRegistry (eth_getAddresses e)) = Category_parcel"
  "getCategory e (ea_EstateRegistry (eth_getAddresses e)) = Category_estate"
  "getCategory e (ea_DCLRegistrar (eth_getAddresses e)) = Category_ens"
  using registries_separate_env [of e] by (auto simp: getCategory_def registries_separate_def Let_def)

lemma getCategory_collection:
  "c \<in> set (collection_addresses (eth_getAddresses e)) \<Longrightarrow> getCategory e c = Category_wearable"
  using registries_separate_env [of e] by (auto simp: getCategory_def registries_separate_def Let_def)

lemma getNFTId_token_inject:
  assumes "0 \<le> t" and "0 \<le> t'"
  shows "getNFTId a (toStr t) c = getNFTId a (toStr t') c \<longleftrightarrow> t = t'"
  by (auto simp: getNFTId_def split: option.splits if_splits)

lemma getNFTId_plain_inject:
  assumes "0 \<le> t" and "0 \<le> t'"
  shows "getNFTId a (toStr t) None = getNFTId a' (toStr t') None \<longleftrightarrow> a = a' \<and> t = t'"
  using separator_inject [OF dash_notin_toStr [OF assms(1)] dash_notin_toStr [OF assms(2)]]
  by (simp add: getNFTId_def)

lemma getItemId_inject:
  assumes "0 \<le> i" and "0 \<le> i'"
  shows "getItemId a (toStr i) = getItemId a' (toStr i') \<longleftrightarrow> a = a' \<and> i = i'"
  using separator_inject [OF dash_notin_toStr [OF assms(1)] dash_notin_toStr [OF assms(2)]]
  by (simp add: getItemId_def)

text \<open>The key of a token splits at its last dash into a prefix that names the contract.\<close>

definition market_prefix :: "env \<Rightarrow> string \<Rightarrow> string" where
  "market_prefix e a =
     (let c = getCategory e a in if c \<noteq> Category_wearable \<and> c \<noteq> [] then c @ dash @ a else a)"

lemma marketNFTId_prefix: "marketNFTId e a t = market_prefix e a @ dash @ toStr t"
  by (simp add: marketNFTId_def market_prefix_def getNFTId_def Let_def)

lemma market_prefix_inject:
  assumes "CHR ''-'' \<notin> set a" and "CHR ''-'' \<notin> set b"
  shows "market_prefix e a = market_prefix e b \<longleftrightarrow> a = b"
proof -
  have dashed: "x @ dash @ y = z \<Longrightarrow> CHR ''-'' \<in> set z" for x y z :: string
    by auto
  have same: "x @ dash @ a = y @ dash @ b \<longleftrightarrow> x = y \<and> a = b" for x y
    using separator_inject [OF assms] by simp
  show ?thesis
    using assms same dashed [of _ a b] dashed [of _ b a]
    by (auto simp: market_prefix_def Let_def simp del: append_Cons append_Nil)
qed

text \<open>
  C34: the keys under which the Ethereum marketplace and bid handlers look NFTs up are unambiguous.
  For contract addresses without a dash (a hexadecimal address has none) and token ids that are
  not negative, two tokens have the same key exactly when contract and token id are the same,
  whatever categories their contracts have.
\<close>

theorem marketNFTId_unambiguous:
  assumes "CHR ''-'' \<notin> set a" and "CHR ''-'' \<notin> set a'" and "0 \<le> t" and "0 \<le> t'"
  shows "marketNFTId e a t = marketNFTId e a' t' \<longleftrightarrow> a = a' \<and> t = t'"
  using separator_inject [OF dash_notin_toStr [OF assms(3)] dash_notin_toStr [OF assms(4)]]
  by (simp add: marketNFTId_prefix market_prefix_inject [OF assms(1,2)])

definition sample_env :: env where
  "sample_env = \<lparr>env_ETHEREUM_CHAIN_ID = Some ''1'', env_POLYGON_CHAIN_ID = Some ''137'',
     env_proximities = [], env_catalogue = (\<lambda>_. [])\<rparr>"

theorem marketNFTId_unambiguous_witness:
  "marketNFTId sample_env ''0xc'' 5 \<noteq> marketNFTId sample_env ''0xc'' 6 \<and>
   marketNFTId sample_env ''0xc'' 5 \<noteq> marketNFTId sample_env ''0xd'' 5"
  using marketNFTId_unambiguous [of "''0xc''" "''0xc''" 5 6 sample_env]
    marketNFTId_unambiguous [of "''0xc''" "''0xd''" 5 5 sample_env]
  by simp

end
