(* ===== verification/Squid_Data.thy ===== *)
theory Squid_Data
  imports Squid_Config
begin

text \<open>
  \<^verbatim>\<open>common/utils/utils.ts\<close> (the comma-separated parser and the timestamp normaliser) and
  \<^verbatim>\<open>common/utils/data.ts\<close> (the metadata of parcels and estates). The parser is modelled as the
  source's index loop (\<open>csv_loop\<close>) and shown equal to a scanner over the remaining input
  (\<open>csv_scan\<close>), on which the properties are proved.
\<close>

section \<open>The parser\<close>

abbreviation (input) comma :: char where "comma \<equiv> CHR '',''"
abbreviation (input) quote :: char where "quote \<equiv> CHR 0x22"

datatype CSVState = BETWEEN | UNQUOTED_VALUE | QUOTED_VALUE

function csv_loop :: "string \<Rightarrow> nat \<Rightarrow> CSVState \<Rightarrow> nat \<Rightarrow> string list \<Rightarrow> string list" where
  "csv_loop csv i state valueStart values =
     (if i < length csv then
        (case state of
           BETWEEN \<Rightarrow>
             if csv ! i \<noteq> comma
             then (if csv ! i = quote
                   then csv_loop csv (Suc i) QUOTED_VALUE (Suc i) values
                   else csv_loop csv (Suc i) UNQUOTED_VALUE i values)
             else csv_loop csv (Suc i) BETWEEN valueStart values
         | UNQUOTED_VALUE \<Rightarrow>
             if csv ! i = comma
             then csv_loop csv (Suc i) BETWEEN valueStart
                    (values @ [substr csv (int valueStart) (int i - int valueStart)])
             else csv_loop csv (Suc i) UNQUOTED_VALUE valueStart values
         | QUOTED_VALUE \<Rightarrow>
             if csv ! i = quote
             then csv_loop csv (Suc i) BETWEEN valueStart
                    (values @ [substr csv (int valueStart) (int i - int valueStart)])
             else csv_loop csv (Suc i) QUOTED_VALUE valueStart values)
      else values)"
  by pat_completeness auto
termination
  by (relation "measure (\<lambda>(csv, i, st, vs, vals). length csv - i)") auto

declare csv_loop.simps [simp del]

definition parseCSV :: "string \<Rightarrow> string list" where
  "parseCSV csv = csv_loop csv 0 BETWEEN 0 []"

text \<open>The same automaton over the remaining input, with the characters of the open value.\<close>

fun csv_scan :: "CSVState \<Rightarrow> string \<Rightarrow> string \<Rightarrow> string list" where
  "csv_scan st buf [] = []"
| "csv_scan BETWEEN buf (c # cs) =
     (if c \<noteq> comma then (if c = quote then csv_scan QUOTED_VALUE [] cs else csv_scan UNQUOTED_VALUE [c] cs)
      else csv_scan BETWEEN [] cs)"
| "csv_scan UNQUOTED_VALUE buf (c # cs) =
     (if c = comma then buf # csv_scan BETWEEN [] cs else csv_scan UNQUOTED_VALUE (buf @ [c]) cs)"
| "csv_scan QUOTED_VALUE buf (c # cs) =
     (if c = quote then buf # csv_scan BETWEEN [] cs else csv_scan QUOTED_VALUE (buf @ [c]) cs)"

lemma csv_scan_BETWEEN_buf: "csv_scan BETWEEN buf cs = csv_scan BETWEEN [] cs"
  by (cases cs) simp_all

lemma take_drop_snoc:
  "v \<le> i \<Longrightarrow> i < length xs \<Longrightarrow> take (Suc i - v) (drop v xs) = take (i - v) (drop v xs) @ [xs ! i]"
  by (simp add: Suc_diff_le take_Suc_conv_app_nth)

lemma csv_loop_scan:
  "(st \<noteq> BETWEEN \<longrightarrow> v \<le> i) \<Longrightarrow>
   csv_loop csv i st v vals = vals @ csv_scan st (take (i - v) (drop v csv)) (drop i csv)"
proof (induction csv i st v vals rule: csv_loop.induct)
  case (1 csv i st v vals)
  show ?case
  proof (cases "i < length csv")
    case False
    then show ?thesis by (simp add: csv_loop.simps [of csv i])
  next
    case True
    then have d: "drop i csv = csv ! i # drop (Suc i) csv"
      by (simp add: Cons_nth_drop_Suc)
    have one: "take (Suc 0) (drop i csv) = [csv ! i]"
      by (simp add: d)
    show ?thesis
      using 1 True
      by (cases st)
         (auto simp: csv_loop.simps [of csv i] d one take_drop_snoc csv_scan_BETWEEN_buf [of "_ @ _"] csv_scan_BETWEEN_buf [of "take _ _"]
           substr_def nat_diff_distrib Let_def)
  qed
qed

lemma parseCSV_scan: "parseCSV csv = csv_scan BETWEEN [] csv"
  by (simp add: parseCSV_def csv_loop_scan)

text \<open>Printing a list of values, each in quotes and preceded by a comma.\<close>

definition csv_quoted :: "string \<Rightarrow> string" where
  "csv_quoted v = comma # quote # v @ [quote]"

lemma csv_scan_quoted:
  "quote \<notin> set v \<Longrightarrow> csv_scan QUOTED_VALUE buf (v @ quote # cs) = (buf @ v) # csv_scan BETWEEN [] cs"
  by (induction v arbitrary: buf) auto

lemma csv_scan_unquoted:
  "comma \<notin> set v \<Longrightarrow> csv_scan UNQUOTED_VALUE buf (v @ comma # cs) = (buf @ v) # csv_scan BETWEEN [] cs"
  by (induction v arbitrary: buf) auto

lemma csv_scan_unfinished:
  "comma \<notin> set v \<Longrightarrow> quote \<notin> set v \<Longrightarrow> csv_scan st buf v = []"
  by (induction st buf v rule: csv_scan.induct) auto

lemma csv_scan_quoted_list:
  "\<forall>v \<in> set vs. quote \<notin> set v \<Longrightarrow> csv_scan BETWEEN [] (concat (map csv_quoted vs)) = vs"
  by (induction vs) (auto simp: csv_quoted_def csv_scan_quoted)

text \<open>
  C40: round trip of the comma-separated format that LAND and Estate metadata use. An unquoted
  first value without comma or quote, followed by any values written in quotes that contain no
  quote themselves, parses back to exactly these values, in order.
\<close>

theorem parseCSV_roundtrip:
  assumes "h \<noteq> []" and "hd h \<noteq> quote" and "comma \<notin> set h" and "\<forall>v \<in> set vs. quote \<notin> set v"
    and "vs \<noteq> []"
  shows "parseCSV (h @ concat (map csv_quoted vs)) = h # vs"
proof -
  obtain c t where h: "h = c # t" using assms(1) by (cases h) auto
  obtain v ws where vs: "vs = v # ws" using assms(5) by (cases vs) auto
  have "csv_scan UNQUOTED_VALUE [c] (t @ comma # quote # v @ quote # concat (map csv_quoted ws))
        = h # csv_scan BETWEEN [] (quote # v @ quote # concat (map csv_quoted ws))"
    using csv_scan_unquoted [of t "[c]"] assms(3) h by simp
  also have "\<dots> = h # v # csv_scan BETWEEN [] (concat (map csv_quoted ws))"
    using csv_scan_quoted [of v "[]"] assms(4) vs by simp
  also have "\<dots> = h # vs"
    using csv_scan_quoted_list [of ws] assms(4) vs by simp
  finally show ?thesis
    using assms(2,3) by (auto simp: parseCSV_scan h vs csv_quoted_def)
qed

theorem parseCSV_roundtrip_witness:
  "''0'' \<noteq> [] \<and>
   parseCSV (''0'' @ concat (map csv_quoted [''My land'', ''''])) = [''0'', ''My land'', '''']"
  using parseCSV_roundtrip [of "''0''" "[''My land'', '''']"] by simp

text \<open>
  The parser stores a value only when it meets the character that closes it, so an unquoted
  value at the end of the input is dropped, whatever precedes it: it contributes nothing to the
  result, and an input that is one plain value parses to no value at all.
\<close>

lemma parseCSV_drops_last_unquoted:
  assumes "comma \<notin> set h" and "quote \<notin> set h"
  shows "parseCSV (pre @ comma # h) = parseCSV (pre @ [comma]) \<and> parseCSV h = []"
proof -
  have "csv_scan st buf (xs @ comma # h) = csv_scan st buf (xs @ [comma])" for st buf xs
  proof (induction st buf xs rule: csv_scan.induct)
    case (1 st buf)
    show ?case
      using assms by (cases st) (auto simp: csv_scan_unfinished)
  qed auto
  with assms show ?thesis
    by (simp add: parseCSV_scan csv_scan_unfinished)
qed

section \<open>Timestamps\<close>

definition ONE_MILLION :: int where
  "ONE_MILLION = 1000000"

definition normalizeTimestamp :: "int \<Rightarrow> js_date" where
  "normalizeTimestamp timestamp =
     (if length (toStr timestamp) = 13 then Date_ms timestamp
      else if length (toStr timestamp) = 10 then Date_ms (timestamp * 1000)
      else Date_now)"

lemma nat_to_string_length:
  "length (nat_to_string n) = Suc k \<longleftrightarrow> n < 10 ^ Suc k \<and> (k = 0 \<or> 10 ^ k \<le> n)"
proof (induction k arbitrary: n)
  case 0
  then show ?case by (auto simp: nat_to_string.simps [of n])
next
  case (Suc k)
  show ?case
  proof (cases "n < 10")
    case True
    moreover have "n < 10 * 10 ^ k"
      using True by (rule order_less_le_trans) simp
    ultimately show ?thesis
      by (auto simp: nat_to_string.simps [of n])
  next
    case False
    then have "length (nat_to_string n) = Suc (Suc k) \<longleftrightarrow> length (nat_to_string (n div 10)) = Suc k"
      by (simp add: nat_to_string.simps [of n])
    also have "\<dots> \<longleftrightarrow> n div 10 < 10 ^ Suc k \<and> (k = 0 \<or> 10 ^ k \<le> n div 10)"
      by (rule Suc)
    also have "\<dots> \<longleftrightarrow> n < 10 ^ Suc (Suc k) \<and> 10 ^ Suc k \<le> n"
      using False by (cases "k = 0") (auto simp: div_less_iff_less_mult less_eq_div_iff_mult_less_eq mult.commute)
    finally show ?thesis by simp
  qed
qed

lemma toStr_length:
  assumes "0 \<le> t" and "0 < k"
  shows "length (toStr t) = Suc k \<longleftrightarrow> 10 ^ k \<le> t \<and> t < 10 ^ Suc k"
proof -
  have "nat t < 10 ^ Suc k \<longleftrightarrow> t < 10 ^ Suc k" and "10 ^ k \<le> nat t \<longleftrightarrow> 10 ^ k \<le> t"
    using assms(1) by (simp_all add: nat_less_iff le_nat_iff)
  then show ?thesis
    using assms nat_to_string_length [of "nat t" k] by (auto simp: toStr_def)
qed

text \<open>
  What an expiry date is normalised to. A non-negative timestamp of ten digits is read as
  seconds, one of thirteen digits as milliseconds, and every other value is replaced by the
  current time: between 10 000 000 000 and 999 999 999 999, below 1 000 000 000 and from
  10 000 000 000 000 on, the stored date does not depend on the timestamp.
\<close>

lemma normalizeTimestamp_ranges:
  assumes "0 \<le> t"
  shows "normalizeTimestamp t =
    (if 10 ^ 9 \<le> t \<and> t < 10 ^ 10 then Date_ms (1000 * t)
     else if 10 ^ 12 \<le> t \<and> t < 10 ^ 13 then Date_ms t
     else Date_now)"
  using toStr_length [OF assms, of 12] toStr_length [OF assms, of 9]
  by (simp add: normalizeTimestamp_def)

section \<open>Metadata of parcels and estates\<close>

datatype DataType = PARCEL | ESTATE

definition buildData :: "string \<Rightarrow> string \<Rightarrow> DataType \<Rightarrow> Data option" where
  "buildData assetId csv dataType =
     (if take 1 csv \<noteq> ''0'' then None
      else
        let data = parseCSV csv in
        if data = [] \<or> hd data \<noteq> ''0'' then None
        else Some
          \<lparr>data_id = assetId,
           data_version = hd data,
           data_name = (if length data > 1 then Some (data ! 1) else None),
           data_description = (if length data > 2 then Some (data ! 2) else None),
           data_ipns = (if length data > 3 then Some (data ! 3) else None)\<rparr>)"

lemma buildData_id: "buildData i csv ty = Some d \<Longrightarrow> data_id d = i"
  by (auto simp: buildData_def Let_def split: if_splits)

lemma buildData_version: "buildData i csv ty = Some d \<Longrightarrow> data_version d = ''0''"
  by (auto simp: buildData_def Let_def split: if_splits)

end
