(* ===== verification/Squid_Counts.thy ===== *)
theory Squid_Counts
  imports Squid_Data
begin

text \<open>
  The aggregate rows both processors keep: accounts (\<^verbatim>\<open>common/modules/account.ts\<close>), the global
  counters (\<^verbatim>\<open>common/modules/count.ts\<close> and the Ethereum variant \<^verbatim>\<open>eth/modules/count.ts\<close>) and the
  per-day analytics (\<^verbatim>\<open>common/modules/analytics.ts\<close>).

  \<^verbatim>\<open>buildCount\<close> hands out the counter object of the map, or a fresh one that is not in the map; a
  routine that then changes it is modelled by \<open>with_count\<close>, which changes the map only where the
  object is in it, as the shared reference does. \<open>set_count\<close> is the caller's
  \<^verbatim>\<open>counts.set(count.id, count)\<close>.
\<close>

section \<open>Accounts\<close>

type_synonym accounts = "(string, Account) jsmap"

definition createAccount :: "string \<Rightarrow> network \<Rightarrow> Account" where
  "createAccount i net =
     \<lparr>acc_id = accountId i net, acc_address = i, acc_sales = 0, acc_purchases = 0,
      acc_spent = 0, acc_earned = 0, acc_isCommitteeMember = Some False,
      acc_totalCurations = Some 0, acc_primarySales = 0, acc_primarySalesEarned = 0,
      acc_royalties = 0, acc_uniqueAndMythicItems = [], acc_uniqueAndMythicItemsTotal = 0,
      acc_collections = 0, acc_creatorsSupported = [], acc_creatorsSupportedTotal = 0,
      acc_uniqueCollectors = [], acc_uniqueCollectorsTotal = 0, acc_network = net\<rparr>"

definition createOrLoadAccount :: "accounts \<Rightarrow> string \<Rightarrow> network \<Rightarrow> Account \<times> accounts" where
  "createOrLoadAccount accounts i net =
     (let key = accountId i net;
          account = (case mget accounts key of None \<Rightarrow> createAccount i net | Some a \<Rightarrow> a)
      in (account, mset accounts key account))"

text \<open>Load or create an account and change the object, which the map then holds.\<close>

definition update_account :: "accounts \<Rightarrow> string \<Rightarrow> network \<Rightarrow> (Account \<Rightarrow> Account) \<Rightarrow> accounts" where
  "update_account accounts i net f =
     (case createOrLoadAccount accounts i net of (a, m) \<Rightarrow> mset m (accountId i net) (f a))"

text \<open>The account a lookup sees: the stored one, or the one \<^verbatim>\<open>createAccount\<close> would make.\<close>

definition account_at :: "accounts \<Rightarrow> string \<Rightarrow> network \<Rightarrow> Account" where
  "account_at accounts i net =
     (case mget accounts (accountId i net) of None \<Rightarrow> createAccount i net | Some a \<Rightarrow> a)"

lemma createOrLoadAccount_eq:
  "createOrLoadAccount m i net = (account_at m i net, mset m (accountId i net) (account_at m i net))"
  by (simp add: createOrLoadAccount_def account_at_def Let_def)

lemma mset_mset_same [simp]: "mset (mset m k u) k v = mset m k v"
  by (induction m) (auto simp: mset_Cons)

lemma update_account_eq: "update_account m i net f = mset m (accountId i net) (f (account_at m i net))"
  by (simp add: update_account_def createOrLoadAccount_eq)

lemma account_at_update [simp]:
  "account_at (update_account m i net f) j net' =
     (if i = j \<and> net = net' then f (account_at m i net) else account_at m j net')"
  by (auto simp: update_account_eq account_at_def)

lemma account_at_set [simp]:
  "account_at (mset m (accountId i net) a) j net' =
     (if i = j \<and> net = net' then a else account_at m j net')"
  by (simp add: account_at_def)

lemma mget_update_account:
  "mget (update_account m i net f) k =
     (if accountId i net = k then Some (f (account_at m i net)) else mget m k)"
  by (simp add: update_account_eq)

lemma mwf_update_account [simp, intro]: "mwf m \<Longrightarrow> mwf (update_account m i net f)"
  by (simp add: update_account_eq)

text \<open>
  A total over all accounts moves by what the change moves, when a fresh account contributes
  nothing.
\<close>

lemma msum_update_account:
  assumes "mwf m" and "g (createAccount i net) = 0"
  shows "msum g (update_account m i net f) =
         msum g m + (g (f (account_at m i net)) - g (account_at m i net))"
  using assms by (simp add: update_account_eq msum_mset account_at_def split: option.split)

section \<open>Counters\<close>

type_synonym counts = "(string, Count) jsmap"

definition countId :: "network \<Rightarrow> string" where
  "countId net = ''all-'' @ network_str net"

lemma countId_inject [simp]: "countId m = countId n \<longleftrightarrow> m = n"
  by (simp add: countId_def)

definition new_Count :: "network \<Rightarrow> Count" where
  "new_Count net =
     \<lparr>cnt_id = countId net, cnt_orderTotal = 0, cnt_orderParcel = 0, cnt_orderEstate = 0,
      cnt_orderWearable = 0, cnt_orderENS = 0, cnt_parcelTotal = 0, cnt_estateTotal = 0,
      cnt_wearableTotal = 0, cnt_ensTotal = 0, cnt_started = 1, cnt_salesTotal = 0,
      cnt_salesManaTotal = 0, cnt_creatorEarningsManaTotal = 0, cnt_daoEarningsManaTotal = 0,
      cnt_bidTotal = 0, cnt_collectionTotal = 0, cnt_itemTotal = 0, cnt_nftTotal = 0,
      cnt_primarySalesTotal = 0, cnt_primarySalesManaTotal = 0, cnt_secondarySalesTotal = 0,
      cnt_secondarySalesManaTotal = 0, cnt_royaltiesManaTotal = 0, cnt_network = net\<rparr>"

definition buildCount :: "counts \<Rightarrow> network \<Rightarrow> Count" where
  "buildCount counts net =
     (case mget counts (countId net) of None \<Rightarrow> new_Count net | Some c \<Rightarrow> c)"

definition with_count :: "network \<Rightarrow> (Count \<Rightarrow> Count) \<Rightarrow> counts \<Rightarrow> Count \<times> counts" where
  "with_count net f counts =
     (let c = f (buildCount counts net) in (c, mmodify counts (countId net) (\<lambda>_. c)))"

definition set_count :: "Count \<times> counts \<Rightarrow> counts" where
  "set_count p = (case p of (c, counts) \<Rightarrow> mset counts (cnt_id c) c)"

definition count_nft_category :: "category option \<Rightarrow> Count \<Rightarrow> Count" where
  "count_nft_category category c =
     (if category = Some Category_parcel then c\<lparr>cnt_parcelTotal := cnt_parcelTotal c + 1\<rparr>
      else if category = Some Category_estate then c\<lparr>cnt_estateTotal := cnt_estateTotal c + 1\<rparr>
      else if category = Some Category_wearable then c\<lparr>cnt_wearableTotal := cnt_wearableTotal c + 1\<rparr>
      else if category = Some Category_ens then c\<lparr>cnt_ensTotal := cnt_ensTotal c + 1\<rparr>
      else c)"

definition count_order_category :: "category \<Rightarrow> Count \<Rightarrow> Count" where
  "count_order_category category c =
     (if category = Category_parcel then c\<lparr>cnt_orderParcel := cnt_orderParcel c + 1\<rparr>
      else if category = Category_estate then c\<lparr>cnt_orderEstate := cnt_orderEstate c + 1\<rparr>
      else if category = Category_wearable then c\<lparr>cnt_orderWearable := cnt_orderWearable c + 1\<rparr>
      else if category = Category_ens then c\<lparr>cnt_orderENS := cnt_orderENS c + 1\<rparr>
      else c)"

definition buildCountFromNFT :: "NFT \<Rightarrow> counts \<Rightarrow> network \<Rightarrow> Count \<times> counts" where
  "buildCountFromNFT nft counts net =
     with_count net
       (\<lambda>c. let c' = count_nft_category (nft_category nft) c in c'\<lparr>cnt_nftTotal := cnt_nftTotal c' + 1\<rparr>)
       counts"

definition buildCountFromOrder :: "Order \<Rightarrow> counts \<Rightarrow> network \<Rightarrow> counts" where
  "buildCountFromOrder order counts net =
     snd (with_count net
       (\<lambda>c. count_order_category (ord_category order) (c\<lparr>cnt_orderTotal := cnt_orderTotal c + 1\<rparr>))
       counts)"

definition count_sale :: "int \<Rightarrow> int \<Rightarrow> Count \<Rightarrow> Count" where
  "count_sale price feesCollectorCut c =
     c\<lparr>cnt_salesTotal := cnt_salesTotal c + 1,
       cnt_salesManaTotal := cnt_salesManaTotal c + price,
       cnt_daoEarningsManaTotal :=
         cnt_daoEarningsManaTotal c + (feesCollectorCut * price) sdiv ONE_MILLION\<rparr>"

definition buildCountFromSale :: "int \<Rightarrow> int \<Rightarrow> counts \<Rightarrow> Count \<times> counts" where
  "buildCountFromSale price feesCollectorCut counts =
     with_count ETHEREUM (count_sale price feesCollectorCut) counts"

definition buildCountFromCollection :: "counts \<Rightarrow> Count \<times> counts" where
  "buildCountFromCollection counts =
     with_count POLYGON (\<lambda>c. c\<lparr>cnt_collectionTotal := cnt_collectionTotal c + 1\<rparr>) counts"

definition buildCountFromItem :: "counts \<Rightarrow> network \<Rightarrow> Count \<times> counts" where
  "buildCountFromItem counts net =
     with_count net (\<lambda>c. c\<lparr>cnt_itemTotal := cnt_itemTotal c + 1\<rparr>) counts"

definition buildCountFromPrimarySale :: "counts \<Rightarrow> int \<Rightarrow> Count \<times> counts" where
  "buildCountFromPrimarySale counts price =
     with_count POLYGON
       (\<lambda>c. c\<lparr>cnt_primarySalesTotal := cnt_primarySalesTotal c + 1,
              cnt_primarySalesManaTotal := cnt_primarySalesManaTotal c + price\<rparr>)
       counts"

definition buildCountFromSecondarySale :: "counts \<Rightarrow> int \<Rightarrow> Count \<times> counts" where
  "buildCountFromSecondarySale counts price =
     with_count POLYGON
       (\<lambda>c. c\<lparr>cnt_secondarySalesTotal := cnt_secondarySalesTotal c + 1,
              cnt_secondarySalesManaTotal := cnt_secondarySalesManaTotal c + price\<rparr>)
       counts"

definition buildCountFromBid :: "counts \<Rightarrow> Count \<times> counts" where
  "buildCountFromBid counts =
     with_count POLYGON (\<lambda>c. c\<lparr>cnt_bidTotal := cnt_bidTotal c + 1\<rparr>) counts"

text \<open>\<^verbatim>\<open>eth/modules/count.ts\<close>: the same rows for the Ethereum network.\<close>

definition eth_buildCount :: "counts \<Rightarrow> Count" where
  "eth_buildCount counts = buildCount counts ETHEREUM"

definition eth_buildCountFromNFT :: "NFT \<Rightarrow> counts \<Rightarrow> Count \<times> counts" where
  "eth_buildCountFromNFT nft counts =
     with_count ETHEREUM (count_nft_category (nft_category nft)) counts"

definition eth_buildCountFromOrder :: "Order \<Rightarrow> counts \<Rightarrow> counts" where
  "eth_buildCountFromOrder order counts =
     snd (with_count ETHEREUM
       (\<lambda>c. count_order_category (ord_category order) (c\<lparr>cnt_orderTotal := cnt_orderTotal c + 1\<rparr>))
       counts)"

definition eth_buildCountFromSale :: "int \<Rightarrow> int \<Rightarrow> counts \<Rightarrow> Count \<times> counts" where
  "eth_buildCountFromSale price feesCollectorCut counts =
     with_count ETHEREUM (count_sale price feesCollectorCut) counts"

lemma cnt_id_new_Count [simp]: "cnt_id (new_Count net) = countId net"
  by (simp add: new_Count_def)

text \<open>A counter map whose rows are stored under their own ids.\<close>

definition counts_keyed :: "counts \<Rightarrow> bool" where
  "counts_keyed counts \<longleftrightarrow> (\<forall>k c. mget counts k = Some c \<longrightarrow> cnt_id c = k)"

lemma counts_keyed_Nil [simp]: "counts_keyed []"
  by (simp add: counts_keyed_def)

lemma counts_keyed_mset [simp, intro]:
  "counts_keyed m \<Longrightarrow> cnt_id c = k \<Longrightarrow> counts_keyed (mset m k c)"
  by (auto simp: counts_keyed_def)

lemma cnt_id_buildCount: "counts_keyed counts \<Longrightarrow> cnt_id (buildCount counts net) = countId net"
  by (auto simp: buildCount_def counts_keyed_def split: option.split)

lemma cnt_id_categories [simp]:
  "cnt_id (count_nft_category cat c) = cnt_id c" "cnt_id (count_order_category cat' c) = cnt_id c"
  by (simp_all add: count_nft_category_def count_order_category_def)

lemma cnt_id_count_sale [simp]: "cnt_id (count_sale p fee c) = cnt_id c"
  by (simp add: count_sale_def)

lemma counts_keyed_with_count:
  "counts_keyed counts \<Longrightarrow> (\<And>c. cnt_id (f c) = cnt_id c) \<Longrightarrow>
   counts_keyed (snd (with_count net f counts))"
  by (auto simp: with_count_def Let_def counts_keyed_def cnt_id_buildCount)

lemma set_with_count:
  assumes "counts_keyed counts" and "\<And>c. cnt_id (f c) = cnt_id c"
  shows "mget (set_count (with_count net f counts)) k =
     (if k = countId net then Some (f (buildCount counts net)) else mget counts k)"
  using assms by (auto simp: set_count_def with_count_def Let_def cnt_id_buildCount)

lemma counts_keyed_set_with_count:
  assumes "counts_keyed counts" and "\<And>c. cnt_id (f c) = cnt_id c"
  shows "counts_keyed (set_count (with_count net f counts))"
  using assms by (auto simp: counts_keyed_def set_with_count cnt_id_buildCount)

lemma buildCount_set_with_count [simp]:
  assumes "counts_keyed counts" and "\<And>c. cnt_id (f c) = cnt_id c"
  shows "buildCount (set_count (with_count net f counts)) net =  f (buildCount counts net)"
  using assms by (simp add: buildCount_def [of "set_count _"] set_with_count)

text \<open>
  Counting a new order. If the counter row of the network exists, exactly one order is added
  to its total and to the total of its category; if it does not exist yet, the fresh row that
  \<^verbatim>\<open>buildCount\<close> makes is never stored, so the order is not counted at all.
\<close>

lemma buildCountFromOrder_effect:
  "buildCountFromOrder order counts net =
     (case mget counts (countId net) of
        None \<Rightarrow> counts
      | Some c \<Rightarrow> mset counts (countId net)
          (count_order_category (ord_category order) (c\<lparr>cnt_orderTotal := cnt_orderTotal c + 1\<rparr>)))"
  by (simp add: buildCountFromOrder_def with_count_def buildCount_def mmodify_def Let_def
      split: option.split)

section \<open>Analytics per day\<close>

type_synonym analytics = "(string, AnalyticsDayData) jsmap"

definition dayId :: "int \<Rightarrow> network \<Rightarrow> string" where
  "dayId timestamp net = toStr (timestamp sdiv 86400) @ dash @ network_str net"

definition getOrCreateAnalyticsDayData ::
  "int \<Rightarrow> analytics \<Rightarrow> network \<Rightarrow> AnalyticsDayData" where
  "getOrCreateAnalyticsDayData timestamp analytics net =
     (case mget analytics (dayId timestamp net) of
        Some d \<Rightarrow> d
      | None \<Rightarrow>
          \<lparr>add_id = dayId timestamp net, add_date = (timestamp sdiv 86400) * 86400,
           add_sales = 0, add_volume = 0, add_creatorsEarnings = 0, add_daoEarnings = 0,
           add_network = net\<rparr>)"

definition updateAnalyticsDayData :: "Sale \<Rightarrow> int \<Rightarrow> analytics \<Rightarrow> AnalyticsDayData" where
  "updateAnalyticsDayData sale feesCollectorCut analytics =
     (let d = getOrCreateAnalyticsDayData (sal_timestamp sale) analytics ETHEREUM in
      d\<lparr>add_sales := add_sales d + 1,
        add_volume := add_volume d + sal_price sale,
        add_daoEarnings :=
          add_daoEarnings d + (feesCollectorCut * sal_price sale) sdiv ONE_MILLION\<rparr>)"

definition analytics_keyed :: "analytics \<Rightarrow> bool" where
  "analytics_keyed m \<longleftrightarrow> (\<forall>k d. mget m k = Some d \<longrightarrow> add_id d = k)"

lemma analytics_keyed_mset [simp, intro]:
  "analytics_keyed m \<Longrightarrow> add_id d = k \<Longrightarrow> analytics_keyed (mset m k d)"
  by (auto simp: analytics_keyed_def)

lemma add_id_getOrCreate:
  "analytics_keyed m \<Longrightarrow> add_id (getOrCreateAnalyticsDayData t m net) = dayId t net"
  by (auto simp: getOrCreateAnalyticsDayData_def analytics_keyed_def split: option.split)

lemma add_id_updateAnalyticsDayData:
  "analytics_keyed m \<Longrightarrow> add_id (updateAnalyticsDayData sale fee m) = dayId (sal_timestamp sale) ETHEREUM"
  by (simp add: updateAnalyticsDayData_def Let_def add_id_getOrCreate)

lemma sdiv_nonneg: "0 \<le> a \<Longrightarrow> 0 < b \<Longrightarrow> (a::int) sdiv b = a div b"
  by (simp add: signed_divide_int_def sgn_if)

end
