(* ===== verification/Squid_Trades.thy ===== *)
theory Squid_Trades
  imports Squid_Counts
begin

text \<open>
  The trades of the third marketplace contract (\<^verbatim>\<open>common/utils/marketplaceV3.ts\<close>): how a
  \<^verbatim>\<open>Traded\<close> event is classified as an order, a bid or neither, and what is read off it. Both
  processors share this code.
\<close>

datatype TradeType = Trade_Order | Trade_Bid

text \<open>\<^verbatim>\<open>TradeAssetType\<close>: the numbers of the contract's enumeration.\<close>

abbreviation (input) Asset_ERC20 :: int where "Asset_ERC20 \<equiv> 1"
abbreviation (input) Asset_USD_PEGGED_MANA :: int where "Asset_USD_PEGGED_MANA \<equiv> 2"
abbreviation (input) Asset_ERC721 :: int where "Asset_ERC721 \<equiv> 3"
abbreviation (input) Asset_ITEM :: int where "Asset_ITEM \<equiv> 4"

record trade_asset =
  ast_assetType :: int
  ast_contractAddress :: string
  ast_value :: int
  ast_beneficiary :: string

record traded_event =
  trd_caller :: string
  trd_sent :: "trade_asset list"
  trd_received :: "trade_asset list"

definition MANA_PAYMENT_ASSET_TYPES :: "int list" where
  "MANA_PAYMENT_ASSET_TYPES = [Asset_ERC20, Asset_USD_PEGGED_MANA]"

text \<open>
  \<^verbatim>\<open>[addresses.MANA, addresses.TRANSAK_TOKEN]\<close>; only the Polygon test network has the second one.
\<close>

definition payment_tokens :: "env \<Rightarrow> network \<Rightarrow> string list" where
  "payment_tokens e net =
     (if net = ETHEREUM then [ea_MANA (eth_getAddresses e)]
      else pa_MANA (poly_getAddresses e) #
           (case pa_TRANSAK_TOKEN (poly_getAddresses e) of None \<Rightarrow> [] | Some t \<Rightarrow> [t]))"

definition js_at :: "'a list \<Rightarrow> nat \<Rightarrow> 'a option" where
  "js_at xs i = (if i < length xs then Some (xs ! i) else None)"

definition getTradeEventType :: "env \<Rightarrow> traded_event \<Rightarrow> network \<Rightarrow> TradeType option" where
  "getTradeEventType e event net =
     (case (js_at (trd_sent event) 0, js_at (trd_received event) 0) of
        (Some sent, Some received) \<Rightarrow>
          (let isReceivingMana = ast_assetType received \<in> set MANA_PAYMENT_ASSET_TYPES;
               isSendingMana = ast_assetType sent \<in> set MANA_PAYMENT_ASSET_TYPES
           in if isReceivingMana \<and> ast_contractAddress received \<in> set (payment_tokens e net)
              then Some Trade_Order
              else if isSendingMana \<and> ast_contractAddress sent \<in> set (payment_tokens e net)
              then Some Trade_Bid
              else None)
      | _ \<Rightarrow> None)"

record trade_data =
  td_collectionAddress :: string
  td_tokenId :: "int option"
  td_itemId :: "int option"
  td_seller :: string
  td_buyer :: string
  td_price :: int
  td_assetType :: int

text \<open>Reading one trade: \<open>asset\<close> is the leg that carries the token, \<open>payment\<close> the MANA leg.\<close>

definition trade_data_of :: "trade_asset \<Rightarrow> trade_asset \<Rightarrow> trade_data" where
  "trade_data_of asset payment =
     \<lparr>td_collectionAddress = ast_contractAddress asset,
      td_tokenId = (if ast_assetType asset = Asset_ERC721 then Some (ast_value asset) else None),
      td_itemId = (if ast_assetType asset = Asset_ITEM then Some (ast_value asset) else None),
      td_seller = ast_beneficiary payment,
      td_buyer = ast_beneficiary asset,
      td_price = ast_value payment,
      td_assetType = ast_assetType asset\<rparr>"

definition getTradeEventData :: "env \<Rightarrow> traded_event \<Rightarrow> network \<Rightarrow> trade_data option" where
  "getTradeEventData e event net =
     (case getTradeEventType e event net of
        None \<Rightarrow> None
      | Some Trade_Order \<Rightarrow> Some (trade_data_of (trd_sent event ! 0) (trd_received event ! 0))
      | Some Trade_Bid \<Rightarrow> Some (trade_data_of (trd_received event ! 0) (trd_sent event ! 0)))"

lemma js_at_eq_Some [simp]: "js_at xs i = Some x \<longleftrightarrow> i < length xs \<and> xs ! i = x"
  by (auto simp: js_at_def)

lemma js_at_eq_None [simp]: "js_at xs i = None \<longleftrightarrow> length xs \<le> i"
  by (auto simp: js_at_def)

lemma js_at_Nil [simp]: "js_at [] i = None"
  by (simp add: js_at_def)

lemma js_at_Cons_0 [simp]: "js_at (x # xs) 0 = Some x"
  by (simp add: js_at_def)

lemma getTradeEventData_None [simp]:
  "getTradeEventData e ev net = None \<longleftrightarrow> getTradeEventType e ev net = None"
  by (auto simp: getTradeEventData_def split: option.splits TradeType.splits)

text \<open>The legs of a trade that is indexed.\<close>

lemma getTradeEventType_legs:
  assumes "getTradeEventType e ev net = Some ty"
  obtains s ss r rs where "trd_sent ev = s # ss" and "trd_received ev = r # rs"
  using assms
  by (cases "trd_sent ev"; cases "trd_received ev") (auto simp: getTradeEventType_def)

definition pays_mana :: "env \<Rightarrow> network \<Rightarrow> trade_asset \<Rightarrow> bool" where
  "pays_mana e net a \<longleftrightarrow>
     ast_assetType a \<in> {Asset_ERC20, Asset_USD_PEGGED_MANA} \<and>
     ast_contractAddress a \<in> set (payment_tokens e net)"

lemma getTradeEventType_Cons:
  "trd_sent ev = s # ss \<Longrightarrow> trd_received ev = r # rs \<Longrightarrow>
   getTradeEventType e ev net =
     (if pays_mana e net r then Some Trade_Order else if pays_mana e net s then Some Trade_Bid else None)"
  by (auto simp: getTradeEventType_def pays_mana_def MANA_PAYMENT_ASSET_TYPES_def)


lemma trade_data_token: "td_tokenId (trade_data_of a p) = Some t \<Longrightarrow> td_itemId (trade_data_of a p) = None"
  by (simp add: trade_data_of_def split: if_splits)

end
