(* ===== verification/Squid_Orders.thy ===== *)
theory Squid_Orders
  imports Squid_Trades
begin

text \<open>
  The order columns of an NFT row (\<^verbatim>\<open>common/utils/nft.ts\<close>) and what both marketplaces keep of
  them: \<open>order_columns\<close> says that the search columns of an NFT mirror its active order, and
  \<open>order_book\<close> is the invariant of the order and NFT maps.
\<close>

type_synonym orders = "(string, Order) jsmap"
type_synonym nfts = "(string, NFT) jsmap"

definition addNFTOrderProperties :: "NFT \<Rightarrow> Order \<Rightarrow> NFT" where
  "addNFTOrderProperties nft order =
     nft\<lparr>nft_activeOrder := Some (ord_id order),
         nft_searchOrderStatus := Some (ord_status order),
         nft_searchOrderPrice := Some (ord_price order),
         nft_searchOrderCreatedAt := Some (ord_createdAt order),
         nft_searchOrderExpiresAt := Some (ord_expiresAt order),
         nft_searchOrderExpiresAtNormalized := Some (normalizeTimestamp (ord_expiresAt order))\<rparr>"

definition clearNFTOrderProperties :: "NFT \<Rightarrow> NFT" where
  "clearNFTOrderProperties nft =
     nft\<lparr>nft_activeOrder := None,
         nft_searchOrderStatus := None,
         nft_searchOrderPrice := None,
         nft_searchOrderCreatedAt := None,
         nft_searchOrderExpiresAt := None,
         nft_searchOrderExpiresAtNormalized := None\<rparr>"

definition updateNFTOrderProperties :: "NFT \<Rightarrow> Order \<Rightarrow> NFT" where
  "updateNFTOrderProperties nft order =
     (if ord_status order = Open then addNFTOrderProperties nft order
      else if ord_status order = Sold \<or> ord_status order = Cancelled
      then clearNFTOrderProperties nft
      else nft)"

definition cancelActiveOrder :: "Order \<Rightarrow> int \<Rightarrow> Order" where
  "cancelActiveOrder order now =
     (if ord_status order = Open \<or> ord_status order = Transferred
      then order\<lparr>ord_status := Cancelled, ord_updatedAt := now\<rparr>
      else order)"

section \<open>The invariant of an order book\<close>

text \<open>
  An order is live while it is open or suspended because its token left the seller
  (\<^verbatim>\<open>transferred\<close>); sold and cancelled orders are closed.
\<close>

definition live :: "Order \<Rightarrow> bool" where
  "live order \<longleftrightarrow> ord_status order = Open \<or> ord_status order = Transferred"

text \<open>The order columns of an NFT row, and what they should be for a given order.\<close>

type_synonym order_view =
  "string option \<times> orderStatus option \<times> int option \<times> int option \<times> int option \<times> js_date option"

definition order_view :: "NFT \<Rightarrow> order_view" where
  "order_view nft =
     (nft_activeOrder nft, nft_searchOrderStatus nft, nft_searchOrderPrice nft,
      nft_searchOrderCreatedAt nft, nft_searchOrderExpiresAt nft,
      nft_searchOrderExpiresAtNormalized nft)"

definition view_of :: "Order \<Rightarrow> order_view" where
  "view_of order =
     (Some (ord_id order), Some (ord_status order), Some (ord_price order),
      Some (ord_createdAt order), Some (ord_expiresAt order),
      Some (normalizeTimestamp (ord_expiresAt order)))"

definition no_view :: order_view where
  "no_view = (None, None, None, None, None, None)"

lemma order_view_add [simp]: "order_view (addNFTOrderProperties nft order) = view_of order"
  by (simp add: order_view_def view_of_def addNFTOrderProperties_def)

lemma order_view_clear [simp]: "order_view (clearNFTOrderProperties nft) = no_view"
  by (simp add: order_view_def no_view_def clearNFTOrderProperties_def)

lemma order_view_update:
  "order_view (updateNFTOrderProperties nft order) =
     (if ord_status order = Open then view_of order
      else if ord_status order = Transferred then order_view nft else no_view)"
  by (cases "ord_status order") (simp_all add: updateNFTOrderProperties_def)

lemma nft_id_order_properties [simp]:
  "nft_id (addNFTOrderProperties nft order) = nft_id nft"
  "nft_id (clearNFTOrderProperties nft) = nft_id nft"
  "nft_id (updateNFTOrderProperties nft order) = nft_id nft"
  by (simp_all add: addNFTOrderProperties_def clearNFTOrderProperties_def updateNFTOrderProperties_def)

lemma fst_view [simp]:
  "fst (view_of order) = Some (ord_id order)" "fst no_view = None"
  "fst (order_view nft) = nft_activeOrder nft"
  by (simp_all add: view_of_def no_view_def order_view_def)

text \<open>Writing any other column leaves the order columns alone.\<close>

lemma order_view_frame [simp]:
  "order_view (nft\<lparr>nft_id := v0\<rparr>) = order_view nft"
  "order_view (nft\<lparr>nft_tokenId := v1\<rparr>) = order_view nft"
  "order_view (nft\<lparr>nft_contractAddress := v2\<rparr>) = order_view nft"
  "order_view (nft\<lparr>nft_category := v3\<rparr>) = order_view nft"
  "order_view (nft\<lparr>nft_owner := v4\<rparr>) = order_view nft"
  "order_view (nft\<lparr>nft_ownerAddress := v5\<rparr>) = order_view nft"
  "order_view (nft\<lparr>nft_tokenURI := v6\<rparr>) = order_view nft"
  "order_view (nft\<lparr>nft_name := v7\<rparr>) = order_view nft"
  "order_view (nft\<lparr>nft_image := v8\<rparr>) = order_view nft"
  "order_view (nft\<lparr>nft_parcel := v9\<rparr>) = order_view nft"
  "order_view (nft\<lparr>nft_estate := v10\<rparr>) = order_view nft"
  "order_view (nft\<lparr>nft_wearable := v11\<rparr>) = order_view nft"
  "order_view (nft\<lparr>nft_ens := v12\<rparr>) = order_view nft"
  "order_view (nft\<lparr>nft_createdAt := v13\<rparr>) = order_view nft"
  "order_view (nft\<lparr>nft_updatedAt := v14\<rparr>) = order_view nft"
  "order_view (nft\<lparr>nft_soldAt := v15\<rparr>) = order_view nft"
  "order_view (nft\<lparr>nft_transferredAt := v16\<rparr>) = order_view nft"
  "order_view (nft\<lparr>nft_sales := v17\<rparr>) = order_view nft"
  "order_view (nft\<lparr>nft_volume := v18\<rparr>) = order_view nft"
  "order_view (nft\<lparr>nft_searchIsLand := v19\<rparr>) = order_view nft"
  "order_view (nft\<lparr>nft_searchText := v20\<rparr>) = order_view nft"
  "order_view (nft\<lparr>nft_searchParcelIsInBounds := v21\<rparr>) = order_view nft"
  "order_view (nft\<lparr>nft_searchParcelX := v22\<rparr>) = order_view nft"
  "order_view (nft\<lparr>nft_searchParcelY := v23\<rparr>) = order_view nft"
  "order_view (nft\<lparr>nft_searchParcelEstateId := v24\<rparr>) = order_view nft"
  "order_view (nft\<lparr>nft_searchDistanceToPlaza := v25\<rparr>) = order_view nft"
  "order_view (nft\<lparr>nft_searchAdjacentToRoad := v26\<rparr>) = order_view nft"
  "order_view (nft\<lparr>nft_searchEstateSize := v27\<rparr>) = order_view nft"
  "order_view (nft\<lparr>nft_searchIsWearableHead := v28\<rparr>) = order_view nft"
  "order_view (nft\<lparr>nft_searchIsWearableAccessory := v29\<rparr>) = order_view nft"
  "order_view (nft\<lparr>nft_searchWearableRarity := v30\<rparr>) = order_view nft"
  "order_view (nft\<lparr>nft_searchWearableCategory := v31\<rparr>) = order_view nft"
  "order_view (nft\<lparr>nft_searchWearableBodyShapes := v32\<rparr>) = order_view nft"
  "order_view (nft\<lparr>nft_itemBlockchainId := v33\<rparr>) = order_view nft"
  "order_view (nft\<lparr>nft_issuedId := v34\<rparr>) = order_view nft"
  "order_view (nft\<lparr>nft_itemType := v35\<rparr>) = order_view nft"
  "order_view (nft\<lparr>nft_urn := v36\<rparr>) = order_view nft"
  "order_view (nft\<lparr>nft_collection := v37\<rparr>) = order_view nft"
  "order_view (nft\<lparr>nft_item := v38\<rparr>) = order_view nft"
  "order_view (nft\<lparr>nft_metadata := v39\<rparr>) = order_view nft"
  "order_view (nft\<lparr>nft_searchItemType := v40\<rparr>) = order_view nft"
  "order_view (nft\<lparr>nft_searchEmoteCategory := v41\<rparr>) = order_view nft"
  "order_view (nft\<lparr>nft_searchEmoteLoop := v42\<rparr>) = order_view nft"
  "order_view (nft\<lparr>nft_searchEmoteRarity := v43\<rparr>) = order_view nft"
  "order_view (nft\<lparr>nft_searchEmoteBodyShapes := v44\<rparr>) = order_view nft"
  "order_view (nft\<lparr>nft_network := v45\<rparr>) = order_view nft"
  by (simp_all add: order_view_def)

lemma order_view_new_NFT [simp]: "order_view (new_NFT i net) = no_view" "nft_id (new_NFT i net) = i"
  by (simp_all add: new_NFT_def order_view_def no_view_def)

text \<open>An NFT mirrors its active order, which is live and is for this NFT.\<close>

definition order_columns :: "orders \<Rightarrow> NFT \<Rightarrow> bool" where
  "order_columns orders nft =
     (case nft_activeOrder nft of
        None \<Rightarrow> order_view nft = no_view
      | Some i \<Rightarrow>
          (case mget orders i of
             None \<Rightarrow> False
           | Some order \<Rightarrow>
               live order \<and> ord_id order = i \<and> ord_nft order = nft_id nft \<and>
               order_view nft = view_of order))"

text \<open>
  The invariant: rows are stored under their ids, every NFT mirrors its active order, and every
  live order is the active order of the NFT it is for. The last clause makes the live order of a
  token unique.
\<close>

definition order_book :: "nfts \<Rightarrow> orders \<Rightarrow> bool" where
  "order_book nfts orders \<longleftrightarrow>
     (\<forall>k nft. mget nfts k = Some nft \<longrightarrow> nft_id nft = k \<and> order_columns orders nft) \<and>
     (\<forall>k order. mget orders k = Some order \<longrightarrow> ord_id order = k \<and>
        (live order \<longrightarrow>
           (\<exists>nft. mget nfts (ord_nft order) = Some nft \<and> nft_activeOrder nft = Some k)))"

lemma order_bookD_nft:
  "order_book nfts orders \<Longrightarrow> mget nfts k = Some nft \<Longrightarrow> nft_id nft = k"
  "order_book nfts orders \<Longrightarrow> mget nfts k = Some nft \<Longrightarrow> order_columns orders nft"
  by (simp_all add: order_book_def)

lemma order_bookD_order: "order_book nfts orders \<Longrightarrow> mget orders k = Some order \<Longrightarrow> ord_id order = k"
  by (simp add: order_book_def)

lemma order_bookD_live:
  "order_book nfts orders \<Longrightarrow> mget orders k = Some order \<Longrightarrow> live order \<Longrightarrow>
   \<exists>nft. mget nfts (ord_nft order) = Some nft \<and> nft_activeOrder nft = Some k"
  by (simp add: order_book_def)

lemma order_bookI:
  assumes "\<And>k nft. mget nfts k = Some nft \<Longrightarrow> nft_id nft = k \<and> order_columns orders nft"
    and "\<And>k order. mget orders k = Some order \<Longrightarrow> ord_id order = k \<and>
        (live order \<longrightarrow>
           (\<exists>nft. mget nfts (ord_nft order) = Some nft \<and> nft_activeOrder nft = Some k))"
  shows "order_book nfts orders"
  using assms by (simp add: order_book_def)

lemma order_book_Nil [simp]: "order_book [] []"
  by (simp add: order_book_def)

text \<open>The active order of a token, as the invariant describes it.\<close>

lemma order_book_active:
  assumes "order_book nfts orders" and "mget nfts k = Some nft" and "nft_activeOrder nft = Some i"
  obtains order where "mget orders i = Some order" and "live order" and "ord_id order = i"
    and "ord_nft order = k" and "order_view nft = view_of order"
  using order_bookD_nft [OF assms(1,2)] assms(3)
  by (auto simp: order_columns_def split: option.splits)

lemma order_book_inactive:
  "order_book nfts orders \<Longrightarrow> mget nfts k = Some nft \<Longrightarrow> nft_activeOrder nft = None \<Longrightarrow>
   order_view nft = no_view"
  using order_bookD_nft(2) [of nfts orders k nft] by (simp add: order_columns_def)

lemma order_columns_cong:
  assumes "order_columns orders nft"
    and "\<And>i. nft_activeOrder nft = Some i \<Longrightarrow> mget orders' i = mget orders i"
  shows "order_columns orders' nft"
  using assms by (auto simp: order_columns_def split: option.splits)

text \<open>At most one live order per token.\<close>

lemma order_book_unique:
  assumes "order_book nfts orders"
    and "mget orders k = Some a" and "live a"
    and "mget orders l = Some b" and "live b"
    and "ord_nft a = ord_nft b"
  shows "k = l"
  using order_bookD_live [OF assms(1,2,3)] order_bookD_live [OF assms(1,4,5)] assms(6) by auto

section \<open>The four ways a handler moves the book\<close>

lemma order_columns_view:
  "order_view nft' = order_view nft \<Longrightarrow> nft_id nft' = nft_id nft \<Longrightarrow>
   order_columns orders nft' = order_columns orders nft"
  unfolding order_columns_def fst_view(3) [symmetric] by (auto split: option.split)

lemma order_columns_no_view: "order_view nft = no_view \<Longrightarrow> order_columns orders nft"
  by (simp add: order_columns_def order_view_def no_view_def)

lemma active_of_view:
  "order_view nft = no_view \<Longrightarrow> nft_activeOrder nft = None"
  "order_view nft = view_of order \<Longrightarrow> nft_activeOrder nft = Some (ord_id order)"
  by (metis fst_view(2,3)) (metis fst_view(1,3))

text \<open>A change of an NFT row that leaves its order columns alone.\<close>

lemma order_book_frame:
  assumes ob: "order_book nfts orders" and nft: "mget nfts k = Some nft"
    and same: "nft_id nft' = k" "order_view nft' = order_view nft"
  shows "order_book (mset nfts k nft') orders"
proof (rule order_bookI)
  have id: "nft_id nft' = nft_id nft" using order_bookD_nft(1) [OF ob nft] same(1) by simp
  fix j n assume "mget (mset nfts k nft') j = Some n"
  then show "nft_id n = j \<and> order_columns orders n"
    using order_bookD_nft [OF ob] order_columns_view [OF same(2) id] nft same(1)
    by (auto split: if_splits)
next
  have act: "nft_activeOrder nft' = nft_activeOrder nft"
    using same(2) by (simp add: order_view_def)
  fix j order assume j: "mget orders j = Some order"
  then show "ord_id order = j \<and>
      (live order \<longrightarrow> (\<exists>n. mget (mset nfts k nft') (ord_nft order) = Some n \<and> nft_activeOrder n = Some j))"
    using order_bookD_order [OF ob j] order_bookD_live [OF ob j] nft act by auto
qed

text \<open>A new NFT row without order columns.\<close>

lemma order_book_new:
  assumes ob: "order_book nfts orders" and "mget nfts k = None"
    and new: "nft_id nft' = k" "order_view nft' = no_view"
  shows "order_book (mset nfts k nft') orders"
proof (rule order_bookI)
  fix j n assume "mget (mset nfts k nft') j = Some n"
  then show "nft_id n = j \<and> order_columns orders n"
    using order_bookD_nft [OF ob] order_columns_no_view [OF new(2)] new(1) by (auto split: if_splits)
next
  fix j order assume j: "mget orders j = Some order"
  then show "ord_id order = j \<and>
      (live order \<longrightarrow> (\<exists>n. mget (mset nfts k nft') (ord_nft order) = Some n \<and> nft_activeOrder n = Some j))"
    using order_bookD_order [OF ob j] order_bookD_live [OF ob j] assms(2) by auto
qed

text \<open>
  Writing one NFT row and one order row: the book stays consistent when the two rows fit each
  other, no other NFT points at the order and no other live order is for the NFT.
\<close>

lemma order_book_set:
  assumes ob: "order_book nfts orders"
    and id: "nft_id nft' = k" "ord_id order' = i"
    and fits: "order_columns (mset orders i order') nft'"
      "live order' \<Longrightarrow> ord_nft order' = k \<and> nft_activeOrder nft' = Some i"
    and others: "\<And>j n. mget nfts j = Some n \<Longrightarrow> j \<noteq> k \<Longrightarrow> nft_activeOrder n \<noteq> Some i"
      "\<And>j o'. mget orders j = Some o' \<Longrightarrow> j \<noteq> i \<Longrightarrow> live o' \<Longrightarrow> ord_nft o' \<noteq> k"
  shows "order_book (mset nfts k nft') (mset orders i order')"
proof (rule order_bookI)
  fix j n assume n: "mget (mset nfts k nft') j = Some n"
  show "nft_id n = j \<and> order_columns (mset orders i order') n"
  proof (cases "j = k")
    case True
    then show ?thesis using n id fits by simp
  next
    case False
    then have old: "mget nfts j = Some n" using n by simp
    then show ?thesis
      using order_bookD_nft [OF ob old] others(1) [OF old False] by (auto intro: order_columns_cong)
  qed
next
  fix j other assume j: "mget (mset orders i order') j = Some other"
  show "ord_id other = j \<and> (live other \<longrightarrow>
      (\<exists>n. mget (mset nfts k nft') (ord_nft other) = Some n \<and> nft_activeOrder n = Some j))"
  proof (cases "j = i")
    case True
    then show ?thesis using j id fits(2) by auto
  next
    case False
    then have old: "mget orders j = Some other" using j by simp
    then show ?thesis
      using order_bookD_order [OF ob old] order_bookD_live [OF ob old] others(2) [OF old False]
      by auto
  qed
qed

text \<open>The side conditions about the other rows, from the order the NFT had.\<close>

lemma order_book_others:
  assumes ob: "order_book nfts orders" and nft: "mget nfts k = Some nft"
    and active: "nft_activeOrder nft = None \<or> nft_activeOrder nft = Some i"
  shows "mget orders j = Some o' \<Longrightarrow> j \<noteq> i \<Longrightarrow> live o' \<Longrightarrow> ord_nft o' \<noteq> k"
    and "(\<And>old. mget orders i = Some old \<Longrightarrow> live old \<Longrightarrow> ord_nft old = k) \<Longrightarrow>
      mget nfts j = Some n \<Longrightarrow> j \<noteq> k \<Longrightarrow> nft_activeOrder n \<noteq> Some i"
proof -
  show "mget orders j = Some o' \<Longrightarrow> j \<noteq> i \<Longrightarrow> live o' \<Longrightarrow> ord_nft o' \<noteq> k"
    using order_bookD_live [OF ob, of j o'] nft active by auto
  assume i: "\<And>old. mget orders i = Some old \<Longrightarrow> live old \<Longrightarrow> ord_nft old = k"
    and n: "mget nfts j = Some n" "j \<noteq> k"
  show "nft_activeOrder n \<noteq> Some i"
  proof
    assume "nft_activeOrder n = Some i"
    from order_book_active [OF ob n(1) this] obtain old
      where "mget orders i = Some old" "live old" "ord_nft old = j" by blast
    with i n(2) show False by auto
  qed
qed

text \<open>Closing the order of a token: the order is sold or cancelled and the columns are cleared.\<close>

lemma order_book_close:
  assumes ob: "order_book nfts orders" and nft: "mget nfts k = Some nft"
    and order: "mget orders i = Some order" "ord_nft order = k"
    and active: "nft_activeOrder nft = None \<or> nft_activeOrder nft = Some i"
    and closed: "ord_id order' = i" "\<not> live order'"
    and cleared: "nft_id nft' = k" "order_view nft' = no_view"
  shows "order_book (mset nfts k nft') (mset orders i order')"
  using order_book_others [OF ob nft active] order closed(2)
  by (intro order_book_set [OF ob cleared(1) closed(1) order_columns_no_view [OF cleared(2)]]) auto

text \<open>Suspending or reviving the active order of a token that changed hands.\<close>

lemma order_book_move:
  assumes ob: "order_book nfts orders" and nft: "mget nfts k = Some nft"
    and active: "nft_activeOrder nft = Some i" and order: "mget orders i = Some order"
    and moved: "live order'" "ord_id order' = i" "ord_nft order' = ord_nft order"
    and mirror: "nft_id nft' = k" "order_view nft' = view_of order'"
  shows "order_book (mset nfts k nft') (mset orders i order')"
proof (rule order_book_set [OF ob mirror(1) moved(2)])
  have k: "ord_nft order = k"
    using order_book_active [OF ob nft active] order by auto
  have act: "nft_activeOrder nft' = Some i"
    using active_of_view(2) [OF mirror(2)] moved(2) by simp
  show "order_columns (mset orders i order') nft'"
    using mirror moved k act by (simp add: order_columns_def)
  show "ord_nft order' = k \<and> nft_activeOrder nft' = Some i"
    using k act moved(3) by simp
  show "nft_activeOrder n \<noteq> Some i" if "mget nfts j = Some n" "j \<noteq> k" for j n
    using order_book_others(2) [OF ob nft disjI2 [OF active] _ that] order k by auto
qed (use order_book_others(1) [OF ob nft disjI2 [OF active]] in auto)

text \<open>Cancelling the order that a new one replaces.\<close>

definition cancel_current :: "NFT \<Rightarrow> int \<Rightarrow> orders \<Rightarrow> orders" where
  "cancel_current nft now orders =
     (case nft_activeOrder nft of
        None \<Rightarrow> orders
      | Some i \<Rightarrow> mmodify orders i (\<lambda>old. cancelActiveOrder old now))"

lemma cancelActiveOrder_facts [simp]:
  "ord_id (cancelActiveOrder order now) = ord_id order"
  "ord_nft (cancelActiveOrder order now) = ord_nft order"
  "\<not> live (cancelActiveOrder order now)"
  by (auto simp: cancelActiveOrder_def live_def)

lemma mmodify_Some: "mget m k = Some v \<Longrightarrow> mmodify m k f = mset m k (f v)"
  by (simp add: mmodify_def)

text \<open>
  Replacing the active order: after the old one is cancelled and the columns cleared, the book is
  that of a token without order, to which the new one is added.
\<close>

lemma order_book_add:
  assumes ob: "order_book nfts orders" and nft: "mget nfts k = Some nft"
    and idle: "nft_activeOrder nft = None"
    and fresh: "\<And>old. mget orders i = Some old \<Longrightarrow> \<not> live old"
    and new: "ord_id order = i" "ord_nft order = k" "live order"
    and mirror: "nft_id nft' = k" "order_view nft' = view_of order"
  shows "order_book (mset nfts k nft') (mset orders i order)"
proof (rule order_book_set [OF ob mirror(1) new(1)])
  have act: "nft_activeOrder nft' = Some i"
    using active_of_view(2) [OF mirror(2)] new(1) by simp
  show "order_columns (mset orders i order) nft'"
    using mirror new act by (simp add: order_columns_def)
  show "ord_nft order = k \<and> nft_activeOrder nft' = Some i"
    using act new(2) by simp
  show "nft_activeOrder n \<noteq> Some i" if "mget nfts j = Some n" "j \<noteq> k" for j n
    using order_book_others(2) [OF ob nft disjI1 [OF idle] _ that] fresh by blast
qed (use order_book_others(1) [OF ob nft disjI1 [OF idle]] in auto)

lemma order_book_replace:
  assumes ob: "order_book nfts orders" and nft: "mget nfts k = Some nft"
    and fresh: "\<And>old. mget orders i = Some old \<Longrightarrow> live old \<Longrightarrow> ord_nft old = k"
    and new: "ord_id order = i" "ord_nft order = k" "live order"
    and mirror: "nft_id nft' = k" "order_view nft' = view_of order"
  shows "order_book (mset nfts k nft') (mset (cancel_current nft now orders) i order)"
proof (cases "nft_activeOrder nft")
  case None
  have "\<not> live old" if "mget orders i = Some old" for old
    using fresh [OF that] order_bookD_live [OF ob that] nft None by auto
  then show ?thesis
    using order_book_add [OF ob nft None _ new mirror] None by (simp add: cancel_current_def)
next
  case (Some a)
  from order_book_active [OF ob nft Some] obtain old where
    old: "mget orders a = Some old" "live old" "ord_id old = a" "ord_nft old = k" by blast
  have id: "nft_id nft = k" using order_bookD_nft [OF ob nft] by simp
  have idle: "order_book (mset nfts k (clearNFTOrderProperties nft))
                (mset orders a (cancelActiveOrder old now))"
    by (rule order_book_close [OF ob nft old(1,4)]) (simp_all add: Some old id)
  have "\<not> live o'" if "mget (mset orders a (cancelActiveOrder old now)) i = Some o'" for o'
    using that fresh [of o'] order_bookD_live [OF ob, of i o'] nft Some
    by (auto split: if_splits)
  then have "order_book (mset (mset nfts k (clearNFTOrderProperties nft)) k nft')
               (mset (mset orders a (cancelActiveOrder old now)) i order)"
    by (intro order_book_add [OF idle, of k "clearNFTOrderProperties nft"] new mirror)
       (simp_all add: clearNFTOrderProperties_def)
  then show ?thesis
    by (simp add: cancel_current_def Some mmodify_Some [OF old(1)])
qed

end
