(* ===== verification/Squid_Metadata.thy ===== *)
theory Squid_Metadata
  imports Squid_Orders
begin

text \<open>
  Item metadata: \<^verbatim>\<open>common/modules/metadata/wearable\<close>, \<^verbatim>\<open>polygon/modules/metadata\<close> and
  \<^verbatim>\<open>polygon/modules/item.ts\<close>. An item's raw metadata is a colon-separated string; the builders
  below turn it into wearable, emote and metadata rows and copy their columns to the search
  columns of items and NFTs.
\<close>

type_synonym wearables = "(string, Wearable) jsmap"
type_synonym emotes = "(string, Emote) jsmap"
type_synonym metadatas = "(string, Metadata) jsmap"
type_synonym items = "(string, Item) jsmap"
type_synonym collections = "(string, Collection) jsmap"

section \<open>Wearables\<close>

definition isWearableHead :: "string option \<Rightarrow> bool" where
  "isWearableHead category \<longleftrightarrow>
     category \<in> Some ` {''eyebrows'', ''eyes'', ''facial_hair'', ''hair'', ''mouth''}"

definition isWearableAccessory :: "string option \<Rightarrow> bool" where
  "isWearableAccessory category \<longleftrightarrow>
     category \<in> Some ` {''earring'', ''eyewear'', ''hat'', ''helmet'', ''mask'', ''tiara'', ''top_head''}"

definition isValidWearableCategory :: "string \<Rightarrow> bool" where
  "isValidWearableCategory category \<longleftrightarrow>
     category \<in> set [''eyebrows'', ''eyes'', ''facial_hair'', ''hair'', ''mouth'', ''upper_body'',
       ''lower_body'', ''feet'', ''earring'', ''eyewear'', ''hat'', ''helmet'', ''mask'', ''tiara'',
       ''top_head'', ''skin'', ''hands_wear'']"

text \<open>
  \<^verbatim>\<open>for (let i = 0; i++; i < bodyShapes.length)\<close>: the loop condition is the old value of the
  counter, the comparison is only evaluated after each round. \<open>body_shape_loop\<close> is one test of
  the condition followed by the body.
\<close>

function body_shape_loop :: "string list \<Rightarrow> nat \<Rightarrow> bool" where
  "body_shape_loop bodyShapes i =
     (if i = 0 then True
      else case js_at bodyShapes (Suc i) of
             None \<Rightarrow> False
           | Some bodyShape \<Rightarrow>
               if bodyShape \<noteq> ''BaseFemale'' \<and> bodyShape \<noteq> ''BaseMale'' then False
               else body_shape_loop bodyShapes (Suc i))"
  by pat_completeness auto
termination
  by (relation "measure (\<lambda>(bs, i). length bs - i)") auto

declare body_shape_loop.simps [simp del]

definition isValidBodyShape :: "string list \<Rightarrow> bool" where
  "isValidBodyShape bodyShapes = body_shape_loop bodyShapes 0"

definition raw_fields :: "Item \<Rightarrow> string list" where
  "raw_fields item = js_split (itm_rawMetadata item) '':''"

definition buildWearableItem :: "Item \<Rightarrow> wearables \<Rightarrow> Wearable option" where
  "buildWearableItem item wearables =
     (let data = raw_fields item in
      if (length data = 6 \<or> length data = 8) \<and> isValidWearableCategory (data ! 4) \<and>
         isValidBodyShape (js_split (data ! 5) '','')
      then
        (let wearable = (case mget wearables (itm_id item) of
                           Some w \<Rightarrow> w | None \<Rightarrow> new_Wearable (itm_id item))
         in Some (wearable\<lparr>wea_collection := Some (itm_collection item),
                     wea_name := Some (data ! 2), wea_description := Some (data ! 3),
                     wea_rarity := Some (itm_rarity item), wea_category := Some (data ! 4),
                     wea_bodyShapes := Some (js_split (data ! 5) '',''),
                     wea_network := Some POLYGON\<rparr>))
      else None)"

section \<open>Emotes\<close>

definition OUTCOMES :: "string list" where
  "OUTCOMES = [''so'', ''mo'', ''ro'']"

definition mapOutcomeToString :: "string \<Rightarrow> string" where
  "mapOutcomeToString outcome =
     (if outcome = ''mo'' then ''multiple_outcome''
      else if outcome = ''ro'' then ''random_outcome''
      else ''simple_outcome'')"

definition isValidEmoteCategory :: "string \<Rightarrow> bool" where
  "isValidEmoteCategory category \<longleftrightarrow>
     category \<in> set [''dance'', ''stunt'', ''greetings'', ''fun'', ''poses'', ''reactions'',
       ''horror'', ''miscellaneous'']"

definition isValidLoopValue :: "string \<Rightarrow> bool" where
  "isValidLoopValue v \<longleftrightarrow> v = ''0'' \<or> v = ''1''"

definition handleEmoteOutcomeType :: "string list \<Rightarrow> string option" where
  "handleEmoteOutcomeType data =
     (if length data \<ge> 8 \<and> data ! 7 \<in> set OUTCOMES then Some (mapOutcomeToString (data ! 7))
      else if length data \<ge> 9 \<and> data ! 8 \<in> set OUTCOMES then Some (mapOutcomeToString (data ! 8))
      else None)"

definition buildEmoteItem :: "Item \<Rightarrow> emotes \<Rightarrow> Emote option" where
  "buildEmoteItem item emotes =
     (let data = raw_fields item;
          dataHasValidLength =
            (length data = 6 \<or> length data = 7 \<or> length data = 8 \<or> length data = 9)
      in if dataHasValidLength \<and> isValidBodyShape (js_split (data ! 5) '','')
         then
           (let isOutcomeType = (length data \<ge> 8 \<and> data ! 7 \<in> set OUTCOMES)
            in Some
              \<lparr>emo_id = (case mget emotes (itm_id item) of Some em \<Rightarrow> emo_id em | None \<Rightarrow> itm_id item),
               emo_collection = itm_collection item,
               emo_name = data ! 2,
               emo_description = data ! 3,
               emo_category = (if isValidEmoteCategory (data ! 4) then data ! 4 else ''dance''),
               emo_loop = (length data \<ge> 7 \<and> isValidLoopValue (data ! 6) \<and> data ! 6 = ''1''),
               emo_rarity = itm_rarity item,
               emo_bodyShapes = js_split (data ! 5) '','',
               emo_hasSound = (length data \<ge> 8 \<and> \<not> isOutcomeType \<and> str_includes (data ! 7) ''s''),
               emo_hasGeometry = (length data \<ge> 8 \<and> \<not> isOutcomeType \<and> str_includes (data ! 7) ''g''),
               emo_outcomeType = handleEmoteOutcomeType data\<rparr>)
         else None)"

section \<open>Metadata rows\<close>

type_synonym metadata_state = "metadatas \<times> wearables \<times> emotes"

definition set_itemType :: "itemType \<Rightarrow> Metadata \<Rightarrow> Metadata" where
  "set_itemType t m = m\<lparr>met_itemType := t\<rparr>"

definition metadata_wearable ::
  "itemType \<Rightarrow> Item \<Rightarrow> Metadata \<Rightarrow> wearables \<Rightarrow> Metadata \<times> wearables" where
  "metadata_wearable ty item metadata wearables =
     (case buildWearableItem item wearables of
        Some wearable \<Rightarrow>
          (metadata\<lparr>met_itemType := ty, met_wearable := Some wearable\<rparr>,
           mset wearables (itm_id item) wearable)
      | None \<Rightarrow> (set_itemType IT_undefined metadata, wearables))"

definition metadata_emote :: "Item \<Rightarrow> Metadata \<Rightarrow> emotes \<Rightarrow> Metadata \<times> emotes" where
  "metadata_emote item metadata emotes =
     (case buildEmoteItem item emotes of
        Some emote \<Rightarrow>
          (metadata\<lparr>met_itemType := IT_emote_v1, met_emote := Some emote\<rparr>,
           mset emotes (itm_id item) emote)
      | None \<Rightarrow> (set_itemType IT_undefined metadata, emotes))"

definition buildItemMetadata ::
  "Item \<Rightarrow> metadatas \<Rightarrow> wearables \<Rightarrow> emotes \<Rightarrow> Metadata \<times> metadata_state" where
  "buildItemMetadata item metadatas wearables emotes =
     (let i = itm_id item;
          metadata = (case mget metadatas i of
                        Some m \<Rightarrow> m
                      | None \<Rightarrow> \<lparr>met_id = i, met_itemType = IT_undefined, met_wearable = None,
                                  met_emote = None, met_network = POLYGON\<rparr>);
          data = raw_fields item;
          store = (\<lambda>m w em. (m, mset metadatas i m, w, em))
      in if length data \<ge> 2 then
           (if data ! 1 = ''w'' then
              (case metadata_wearable IT_wearable_v2 item metadata wearables of
                 (m, w) \<Rightarrow> store m w emotes)
            else if data ! 1 = ''sw'' then
              (case metadata_wearable IT_smart_wearable_v1 item metadata wearables of
                 (m, w) \<Rightarrow> store m w emotes)
            else if data ! 1 = ''e'' then
              (case metadata_emote item metadata emotes of (m, em) \<Rightarrow> store m wearables em)
            else store (set_itemType IT_undefined metadata) wearables emotes)
         else store (set_itemType IT_undefined metadata) wearables emotes)"

section \<open>Search columns\<close>

text \<open>A template literal prints an unset column as \<^verbatim>\<open>undefined\<close>.\<close>

definition show_opt :: "string option \<Rightarrow> string" where
  "show_opt v = (case v of None \<Rightarrow> ''undefined'' | Some s \<Rightarrow> s)"

definition wearable_text :: "Wearable \<Rightarrow> string" where
  "wearable_text w = show_opt (wea_name w) @ '' '' @ show_opt (wea_description w)"

definition setItemWearableSearchFields :: "Item \<Rightarrow> metadatas \<Rightarrow> wearables \<Rightarrow> Item" where
  "setItemWearableSearchFields item metadatas wearables =
     (case itm_metadata item of
        None \<Rightarrow> item
      | Some mid \<Rightarrow>
          (case mget metadatas mid of
             None \<Rightarrow> item
           | Some metadata \<Rightarrow>
               (case met_wearable metadata of
                  None \<Rightarrow> item
                | Some w0 \<Rightarrow>
                    (let item' = (case mget wearables (wea_id w0) of
                         None \<Rightarrow> item
                       | Some w \<Rightarrow>
                           item\<lparr>itm_searchText := Some (toLowerCase (wearable_text w)),
                                itm_searchIsWearableHead := Some (isWearableHead (wea_category w)),
                                itm_searchIsWearableAccessory := Some (isWearableAccessory (wea_category w)),
                                itm_searchWearableCategory := wea_category w,
                                itm_searchWearableBodyShapes := wea_bodyShapes w,
                                itm_searchWearableRarity := wea_rarity w\<rparr>)
                     in item'\<lparr>itm_searchItemType := Some (itemType_str (itm_itemType item'))\<rparr>))))"

definition setItemEmoteSearchFields :: "Item \<Rightarrow> metadatas \<Rightarrow> emotes \<Rightarrow> Item" where
  "setItemEmoteSearchFields item metadatas emotes =
     (case itm_metadata item of
        None \<Rightarrow> item
      | Some mid \<Rightarrow>
          (case mget metadatas mid of
             None \<Rightarrow> item
           | Some metadata \<Rightarrow>
               (case met_emote metadata of
                  None \<Rightarrow> item
                | Some e0 \<Rightarrow>
                    (let item' = (case mget emotes (emo_id e0) of
                         None \<Rightarrow> item
                       | Some em \<Rightarrow>
                           item\<lparr>itm_searchText :=
                                  Some (toLowerCase (emo_name em @ '' '' @ emo_description em)),
                                itm_searchEmoteCategory := Some (emo_category em),
                                itm_searchEmoteLoop := Some (emo_loop em),
                                itm_searchEmoteBodyShapes := Some (emo_bodyShapes em),
                                itm_searchEmoteRarity := Some (emo_rarity em),
                                itm_searchEmoteHasSound := Some (emo_hasSound em),
                                itm_searchEmoteHasGeometry := Some (emo_hasGeometry em),
                                itm_searchEmoteOutcomeType := emo_outcomeType em\<rparr>)
                     in item'\<lparr>itm_searchItemType := Some (itemType_str (itm_itemType item'))\<rparr>))))"

definition wearable_type :: "itemType \<Rightarrow> bool" where
  "wearable_type t \<longleftrightarrow> t = IT_wearable_v2 \<or> t = IT_wearable_v1 \<or> t = IT_smart_wearable_v1"

definition setItemSearchFields :: "Item \<Rightarrow> metadatas \<Rightarrow> wearables \<Rightarrow> emotes option \<Rightarrow> Item" where
  "setItemSearchFields item metadatas wearables emotes =
     (let item1 = (if wearable_type (itm_itemType item)
                   then setItemWearableSearchFields item metadatas wearables else item)
      in case emotes of
           Some em \<Rightarrow> if itm_itemType item1 = IT_emote_v1
                      then setItemEmoteSearchFields item1 metadatas em else item1
         | None \<Rightarrow> item1)"

definition setNFTWearableSearchFields :: "NFT \<Rightarrow> metadatas \<Rightarrow> NFT" where
  "setNFTWearableSearchFields nft metadatas =
     (case nft_metadata nft of
        None \<Rightarrow> nft
      | Some mid \<Rightarrow>
          (case mget metadatas mid of
             None \<Rightarrow> nft
           | Some metadata \<Rightarrow>
               (case met_wearable metadata of
                  None \<Rightarrow> nft
                | Some w \<Rightarrow>
                    nft\<lparr>nft_searchText := Some (wearable_text w),
                        nft_searchItemType := map_option itemType_str (nft_itemType nft),
                        nft_searchIsWearableHead := Some (isWearableHead (wea_category w)),
                        nft_searchIsWearableAccessory := Some (isWearableAccessory (wea_category w)),
                        nft_searchWearableCategory := wea_category w,
                        nft_searchWearableBodyShapes := wea_bodyShapes w,
                        nft_searchWearableRarity := wea_rarity w\<rparr>)))"

definition setNFTEmoteSearchFields :: "NFT \<Rightarrow> metadatas \<Rightarrow> NFT" where
  "setNFTEmoteSearchFields nft metadatas =
     (case nft_metadata nft of
        None \<Rightarrow> nft
      | Some mid \<Rightarrow>
          (case mget metadatas mid of
             None \<Rightarrow> nft
           | Some metadata \<Rightarrow>
               (case met_emote metadata of
                  None \<Rightarrow> nft
                | Some em \<Rightarrow>
                    nft\<lparr>nft_searchText :=
                          Some (toLowerCase (emo_name em @ '' '' @ emo_description em)),
                        nft_searchEmoteCategory := Some (emo_category em),
                        nft_searchEmoteLoop := Some (emo_loop em),
                        nft_searchEmoteBodyShapes := Some (emo_bodyShapes em),
                        nft_searchEmoteRarity := Some (emo_rarity em),
                        nft_searchItemType := map_option itemType_str (nft_itemType nft)\<rparr>)))"

definition setNFTSearchFields :: "NFT \<Rightarrow> metadatas \<Rightarrow> NFT" where
  "setNFTSearchFields nft metadatas =
     (case nft_itemType nft of
        None \<Rightarrow> nft
      | Some t \<Rightarrow>
          if wearable_type t then setNFTWearableSearchFields nft metadatas
          else if t = IT_emote_v1 then setNFTEmoteSearchFields nft metadatas
          else nft)"

section \<open>Item helpers\<close>

definition getItemImage :: "env \<Rightarrow> Item \<Rightarrow> string" where
  "getItemImage e item =
     getCatalystBase (poly_chainId e) @ ''/lambdas/collections/contents/'' @ itm_urn item @ ''/thumbnail''"

definition removeItemMinter :: "Item \<Rightarrow> string \<Rightarrow> string list" where
  "removeItemMinter item minter = filter (\<lambda>i. i \<noteq> minter) (itm_minters item)"

definition getURNForCollectionV1 :: "env \<Rightarrow> Collection \<Rightarrow> network \<Rightarrow> string" where
  "getURNForCollectionV1 e collection net =
     (let collectionName = js_split (col_name collection) ''dcl://'' in
      baseDecentralandURN @ getNetwork e net @ '':collections-v1:'' @
      (if length collectionName > 1 then collectionName ! 1 else collectionName ! 0))"

definition getURNForWearableV1 :: "env \<Rightarrow> Collection \<Rightarrow> string \<Rightarrow> network \<Rightarrow> string" where
  "getURNForWearableV1 e collection representationId net =
     getURNForCollectionV1 e collection net @ '':'' @ representationId"

definition getURNForWearableV2 :: "env \<Rightarrow> string \<Rightarrow> string \<Rightarrow> network \<Rightarrow> string" where
  "getURNForWearableV2 e collectionAddress itemId net =
     getURNForCollectionV2 e net collectionAddress @ '':'' @ itemId"

section \<open>What the builders guarantee\<close>

text \<open>
  The check of body shapes never rejects anything. The loop condition is the old value of the
  counter, which starts at zero, so the body is never entered and every list is accepted, in
  particular lists with a shape that is neither \<^verbatim>\<open>BaseFemale\<close> nor \<^verbatim>\<open>BaseMale\<close>.
\<close>

lemma isValidBodyShape_True [simp]: "isValidBodyShape bs = True"
  by (simp add: isValidBodyShape_def body_shape_loop.simps)

lemma raw_fields_join:
  "itm_rawMetadata item = js_join CHR '':'' fs \<Longrightarrow> fs \<noteq> [] \<Longrightarrow> \<forall>f \<in> set fs. CHR '':'' \<notin> set f \<Longrightarrow>
   raw_fields item = fs"
  by (simp add: raw_fields_def js_split_join)

text \<open>
  C35: round trip of wearable metadata. If an item's raw metadata is written in the documented
  format \<^verbatim>\<open>version:type:name:description:category:bodyshapes\<close> with type \<^verbatim>\<open>w\<close> or \<^verbatim>\<open>sw\<close>, with colon-free
  fields, comma-free body shapes and a known category, then the metadata row built for it is
  stored under the item's id, has the type \<^verbatim>\<open>wearable_v2\<close> or \<^verbatim>\<open>smart_wearable_v1\<close>, and its wearable
  carries exactly these fields and the item's rarity, and is stored under the item's id too.
\<close>

theorem buildItemMetadata_wearable_roundtrip:
  assumes raw: "itm_rawMetadata item =
      js_join CHR '':'' [version, ty, name, desc, cat, js_join CHR '','' shapes]"
    and colon: "\<forall>f \<in> set [version, ty, name, desc, cat, js_join CHR '','' shapes]. CHR '':'' \<notin> set f"
    and comma: "shapes \<noteq> []" "\<forall>s \<in> set shapes. CHR '','' \<notin> set s"
    and known: "ty \<in> {''w'', ''sw''}" "isValidWearableCategory cat"
    and built: "buildItemMetadata item metadatas wearables emotes = (m, metadatas', wearables', emotes')"
  shows "mget metadatas' (itm_id item) = Some m \<and>
    met_itemType m = (if ty = ''w'' then IT_wearable_v2 else IT_smart_wearable_v1) \<and>
    (\<exists>w. met_wearable m = Some w \<and> mget wearables' (itm_id item) = Some w \<and>
      wea_name w = Some name \<and> wea_description w = Some desc \<and> wea_category w = Some cat \<and>
      wea_bodyShapes w = Some shapes \<and> wea_rarity w = Some (itm_rarity item) \<and>
      wea_network w = Some POLYGON) \<and>
    emotes' = emotes"
proof -
  have fields: "raw_fields item = [version, ty, name, desc, cat, js_join CHR '','' shapes]"
    using raw_fields_join [OF raw _ colon] by simp
  obtain w where w: "buildWearableItem item wearables = Some w"
    "wea_name w = Some name" "wea_description w = Some desc" "wea_category w = Some cat"
    "wea_bodyShapes w = Some shapes" "wea_rarity w = Some (itm_rarity item)"
    "wea_network w = Some POLYGON"
    using known(2) by (simp add: buildWearableItem_def fields Let_def js_split_join [OF comma])
  show ?thesis
    using known(1) built w by (auto simp: buildItemMetadata_def fields metadata_wearable_def Let_def)
qed

text \<open>An item row with the given id and raw metadata, for evaluating the builders.\<close>

definition sample_item :: "string \<Rightarrow> string \<Rightarrow> string \<Rightarrow> Item" where
  "sample_item i c raw =
     \<lparr>itm_id = i, itm_collection = c, itm_blockchainId = 0, itm_creator = [],
      itm_itemType = IT_undefined, itm_totalSupply = 0, itm_maxSupply = 0, itm_rarity = ''epic'',
      itm_creationFee = 0, itm_available = 0, itm_price = 0, itm_beneficiary = [],
      itm_contentHash = None, itm_uri = [], itm_image = None, itm_minters = [], itm_managers = [],
      itm_metadata = None, itm_rawMetadata = raw, itm_urn = [], itm_createdAt = 0,
      itm_updatedAt = 0, itm_reviewedAt = 0, itm_soldAt = None, itm_firstListedAt = None,
      itm_sales = 0, itm_volume = 0, itm_searchText = None, itm_searchItemType = None,
      itm_searchIsCollectionApproved = None, itm_searchIsStoreMinter = False,
      itm_searchIsMarketplaceV3Minter = False, itm_searchIsWearableHead = None,
      itm_searchIsWearableAccessory = None, itm_searchWearableCategory = None,
      itm_searchWearableRarity = None, itm_searchWearableBodyShapes = None,
      itm_searchEmoteCategory = None, itm_searchEmoteLoop = None, itm_searchEmoteRarity = None,
      itm_searchEmoteBodyShapes = None, itm_searchEmoteHasSound = None,
      itm_searchEmoteHasGeometry = None, itm_searchEmoteOutcomeType = None,
      itm_uniqueCollectors = [], itm_uniqueCollectorsTotal = 0, itm_network = POLYGON\<rparr>"

lemma itm_sample_item [simp]:
  "itm_id (sample_item i c raw) = i" "itm_rawMetadata (sample_item i c raw) = raw"
  "itm_collection (sample_item i c raw) = c" "itm_rarity (sample_item i c raw) = ''epic''"
  by (simp_all add: sample_item_def)

theorem buildItemMetadata_wearable_roundtrip_witness:
  "\<exists>m md ws es. buildItemMetadata
       (sample_item ''0xc-0'' ''0xc'' ''1:w:Blue hat:A hat:hat:BaseFemale,BaseMale'') [] [] [] = (m, md, ws, es) \<and>
     met_itemType m = IT_wearable_v2 \<and>
     (\<exists>w. met_wearable m = Some w \<and> wea_name w = Some ''Blue hat'' \<and>
        wea_bodyShapes w = Some [''BaseFemale'', ''BaseMale''])"
proof -
  let ?item = "sample_item ''0xc-0'' ''0xc'' ''1:w:Blue hat:A hat:hat:BaseFemale,BaseMale''"
  obtain m md ws es where b: "buildItemMetadata ?item [] [] [] = (m, md, ws, es)"
    by (cases "buildItemMetadata ?item [] [] []") auto
  show ?thesis
    using buildItemMetadata_wearable_roundtrip [OF _ _ _ _ _ _ b, of "''1''" "''w''" "''Blue hat''"
        "''A hat''" "''hat''" "[''BaseFemale'', ''BaseMale'']"] b
    by (auto simp: isValidWearableCategory_def)
qed

text \<open>The search columns of an NFT are not order columns.\<close>

lemma order_view_setNFTSearchFields [simp]:
  "order_view (setNFTSearchFields nft metadatas) = order_view nft"
  "nft_id (setNFTSearchFields nft metadatas) = nft_id nft"
  by (simp_all add: setNFTSearchFields_def setNFTWearableSearchFields_def setNFTEmoteSearchFields_def
      order_view_def split: option.split)

end
