(* ===== verification/Eth_Land.thy ===== *)
theory Eth_Land
  imports Squid_Orders
begin

text \<open>
  LAND tokens: \<^verbatim>\<open>eth/modules/land.ts\<close> (a token id packs two signed 128-bit coordinates) and the
  helpers of \<^verbatim>\<open>eth/LANDs/utils.ts\<close>. The bit operations on \<^verbatim>\<open>bigint\<close> are those of the integers in
  two's complement. \<^verbatim>\<open>Number\<close> on the decoded coordinates is the identity: rounding cannot move
  a value across the bounds that are checked right after it.
\<close>

unbundle bit_operations_syntax

section \<open>Token ids\<close>

definition clearLow :: int where
  "clearLow = 0xFFFFFFFFFFFFFFFFFFFFFFFFFFFFFFFF00000000000000000000000000000000"

definition clearHigh :: int where
  "clearHigh = 0x00000000000000000000000000000000FFFFFFFFFFFFFFFFFFFFFFFFFFFFFFFF"

definition expandNegative128BitCast :: "int \<Rightarrow> int" where
  "expandNegative128BitCast v =
     (let bit128 = push_bit 127 1; mask128 = bit128 - 1 in
      if v AND bit128 \<noteq> 0 then v OR NOT mask128 else v)"

definition unsafeDecodeTokenId :: "int \<Rightarrow> int \<times> int" where
  "unsafeDecodeTokenId v =
     (expandNegative128BitCast (drop_bit 128 (v AND clearLow)),
      expandNegative128BitCast (v AND clearHigh))"

definition land_decodeTokenId :: "int \<Rightarrow> (int \<times> int) result" where
  "land_decodeTokenId v =
     (case unsafeDecodeTokenId v of
        (x, y) \<Rightarrow>
          if -1000000 < x \<and> x < 1000000 \<and> -1000000 < y \<and> y < 1000000
          then Inr (x, y)
          else Inl (JsError ''The coordinates should be inside bounds''))"

type_synonym coordinates = "(int, int \<times> int) jsmap"

definition decodeTokenIdsToCoordinates :: "int list \<Rightarrow> coordinates result" where
  "decodeTokenIdsToCoordinates tokenIds =
     foldR (\<lambda>m tokenId. bindR (land_decodeTokenId tokenId) (\<lambda>coords. Inr (mset m tokenId coords)))
       [] tokenIds"

text \<open>How the LAND registry packs a coordinate pair into a token id.\<close>

definition encodeTokenId :: "int \<Rightarrow> int \<Rightarrow> int" where
  "encodeTokenId x y = (x mod 2 ^ 128) * 2 ^ 128 + y mod 2 ^ 128"

lemma clearHigh_mask: "clearHigh = mask 128"
  by (simp add: clearHigh_def mask_eq_exp_minus_1)

lemma clearLow_mask: "clearLow = push_bit 128 (mask 128)"
  by (simp add: clearLow_def mask_eq_exp_minus_1 push_bit_eq_mult)

lemma low_part: "v AND clearHigh = v mod 2 ^ 128"
  unfolding clearHigh_mask take_bit_eq_mask [symmetric] take_bit_eq_mod by simp

lemma high_part: "drop_bit 128 (v AND clearLow) = (v div 2 ^ 128) mod 2 ^ 128"
proof -
  have "drop_bit 128 (v AND clearLow) = drop_bit 128 v AND mask 128"
    unfolding clearLow_mask by (simp add: drop_bit_push_bit)
  then show ?thesis
    unfolding take_bit_eq_mask [symmetric] take_bit_eq_mod drop_bit_eq_div by simp
qed

text \<open>The value of a word of \<open>Suc n\<close> bits read in two's complement, for any width.\<close>

lemma top_bit:
  assumes "0 \<le> v" and "v < 2 ^ Suc n"
  shows "bit v n \<longleftrightarrow> 2 ^ n \<le> (v::int)"
proof -
  have "v = take_bit (Suc n) v"
    using assms by (simp add: take_bit_int_eq_self)
  then have v: "v = 2 ^ n * of_bool (bit v n) + take_bit n v"
    by (simp add: take_bit_Suc_from_most)
  have bounds: "0 \<le> take_bit n v" "take_bit n v < 2 ^ n"
    by simp_all
  show ?thesis
  proof (cases "bit v n")
    case True
    then have "v = 2 ^ n + take_bit n v" using v by simp
    then show ?thesis using bounds(1) True by linarith
  next
    case False
    then have "v = take_bit n v" using v by simp
    then show ?thesis using bounds(2) False by linarith
  qed
qed

lemma or_not_mask: "(v::int) OR NOT (2 ^ n - 1) = v mod 2 ^ n - 2 ^ n"
proof -
  have "v OR NOT (mask n) = take_bit n v OR NOT (mask n)"
    by (rule bit_eqI) (auto simp: bit_simps)
  also have "\<dots> = take_bit n v + NOT (mask n)"
    by (rule disjunctive_add [symmetric]) (auto simp: bit_simps)
  also have "\<dots> = v mod 2 ^ n - 2 ^ n"
    by (simp add: take_bit_eq_mod mask_eq_exp_minus_1 not_eq_complement)
  finally show ?thesis by (simp add: mask_eq_exp_minus_1)
qed

lemma mod_top:
  assumes "2 ^ n \<le> v" and "v < 2 ^ Suc n"
  shows "(v::int) mod 2 ^ n = v - 2 ^ n"
proof -
  have "v mod 2 ^ n = (v - 2 ^ n) mod 2 ^ n" by simp
  also have "\<dots> = v - 2 ^ n" using assms by (intro mod_pos_pos_trivial) auto
  finally show ?thesis .
qed

lemma sign_extend:
  assumes "0 \<le> v" and "v < 2 ^ Suc n"
  shows "(if v AND push_bit n 1 \<noteq> 0 then v OR NOT (push_bit n 1 - 1) else v) =
         (if 2 ^ n \<le> (v::int) then v - 2 ^ Suc n else v)"
  using top_bit [OF assms] mod_top [of n v] assms(2) or_not_mask [of v n]
  by (simp add: push_bit_eq_mult and_exp_eq_0_iff_not_bit)

lemma expandNegative128BitCast_signed:
  assumes "0 \<le> v" and "v < 2 ^ 128"
  shows "expandNegative128BitCast v = (if 2 ^ 127 \<le> v then v - 2 ^ 128 else v)"
proof -
  have "Suc 127 = 128" by simp
  then show ?thesis
    using sign_extend [of v 127] assms unfolding expandNegative128BitCast_def Let_def by metis
qed

text \<open>Reading a 128-bit word as a signed number and writing it back.\<close>

definition signed128 :: "int \<Rightarrow> int" where
  "signed128 v = (if 2 ^ 127 \<le> v then v - 2 ^ 128 else v)"

lemma unsafeDecodeTokenId_signed:
  "unsafeDecodeTokenId v =
     (signed128 ((v div 2 ^ 128) mod 2 ^ 128), signed128 (v mod 2 ^ 128))"
proof -
  have "expandNegative128BitCast (w mod 2 ^ 128) = signed128 (w mod 2 ^ 128)" for w
    unfolding signed128_def by (rule expandNegative128BitCast_signed) simp_all
  then show ?thesis unfolding unsafeDecodeTokenId_def low_part high_part by simp
qed

lemma signed128_mod:
  assumes "- (2 ^ 127) \<le> x" and "x < 2 ^ 127"
  shows "signed128 (x mod 2 ^ 128) = x"
proof (cases "0 \<le> x")
  case True
  then have "x mod 2 ^ 128 = x" using assms by (intro mod_pos_pos_trivial) auto
  then show ?thesis using assms by (simp add: signed128_def)
next
  case False
  have "x mod 2 ^ 128 = (x + 2 ^ 128) mod 2 ^ 128" by simp
  also have "\<dots> = x + 2 ^ 128" using False assms by (intro mod_pos_pos_trivial) auto
  finally show ?thesis using False assms by (simp add: signed128_def)
qed

lemma mod_signed128: "0 \<le> v \<Longrightarrow> v < 2 ^ 128 \<Longrightarrow> signed128 v mod 2 ^ 128 = v"
  by (simp add: signed128_def)

lemma encodeTokenId_parts:
  "encodeTokenId x y div 2 ^ 128 = x mod 2 ^ 128" "encodeTokenId x y mod 2 ^ 128 = y mod 2 ^ 128"
  by (simp_all add: encodeTokenId_def)

lemma land_decodeTokenId_parts:
  "0 \<le> v \<Longrightarrow> v < 2 ^ 256 \<Longrightarrow> unsafeDecodeTokenId v = (x, y) \<Longrightarrow> v = encodeTokenId x y"
proof -
  assume v: "0 \<le> v" "v < 2 ^ 256" and xy: "unsafeDecodeTokenId v = (x, y)"
  have high: "0 \<le> v div 2 ^ 128" using v by (simp add: pos_imp_zdiv_nonneg_iff)
  have "v div 2 ^ 128 * 2 ^ 128 \<le> v"
    using pos_mod_sign [of "2 ^ 128" v] minus_mod_eq_div_mult [of v "2 ^ 128"] by simp
  then have "v div 2 ^ 128 < 2 ^ 128" using v(2) by simp
  then have "signed128 (v div 2 ^ 128) mod 2 ^ 128 = v div 2 ^ 128"
    and "(v div 2 ^ 128) mod 2 ^ 128 = v div 2 ^ 128"
    using mod_signed128 [OF high] mod_pos_pos_trivial [OF high] by blast+
  moreover have "signed128 (v mod 2 ^ 128) mod 2 ^ 128 = v mod 2 ^ 128"
    by (rule mod_signed128) simp_all
  ultimately have x: "x mod 2 ^ 128 = v div 2 ^ 128" and y: "y mod 2 ^ 128 = v mod 2 ^ 128"
    using xy unfolding unsafeDecodeTokenId_signed by auto
  then show "v = encodeTokenId x y"
    unfolding encodeTokenId_def using div_mult_mod_eq [of v "2 ^ 128"] by simp
qed

text \<open>
  C15: decoding a LAND token id inverts the packing. For a 256-bit token id, decoding yields the
  coordinates (x, y) exactly when both are strictly between -1000000 and 1000000 and the id is
  their packing, negative coordinates in two's complement; every other id is rejected with an
  exception and decodes to nothing.
\<close>

theorem land_decodeTokenId_iff:
  assumes "0 \<le> v" and "v < 2 ^ 256"
  shows "land_decodeTokenId v = Inr (x, y) \<longleftrightarrow>
    \<bar>x\<bar> < 1000000 \<and> \<bar>y\<bar> < 1000000 \<and> v = encodeTokenId x y"
proof
  assume dec: "land_decodeTokenId v = Inr (x, y)"
  obtain a b where ab: "unsafeDecodeTokenId v = (a, b)" by (cases "unsafeDecodeTokenId v")
  with dec have "a = x" "b = y" "\<bar>x\<bar> < 1000000" "\<bar>y\<bar> < 1000000"
    by (auto simp: land_decodeTokenId_def split: if_splits)
  then show "\<bar>x\<bar> < 1000000 \<and> \<bar>y\<bar> < 1000000 \<and> v = encodeTokenId x y"
    using land_decodeTokenId_parts [OF assms ab] by simp
next
  assume enc: "\<bar>x\<bar> < 1000000 \<and> \<bar>y\<bar> < 1000000 \<and> v = encodeTokenId x y"
  have "signed128 (i mod 2 ^ 128) = i" if "\<bar>i\<bar> < 1000000" for i
    by (rule signed128_mod) (use that in auto)
  with enc have "signed128 (x mod 2 ^ 128) = x" "signed128 (y mod 2 ^ 128) = y" by blast+
  with enc have "unsafeDecodeTokenId v = (x, y)"
    unfolding unsafeDecodeTokenId_signed by (simp only: encodeTokenId_parts mod_mod_trivial)
  with enc show "land_decodeTokenId v = Inr (x, y)"
    by (auto simp: land_decodeTokenId_def)
qed

theorem land_decodeTokenId_iff_witness:
  "land_decodeTokenId (encodeTokenId (- 3) 7) = Inr (- 3, 7) \<and>
   land_decodeTokenId (encodeTokenId 1000000 0) \<noteq> Inr (1000000, 0)"
  using land_decodeTokenId_iff [of "encodeTokenId (- 3) 7" "- 3" 7]
    land_decodeTokenId_iff [of "encodeTokenId 1000000 0" 1000000 0]
  by (simp add: encodeTokenId_def)

section \<open>Parcels and estates\<close>

definition buildParcelFromNFT :: "NFT \<Rightarrow> int \<times> int \<Rightarrow> Parcel" where
  "buildParcelFromNFT nft coords =
     (new_Parcel (nft_id nft))\<lparr>par_x := Some (fst coords), par_y := Some (snd coords),
        par_tokenId := nft_tokenId nft, par_owner := nft_owner nft\<rparr>"

definition buildEstateFromNFT :: "NFT \<Rightarrow> Estate" where
  "buildEstateFromNFT nft =
     (new_Estate (nft_id nft))\<lparr>est_tokenId := nft_tokenId nft, est_owner := nft_owner nft,
        est_size := Some 0, est_parcelDistances := Some [], est_adjacentToRoadCount := Some 0\<rparr>"

text \<open>Methods called on a column that may be undefined throw a \<^verbatim>\<open>TypeError\<close>.\<close>

definition getEstateImage :: "Estate \<Rightarrow> string result" where
  "getEstateImage estate =
     bindR (throw_if_none TypeError (est_tokenId estate))
       (\<lambda>t. Inr (''https://api.decentraland.org/v1/estates/'' @ toStr t @ ''/map.png''))"

definition getParcelText :: "Parcel \<Rightarrow> string \<Rightarrow> string result" where
  "getParcelText parcel name =
     bindR (throw_if_none TypeError (par_x parcel)) (\<lambda>x.
     bindR (throw_if_none TypeError (par_y parcel)) (\<lambda>y.
       let text = toStr x @ '','' @ toStr y in
       Inr (if name \<noteq> [] then text @ '','' @ toLowerCase name else text)))"

definition getParcelImage :: "Parcel \<Rightarrow> string result" where
  "getParcelImage parcel =
     bindR (throw_if_none TypeError (par_x parcel)) (\<lambda>x.
     bindR (throw_if_none TypeError (par_y parcel)) (\<lambda>y.
       Inr (''https://api.decentraland.org/v1/parcels/'' @ toStr x @ ''/'' @ toStr y @ ''/map.png'')))"

definition getDistanceToPlaza :: "env \<Rightarrow> Parcel \<Rightarrow> int result" where
  "getDistanceToPlaza e parcel =
     bindR (getParcelText parcel []) (\<lambda>coord.
       Inr (case mget (env_proximities e) coord of Some (r, p) \<Rightarrow> p | None \<Rightarrow> - 1))"

definition getAdjacentToRoad :: "env \<Rightarrow> Parcel \<Rightarrow> bool result" where
  "getAdjacentToRoad e parcel =
     bindR (getParcelText parcel []) (\<lambda>coord.
       Inr (case mget (env_proximities e) coord of Some (r, p) \<Rightarrow> r | None \<Rightarrow> False))"

definition isInBounds :: "int \<Rightarrow> int \<Rightarrow> bool" where
  "isInBounds x y = (- 150 \<le> x \<and> x \<le> 150 \<and> - 150 \<le> y \<and> y \<le> 150)"

definition buildENSFromNFT :: "NFT \<Rightarrow> ENS" where
  "buildENSFromNFT nft =
     (new_ENS (nft_id nft))\<lparr>ens_tokenId := nft_tokenId nft, ens_owner := nft_owner nft\<rparr>"

text \<open>A parcel with coordinates always has a text, a distance and a road flag.\<close>

lemma land_total:
  assumes "par_x parcel = Some x" and "par_y parcel = Some y"
  shows "\<exists>t. getParcelText parcel n = Inr t" and "\<exists>d. getDistanceToPlaza e parcel = Inr d"
    and "\<exists>r. getAdjacentToRoad e parcel = Inr r" and "\<exists>i. getParcelImage parcel = Inr i"
  using assms
  by (simp_all add: getParcelText_def getDistanceToPlaza_def getAdjacentToRoad_def
      getParcelImage_def Let_def)

end
