(* ===== verification/Eth_Wearable.thy ===== *)
theory Eth_Wearable
  imports Squid_Metadata Eth_Land
begin

text \<open>
  The wearables of the first collections (\<^verbatim>\<open>eth/modules/wearable.ts\<close>): token URIs, the catalogue
  search and the rows built from it. The catalogues themselves are data tables of the environment
  (\<open>env_catalogue\<close>), named by the constants of \<^verbatim>\<open>eth/data/wearables\<close>.
\<close>

text \<open>A constant of \<^verbatim>\<open>eth/data/wearables\<close> and the collection name the code pairs it with.\<close>

definition nft_catalogues :: "(string \<times> string) list" where
  "nft_catalogues =
     [(''atari_launch'', ''atari_launch''),
      (''binance_us_collection'', ''binance_us_collection''),
      (''china_flying'', ''china_flying''),
      (''community_contest'', ''community_contest''),
      (''cybermike_cybersoldier_set'', ''cybermike_cybersoldier_set''),
      (''cz_mercenary_mtz'', ''cz_mercenary_mtz''),
      (''dappcraft_moonminer'', ''dappcraft_moonminer''),
      (''dc_meta'', ''dc_meta''),
      (''dc_niftyblocksmith'', ''dc_niftyblocksmith''),
      (''dcg_collection'', ''dcg_collection''),
      (''dcl_launch'', ''dcl_launch''),
      (''dg_atari_dillon_francis'', ''dg_atari_dillon_francis''),
      (''dg_fall_2020'', ''dg_fall_2020''),
      (''dg_summer_2020'', ''dg_summer_2020''),
      (''dgtble_headspace'', ''dgtble_headspace''),
      (''digital_alchemy'', ''digital_alchemy''),
      (''ethermon_wearables'', ''ethermon_wearables''),
      (''exclusive_masks'', ''exclusive_masks''),
      (''halloween_2019'', ''halloween_2019''),
      (''halloween_2020'', ''halloween_2020''),
      (''mch_collection'', ''mch_collection''),
      (''meme_dontbuythis'', ''meme_dontbuythis''),
      (''mf_sammichgamer'', ''mf_sammichgamer''),
      (''ml_liondance'', ''ml_liondance''),
      (''ml_pekingopera'', ''ml_pekingopera''),
      (''moonshot_2020'', ''moonshot_2020''),
      (''pm_dreamverse_eminence'', ''pm_dreamverse_eminence''),
      (''pm_outtathisworld'', ''pm_outtathisworld''),
      (''rac_basics'', ''rac_basics''),
      (''release_the_kraken'', ''release_the_kraken''),
      (''rtfkt_x_atari'', ''rtfkt_x_atari''),
      (''stay_safe'', ''stay_safe''),
      (''sugarclub_yumi'', ''sugarclub_yumi''),
      (''tech_tribal_marc0matic'', ''tech_tribal_marc0matic''),
      (''threelau_basics'', ''3lau_basics''),
      (''winklevoss_capital'', ''winklevoss_capital''),
      (''wonderzone_meteorchaser'', ''wonderzone_meteorchaser''),
      (''wonderzone_steampunk'', ''wonderzone_steampunk''),
      (''wz_wonderbot'', ''wz_wonderbot''),
      (''xmas_2019'', ''xmas_2019''),
      (''xmas_2020'', ''xmas_2020''),
      (''xmash_up_2020'', ''xmash_up_2020'')]"

definition v1_catalogues :: "string list" where
  "v1_catalogues =
     [''binance_us_collection'', ''china_flying'', ''community_contest'',
      ''cybermike_cybersoldier_set'', ''cz_mercenary_mtz'', ''dappcraft_moonminer'', ''dc_meta'',
      ''dc_niftyblocksmith'', ''dcg_collection'', ''dcl_launch'', ''dg_fall_2020'',
      ''dg_summer_2020'', ''dgtble_headspace'', ''digital_alchemy'', ''ethermon_wearables'',
      ''exclusive_masks'', ''halloween_2019'', ''mch_collection'', ''mf_sammichgamer'',
      ''ml_pekingopera'', ''moonshot_2020'', ''pm_dreamverse_eminence'', ''pm_outtathisworld'',
      ''stay_safe'', ''sugarclub_yumi'', ''tech_tribal_marc0matic'', ''wonderzone_meteorchaser'',
      ''wonderzone_steampunk'', ''wz_wonderbot'', ''xmas_2019'', ''halloween_2020'', ''xmas_2020'',
      ''xmash_up_2020'', ''release_the_kraken'', ''threelau_basics'', ''meme_dontbuythis'',
      ''ml_liondance'', ''atari_launch'', ''rtfkt_x_atari'', ''rac_basics'',
      ''winklevoss_capital'', ''dg_atari_dillon_francis'', ''wearable_test'']"

fun findWearable :: "string \<Rightarrow> representation list \<Rightarrow> Wearable" where
  "findWearable i [] = new_Wearable []"
| "findWearable i (r # rs) =
     (if i = rep_id r
      then (new_Wearable i)\<lparr>wea_representationId := Some (rep_id r), wea_name := Some (rep_name r),
             wea_description := Some (rep_description r), wea_category := Some (rep_category r),
             wea_rarity := Some (rep_rarity r), wea_bodyShapes := Some (rep_bodyShapes r),
             wea_network := Some ETHEREUM\<rparr>
      else findWearable i rs)"

definition getWearableIdFromTokenURI :: "string \<Rightarrow> string" where
  "getWearableIdFromTokenURI tokenURI =
     (let splitted = js_split tokenURI ''/'' in
      if length splitted = 11 \<or> length splitted = 5
      then splitted ! (length splitted - 2) else [])"

text \<open>\<open>None\<close> is \<^verbatim>\<open>NaN\<close>, where the last part of the URI is not a number.\<close>

definition getIssuedIdFromTokenURI :: "string \<Rightarrow> int option" where
  "getIssuedIdFromTokenURI tokenURI =
     (let splitted = js_split tokenURI ''/'' in
      if length splitted = 11 \<or> length splitted = 5
      then parseInt (splitted ! (length splitted - 1)) else Some 0)"

fun search_catalogues :: "env \<Rightarrow> NFT \<Rightarrow> string \<Rightarrow> (string \<times> string) list \<Rightarrow> Wearable" where
  "search_catalogues e nft wearableId [] = new_Wearable []"
| "search_catalogues e nft wearableId ((c, name) # cs) =
     (let wearable = findWearable wearableId (env_catalogue e c) in
      if wea_id wearable = wearableId
      then wearable\<lparr>wea_id := nft_id nft, wea_collection := Some name, wea_owner := nft_owner nft\<rparr>
      else search_catalogues e nft wearableId cs)"

text \<open>An unset or empty token URI leaves the id empty and the search goes on.\<close>

definition buildWearableFromNFT :: "env \<Rightarrow> NFT \<Rightarrow> Wearable" where
  "buildWearableFromNFT e nft =
     (case nft_tokenURI nft of
        None \<Rightarrow> search_catalogues e nft [] nft_catalogues
      | Some uri \<Rightarrow>
          if uri = [] then search_catalogues e nft [] nft_catalogues
          else if getWearableIdFromTokenURI uri = [] then new_Wearable []
          else search_catalogues e nft (getWearableIdFromTokenURI uri) nft_catalogues)"

definition getWearableURN :: "env \<Rightarrow> Wearable \<Rightarrow> string" where
  "getWearableURN e wearable =
     ''urn:decentraland:'' @ getNetwork e ETHEREUM @ '':collections-v1:'' @
     show_opt (wea_collection wearable) @ '':'' @ show_opt (wea_representationId wearable)"

definition getWearableImage :: "env \<Rightarrow> Wearable \<Rightarrow> string" where
  "getWearableImage e wearable =
     getCatalystBase (eth_chainId e) @ ''/lambdas/collections/contents/'' @
     getWearableURN e wearable @ ''/thumbnail''"

fun search_v1 :: "env \<Rightarrow> string \<Rightarrow> string list \<Rightarrow> Wearable option" where
  "search_v1 e wearableId [] = None"
| "search_v1 e wearableId (c # cs) =
     (let wearable = findWearable wearableId (env_catalogue e c) in
      if wea_id wearable = wearableId then Some wearable else search_v1 e wearableId cs)"

definition getWearableV1Representation :: "env \<Rightarrow> string \<Rightarrow> Wearable option" where
  "getWearableV1Representation e wearableId =
     (if wearableId = [] then None else search_v1 e wearableId v1_catalogues)"

definition buildWearableV1 :: "Item \<Rightarrow> Wearable \<Rightarrow> Wearable" where
  "buildWearableV1 item representation =
     (new_Wearable (wea_id representation))\<lparr>wea_collection := Some (itm_collection item),
        wea_name := wea_name representation, wea_description := wea_description representation,
        wea_rarity := wea_rarity representation, wea_category := wea_category representation,
        wea_bodyShapes := wea_bodyShapes representation, wea_network := Some ETHEREUM\<rparr>"

definition buildWearableV1Metadata ::
  "Item \<Rightarrow> Wearable \<Rightarrow> wearables \<Rightarrow> metadatas \<Rightarrow> Metadata \<times> wearables \<times> metadatas" where
  "buildWearableV1Metadata item representation wearables metadatas =
     (let wearable = buildWearableV1 item representation;
          metadata = \<lparr>met_id = wea_id representation, met_itemType = IT_wearable_v1,
                      met_wearable = Some wearable, met_emote = None, met_network = ETHEREUM\<rparr>
      in (metadata, mset wearables (wea_id wearable) wearable,
          mset metadatas (met_id metadata) metadata))"

section \<open>Token URIs\<close>

lemma wea_id_findWearable: "wea_id (findWearable i rs) = i \<or> wea_id (findWearable i rs) = []"
  by (induction i rs rule: findWearable.induct) (simp_all add: new_Wearable_def)

lemma findWearable_not_found:
  "\<forall>r \<in> set rs. rep_id r \<noteq> i \<Longrightarrow> findWearable i rs = new_Wearable []"
  by (induction i rs rule: findWearable.induct) auto



text \<open>
  An NFT without token URI still gets a wearable. The empty wearable id equals the id of the
  not-found entity, so if no entry of the first catalogue has an empty id, the search succeeds in
  it and returns a wearable of the collection \<^verbatim>\<open>atari_launch\<close> that carries the NFT's id and owner
  but no name, category or rarity.
\<close>

lemma buildWearableFromNFT_without_uri:
  assumes "nft_tokenURI nft = None \<or> nft_tokenURI nft = Some []"
    and "\<forall>r \<in> set (env_catalogue e ''atari_launch''). rep_id r \<noteq> []"
  shows "buildWearableFromNFT e nft =
    (new_Wearable (nft_id nft))\<lparr>wea_collection := Some ''atari_launch'', wea_owner := nft_owner nft\<rparr>"
proof -
  have "findWearable [] (env_catalogue e ''atari_launch'') = new_Wearable []"
    using assms(2) by (rule findWearable_not_found)
  then show ?thesis
    using assms(1) by (auto simp: buildWearableFromNFT_def nft_catalogues_def new_Wearable_def Let_def)
qed

end
