(* ===== verification/Squid_Sales.thy ===== *)
theory Squid_Sales
  imports Eth_Wearable
begin

text \<open>
  How a sale was paid for (\<^verbatim>\<open>polygon/modules/analytics.ts\<close>, used by both processors): the address
  lists that recognise third-party buyers, and the resolution of the item an NFT row refers to.
\<close>

definition CREDIT_CONTRACTS :: "string list" where
  "CREDIT_CONTRACTS =
     [''0xa1691afad71b9a92d329f1a95c39d3077d8f2f5f'',
      ''0x037566bc90f85e76587e1b07f9184585f09c1420'',
      ''0x6a03991dfa9d661ef7ad3c6f88b31f16e5a282cf'',
      ''0xe9f961e6ded4e1476bbee4faab886d63a2493eb9'']"

definition isCreditSale :: "string \<Rightarrow> bool" where
  "isCreditSale buyer \<longleftrightarrow> buyer \<in> set CREDIT_CONTRACTS"

definition isTransakOperation :: "string \<Rightarrow> bool" where
  "isTransakOperation buyer \<longleftrightarrow>
     buyer \<in> set [''0xed038688ecf1193f8d9717eb3930f0bf0d745cb4'',
       ''0xcb9bd5acd627e8fccf9eb8d4ba72aeb1cd8ff5ef'',
       ''0x4a598b7ec77b1562ad0df7dc64a162695ce4c78a'',
       ''0xab88cd272863b197b48762ea283f24a13f6586dd'']"

definition isAxelarOperation :: "string \<Rightarrow> bool" where
  "isAxelarOperation buyer \<longleftrightarrow>
     buyer \<in> set [''0xea749fd6ba492dbc14c24fe8a3d08769229b896c'',
       ''0xad6cea45f98444a922a2b4fe96b8c90f0862d2f4'']"

definition isThirdPartySale :: "string \<Rightarrow> bool" where
  "isThirdPartySale buyer \<longleftrightarrow> isTransakOperation buyer \<or> isAxelarOperation buyer"

definition getOperation :: "string \<Rightarrow> operation" where
  "getOperation buyer =
     (if isTransakOperation buyer then Op_fiat
      else if isAxelarOperation buyer then Op_cross_chain
      else if isCreditSale buyer then Op_credits
      else Op_native)"

text \<open>The item object an NFT row refers to.\<close>

definition resolve_item :: "items \<Rightarrow> item_ref \<Rightarrow> Item option" where
  "resolve_item items r = (case r of SharedItem i \<Rightarrow> mget items i | OwnItem it \<Rightarrow> Some it)"

text \<open>\<^verbatim>\<open>Buffer.from(address.slice(2), "hex")\<close>.\<close>

definition address_bytes :: "string \<Rightarrow> nat list" where
  "address_bytes a = buffer_from_hex (drop 2 a)"

type_synonym sales = "(string, Sale) jsmap"

text \<open>The id of the n-th sale of a network.\<close>

definition saleId :: "int \<Rightarrow> network \<Rightarrow> string" where
  "saleId n net = toStr n @ dash @ network_str net"

lemma saleId_inject [simp]: "saleId m net = saleId n net \<longleftrightarrow> m = n"
  by (simp add: saleId_def)

lemma getOperation_native:
  "getOperation buyer = Op_native \<longleftrightarrow> \<not> isThirdPartySale buyer \<and> \<not> isCreditSale buyer"
  by (simp add: getOperation_def isThirdPartySale_def)

end
