(* ===== verification/Squid_Market.thy ===== *)
theory Squid_Market
  imports Squid_Sales
begin

text \<open>
  What the market handlers of both processors share: blocks, the decoded market events, the bid
  and the NFT a closing event refers to, and the fate of an order whose token changes hands, with
  the lemmas that carry the order-book invariant through these steps.
\<close>

section \<open>Blocks and events\<close>

record block =
  blk_height :: int
  blk_timestamp :: int
  blk_hash :: string

text \<open>
  \<^verbatim>\<open>BigInt(block.header.timestamp / 1000)\<close>. Where the quotient is not integral the conversion
  throws; the scan of the logs performs the same conversion for every block with a log before any
  handler runs, so handlers only meet blocks for which it succeeds.
\<close>

definition seconds :: "block \<Rightarrow> int" where
  "seconds b = blk_timestamp b div 1000"

record order_created =
  oc_id :: string
  oc_assetId :: int
  oc_seller :: string
  oc_nftAddress :: string
  oc_priceInWei :: int
  oc_expiresAt :: int

record order_successful =
  os_id :: string
  os_assetId :: int
  os_seller :: string
  os_nftAddress :: string
  os_totalPrice :: int
  os_buyer :: string

record order_cancelled =
  ox_id :: string
  ox_assetId :: int
  ox_seller :: string
  ox_nftAddress :: string

record bid_created =
  bc_tokenAddress :: string
  bc_tokenId :: int
  bc_bidder :: string
  bc_price :: int
  bc_fingerprint :: string
  bc_id :: string
  bc_expiresAt :: int

record bid_accepted =
  ba_bidder :: string
  ba_tokenAddress :: string
  ba_tokenId :: int
  ba_price :: int
  ba_seller :: string

record bid_cancelled =
  bx_bidder :: string
  bx_tokenAddress :: string
  bx_tokenId :: int

record transfer_event =
  te_from :: string
  te_to :: string
  te_tokenId :: int

text \<open>The branches of the two closing handlers: the bid, and the NFT it is for, if both are known.\<close>

definition bid_with_nft :: "(string, Bid) jsmap \<Rightarrow> nfts \<Rightarrow> string \<Rightarrow> (Bid \<times> string \<times> NFT) option" where
  "bid_with_nft bids nfts i =
     (case mget bids i of
        None \<Rightarrow> None
      | Some bid \<Rightarrow>
          (case bid_nft bid of
             None \<Rightarrow> None
           | Some k \<Rightarrow> map_option (\<lambda>nft. (bid, k, nft)) (mget nfts k)))"

section \<open>A token is sold\<close>

text \<open>
  \<^verbatim>\<open>nft.volume + price\<close> throws where the column is unset; \<^verbatim>\<open>nft.sales += 1\<close> is then \<^verbatim>\<open>NaN\<close>, which is
  left unset here.
\<close>

definition nft_sold :: "int \<Rightarrow> int \<Rightarrow> NFT \<Rightarrow> NFT result" where
  "nft_sold price timestamp nft =
     bindR (throw_if_none TypeError (nft_volume nft)) (\<lambda>volume.
       Inr (nft\<lparr>nft_soldAt := Some timestamp, nft_sales := map_option (\<lambda>n. n + 1) (nft_sales nft),
                nft_volume := Some (volume + price), nft_updatedAt := Some timestamp\<rparr>))"

lemma seconds_nonneg: "0 \<le> blk_timestamp b \<Longrightarrow> 0 \<le> seconds b"
  by (simp add: seconds_def)

lemma nft_sold_Inr:
  "nft_sold price t nft = Inr nft' \<longleftrightarrow>
     (\<exists>v. nft_volume nft = Some v \<and>
        nft' = nft\<lparr>nft_soldAt := Some t, nft_sales := map_option (\<lambda>n. n + 1) (nft_sales nft),
                   nft_volume := Some (v + price), nft_updatedAt := Some t\<rparr>)"
  by (auto simp: nft_sold_def bindR_eq_Inr throw_if_none_eq_Inr)

lemma nft_sold_view:
  "nft_sold price t nft = Inr nft' \<Longrightarrow> order_view nft' = order_view nft \<and> nft_id nft' = nft_id nft"
  by (auto simp: nft_sold_Inr order_view_def)

section \<open>Orders of a token that changes hands\<close>

text \<open>
  The active order is suspended, or revived when the token comes back to the seller. Both transfer
  handlers do this for tokens that are not minted by the event.
\<close>

definition move_status :: "Order \<Rightarrow> string \<Rightarrow> orderStatus" where
  "move_status order newOwner = (if ord_owner order = newOwner then Open else Transferred)"

definition move_order :: "string \<Rightarrow> NFT \<Rightarrow> orders \<Rightarrow> NFT \<times> orders" where
  "move_order newOwner nft orders =
     (case nft_activeOrder nft of
        None \<Rightarrow> (nft, orders)
      | Some i \<Rightarrow>
          (case mget orders i of
             None \<Rightarrow> (nft, orders)
           | Some order \<Rightarrow>
               (nft\<lparr>nft_searchOrderStatus := Some (move_status order newOwner)\<rparr>,
                mset orders i (order\<lparr>ord_status := move_status order newOwner\<rparr>))))"

section \<open>What the events of a marketplace contract guarantee\<close>

definition closes_active :: "nfts \<Rightarrow> orders \<Rightarrow> string \<Rightarrow> string \<Rightarrow> bool" where
  "closes_active nfts orders k i =
     (case mget orders i of
        None \<Rightarrow> True
      | Some order \<Rightarrow>
          ord_nft order = k \<and>
          (case mget nfts k of
             None \<Rightarrow> True
           | Some nft \<Rightarrow> nft_activeOrder nft = None \<or> nft_activeOrder nft = Some i))"

definition fresh_order :: "orders \<Rightarrow> string \<Rightarrow> string \<Rightarrow> bool" where
  "fresh_order orders k i =
     (case mget orders i of None \<Rightarrow> True | Some order \<Rightarrow> live order \<longrightarrow> ord_nft order = k)"

section \<open>Lemmas on the order book\<close>

lemma bid_with_nft_Some:
  "bid_with_nft bids nfts i = Some (bid, k, nft) \<Longrightarrow> mget nfts k = Some nft"
  by (auto simp: bid_with_nft_def split: option.splits)

text \<open>A handler that changes one stored NFT outside its order columns, or adds a fresh one.\<close>

lemma order_book_keep:
  assumes "order_book nfts orders" and "mget nfts k = Some nft"
    and "nft_id nft' = nft_id nft" and "order_view nft' = order_view nft"
  shows "order_book (mset nfts k nft') orders"
  using assms order_book_frame [OF assms(1,2)] order_bookD_nft(1) [OF assms(1,2)] by simp

lemma order_book_touch:
  assumes "order_book nfts orders" and "nft_id nft' = k"
    and "order_view nft' = (case mget nfts k of Some n \<Rightarrow> order_view n | None \<Rightarrow> no_view)"
  shows "order_book (mset nfts k nft') orders"
  using assms order_book_new [of nfts orders k nft'] order_book_frame [of nfts orders k _ nft']
  by (cases "mget nfts k") simp_all

text \<open>The row a handler works on: the stored one, or a new one.\<close>

lemma nft_or_new [simp]:
  "order_book nfts orders \<Longrightarrow> nft_id (case mget nfts k of Some n \<Rightarrow> n | None \<Rightarrow> new_NFT k net) = k"
  "order_view (case mget nfts k of Some n \<Rightarrow> n | None \<Rightarrow> new_NFT k net) =
     (case mget nfts k of Some n \<Rightarrow> order_view n | None \<Rightarrow> no_view)"
  by (auto split: option.split dest: order_bookD_nft(1))

text \<open>An order that is closed while its NFT is not stored was not live.\<close>

lemma order_book_close_missing:
  assumes ob: "order_book nfts orders" and "mget orders i = Some order"
    and "mget nfts (ord_nft order) = None" and "ord_id order' = i" and "\<not> live order'"
  shows "order_book nfts (mset orders i order')"
proof -
  have "\<not> live order" using order_bookD_live [OF ob assms(2)] assms(3) by auto
  then have none: "nft_activeOrder n \<noteq> Some i" if "mget nfts j = Some n" for j n
    using order_book_active [OF ob that] assms(2) by (metis option.inject)
  have "order_columns (mset orders i order') n" if "mget nfts j = Some n" for j n
    by (rule order_columns_cong [OF order_bookD_nft(2) [OF ob that]]) (use none [OF that] in auto)
  then show ?thesis
    using ob assms(4,5) by (intro order_bookI)
      (auto dest: order_bookD_nft(1) order_bookD_order order_bookD_live split: if_splits)
qed

lemma move_order_book:
  assumes ob: "order_book nfts orders" and id: "nft_id nft = k"
    and view: "order_view nft = (case mget nfts k of Some n \<Rightarrow> order_view n | None \<Rightarrow> no_view)"
    and move: "move_order owner nft orders = (nft', orders')"
    and keep: "order_view nft'' = order_view nft'" "nft_id nft'' = nft_id nft'"
  shows "order_book (mset nfts k nft'') orders'"
proof (cases "nft_activeOrder nft")
  case None
  then have "nft' = nft" "orders' = orders" using move by (simp_all add: move_order_def)
  then show ?thesis using order_book_touch [OF ob, of nft'' k] keep id view by simp
next
  case (Some i)
  obtain old where old: "mget nfts k = Some old" "order_view nft = order_view old"
    using view Some active_of_view(1) [of nft] by (cases "mget nfts k") auto
  then have active: "nft_activeOrder old = Some i"
    using Some fst_view(3) [of old] fst_view(3) [of nft] by simp
  from order_book_active [OF ob old(1) active] obtain order where
    order: "mget orders i = Some order" "ord_id order = i" "order_view old = view_of order" by blast
  let ?st = "move_status order owner"
  have res: "nft' = nft\<lparr>nft_searchOrderStatus := Some ?st\<rparr>"
    "orders' = mset orders i (order\<lparr>ord_status := ?st\<rparr>)"
    using move Some order(1) by (auto simp: move_order_def)
  have "order_view nft'' = view_of (order\<lparr>ord_status := ?st\<rparr>)"
    using keep(1) old(2) order(3) by (simp add: res order_view_def view_of_def)
  then show ?thesis
    using order_book_move [OF ob old(1) active order(1)] order(2) keep(2) id res
    by (simp add: live_def move_status_def)
qed

lemma order_book_mmodify:
  assumes "order_book nfts orders"
    and "\<And>n. nft_id (f n) = nft_id n" and "\<And>n. order_view (f n) = order_view n"
  shows "order_book (mmodify nfts k f) orders"
  using assms order_book_keep [OF assms(1)] by (simp add: mmodify_def split: option.split)

end
