(* ===== verification/Eth_State.thy ===== *)
theory Eth_State
  imports Squid_Market
begin

text \<open>
  The state of one batch of the Ethereum processor (the maps \<^verbatim>\<open>getStoredData\<close> returns and those
  \<^verbatim>\<open>main.ts\<close> creates), the contract reads it performs, and \<^verbatim>\<open>eth/modules/analytics.ts\<close>: the
  recording of a sale.

  \<open>eth_rpc\<close> is the parameter for the contract calls of the processor: each is a fallible function
  of the block height and the contract address.
\<close>

record eth_rpc =
  rpc_ownerOf :: "int \<Rightarrow> string \<Rightarrow> int \<Rightarrow> string result"
  rpc_feeRate :: "int \<Rightarrow> string \<Rightarrow> int result"
  rpc_ownerCutPerMillion :: "int \<Rightarrow> string \<Rightarrow> int result"
  rpc_owner :: "int \<Rightarrow> string \<Rightarrow> string result"
  rpc_name :: "int \<Rightarrow> string \<Rightarrow> string result"
  rpc_symbol :: "int \<Rightarrow> string \<Rightarrow> string result"
  rpc_baseURI :: "int \<Rightarrow> string \<Rightarrow> string result"
  rpc_tokenURIs :: "int \<Rightarrow> (string \<times> int) list \<Rightarrow> string list result"

record eth_state =
  es_accounts :: accounts
  es_datas :: "(string, Data) jsmap"
  es_parcels :: "(string, Parcel) jsmap"
  es_estates :: "(string, Estate) jsmap"
  es_nfts :: nfts
  es_orders :: orders
  es_wearables :: wearables
  es_ens :: "(string, ENS) jsmap"
  es_analytics :: analytics
  es_counts :: counts
  es_bids :: "(string, Bid) jsmap"
  es_collections :: collections
  es_items :: items
  es_metadatas :: metadatas
  es_sales :: sales
  es_mints :: "(string, Mint) jsmap"
  es_tokenURIs :: "(string, string) jsmap"
  es_coordinates :: coordinates

definition eth_empty :: eth_state where
  "eth_empty =
     \<lparr>es_accounts = [], es_datas = [], es_parcels = [], es_estates = [], es_nfts = [],
      es_orders = [], es_wearables = [], es_ens = [], es_analytics = [], es_counts = [],
      es_bids = [], es_collections = [], es_items = [], es_metadatas = [], es_sales = [],
      es_mints = [], es_tokenURIs = [], es_coordinates = []\<rparr>"

section \<open>Recording a sale\<close>

definition eth_isThirdPartySale :: "string \<Rightarrow> bool" where
  "eth_isThirdPartySale buyer \<longleftrightarrow>
     buyer = ''0xea749fd6ba492dbc14c24fe8a3d08769229b896c'' \<or>
     buyer = ''0xad6cea45f98444a922a2b4fe96b8c90f0862d2f4''"

text \<open>The item a sale is attributed to: the NFT's, or the one its blockchain id names.\<close>

definition sale_item :: "items \<Rightarrow> NFT \<Rightarrow> Item option" where
  "sale_item items nft =
     (case nft_item nft of
        Some r \<Rightarrow> resolve_item items r
      | None \<Rightarrow>
          (case nft_itemBlockchainId nft of
             None \<Rightarrow> None
           | Some b \<Rightarrow> mget items (show_opt (nft_contractAddress nft) @ dash @ toStr b)))"

text \<open>\<^verbatim>\<open>getOwner(ctx, block, nft.contractAddress, nft.tokenId)\<close>.\<close>

definition eth_getOwner :: "eth_rpc \<Rightarrow> block \<Rightarrow> NFT \<Rightarrow> string result" where
  "eth_getOwner rpc b nft =
     bindR (throw_if_none TypeError (nft_contractAddress nft)) (\<lambda>a.
     bindR (throw_if_none TypeError (nft_tokenId nft)) (\<lambda>t. rpc_ownerOf rpc (blk_height b) a t))"

definition eth_sale_base :: "string \<Rightarrow> saleType \<Rightarrow> string \<Rightarrow> int \<Rightarrow> int \<Rightarrow> string \<Rightarrow> Sale" where
  "eth_sale_base i ty seller price timestamp txHash =
     \<lparr>sal_id = i, sal_type = ty, sal_buyer = None, sal_realBuyer = None, sal_operation = None,
      sal_seller = seller, sal_price = price, sal_nft = None, sal_timestamp = timestamp,
      sal_txHash = txHash, sal_searchTokenId = None, sal_searchContractAddress = None,
      sal_searchCategory = None, sal_beneficiary = None, sal_feesCollectorCut = None,
      sal_feesCollector = None, sal_royaltiesCut = None, sal_royaltiesCollector = None,
      sal_item = None, sal_searchItemId = None, sal_network = ETHEREUM\<rparr>"

definition eth_sale ::
  "eth_rpc \<Rightarrow> block \<Rightarrow> items \<Rightarrow> NFT option \<Rightarrow> string \<Rightarrow> Sale \<Rightarrow> Sale result" where
  "eth_sale rpc b items nft buyer sale =
     (case nft of
        None \<Rightarrow> Inr sale
      | Some n \<Rightarrow>
          bindR (if eth_isThirdPartySale buyer then eth_getOwner rpc b n else Inr buyer) (\<lambda>owner.
            Inr (sale\<lparr>sal_realBuyer := Some buyer, sal_operation := Some (getOperation buyer),
                   sal_buyer := Some owner, sal_nft := Some (nft_id n),
                   sal_searchTokenId := nft_tokenId n,
                   sal_searchContractAddress := nft_contractAddress n,
                   sal_searchCategory := nft_category n,
                   sal_item := map_option itm_id (sale_item items n),
                   sal_searchItemId := map_option itm_blockchainId (sale_item items n)\<rparr>)))"

definition buy :: "int \<Rightarrow> Account \<Rightarrow> Account" where
  "buy price a = a\<lparr>acc_purchases := acc_purchases a + 1, acc_spent := acc_spent a + price\<rparr>"

definition sell :: "int \<Rightarrow> Account \<Rightarrow> Account" where
  "sell price a = a\<lparr>acc_sales := acc_sales a + 1, acc_earned := acc_earned a + price\<rparr>"

definition eth_trackSale ::
  "eth_rpc \<Rightarrow> block \<Rightarrow> saleType \<Rightarrow> string \<Rightarrow> string \<Rightarrow> string \<Rightarrow> int \<Rightarrow> int \<Rightarrow> int \<Rightarrow> string \<Rightarrow>
   eth_state \<Rightarrow> eth_state result" where
  "eth_trackSale rpc b ty buyer seller nftId price feesCollectorCut timestamp txHash s =
     (if price = 0 then Inr s
      else
        let p = eth_buildCountFromSale price feesCollectorCut (es_counts s);
            nft = mget (es_nfts s) nftId;
            i = saleId (cnt_salesTotal (fst p)) ETHEREUM
        in
        bindR (eth_sale rpc b (es_items s) nft buyer
                (eth_sale_base i ty seller price timestamp txHash)) (\<lambda>sale.
        bindR (case nft of
                 None \<Rightarrow> Inr (es_nfts s)
               | Some n \<Rightarrow> bindR (nft_sold price timestamp n) (\<lambda>n'. Inr (mset (es_nfts s) nftId n')))
          (\<lambda>nfts'.
          let d = updateAnalyticsDayData sale feesCollectorCut (es_analytics s) in
          Inr (s\<lparr>es_counts := set_count p,
                 es_sales := mset (es_sales s) i sale,
                 es_accounts := update_account (update_account (es_accounts s) buyer ETHEREUM (buy price))
                                  seller ETHEREUM (sell price),
                 es_nfts := nfts',
                 es_analytics := mset (es_analytics s) (add_id d) d\<rparr>))))"


end
