(* ===== verification/Eth_Marketplace.thy ===== *)
theory Eth_Marketplace
  imports Eth_State
begin

text \<open>
  The order handlers of the Ethereum processor: \<^verbatim>\<open>eth/handlers/marketplace.ts\<close>. Each handler is a
  function of the event, the block and the state; a missing NFT or order is the early return of
  the source.
\<close>

text \<open>The order a \<^verbatim>\<open>OrderCreated\<close> event describes.\<close>

definition order_of_event ::
  "env \<Rightarrow> order_created \<Rightarrow> block \<Rightarrow> string \<Rightarrow> string \<Rightarrow> NFT \<Rightarrow> Order" where
  "order_of_event e event b contractAddress txHash nft =
     \<lparr>ord_id = oc_id event, ord_marketplaceAddress = contractAddress,
      ord_category = getCategory e (oc_nftAddress event), ord_nft = nft_id nft,
      ord_nftAddress = oc_nftAddress event, ord_tokenId = oc_assetId event, ord_txHash = txHash,
      ord_owner = oc_seller event, ord_buyer = None, ord_price = oc_priceInWei event,
      ord_status = Open, ord_blockNumber = blk_height b, ord_expiresAt = oc_expiresAt event,
      ord_expiresAtNormalized = normalizeTimestamp (oc_expiresAt event),
      ord_createdAt = seconds b, ord_updatedAt = seconds b,
      ord_item = map_option item_ref_id (nft_item nft), ord_network = ETHEREUM\<rparr>"

definition eth_handleOrderCreated ::
  "env \<Rightarrow> order_created \<Rightarrow> block \<Rightarrow> string \<Rightarrow> string \<Rightarrow> eth_state \<Rightarrow> eth_state" where
  "eth_handleOrderCreated e event b contractAddress txHash s =
     (let nftId = marketNFTId e (oc_nftAddress event) (oc_assetId event) in
      case mget (es_nfts s) nftId of
        None \<Rightarrow> s
      | Some nft \<Rightarrow>
          (let order = order_of_event e event b contractAddress txHash nft;
               orders1 = cancel_current nft (seconds b) (es_orders s);
               nft' = updateNFTOrderProperties (nft\<lparr>nft_updatedAt := Some (seconds b)\<rparr>) order
           in s\<lparr>es_nfts := mset (es_nfts s) nftId nft',
                es_counts := eth_buildCountFromOrder order (es_counts s),
                es_orders := mset orders1 (oc_id event) order\<rparr>))"

text \<open>
  \<^verbatim>\<open>nft.owner = buyerAccount\<close>, in the two handlers that know the buyer: only if the account is in
  the batch.
\<close>

definition own_by_buyer :: "accounts \<Rightarrow> string \<Rightarrow> NFT \<Rightarrow> NFT" where
  "own_by_buyer accounts buyer nft =
     (case mget accounts (accountId buyer ETHEREUM) of
        None \<Rightarrow> nft
      | Some a \<Rightarrow> nft\<lparr>nft_owner := Some (account_refer a), nft_ownerAddress := Some (acc_address a)\<rparr>)"

definition eth_handleOrderSuccessful ::
  "env \<Rightarrow> eth_rpc \<Rightarrow> order_successful \<Rightarrow> block \<Rightarrow> string \<Rightarrow> int \<Rightarrow> eth_state \<Rightarrow> eth_state result" where
  "eth_handleOrderSuccessful e rpc event b txHash ownerCut s =
     (let nftId = marketNFTId e (os_nftAddress event) (os_assetId event) in
      case mget (es_orders s) (os_id event) of
        None \<Rightarrow> Inr s
      | Some old \<Rightarrow>
          (let order = old\<lparr>ord_category := getCategory e (os_nftAddress event), ord_status := Sold,
                           ord_buyer := Some (os_buyer event), ord_price := os_totalPrice event,
                           ord_blockNumber := blk_height b, ord_updatedAt := seconds b\<rparr>;
               s1 = s\<lparr>es_orders := mset (es_orders s) (os_id event) order\<rparr>
           in case mget (es_nfts s) nftId of
                None \<Rightarrow> Inr s1
              | Some nft \<Rightarrow>
                  (let nft' = updateNFTOrderProperties
                         ((own_by_buyer (es_accounts s) (os_buyer event) nft)\<lparr>nft_updatedAt := Some (seconds b)\<rparr>) order
                   in eth_trackSale rpc b Sale_order (os_buyer event) (os_seller event) (nft_id nft)
                        (ord_price order) ownerCut (seconds b) txHash
                        (s1\<lparr>es_nfts := mset (es_nfts s) nftId nft'\<rparr>))))"

text \<open>
  \<^verbatim>\<open>if (!tokenId)\<close>: besides a missing token id, the \<^verbatim>\<open>bigint\<close> zero is falsy too.
\<close>

definition eth_handleTraded ::
  "env \<Rightarrow> eth_rpc \<Rightarrow> traded_event \<Rightarrow> block \<Rightarrow> string \<Rightarrow> eth_state \<Rightarrow> eth_state result" where
  "eth_handleTraded e rpc event b txHash s =
     (case getTradeEventData e event ETHEREUM of
        None \<Rightarrow> Inr s
      | Some td \<Rightarrow>
          (case td_tokenId td of
             None \<Rightarrow> Inr s
           | Some tokenId \<Rightarrow>
               if tokenId = 0 then Inr s
               else
                 (let nftId = marketNFTId e (td_collectionAddress td) tokenId in
                  case mget (es_nfts s) nftId of
                    None \<Rightarrow> Inr s
                  | Some nft \<Rightarrow>
                      (let nft' = (own_by_buyer (es_accounts s) (td_buyer td) nft)
                                    \<lparr>nft_updatedAt := Some (seconds b)\<rparr>
                       in bindR (rpc_feeRate rpc (blk_height b) (ea_MarketplaceV3 (eth_getAddresses e))) (\<lambda>fee.
                            eth_trackSale rpc b
                              (if getTradeEventType e event ETHEREUM = Some Trade_Bid
                               then Sale_bid else Sale_order)
                              (td_buyer td) (td_seller td) (nft_id nft) (td_price td) fee
                              (seconds b) txHash
                              (s\<lparr>es_nfts := mset (es_nfts s) nftId nft'\<rparr>))))))"

definition eth_handleOrderCancelled ::
  "env \<Rightarrow> order_cancelled \<Rightarrow> block \<Rightarrow> eth_state \<Rightarrow> eth_state" where
  "eth_handleOrderCancelled e event b s =
     (let nftId = marketNFTId e (ox_nftAddress event) (ox_assetId event) in
      case (mget (es_nfts s) nftId, mget (es_orders s) (ox_id event)) of
        (Some nft, Some old) \<Rightarrow>
          (let order = old\<lparr>ord_category := getCategory e (ox_nftAddress event),
                           ord_status := Cancelled, ord_blockNumber := blk_height b,
                           ord_updatedAt := seconds b\<rparr>
           in s\<lparr>es_orders := mset (es_orders s) (ox_id event) order,
                es_nfts := mset (es_nfts s) nftId
                  (updateNFTOrderProperties (nft\<lparr>nft_updatedAt := Some (seconds b)\<rparr>) order)\<rparr>)
      | _ \<Rightarrow> s)"

end
