(* ===== verification/Eth_Bid.thy ===== *)
theory Eth_Bid
  imports Eth_Marketplace
begin

text \<open>
  The bid handlers (\<^verbatim>\<open>eth/handlers/bid.ts\<close>), the name service handlers (\<^verbatim>\<open>eth/handlers/ens.ts\<close>)
  and the initialisation of the first wearable collections (\<^verbatim>\<open>eth/handlers/collection.ts\<close>).
\<close>

section \<open>Bids\<close>

definition eth_handleBidCreated ::
  "env \<Rightarrow> bid_created \<Rightarrow> block \<Rightarrow> string \<Rightarrow> eth_state \<Rightarrow> eth_state result" where
  "eth_handleBidCreated e event b contractAddress s =
     (let category = getCategory e (bc_tokenAddress event);
          nftId = marketNFTId e (bc_tokenAddress event) (bc_tokenId event);
          i = getBidId (bc_tokenAddress event) (toStr (bc_tokenId event)) (bc_bidder event)
      in case mget (es_nfts s) nftId of
           None \<Rightarrow> Inr s
         | Some nft \<Rightarrow>
             bindR (throw_if_none TypeError (nft_owner nft)) (\<lambda>owner.
               let bid =
                 \<lparr>bid_id = i, bid_bidAddress = contractAddress,
                  bid_category = (if category \<noteq> [] then category else Category_wearable),
                  bid_nft = Some (nft_id nft), bid_nftAddress = bc_tokenAddress event,
                  bid_tokenId = bc_tokenId event, bid_bidder = address_bytes (bc_bidder event),
                  bid_seller = address_bytes (ar_address owner), bid_price = bc_price event,
                  bid_fingerprint = (if bc_fingerprint event = ''0x'' then []
                                     else buffer_from_hex (drop 2 (bc_fingerprint event))),
                  bid_status = Open, bid_blockchainId = bc_id event,
                  bid_blockNumber = blk_height b, bid_expiresAt = bc_expiresAt event * 1000,
                  bid_createdAt = seconds b, bid_updatedAt = seconds b, bid_network = ETHEREUM\<rparr>
               in Inr (s\<lparr>es_bids := mset (es_bids s) i bid,
                         es_nfts := mset (es_nfts s) nftId (nft\<lparr>nft_updatedAt := Some (seconds b)\<rparr>)\<rparr>)))"

definition eth_handleBidAccepted ::
  "eth_rpc \<Rightarrow> bid_accepted \<Rightarrow> block \<Rightarrow> string \<Rightarrow> int \<Rightarrow> eth_state \<Rightarrow> eth_state result" where
  "eth_handleBidAccepted rpc event b txHash ownerCut s =
     (let i = getBidId (ba_tokenAddress event) (toStr (ba_tokenId event)) (ba_bidder event) in
      case bid_with_nft (es_bids s) (es_nfts s) i of
        None \<Rightarrow> Inr s
      | Some (bid, k, nft) \<Rightarrow>
          eth_trackSale rpc b Sale_bid (ba_bidder event) (ba_seller event) (nft_id nft)
            (bid_price bid) ownerCut (seconds b) txHash
            (s\<lparr>es_bids := mset (es_bids s) i
                 (bid\<lparr>bid_status := Sold, bid_seller := address_bytes (ba_seller event),
                      bid_blockNumber := blk_height b, bid_updatedAt := seconds b\<rparr>),
               es_nfts := mset (es_nfts s) k (nft\<lparr>nft_updatedAt := Some (seconds b)\<rparr>)\<rparr>))"

definition eth_handleBidCancelled :: "bid_cancelled \<Rightarrow> block \<Rightarrow> eth_state \<Rightarrow> eth_state" where
  "eth_handleBidCancelled event b s =
     (let i = getBidId (bx_tokenAddress event) (toStr (bx_tokenId event)) (bx_bidder event) in
      case bid_with_nft (es_bids s) (es_nfts s) i of
        None \<Rightarrow> s
      | Some (bid, k, nft) \<Rightarrow>
          s\<lparr>es_bids := mset (es_bids s) i
              (bid\<lparr>bid_status := Cancelled, bid_blockNumber := blk_height b,
                   bid_updatedAt := seconds b\<rparr>),
            es_nfts := mset (es_nfts s) k (nft\<lparr>nft_updatedAt := Some (seconds b)\<rparr>)\<rparr>)"

section \<open>Names\<close>

record name_registered =
  nr_labelHash :: string
  nr_caller :: string
  nr_subdomain :: string
  nr_createdDate :: int
  nr_beneficiary :: string

definition handleNameRegistered ::
  "env \<Rightarrow> name_registered \<Rightarrow> string option \<Rightarrow> eth_state \<Rightarrow> eth_state result" where
  "handleNameRegistered e event orderHash s =
     bindR (bigint_of_string (nr_labelHash event)) (\<lambda>tokenId.
       let i = getNFTId (ea_DCLRegistrar (eth_getAddresses e)) (toStr tokenId) (Some Category_ens);
           (owner, accounts1) = createOrLoadAccount (es_accounts s) (nr_beneficiary event) ETHEREUM;
           ens = (new_ENS i)\<lparr>ens_tokenId := Some tokenId, ens_owner := Some (account_refer owner),
                   ens_caller := Some (nr_caller event),
                   ens_beneficiary := Some (nr_beneficiary event),
                   ens_labelHash := Some (nr_labelHash event),
                   ens_subdomain := Some (nr_subdomain event),
                   ens_createdAt := Some (nr_createdDate event),
                   ens_orderHash := (case orderHash of None \<Rightarrow> None
                                     | Some h \<Rightarrow> if h = [] then None else Some h)\<rparr>;
           nft = (case mget (es_nfts s) i of Some n \<Rightarrow> n | None \<Rightarrow> new_NFT i None)
                   \<lparr>nft_name := Some (nr_subdomain event), nft_network := Some ETHEREUM,
                    nft_searchText := Some (toLowerCase (nr_subdomain event))\<rparr>
       in Inr (s\<lparr>es_ens := mset (es_ens s) i ens,
                 es_nfts := mset (es_nfts s) i nft,
                 es_accounts := snd (createOrLoadAccount accounts1 (nr_caller event) ETHEREUM)\<rparr>))"

definition handleNameBought :: "int \<Rightarrow> int \<Rightarrow> eth_state \<Rightarrow> eth_state" where
  "handleNameBought price timestamp s =
     (let d = getOrCreateAnalyticsDayData timestamp (es_analytics s) ETHEREUM;
          d' = d\<lparr>add_daoEarnings := add_daoEarnings d + price\<rparr>
      in s\<lparr>es_analytics := mset (es_analytics s) (add_id d') d'\<rparr>)"

section \<open>The first wearable collections\<close>

definition handleInitializeWearablesV1 :: "env \<Rightarrow> eth_state \<Rightarrow> eth_state" where
  "handleInitializeWearablesV1 e s =
     (let n = int (length (collection_addresses (eth_getAddresses e)));
          init = (\<lambda>c. (if cnt_started c \<noteq> 0
                       then c\<lparr>cnt_collectionTotal := cnt_collectionTotal c + n\<rparr> else c)
                      \<lparr>cnt_started := 1\<rparr>)
      in s\<lparr>es_counts := set_count (with_count ETHEREUM init (es_counts s))\<rparr>)"

end
