(* ===== verification/Eth_Estate.thy ===== *)
theory Eth_Estate
  imports Eth_Bid
begin

text \<open>
  The estate and parcel handlers: \<^verbatim>\<open>eth/handlers/estate.ts\<close> and \<^verbatim>\<open>eth/handlers/parcel.ts\<close>. A parcel
  that \<^verbatim>\<open>handleAddLand\<close> or \<^verbatim>\<open>handleRemoveLand\<close> has to create is changed but never stored, as in the
  source.
\<close>

definition estateNFTId :: "env \<Rightarrow> int \<Rightarrow> string" where
  "estateNFTId e t = getNFTId (ea_EstateRegistry (eth_getAddresses e)) (toStr t) (Some Category_estate)"

definition parcelNFTId :: "env \<Rightarrow> int \<Rightarrow> string" where
  "parcelNFTId e t = getNFTId (ea_LANDRegistry (eth_getAddresses e)) (toStr t) (Some Category_parcel)"

section \<open>Distances\<close>

text \<open>\<^verbatim>\<open>newDistances.push(distance); newDistances.sort((a, b) => a - b)\<close>.\<close>

definition getParcelDistances :: "env \<Rightarrow> Parcel \<Rightarrow> int list option \<Rightarrow> int list result" where
  "getParcelDistances e parcel parcelDistances =
     (let newDistances = (case parcelDistances of None \<Rightarrow> [] | Some ds \<Rightarrow> ds) in
      bindR (getDistanceToPlaza e parcel) (\<lambda>distance.
        Inr (if distance = - 1 then newDistances else sort (newDistances @ [distance]))))"

definition shouldRecalculateMinDistance :: "env \<Rightarrow> Parcel \<Rightarrow> Estate \<Rightarrow> bool result" where
  "shouldRecalculateMinDistance e parcel estate =
     (case est_parcelDistances estate of
        None \<Rightarrow> Inr False
      | Some [] \<Rightarrow> Inr False
      | Some (d # ds) \<Rightarrow>
          bindR (getDistanceToPlaza e parcel) (\<lambda>distance. Inr (distance \<noteq> - 1 \<and> d = distance)))"

section \<open>Estates\<close>

record create_estate =
  ce_owner :: string
  ce_estateId :: int
  ce_data :: string

definition handleCreateEstate :: "env \<Rightarrow> block \<Rightarrow> create_estate \<Rightarrow> eth_state \<Rightarrow> eth_state" where
  "handleCreateEstate e b event s =
     (let i = estateNFTId e (ce_estateId event);
          estate0 = (new_Estate i)
            \<lparr>est_tokenId := Some (ce_estateId event),
             est_owner := map_option account_refer
                            (mget (es_accounts s) (accountId (ce_owner event) ETHEREUM)),
             est_rawData := Some (ce_data event), est_parcelDistances := Some [],
             est_size := Some 0, est_adjacentToRoadCount := Some 0\<rparr>;
          accounts' = snd (createOrLoadAccount (es_accounts s) (ce_owner event) ETHEREUM)
      in case buildData i (ce_data event) ESTATE of
           None \<Rightarrow> s\<lparr>es_estates := mset (es_estates s) i estate0, es_accounts := accounts'\<rparr>
         | Some d \<Rightarrow>
             (let nft = (case mget (es_nfts s) i of Some n \<Rightarrow> n | None \<Rightarrow> new_NFT i (Some ETHEREUM));
                  nft' = nft\<lparr>nft_name := data_name d,
                             nft_searchText := map_option toLowerCase (data_name d),
                             nft_createdAt := Some (seconds b), nft_updatedAt := Some (seconds b),
                             nft_searchDistanceToPlaza := Some (- 1),
                             nft_searchAdjacentToRoad := Some False, nft_soldAt := None,
                             nft_sales := Some 0, nft_volume := Some 0\<rparr>
              in s\<lparr>es_datas := mset (es_datas s) (data_id d) d,
                   es_nfts := mset (es_nfts s) i nft',
                   es_estates := mset (es_estates s) i (estate0\<lparr>est_data := Some (data_id d)\<rparr>),
                   es_accounts := accounts'\<rparr>))"

text \<open>The parcel a land event is about: the stored one, or a fresh one outside the map.\<close>

definition land_parcel :: "env \<Rightarrow> eth_state \<Rightarrow> int \<Rightarrow> Parcel" where
  "land_parcel e s landId =
     (case mget (es_parcels s) (parcelNFTId e landId) of
        Some p \<Rightarrow> p
      | None \<Rightarrow>
          (let p = new_Parcel (parcelNFTId e landId) in
           (case mget (es_coordinates s) landId of
              Some (x, y) \<Rightarrow> p\<lparr>par_x := Some x, par_y := Some y\<rparr>
            | None \<Rightarrow> p)\<lparr>par_tokenId := Some landId\<rparr>))"

record land_event =
  le_estateId :: int
  le_landId :: int
  le_destinatary :: string

text \<open>What \<^verbatim>\<open>handleAddLand\<close> does to the estate and its NFT when both exist.\<close>

definition estate_gains_land ::
  "env \<Rightarrow> Parcel \<Rightarrow> Estate \<Rightarrow> NFT \<Rightarrow> (Estate \<times> NFT) result" where
  "estate_gains_land e parcel estate estateNFT =
     bindR (getParcelDistances e parcel (est_parcelDistances estate)) (\<lambda>distances.
     bindR (getAdjacentToRoad e parcel) (\<lambda>adjacentToRoad.
       Inr (estate\<lparr>est_parcelDistances := Some distances,
                   est_adjacentToRoadCount :=
                     (if adjacentToRoad then map_option (\<lambda>n. n + 1) (est_adjacentToRoadCount estate)
                      else est_adjacentToRoadCount estate)\<rparr>,
            estateNFT\<lparr>nft_searchDistanceToPlaza :=
                        Some (case distances of [] \<Rightarrow> - 1 | d # _ \<Rightarrow> d),
                      nft_searchAdjacentToRoad :=
                        Some (nft_searchAdjacentToRoad estateNFT = Some True \<or> adjacentToRoad)\<rparr>)))"

definition handleAddLand :: "env \<Rightarrow> land_event \<Rightarrow> eth_state \<Rightarrow> eth_state result" where
  "handleAddLand e event s =
     (let i = estateNFTId e (le_estateId event);
          parcelId = parcelNFTId e (le_landId event);
          estate = map_option (\<lambda>es. es\<lparr>est_size := map_option (\<lambda>n. n + 1) (est_size es)\<rparr>)
                     (mget (es_estates s) i);
          nfts1 = (case estate of
                     None \<Rightarrow> es_nfts s
                   | Some es \<Rightarrow> mmodify (es_nfts s) i (\<lambda>n. n\<lparr>nft_searchEstateSize := est_size es\<rparr>));
          (registry, accounts') =
            createOrLoadAccount (es_accounts s) (ea_EstateRegistry (eth_getAddresses e)) ETHEREUM;
          parcel = (land_parcel e s (le_landId event))
                     \<lparr>par_owner := Some (account_refer registry),
                      par_estate := map_option (\<lambda>_. i) estate\<rparr>;
          nfts2 = mmodify nfts1 parcelId
                    (\<lambda>n. n\<lparr>nft_searchParcelEstateId := Some i,
                           nft_owner := Some (account_refer registry),
                           nft_ownerAddress := Some (acc_address registry)\<rparr>);
          s' = s\<lparr>es_accounts := accounts',
                 es_parcels := mmodify (es_parcels s) parcelId (\<lambda>_. parcel)\<rparr>
      in case (estate, mget nfts2 i) of
           (Some es, Some estateNFT) \<Rightarrow>
             bindR (estate_gains_land e parcel es estateNFT) (\<lambda>(es', n').
               Inr (s'\<lparr>es_estates := mset (es_estates s) i es', es_nfts := mset nfts2 i n'\<rparr>))
         | (Some es, None) \<Rightarrow>
             Inr (s'\<lparr>es_estates := mset (es_estates s) i es, es_nfts := nfts2\<rparr>)
         | (None, _) \<Rightarrow> Inr (s'\<lparr>es_nfts := nfts2\<rparr>))"

text \<open>
  What \<^verbatim>\<open>handleRemoveLand\<close> does to the estate and its NFT when both exist: a distance is removed only
  where it is the smallest one, and \<^verbatim>\<open>distances[0] || -1\<close> turns a missing or zero distance into -1.
\<close>

definition estate_loses_land ::
  "env \<Rightarrow> Parcel \<Rightarrow> Estate \<Rightarrow> NFT \<Rightarrow> (Estate \<times> NFT) result" where
  "estate_loses_land e parcel estate estateNFT =
     bindR (shouldRecalculateMinDistance e parcel estate) (\<lambda>recalc.
       let distances = (case est_parcelDistances estate of None \<Rightarrow> [] | Some ds \<Rightarrow> tl ds);
           estate1 = (if recalc then estate\<lparr>est_parcelDistances := Some distances\<rparr> else estate);
           nft1 = (if recalc
                   then estateNFT\<lparr>nft_searchDistanceToPlaza :=
                          Some (case distances of [] \<Rightarrow> - 1 | d # _ \<Rightarrow> if d = 0 then - 1 else d)\<rparr>
                   else estateNFT)
       in bindR (getAdjacentToRoad e parcel) (\<lambda>adjacentToRoad.
            case est_adjacentToRoadCount estate1 of
              Some n \<Rightarrow>
                if adjacentToRoad \<and> n \<noteq> 0
                then Inr (estate1\<lparr>est_adjacentToRoadCount := Some (n - 1)\<rparr>,
                          nft1\<lparr>nft_searchAdjacentToRoad := Some (n - 1 > 0)\<rparr>)
                else Inr (estate1, nft1)
            | None \<Rightarrow> Inr (estate1, nft1)))"

definition handleRemoveLand :: "env \<Rightarrow> land_event \<Rightarrow> eth_state \<Rightarrow> eth_state result" where
  "handleRemoveLand e event s =
     (let i = estateNFTId e (le_estateId event);
          parcelId = parcelNFTId e (le_landId event);
          estate = map_option (\<lambda>es. case est_size es of
                       Some n \<Rightarrow> if n \<noteq> 0 then es\<lparr>est_size := Some (n - 1)\<rparr> else es
                     | None \<Rightarrow> es)
                     (mget (es_estates s) i);
          nfts1 = (case estate of
                     None \<Rightarrow> es_nfts s
                   | Some es \<Rightarrow> mmodify (es_nfts s) i (\<lambda>n. n\<lparr>nft_searchEstateSize := est_size es\<rparr>));
          known = mget nfts1 i;
          owner = mget (es_accounts s) (accountId (le_destinatary event) ETHEREUM);
          parcel0 = land_parcel e s (le_landId event);
          parcel = (case owner of
                      None \<Rightarrow> parcel0
                    | Some a \<Rightarrow> parcel0\<lparr>par_owner := Some (account_refer a)\<rparr>)\<lparr>par_estate := None\<rparr>;
          nfts2 = (case owner of
                     None \<Rightarrow> nfts1
                   | Some a \<Rightarrow>
                       (let n = (case mget nfts1 parcelId of
                                   Some n \<Rightarrow> n | None \<Rightarrow> new_NFT parcelId (Some ETHEREUM))
                        in mset nfts1 parcelId
                             (n\<lparr>nft_network := Some ETHEREUM, nft_searchParcelEstateId := None,
                                nft_owner := Some (account_refer a),
                                nft_ownerAddress := Some (acc_address a)\<rparr>)));
          s' = s\<lparr>es_parcels := mmodify (es_parcels s) parcelId (\<lambda>_. parcel)\<rparr>
      in case (estate, known) of
           (Some es, Some _) \<Rightarrow>
             (case mget nfts2 i of
                Some estateNFT \<Rightarrow>
                  bindR (estate_loses_land e parcel es estateNFT) (\<lambda>(es', n').
                    Inr (s'\<lparr>es_estates := mset (es_estates s) i es', es_nfts := mset nfts2 i n'\<rparr>))
              | None \<Rightarrow> Inr (s'\<lparr>es_estates := mset (es_estates s) i es, es_nfts := nfts2\<rparr>))
         | (Some es, None) \<Rightarrow>
             Inr (s'\<lparr>es_estates := mset (es_estates s) i es, es_nfts := nfts2\<rparr>)
         | (None, _) \<Rightarrow> Inr (s'\<lparr>es_nfts := nfts2\<rparr>))"

record update_event =
  ue_assetId :: int
  ue_data :: string

definition estate_handleUpdate :: "env \<Rightarrow> update_event \<Rightarrow> block \<Rightarrow> eth_state \<Rightarrow> eth_state" where
  "estate_handleUpdate e event b s =
     (let i = estateNFTId e (ue_assetId event);
          estate = (case mget (es_estates s) i of Some es \<Rightarrow> es | None \<Rightarrow> new_Estate i)
                     \<lparr>est_rawData := Some (ue_data event)\<rparr>
      in case buildData i (ue_data event) ESTATE of
           None \<Rightarrow> s\<lparr>es_estates := mset (es_estates s) i estate\<rparr>
         | Some d \<Rightarrow>
             (let nft = (case mget (es_nfts s) i of Some n \<Rightarrow> n | None \<Rightarrow> new_NFT i (Some ETHEREUM))
                          \<lparr>nft_name := data_name d,
                           nft_searchText := map_option toLowerCase (data_name d),
                           nft_updatedAt := Some (seconds b)\<rparr>
              in s\<lparr>es_datas := mset (es_datas s) (data_id d) d,
                   es_nfts := mset (es_nfts s) i nft,
                   es_estates := mset (es_estates s) i (estate\<lparr>est_data := Some (data_id d)\<rparr>)\<rparr>))"

section \<open>Parcels\<close>

definition parcel_handleUpdate :: "env \<Rightarrow> update_event \<Rightarrow> block \<Rightarrow> eth_state \<Rightarrow> eth_state result" where
  "parcel_handleUpdate e event b s =
     (let i = parcelNFTId e (ue_assetId event);
          parcel = (case mget (es_parcels s) i of Some p \<Rightarrow> p | None \<Rightarrow> new_Parcel i)
                     \<lparr>par_rawData := Some (ue_data event)\<rparr>
      in case buildData i (ue_data event) PARCEL of
           None \<Rightarrow> Inr (s\<lparr>es_parcels := mset (es_parcels s) i parcel\<rparr>)
         | Some d \<Rightarrow>
             (let parcel1 = parcel\<lparr>par_data := Some (data_id d)\<rparr>;
                  parcel' = (case mget (es_coordinates s) (ue_assetId event) of
                               None \<Rightarrow> parcel1
                             | Some (x, y) \<Rightarrow> parcel1\<lparr>par_x := Some x, par_y := Some y\<rparr>);
                  nft = (case mget (es_nfts s) i of Some n \<Rightarrow> n | None \<Rightarrow> new_NFT i (Some ETHEREUM))
                          \<lparr>nft_name := data_name d\<rparr>
              in bindR (case data_name d of
                          None \<Rightarrow> Inr nft
                        | Some name \<Rightarrow>
                            if name = [] then Inr nft
                            else bindR (getParcelText parcel' name) (\<lambda>t. Inr (nft\<lparr>nft_searchText := Some t\<rparr>)))
                   (\<lambda>nft'. Inr (s\<lparr>es_parcels := mset (es_parcels s) i parcel',
                                 es_datas := mset (es_datas s) (data_id d) d,
                                 es_nfts := mset (es_nfts s) i (nft'\<lparr>nft_updatedAt := Some (seconds b)\<rparr>)\<rparr>))))"

end
