(* ===== verification/Eth_Nft.thy ===== *)
theory Eth_Nft
  imports Eth_Estate
begin

text \<open>
  The token handlers of the Ethereum processor: \<^verbatim>\<open>eth/handlers/nft.ts\<close>. \<open>handleTransfer\<close> covers
  parcels, estates and names, \<open>handleTransferWearableV1\<close> the first wearable collections and
  \<open>handleAddItemV1\<close> the creation of their items.
\<close>

section \<open>Transfers\<close>

definition transfer_base :: "env \<Rightarrow> string \<Rightarrow> transfer_event \<Rightarrow> block \<Rightarrow> account_ref \<Rightarrow>
  (string, string) jsmap \<Rightarrow> NFT \<Rightarrow> NFT" where
  "transfer_base e contractAddress event b owner tokenURIs nft =
     (let addresses = eth_getAddresses e;
          nft1 = nft\<lparr>nft_tokenId := Some (te_tokenId event), nft_owner := Some owner,
                     nft_ownerAddress := Some (te_to event),
                     nft_contractAddress := Some contractAddress,
                     nft_category := Some (getCategory e contractAddress),
                     nft_updatedAt := Some (seconds b), nft_soldAt := None,
                     nft_transferredAt := Some (seconds b), nft_sales := Some 0,
                     nft_volume := Some 0\<rparr>
      in if contractAddress \<noteq> ea_LANDRegistry addresses \<and>
            contractAddress \<noteq> ea_EstateRegistry addresses \<and>
            contractAddress \<noteq> ea_DCLRegistrar addresses
         then (if nft_tokenURI nft1 = None \<or> nft_tokenURI nft1 = Some []
               then nft1\<lparr>nft_tokenURI :=
                      mget tokenURIs (contractAddress @ dash @ toStr (te_tokenId event))\<rparr>
               else nft1)
         else if contractAddress = ea_LANDRegistry addresses then nft1\<lparr>nft_tokenURI := None\<rparr>
         else nft1\<lparr>nft_tokenURI := Some []\<rparr>)"

definition mint_defaults :: "block \<Rightarrow> NFT \<Rightarrow> NFT" where
  "mint_defaults b nft =
     nft\<lparr>nft_createdAt := Some (seconds b), nft_searchEstateSize := Some 1,
         nft_searchParcelIsInBounds := Some True, nft_searchText := Some [],
         nft_searchIsLand := Some False\<rparr>"

definition transfer_parcel ::
  "env \<Rightarrow> bool \<Rightarrow> int \<Rightarrow> string \<Rightarrow> NFT \<Rightarrow> eth_state \<Rightarrow> (NFT \<times> eth_state) result" where
  "transfer_parcel e minted tokenId i nft s =
     (if minted then
          (case mget (es_coordinates s) tokenId of
             None \<Rightarrow> Inr (nft, s)
           | Some (x, y) \<Rightarrow>
               (let parcel = buildParcelFromNFT nft (x, y) in
                bindR (getParcelImage parcel) (\<lambda>image.
                bindR (getDistanceToPlaza e parcel) (\<lambda>distance.
                bindR (getAdjacentToRoad e parcel) (\<lambda>road.
                bindR (getParcelText parcel []) (\<lambda>text.
                  Inr (nft\<lparr>nft_parcel := Some (par_id parcel), nft_image := Some image,
                           nft_searchIsLand := Some True,
                           nft_searchParcelIsInBounds := Some (isInBounds x y),
                           nft_searchParcelX := Some x, nft_searchParcelY := Some y,
                           nft_searchDistanceToPlaza := Some distance,
                           nft_searchAdjacentToRoad := Some road,
                           nft_searchText := Some text\<rparr>,
                       s\<lparr>es_parcels := mset (es_parcels s) i parcel\<rparr>)))))))
      else Inr (nft, s\<lparr>es_parcels := mmodify (es_parcels s) i (\<lambda>p. p\<lparr>par_owner := nft_owner nft\<rparr>)\<rparr>))"

definition transfer_estate ::
  "bool \<Rightarrow> string \<Rightarrow> NFT \<Rightarrow> eth_state \<Rightarrow> (NFT \<times> eth_state) result" where
  "transfer_estate minted i nft s =
     (if minted
      then
        (let estate = buildEstateFromNFT nft in
         bindR (getEstateImage estate) (\<lambda>image.
           Inr (nft\<lparr>nft_estate := Some (est_id estate), nft_image := Some image,
                    nft_searchIsLand := Some True, nft_searchDistanceToPlaza := Some (- 1),
                    nft_searchAdjacentToRoad := Some False, nft_searchEstateSize := est_size estate\<rparr>,
                s\<lparr>es_estates := mset (es_estates s) i estate\<rparr>)))
      else Inr (nft, s\<lparr>es_estates := mmodify (es_estates s) i (\<lambda>es. es\<lparr>est_owner := nft_owner nft\<rparr>)\<rparr>))"

definition transfer_wearable ::
  "env \<Rightarrow> bool \<Rightarrow> string \<Rightarrow> NFT \<Rightarrow> eth_state \<Rightarrow> (NFT \<times> eth_state) result" where
  "transfer_wearable e minted i nft s =
     (if minted
      then
        (let wearable = (buildWearableFromNFT e nft)\<lparr>wea_network := Some ETHEREUM\<rparr>;
             s' = s\<lparr>es_wearables := mset (es_wearables s) i wearable\<rparr>
         in if wea_id wearable \<noteq> []
            then bindR (throw_if_none TypeError (wea_name wearable)) (\<lambda>name.
                   Inr (nft\<lparr>nft_wearable := Some (wea_id wearable), nft_name := Some name,
                            nft_image := Some (getWearableImage e wearable),
                            nft_searchIsWearableHead := Some (isWearableHead (wea_category wearable)),
                            nft_searchIsWearableAccessory := Some (isWearableAccessory (wea_category wearable)),
                            nft_searchWearableCategory := wea_category wearable,
                            nft_searchWearableBodyShapes := wea_bodyShapes wearable,
                            nft_searchWearableRarity := wea_rarity wearable,
                            nft_searchText := Some (toLowerCase name)\<rparr>, s'))
            else Inr (nft, s'))
      else Inr (nft, s\<lparr>es_wearables := mmodify (es_wearables s) i (\<lambda>w. w\<lparr>wea_owner := nft_owner nft\<rparr>)\<rparr>))"

definition transfer_ens :: "bool \<Rightarrow> string \<Rightarrow> NFT \<Rightarrow> eth_state \<Rightarrow> NFT \<times> eth_state" where
  "transfer_ens minted i nft s =
     (if minted
      then (nft\<lparr>nft_ens := Some (ens_id (buildENSFromNFT nft))\<rparr>,
            s\<lparr>es_ens := mset (es_ens s) i (buildENSFromNFT nft)\<rparr>)
      else (nft, s\<lparr>es_ens := mmodify (es_ens s) i (\<lambda>en. en\<lparr>ens_owner := nft_owner nft\<rparr>)\<rparr>))"

definition transfer_category ::
  "env \<Rightarrow> bool \<Rightarrow> category \<Rightarrow> int \<Rightarrow> string \<Rightarrow> NFT \<Rightarrow> eth_state \<Rightarrow> (NFT \<times> eth_state) result" where
  "transfer_category e minted category tokenId i nft s =
     (if category = Category_parcel then transfer_parcel e minted tokenId i nft s
      else if category = Category_estate then transfer_estate minted i nft s
      else if category = Category_wearable then transfer_wearable e minted i nft s
      else if category = Category_ens then Inr (transfer_ens minted i nft s)
      else Inr (nft, s))"

definition handleTransfer ::
  "env \<Rightarrow> block \<Rightarrow> string \<Rightarrow> transfer_event \<Rightarrow> eth_state \<Rightarrow> eth_state result" where
  "handleTransfer e b contractAddress event s =
     (let category = getCategory e contractAddress;
          i = getNFTId contractAddress (toStr (te_tokenId event)) (Some category);
          nft0 = (case mget (es_nfts s) i of Some n \<Rightarrow> n | None \<Rightarrow> new_NFT i (Some ETHEREUM));
          (toAccount, accounts') = createOrLoadAccount (es_accounts s) (te_to event) ETHEREUM;
          minted = isMint (te_from event);
          nft1 = transfer_base e contractAddress event b (account_refer toAccount) (es_tokenURIs s) nft0;
          (nft2, s2) =
            (if minted
             then (let n = mint_defaults b nft1 in
                   (n, s\<lparr>es_counts := set_count (eth_buildCountFromNFT n (es_counts s))\<rparr>))
             else (case move_order (acc_address toAccount) nft1 (es_orders s) of
                     (n, orders') \<Rightarrow> (n, s\<lparr>es_orders := orders'\<rparr>)))
      in bindR (transfer_category e minted category (te_tokenId event) i nft2
                  (s2\<lparr>es_accounts := accounts'\<rparr>))
           (\<lambda>(nft3, s3). Inr (s3\<lparr>es_nfts := mset (es_nfts s3) i nft3\<rparr>)))"

section \<open>Items of the first wearable collections\<close>

record add_wearable =
  aw_wearableId :: string
  aw_maxIssuance :: int

definition new_collection_v1 ::
  "env \<Rightarrow> block \<Rightarrow> string \<Rightarrow> string \<Rightarrow> string \<Rightarrow> string \<Rightarrow> string \<Rightarrow> int \<Rightarrow> Collection" where
  "new_collection_v1 e b address owner name symb baseURI chainId =
     (let c = \<lparr>col_id = address, col_owner = owner, col_creator = owner, col_name = name,
        col_symbol = symb, col_isCompleted = Some True, col_isApproved = Some True,
        col_isEditable = None, col_minters = [], col_managers = [], col_urn = [],
        col_itemsCount = 0, col_createdAt = seconds b, col_updatedAt = seconds b,
        col_reviewedAt = seconds b, col_firstListedAt = None, col_searchIsStoreMinter = False,
        col_searchIsMarketplaceV3Minter = False, col_searchText = toLowerCase name,
        col_baseURI = baseURI, col_chainId = chainId, col_usedCredits = False,
        col_creditValue = Some 0, col_txHash = blk_hash b, col_network = ETHEREUM\<rparr>
      in c\<lparr>col_urn := getURNForCollectionV1 e c ETHEREUM\<rparr>)"

definition load_collection_v1 ::
  "env \<Rightarrow> eth_rpc \<Rightarrow> block \<Rightarrow> string \<Rightarrow> string \<Rightarrow> collections \<Rightarrow> Collection result" where
  "load_collection_v1 e rpc b address owner collections =
     (case mget collections address of
        Some c \<Rightarrow> Inr c
      | None \<Rightarrow>
          bindR (rpc_name rpc (blk_height b) address) (\<lambda>name.
          bindR (rpc_symbol rpc (blk_height b) address) (\<lambda>symb.
          bindR (rpc_baseURI rpc (blk_height b) address) (\<lambda>baseURI.
          bindR (bigint_of_string (env_or (env_ETHEREUM_CHAIN_ID e) ''1'')) (\<lambda>chainId.
            Inr (new_collection_v1 e b address owner name symb baseURI chainId))))))"

definition opt_str :: "string option \<Rightarrow> string" where
  "opt_str v = (case v of None \<Rightarrow> [] | Some s \<Rightarrow> s)"

definition new_item_v1 ::
  "env \<Rightarrow> block \<Rightarrow> string \<Rightarrow> add_wearable \<Rightarrow> string \<Rightarrow> Collection \<Rightarrow> Wearable \<Rightarrow> string \<Rightarrow> Item" where
  "new_item_v1 e b address event owner collection representation baseURI =
     (let urn = getURNForWearableV1 e collection (wea_id representation) ETHEREUM;
          item =
            \<lparr>itm_id = getItemId address (aw_wearableId event), itm_collection = col_id collection,
             itm_blockchainId = col_itemsCount collection, itm_creator = owner,
             itm_itemType = IT_undefined, itm_totalSupply = 0,
             itm_maxSupply = aw_maxIssuance event, itm_rarity = opt_str (wea_rarity representation),
             itm_creationFee = 0, itm_available = aw_maxIssuance event, itm_price = 0,
             itm_beneficiary = ZERO_ADDRESS, itm_contentHash = None,
             itm_uri = baseURI @ aw_wearableId event, itm_image = None, itm_minters = [],
             itm_managers = [], itm_metadata = None, itm_rawMetadata = [], itm_urn = urn,
             itm_createdAt = seconds b, itm_updatedAt = seconds b, itm_reviewedAt = seconds b,
             itm_soldAt = None, itm_firstListedAt = None, itm_sales = 0, itm_volume = 0,
             itm_searchText = None, itm_searchItemType = None,
             itm_searchIsCollectionApproved = Some True, itm_searchIsStoreMinter = False,
             itm_searchIsMarketplaceV3Minter = False, itm_searchIsWearableHead = None,
             itm_searchIsWearableAccessory = None, itm_searchWearableCategory = None,
             itm_searchWearableRarity = None, itm_searchWearableBodyShapes = None,
             itm_searchEmoteCategory = None, itm_searchEmoteLoop = None,
             itm_searchEmoteRarity = None, itm_searchEmoteBodyShapes = None,
             itm_searchEmoteHasSound = None, itm_searchEmoteHasGeometry = None,
             itm_searchEmoteOutcomeType = None, itm_uniqueCollectors = [],
             itm_uniqueCollectorsTotal = 0, itm_network = ETHEREUM\<rparr>
      in item\<lparr>itm_image := Some (getItemImage e item)\<rparr>)"

definition handleAddItemV1 ::
  "env \<Rightarrow> eth_rpc \<Rightarrow> string \<Rightarrow> add_wearable \<Rightarrow> block \<Rightarrow> eth_state \<Rightarrow> eth_state result" where
  "handleAddItemV1 e rpc address event b s =
     bindR (rpc_owner rpc (blk_height b) address) (\<lambda>owner.
     bindR (load_collection_v1 e rpc b address owner (es_collections s)) (\<lambda>c.
       let collection = c\<lparr>col_itemsCount := col_itemsCount c + 1\<rparr>;
           s1 = s\<lparr>es_collections := mset (es_collections s) address collection\<rparr>
       in case getWearableV1Representation e (aw_wearableId event) of
            None \<Rightarrow> Inr s1
          | Some representation \<Rightarrow>
              bindR (rpc_baseURI rpc (blk_height b) address) (\<lambda>baseURI.
                let item0 = new_item_v1 e b address event owner collection representation baseURI;
                    (metadata, wearables', metadatas') =
                      buildWearableV1Metadata item0 representation (es_wearables s) (es_metadatas s);
                    item = setItemSearchFields
                             (item0\<lparr>itm_metadata := Some (met_id metadata),
                                    itm_itemType := met_itemType metadata\<rparr>)
                             metadatas' wearables' None
                in Inr (s1\<lparr>es_wearables := wearables', es_metadatas := metadatas',
                           es_items := mset (es_items s) (itm_id item) item,
                           es_counts := snd (buildCountFromItem (es_counts s) ETHEREUM)\<rparr>))))"

section \<open>Transfers of the first wearables\<close>

definition transfer_v1_base :: "string \<Rightarrow> transfer_event \<Rightarrow> block \<Rightarrow> account_ref \<Rightarrow> string \<Rightarrow>
  string option \<Rightarrow> string \<Rightarrow> Item \<Rightarrow> NFT \<Rightarrow> NFT" where
  "transfer_v1_base address event b owner tokenURI collection itemId item nft =
     nft\<lparr>nft_collection := collection, nft_category := Some Category_wearable,
         nft_tokenId := Some (te_tokenId event), nft_owner := Some owner,
         nft_ownerAddress := Some (te_to event), nft_contractAddress := Some address,
         nft_updatedAt := Some (seconds b), nft_soldAt := None,
         nft_transferredAt := Some (seconds b), nft_itemType := Some IT_wearable_v1,
         nft_tokenURI := (case nft_tokenURI nft of
                            None \<Rightarrow> Some tokenURI
                          | Some u \<Rightarrow> if u = [] then Some tokenURI else Some u),
         nft_item := Some (SharedItem itemId), nft_urn := Some (itm_urn item),
         nft_sales := Some 0, nft_volume := Some 0\<rparr>"

definition mint_v1 ::
  "env \<Rightarrow> block \<Rightarrow> string \<Rightarrow> string \<Rightarrow> string \<Rightarrow> Item \<Rightarrow> string \<Rightarrow> NFT \<Rightarrow> eth_state \<Rightarrow> (NFT \<times> eth_state) result" where
  "mint_v1 e b i tokenURI sender item itemId nft s =
     bindR (throw_if_none RangeError (getIssuedIdFromTokenURI tokenURI)) (\<lambda>issuedId.
       let nft1 = nft\<lparr>nft_itemBlockchainId := Some (itm_blockchainId item), nft_issuedId := Some issuedId\<rparr>;
           wearable = buildWearableFromNFT e nft1;
           nft2 = setNFTSearchFields
             (mint_defaults b (nft1\<lparr>nft_wearable := Some (wea_id wearable),
                nft_metadata := itm_metadata item, nft_itemType := Some (itm_itemType item),
                nft_image := itm_image item\<rparr>)) (es_metadatas s);
           item' = item\<lparr>itm_available := itm_available item - 1,
                        itm_totalSupply := itm_totalSupply item + 1\<rparr>;
           mint = \<lparr>mnt_id = i, mnt_nft = nft_id nft2, mnt_item = itm_id item,
                   mnt_beneficiary = (case nft_owner nft2 of None \<Rightarrow> [] | Some a \<Rightarrow> ar_id a),
                   mnt_creator = ZERO_ADDRESS, mnt_minter = sender, mnt_timestamp = seconds b,
                   mnt_searchContractAddress = nft_contractAddress nft2,
                   mnt_searchTokenId = nft_tokenId nft2, mnt_searchItemId = itm_blockchainId item,
                   mnt_searchIssuedId = nft_issuedId nft2, mnt_searchIsStoreMinter = False,
                   mnt_searchPrimarySalePrice = None, mnt_network = ETHEREUM\<rparr>
       in Inr (nft2,
            s\<lparr>es_wearables := mset (es_wearables s) i wearable,
              es_counts := set_count (with_count ETHEREUM
                             (\<lambda>c. c\<lparr>cnt_nftTotal := cnt_nftTotal c + 1\<rparr>) (es_counts s)),
              es_items := mset (mset (es_items s) itemId item') (itm_id item') item',
              es_mints := mset (es_mints s) i mint\<rparr>))"

definition handleTransferWearableV1 ::
  "env \<Rightarrow> block \<Rightarrow> string \<Rightarrow> transfer_event \<Rightarrow> eth_state \<Rightarrow> eth_state result" where
  "handleTransferWearableV1 e b address event s =
     (case mget (es_tokenURIs s) (address @ dash @ toStr (te_tokenId event)) of
        None \<Rightarrow> Inr s
      | Some tokenURI \<Rightarrow>
          if tokenURI = [] then Inr s
          else
            (let itemId = getItemId address (getWearableIdFromTokenURI tokenURI) in
             case mget (es_items s) itemId of
               None \<Rightarrow> Inr s
             | Some item \<Rightarrow>
                 (let i = getNFTId address (toStr (te_tokenId event)) None;
                      old = mget (es_nfts s) i;
                      (toAccount, accounts') = createOrLoadAccount (es_accounts s) (te_to event) ETHEREUM;
                      s1 = s\<lparr>es_accounts := accounts'\<rparr>;
                      nft = transfer_v1_base address event b (account_refer toAccount) tokenURI
                              (map_option col_id (mget (es_collections s) address)) itemId item
                              (case old of Some n \<Rightarrow> n | None \<Rightarrow> new_NFT i (Some ETHEREUM))
                  in if isMint (te_from event)
                     then bindR (mint_v1 e b i tokenURI (te_from event) item itemId nft s1)
                            (\<lambda>(nft', s'). Inr (s'\<lparr>es_nfts := mset (es_nfts s') i nft'\<rparr>))
                     else (case old of
                             None \<Rightarrow> Inr s1
                           | Some _ \<Rightarrow>
                               (case move_order (acc_address toAccount) nft (es_orders s) of
                                  (nft', orders') \<Rightarrow>
                                    Inr (s1\<lparr>es_orders := orders',
                                            es_nfts := mset (es_nfts s) i nft'\<rparr>))))))"

end
