(* ===== verification/Eth_Main.thy ===== *)
theory Eth_Main
  imports Eth_Nft
begin

text \<open>
  The batch loop of the Ethereum processor: \<^verbatim>\<open>eth/main.ts\<close> and \<^verbatim>\<open>eth/state.ts\<close>. A batch is scanned
  once (\<open>scan_block\<close>): every log is sorted into one of three queues together with the owner cuts in
  force at that log, and the ids of the entities to load are collected. Then the queues are
  handled: market events in log order (\<open>eth_dispatch\<close>), LAND updates, and name events
  (\<open>ens_dispatch\<close>). A log carries its decoded event: decoding is the generated ABI code.
\<close>

section \<open>Logs and queues\<close>

datatype eth_event =
    Ev_Transfer transfer_event
  | Ev_OwnershipTransferred
  | Ev_AddWearable add_wearable
  | Ev_CreateEstate create_estate
  | Ev_Update update_event
  | Ev_AddLand land_event
  | Ev_RemoveLand land_event
  | Ev_NameRegistered name_registered
  | Ev_NameBought int
  | Ev_OrderCreated order_created
  | Ev_OrderSuccessful order_successful
  | Ev_OrderCancelled order_cancelled
  | Ev_ChangedOwnerCut int
  | Ev_BidCreated bid_created
  | Ev_BidAccepted bid_accepted
  | Ev_BidCancelled bid_cancelled
  | Ev_Traded traded_event
  | Ev_OrderFilled string
  | Ev_Unknown

record eth_log =
  log_address :: string
  log_txHash :: string
  log_txIndex :: int
  log_event :: eth_event

record eth_block_data =
  bd_header :: block
  bd_logs :: "eth_log list"

record queued =
  q_event :: eth_event
  q_block :: block
  q_address :: string
  q_txHash :: string
  q_marketCut :: "int option"
  q_bidCut :: "int option"

record ens_queued =
  eq_event :: eth_event
  eq_block :: eth_block_data
  eq_log :: eth_log

record eth_scan =
  sc_transfers :: "(string, Transfer) jsmap"
  sc_collectionIds :: "string list"
  sc_itemIds :: "(string, string list) jsmap"
  sc_tokenIds :: "(string, int list) jsmap"
  sc_landTokenIds :: "int list"
  sc_estateTokenIds :: "int list"
  sc_ensTokenIds :: "int list"
  sc_accountIds :: "string list"
  sc_analyticsIds :: "string list"
  sc_bidIds :: "string list"
  sc_parcelEvents :: "(update_event \<times> block) list"
  sc_ensEvents :: "ens_queued list"
  sc_market :: "queued list"
  sc_marketCut :: "int option"
  sc_bidCut :: "int option"

text \<open>\<^verbatim>\<open>getBatchInMemoryState()\<close>; the owner cuts live in module variables and survive the batch.\<close>

definition getBatchInMemoryState :: "int option \<Rightarrow> int option \<Rightarrow> eth_scan" where
  "getBatchInMemoryState marketCut bidCut =
     \<lparr>sc_transfers = [], sc_collectionIds = [], sc_itemIds = [], sc_tokenIds = [],
      sc_landTokenIds = [], sc_estateTokenIds = [], sc_ensTokenIds = [], sc_accountIds = [],
      sc_analyticsIds = [], sc_bidIds = [], sc_parcelEvents = [], sc_ensEvents = [],
      sc_market = [], sc_marketCut = marketCut, sc_bidCut = bidCut\<rparr>"

section \<open>Owner cuts\<close>

text \<open>\<^verbatim>\<open>startBlockByNetwork[chainId]\<close>: the blocks of \<^verbatim>\<open>MarketplaceProxy\<close> and \<^verbatim>\<open>ERC721Bid\<close>.\<close>

definition startBlocks :: "string \<Rightarrow> (int \<times> int) option" where
  "startBlocks chainId =
     (if chainId = toStr ETHEREUM_MAINNET then Some (6496012, 7270906)
      else if chainId = toStr ETHEREUM_SEPOLIA then Some (3831225, 3831237)
      else None)"

text \<open>Both reads go to \<^verbatim>\<open>addresses.Marketplace\<close>, the one for the bid contract too.\<close>

definition getContractOwnerCutPerMillion :: "env \<Rightarrow> eth_rpc \<Rightarrow> block \<Rightarrow> int result" where
  "getContractOwnerCutPerMillion e rpc b =
     rpc_ownerCutPerMillion rpc (blk_height b) (ea_Marketplace (eth_getAddresses e))"

definition getOwnerCutsValues :: "env \<Rightarrow> eth_rpc \<Rightarrow> block \<Rightarrow> eth_scan \<Rightarrow> eth_scan result" where
  "getOwnerCutsValues e rpc b sc =
     (let start = startBlocks (env_or (env_ETHEREUM_CHAIN_ID e) (toStr ETHEREUM_MAINNET)) in
      bindR
        (if sc_marketCut sc = None
         then bindR (throw_if_none TypeError start) (\<lambda>(market, bid).
                if blk_height b \<ge> market
                then bindR (getContractOwnerCutPerMillion e rpc b) (\<lambda>v. Inr (sc\<lparr>sc_marketCut := Some v\<rparr>))
                else Inr sc)
         else Inr sc)
        (\<lambda>sc1.
          if sc_bidCut sc1 = None
          then bindR (throw_if_none TypeError start) (\<lambda>(market, bid).
                 if blk_height b \<ge> bid
                 then bindR (getContractOwnerCutPerMillion e rpc b) (\<lambda>v. Inr (sc1\<lparr>sc_bidCut := Some v\<rparr>))
                 else Inr sc1)
          else Inr sc1))"

section \<open>Scanning a log\<close>

definition push_values :: "('k, 'v list) jsmap \<Rightarrow> 'k \<Rightarrow> 'v \<Rightarrow> ('k, 'v list) jsmap" where
  "push_values m k v = mset m k ((case mget m k of None \<Rightarrow> [] | Some vs \<Rightarrow> vs) @ [v])"

definition addEventToStateIdsBasedOnCategory ::
  "env \<Rightarrow> string \<Rightarrow> int \<Rightarrow> eth_scan \<Rightarrow> eth_scan" where
  "addEventToStateIdsBasedOnCategory e nftAddress assetId sc =
     (let category = getCategory e nftAddress in
      if category = Category_parcel
      then sc\<lparr>sc_landTokenIds := sadd (sc_landTokenIds sc) assetId\<rparr>
      else if category = Category_estate
      then sc\<lparr>sc_estateTokenIds := sadd (sc_estateTokenIds sc) assetId\<rparr>
      else if category = Category_ens
      then sc\<lparr>sc_ensTokenIds := sadd (sc_ensTokenIds sc) assetId\<rparr>
      else sc\<lparr>sc_tokenIds := push_values (sc_tokenIds sc) nftAddress assetId\<rparr>)"

text \<open>Queueing a market event, with or without the owner cuts in force.\<close>

definition enqueue :: "bool \<Rightarrow> block \<Rightarrow> eth_log \<Rightarrow> eth_scan \<Rightarrow> eth_scan" where
  "enqueue with_cuts b lg sc =
     sc\<lparr>sc_market := sc_market sc @
          [\<lparr>q_event = log_event lg, q_block = b, q_address = log_address lg,
            q_txHash = log_txHash lg,
            q_marketCut = (if with_cuts then sc_marketCut sc else None),
            q_bidCut = (if with_cuts then sc_bidCut sc else None)\<rparr>]\<rparr>"

definition add_account :: "string \<Rightarrow> eth_scan \<Rightarrow> eth_scan" where
  "add_account a sc = sc\<lparr>sc_accountIds := sadd (sc_accountIds sc) a\<rparr>"

definition add_analytics :: "block \<Rightarrow> eth_scan \<Rightarrow> eth_scan" where
  "add_analytics b sc = sc\<lparr>sc_analyticsIds := sadd (sc_analyticsIds sc) (dayId (seconds b) ETHEREUM)\<rparr>"

definition add_bid :: "string \<Rightarrow> eth_scan \<Rightarrow> eth_scan" where
  "add_bid i sc = sc\<lparr>sc_bidIds := sadd (sc_bidIds sc) i\<rparr>"

definition scan_transfer_ids ::
  "env \<Rightarrow> (string, string) jsmap \<Rightarrow> string \<Rightarrow> int \<Rightarrow> eth_scan \<Rightarrow> eth_scan" where
  "scan_transfer_ids e tokenURIs address tokenId sc =
     (let addresses = eth_getAddresses e in
      if address = ea_LANDRegistry addresses
      then sc\<lparr>sc_landTokenIds := sadd (sc_landTokenIds sc) tokenId\<rparr>
      else if address = ea_EstateRegistry addresses
      then sc\<lparr>sc_estateTokenIds := sadd (sc_estateTokenIds sc) tokenId\<rparr>
      else if address = ea_DCLRegistrar addresses
      then sc\<lparr>sc_ensTokenIds := sadd (sc_ensTokenIds sc) tokenId\<rparr>
      else
        (let sc1 = sc\<lparr>sc_tokenIds := push_values (sc_tokenIds sc) address tokenId\<rparr> in
         case mget tokenURIs (address @ dash @ toStr tokenId) of
           None \<Rightarrow> sc1
         | Some uri \<Rightarrow>
             if uri = [] then sc1
             else sc1\<lparr>sc_itemIds := push_values (sc_itemIds sc1) address
                        (getItemId address (getWearableIdFromTokenURI uri))\<rparr>))"

definition transfer_row :: "env \<Rightarrow> block \<Rightarrow> eth_log \<Rightarrow> transfer_event \<Rightarrow> Transfer" where
  "transfer_row e b lg event =
     (let nftId = getNFTId (log_address lg) (toStr (te_tokenId event))
                    (Some (getCategory e (log_address lg)))
      in \<lparr>trf_id = nftId @ dash @ toStr (seconds b), trf_nftId = nftId, trf_block = blk_height b,
          trf_from = te_from event, trf_to = te_to event, trf_network = ETHEREUM,
          trf_timestamp = seconds b, trf_txHash = log_txHash lg\<rparr>)"

definition scan_transfer ::
  "env \<Rightarrow> (string, string) jsmap \<Rightarrow> block \<Rightarrow> eth_log \<Rightarrow> transfer_event \<Rightarrow> eth_scan \<Rightarrow> eth_scan" where
  "scan_transfer e tokenURIs b lg event sc =
     (let sc1 = add_account (te_to event) (enqueue True b lg sc);
          sc2 = scan_transfer_ids e tokenURIs (log_address lg) (te_tokenId event) sc1;
          t = transfer_row e b lg event
      in sc2\<lparr>sc_transfers := mset (sc_transfers sc2) (trf_id t) t\<rparr>)"

definition scan_update :: "env \<Rightarrow> block \<Rightarrow> eth_log \<Rightarrow> update_event \<Rightarrow> eth_scan \<Rightarrow> eth_scan" where
  "scan_update e b lg event sc =
     (if log_address lg = ea_EstateRegistry (eth_getAddresses e)
      then enqueue False b lg
             (sc\<lparr>sc_estateTokenIds := sadd (sc_estateTokenIds sc) (ue_assetId event)\<rparr>)
      else if log_address lg = ea_LANDRegistry (eth_getAddresses e)
      then sc\<lparr>sc_landTokenIds := sadd (sc_landTokenIds sc) (ue_assetId event),
              sc_parcelEvents := sc_parcelEvents sc @ [(event, b)]\<rparr>
      else sc)"

definition scan_land :: "block \<Rightarrow> eth_log \<Rightarrow> land_event \<Rightarrow> eth_scan \<Rightarrow> eth_scan" where
  "scan_land b lg event sc =
     enqueue False b lg
       (sc\<lparr>sc_estateTokenIds := sadd (sc_estateTokenIds sc) (le_estateId event)\<rparr>)"

definition scan_name :: "eth_block_data \<Rightarrow> eth_log \<Rightarrow> eth_scan \<Rightarrow> eth_scan" where
  "scan_name bd lg sc =
     sc\<lparr>sc_ensEvents := sc_ensEvents sc @ [\<lparr>eq_event = log_event lg, eq_block = bd, eq_log = lg\<rparr>]\<rparr>"

definition scan_listed :: "env \<Rightarrow> block \<Rightarrow> eth_log \<Rightarrow> string \<Rightarrow> int \<Rightarrow> eth_scan \<Rightarrow> eth_scan" where
  "scan_listed e b lg nftAddress assetId sc =
     enqueue True b lg (addEventToStateIdsBasedOnCategory e nftAddress assetId sc)"

definition scan_sold :: "env \<Rightarrow> block \<Rightarrow> eth_log \<Rightarrow> order_successful \<Rightarrow> eth_scan \<Rightarrow> eth_scan" where
  "scan_sold e b lg event sc =
     enqueue True b lg (add_analytics b (add_account (os_buyer event) (add_account (os_seller event)
       (addEventToStateIdsBasedOnCategory e (os_nftAddress event) (os_assetId event) sc))))"

definition scan_cut :: "env \<Rightarrow> eth_log \<Rightarrow> int \<Rightarrow> eth_scan \<Rightarrow> eth_scan" where
  "scan_cut e lg v sc =
     (if log_address lg = ea_Marketplace (eth_getAddresses e)
      then sc\<lparr>sc_marketCut := Some v\<rparr> else sc\<lparr>sc_bidCut := Some v\<rparr>)"

definition scan_accepted :: "env \<Rightarrow> block \<Rightarrow> eth_log \<Rightarrow> bid_accepted \<Rightarrow> eth_scan \<Rightarrow> eth_scan" where
  "scan_accepted e b lg event sc =
     enqueue True b lg
       (addEventToStateIdsBasedOnCategory e (ba_tokenAddress event) (ba_tokenId event)
         (add_bid (getBidId (ba_tokenAddress event) (toStr (ba_tokenId event)) (ba_bidder event))
           (add_account (ba_bidder event) (add_account (ba_seller event) (add_analytics b sc)))))"

definition scan_bid_cancelled :: "env \<Rightarrow> block \<Rightarrow> eth_log \<Rightarrow> bid_cancelled \<Rightarrow> eth_scan \<Rightarrow> eth_scan" where
  "scan_bid_cancelled e b lg event sc =
     enqueue True b lg
       (addEventToStateIdsBasedOnCategory e (bx_tokenAddress event) (bx_tokenId event)
         (add_bid (getBidId (bx_tokenAddress event) (toStr (bx_tokenId event)) (bx_bidder event)) sc))"

definition scan_traded :: "env \<Rightarrow> block \<Rightarrow> eth_log \<Rightarrow> traded_event \<Rightarrow> eth_scan \<Rightarrow> eth_scan" where
  "scan_traded e b lg event sc =
     (case getTradeEventData e event ETHEREUM of
        None \<Rightarrow> sc
      | Some td \<Rightarrow>
          (case td_tokenId td of
             None \<Rightarrow> sc
           | Some tokenId \<Rightarrow>
               if tokenId = 0 then sc
               else enqueue False b lg (add_analytics b (add_account (td_buyer td)
                      (add_account (td_seller td)
                        (addEventToStateIdsBasedOnCategory e (td_collectionAddress td) tokenId sc))))))"

definition scan_log ::
  "env \<Rightarrow> (string, string) jsmap \<Rightarrow> eth_block_data \<Rightarrow> eth_scan \<Rightarrow> eth_log \<Rightarrow> eth_scan" where
  "scan_log e tokenURIs bd sc lg =
     (let b = bd_header bd in
      case log_event lg of
        Ev_Transfer event \<Rightarrow> scan_transfer e tokenURIs b lg event sc
      | Ev_OwnershipTransferred \<Rightarrow> enqueue False b lg sc
      | Ev_AddWearable event \<Rightarrow>
          enqueue False b lg
            (sc\<lparr>sc_collectionIds := sadd (sc_collectionIds sc) (toLowerCase (log_address lg))\<rparr>)
      | Ev_CreateEstate event \<Rightarrow> enqueue False b lg sc
      | Ev_Update event \<Rightarrow> scan_update e b lg event sc
      | Ev_AddLand event \<Rightarrow> scan_land b lg event sc
      | Ev_RemoveLand event \<Rightarrow> scan_land b lg event sc
      | Ev_NameRegistered event \<Rightarrow> scan_name bd lg sc
      | Ev_NameBought price \<Rightarrow> scan_name bd lg (add_analytics b sc)
      | Ev_OrderCreated event \<Rightarrow> scan_listed e b lg (oc_nftAddress event) (oc_assetId event) sc
      | Ev_OrderSuccessful event \<Rightarrow> scan_sold e b lg event sc
      | Ev_OrderCancelled event \<Rightarrow> scan_listed e b lg (ox_nftAddress event) (ox_assetId event) sc
      | Ev_ChangedOwnerCut v \<Rightarrow> scan_cut e lg v sc
      | Ev_BidCreated event \<Rightarrow> scan_listed e b lg (bc_tokenAddress event) (bc_tokenId event) sc
      | Ev_BidAccepted event \<Rightarrow> scan_accepted e b lg event sc
      | Ev_BidCancelled event \<Rightarrow> scan_bid_cancelled e b lg event sc
      | Ev_Traded event \<Rightarrow> scan_traded e b lg event sc
      | Ev_OrderFilled h \<Rightarrow> sc
      | Ev_Unknown \<Rightarrow> sc)"

text \<open>\<^verbatim>\<open>BigInt(block.header.timestamp / 1000)\<close> at the head of the log loop.\<close>

definition scan_checked ::
  "env \<Rightarrow> (string, string) jsmap \<Rightarrow> eth_block_data \<Rightarrow> eth_scan \<Rightarrow> eth_log \<Rightarrow> eth_scan result" where
  "scan_checked e tokenURIs bd sc lg =
     (if blk_timestamp (bd_header bd) mod 1000 \<noteq> 0 then Inl RangeError
      else Inr (scan_log e tokenURIs bd sc lg))"

definition scan_block ::
  "env \<Rightarrow> eth_rpc \<Rightarrow> (string, string) jsmap \<Rightarrow> eth_scan \<Rightarrow> eth_block_data \<Rightarrow> eth_scan result" where
  "scan_block e rpc tokenURIs sc bd =
     bindR (getOwnerCutsValues e rpc (bd_header bd) sc) (\<lambda>sc1.
       foldR (scan_checked e tokenURIs bd) sc1 (bd_logs bd))"

section \<open>Token URIs\<close>

text \<open>The tokens of the batch whose URI is not cached yet, without duplicates, by contract.\<close>

definition tokenIdsWithoutTokenURIs ::
  "(string, string) jsmap \<Rightarrow> (string, int list) jsmap \<Rightarrow> (string, int list) jsmap" where
  "tokenIdsWithoutTokenURIs tokenURIs tokenIds =
     filter (\<lambda>(c, ids). ids \<noteq> [])
       (map (\<lambda>(c, ids). (c, set_of_array (filter (\<lambda>i.
          mget tokenURIs (c @ dash @ toStr i) = None \<or> mget tokenURIs (c @ dash @ toStr i) = Some []) ids)))
        tokenIds)"

definition multicall_height :: "env \<Rightarrow> int \<Rightarrow> int" where
  "multicall_height e lastHeight =
     (if env_or (env_ETHEREUM_CHAIN_ID e) (toStr ETHEREUM_MAINNET) = toStr ETHEREUM_MAINNET \<and>
         lastHeight < 14353601
      then 14353601 else lastHeight)"

definition tokenURIMutilcall ::
  "env \<Rightarrow> eth_rpc \<Rightarrow> int \<Rightarrow> (string, int list) jsmap \<Rightarrow> (string, string) jsmap result" where
  "tokenURIMutilcall e rpc lastHeight tokenIds =
     (let param = concat (map (\<lambda>(c, ids). map (\<lambda>i. (c, i)) ids) tokenIds) in
      bindR (rpc_tokenURIs rpc (multicall_height e lastHeight) param) (\<lambda>results.
        Inr (foldl (\<lambda>m ((c, i), uri). mset m (c @ dash @ toStr i) uri) [] (zip param results))))"

text \<open>
  The new URIs are cached and the items they belong to are added to the ids to load; the contract
  is recovered from the key.
\<close>

definition remember_uri ::
  "(string, string) jsmap \<times> (string, string list) jsmap \<Rightarrow> string \<times> string \<Rightarrow>
   (string, string) jsmap \<times> (string, string list) jsmap" where
  "remember_uri acc entry =
     (case acc of (tokenURIs, itemIds) \<Rightarrow>
      case entry of (key, uri) \<Rightarrow>
        (let contractAddress = hd (js_split key dash) in
         (mset tokenURIs key uri,
          push_values itemIds contractAddress
            (getItemId contractAddress (getWearableIdFromTokenURI uri)))))"

definition fetch_tokenURIs ::
  "env \<Rightarrow> eth_rpc \<Rightarrow> int \<Rightarrow> (string, string) jsmap \<Rightarrow> eth_scan \<Rightarrow>
   ((string, string) jsmap \<times> eth_scan) result" where
  "fetch_tokenURIs e rpc lastHeight tokenURIs sc =
     (let missing = tokenIdsWithoutTokenURIs tokenURIs (sc_tokenIds sc) in
      bindR (if missing \<noteq> [] then tokenURIMutilcall e rpc lastHeight missing else Inr []) (\<lambda>new.
        case foldl remember_uri (tokenURIs, sc_itemIds sc) new of
          (tokenURIs', itemIds') \<Rightarrow> Inr (tokenURIs', sc\<lparr>sc_itemIds := itemIds'\<rparr>)))"

section \<open>Handling the queues\<close>

definition cut_or_zero :: "int option \<Rightarrow> int" where
  "cut_or_zero c = (case c of None \<Rightarrow> 0 | Some v \<Rightarrow> v)"

definition dispatch_transfer ::
  "env \<Rightarrow> block \<Rightarrow> string \<Rightarrow> transfer_event \<Rightarrow> eth_state \<Rightarrow> eth_state result" where
  "dispatch_transfer e b address event s =
     (if address \<in> set (collection_addresses (eth_getAddresses e))
      then handleTransferWearableV1 e b address event s
      else handleTransfer e b address event s)"

text \<open>The guards \<^verbatim>\<open>isUpdateEvent\<close>, \<^verbatim>\<open>isAddLandEvent\<close> and \<^verbatim>\<open>isRemoveLandEvent\<close> test the shape of the
  decoded event, which its constructor gives; \<^verbatim>\<open>isCreateEstateEvent\<close> also tests the owner.\<close>

definition dispatch_land ::
  "env \<Rightarrow> block \<Rightarrow> eth_event \<Rightarrow> eth_state \<Rightarrow> eth_state result" where
  "dispatch_land e b ev s =
     (case ev of
        Ev_CreateEstate event \<Rightarrow>
          if ce_owner event \<noteq> [] then Inr (handleCreateEstate e b event s) else Inr s
      | Ev_Update event \<Rightarrow> Inr (estate_handleUpdate e event b s)
      | Ev_AddLand event \<Rightarrow> handleAddLand e event s
      | Ev_RemoveLand event \<Rightarrow> handleRemoveLand e event s
      | _ \<Rightarrow> Inr s)"

definition eth_dispatch :: "env \<Rightarrow> eth_rpc \<Rightarrow> eth_state \<Rightarrow> queued \<Rightarrow> eth_state result" where
  "eth_dispatch e rpc s q =
     (let b = q_block q in
      case q_event q of
        Ev_OrderCreated event \<Rightarrow> Inr (eth_handleOrderCreated e event b (q_address q) (q_txHash q) s)
      | Ev_Traded event \<Rightarrow> eth_handleTraded e rpc event b (q_txHash q) s
      | Ev_OrderSuccessful event \<Rightarrow>
          eth_handleOrderSuccessful e rpc event b (q_txHash q) (cut_or_zero (q_marketCut q)) s
      | Ev_OrderCancelled event \<Rightarrow> Inr (eth_handleOrderCancelled e event b s)
      | Ev_BidCreated event \<Rightarrow> eth_handleBidCreated e event b (q_address q) s
      | Ev_BidAccepted event \<Rightarrow>
          eth_handleBidAccepted rpc event b (q_txHash q) (cut_or_zero (q_bidCut q)) s
      | Ev_BidCancelled event \<Rightarrow> Inr (eth_handleBidCancelled event b s)
      | Ev_Transfer event \<Rightarrow> dispatch_transfer e b (q_address q) event s
      | Ev_OwnershipTransferred \<Rightarrow> Inr (handleInitializeWearablesV1 e s)
      | Ev_AddWearable event \<Rightarrow> handleAddItemV1 e rpc (q_address q) event b s
      | ev \<Rightarrow> dispatch_land e b ev s)"

text \<open>The order hash of the first matching log of the same transaction.\<close>

definition spoke_orderHash :: "env \<Rightarrow> eth_block_data \<Rightarrow> eth_log \<Rightarrow> string option" where
  "spoke_orderHash e bd lg =
     (case filter (\<lambda>l. log_txIndex l = log_txIndex lg \<and>
                        (case log_event l of Ev_OrderFilled h \<Rightarrow> True | _ \<Rightarrow> False) \<and>
                        toLowerCase (log_address l) = toLowerCase (ea_Spoke (eth_getAddresses e)))
                  (bd_logs bd) of
        [] \<Rightarrow> None
      | l # _ \<Rightarrow> (case log_event l of Ev_OrderFilled h \<Rightarrow> Some h | _ \<Rightarrow> None))"

definition ens_dispatch :: "env \<Rightarrow> eth_state \<Rightarrow> ens_queued \<Rightarrow> eth_state result" where
  "ens_dispatch e s q =
     (case eq_event q of
        Ev_NameRegistered event \<Rightarrow>
          handleNameRegistered e event (spoke_orderHash e (eq_block q) (eq_log q)) s
      | Ev_NameBought price \<Rightarrow> Inr (handleNameBought price (seconds (bd_header (eq_block q))) s)
      | _ \<Rightarrow> Inr s)"

definition handle_queues :: "env \<Rightarrow> eth_rpc \<Rightarrow> eth_scan \<Rightarrow> eth_state \<Rightarrow> eth_state result" where
  "handle_queues e rpc sc s =
     bindR (foldR (eth_dispatch e rpc) s (sc_market sc)) (\<lambda>s1.
     bindR (foldR (\<lambda>st (event, b). parcel_handleUpdate e event b st) s1 (sc_parcelEvents sc)) (\<lambda>s2.
       foldR (ens_dispatch e) s2 (sc_ensEvents sc)))"

end
