(* ===== verification/Eth_Book.thy ===== *)
theory Eth_Book
  imports Eth_Main
begin

text \<open>
  The order book of the Ethereum processor: every market event keeps the invariant \<open>order_book\<close>
  of its NFT and order maps. What a handler relies on is that an event which closes an order names
  an order of the token it is about, and that the token has no other active order; the marketplace
  contract keeps one order per token, so its events are of this form.
\<close>

section \<open>What the events of the marketplace contract guarantee\<close>

definition market_event_ok :: "env \<Rightarrow> eth_state \<Rightarrow> queued \<Rightarrow> bool" where
  "market_event_ok e s q =
     (case q_event q of
        Ev_OrderCreated ev \<Rightarrow>
          fresh_order (es_orders s) (marketNFTId e (oc_nftAddress ev) (oc_assetId ev)) (oc_id ev)
      | Ev_OrderSuccessful ev \<Rightarrow>
          closes_active (es_nfts s) (es_orders s)
            (marketNFTId e (os_nftAddress ev) (os_assetId ev)) (os_id ev)
      | Ev_OrderCancelled ev \<Rightarrow>
          closes_active (es_nfts s) (es_orders s)
            (marketNFTId e (ox_nftAddress ev) (ox_assetId ev)) (ox_id ev)
      | _ \<Rightarrow> True)"

definition eth_book :: "eth_state \<Rightarrow> bool" where
  "eth_book s = order_book (es_nfts s) (es_orders s)"

section \<open>Sales and bids\<close>

lemma eth_trackSale_orders:
  "eth_trackSale rpc b ty buyer seller k price fee t tx s = Inr s' \<Longrightarrow> es_orders s' = es_orders s"
  by (auto simp: eth_trackSale_def Let_def bindR_eq_Inr split: if_splits)

lemma eth_trackSale_nfts:
  assumes "eth_trackSale rpc b ty buyer seller k price fee t tx s = Inr s'"
  shows "es_nfts s' = es_nfts s \<or>
    (\<exists>n n'. mget (es_nfts s) k = Some n \<and> nft_sold price t n = Inr n' \<and>
            es_nfts s' = mset (es_nfts s) k n')"
  using assms
  by (auto simp: eth_trackSale_def Let_def bindR_eq_Inr split: if_splits option.splits)

lemma eth_trackSale_book:
  assumes "eth_book s" and "eth_trackSale rpc b ty buyer seller k price fee t tx s = Inr s'"
  shows "eth_book s'"
  using eth_trackSale_nfts [OF assms(2)]
proof
  assume "es_nfts s' = es_nfts s"
  then show ?thesis using assms(1) eth_trackSale_orders [OF assms(2)] by (simp add: eth_book_def)
next
  assume "\<exists>n n'. mget (es_nfts s) k = Some n \<and> nft_sold price t n = Inr n' \<and>
            es_nfts s' = mset (es_nfts s) k n'"
  then obtain n n' where n: "mget (es_nfts s) k = Some n" "nft_sold price t n = Inr n'"
    "es_nfts s' = mset (es_nfts s) k n'" by blast
  have "nft_id n = k" using assms(1) n(1) by (auto simp: eth_book_def dest: order_bookD_nft)
  then show ?thesis
    using order_book_frame [OF _ n(1), of "es_orders s" n'] nft_sold_view [OF n(2)] assms(1) n(3)
      eth_trackSale_orders [OF assms(2)]
    by (simp add: eth_book_def)
qed

lemma eth_book_keep:
  assumes "eth_book s" and "mget (es_nfts s) k = Some nft"
    and "nft_id nft' = nft_id nft" and "order_view nft' = order_view nft"
  shows "eth_book (s\<lparr>es_nfts := mset (es_nfts s) k nft'\<rparr>)"
    and "eth_book (s\<lparr>es_bids := bids, es_nfts := mset (es_nfts s) k nft'\<rparr>)"
  using assms by (auto simp: eth_book_def intro: order_book_keep)

lemma eth_book_same:
  "eth_book s \<Longrightarrow> es_nfts s' = es_nfts s \<Longrightarrow> es_orders s' = es_orders s \<Longrightarrow> eth_book s'"
  by (simp add: eth_book_def)

lemma eth_handleBidCreated_book:
  assumes "eth_book s" and "eth_handleBidCreated e ev b a s = Inr s'"
  shows "eth_book s'"
  using assms
  by (auto simp: eth_handleBidCreated_def Let_def bindR_eq_Inr split: option.splits
      intro!: eth_book_keep(2))

lemma eth_handleBidAccepted_book:
  assumes "eth_book s" and "eth_handleBidAccepted rpc ev b tx c s = Inr s'"
  shows "eth_book s'"
  using assms
  by (auto simp: eth_handleBidAccepted_def Let_def split: option.splits dest!: bid_with_nft_Some
      elim!: eth_trackSale_book [rotated] intro: eth_book_keep)

lemma eth_handleBidCancelled_book: "eth_book s \<Longrightarrow> eth_book (eth_handleBidCancelled ev b s)"
  by (auto simp: eth_book_def eth_handleBidCancelled_def Let_def split: option.splits dest!: bid_with_nft_Some
      intro: order_book_keep)

section \<open>Orders\<close>

lemma eth_handleOrderCreated_book:
  assumes "eth_book s"
    and "fresh_order (es_orders s) (marketNFTId e (oc_nftAddress ev) (oc_assetId ev)) (oc_id ev)"
  shows "eth_book (eth_handleOrderCreated e ev b a tx s)"
proof (cases "mget (es_nfts s) (marketNFTId e (oc_nftAddress ev) (oc_assetId ev))")
  case None
  then show ?thesis using assms(1) by (simp add: eth_handleOrderCreated_def Let_def)
next
  case (Some nft)
  let ?k = "marketNFTId e (oc_nftAddress ev) (oc_assetId ev)"
  let ?order = "order_of_event e ev b a tx nft"
  have ob: "order_book (es_nfts s) (es_orders s)" using assms(1) by (simp add: eth_book_def)
  have id: "nft_id nft = ?k" using order_bookD_nft(1) [OF ob Some] .
  have new: "ord_id ?order = oc_id ev" "ord_nft ?order = ?k" "live ?order" "ord_status ?order = Open"
    by (simp_all add: order_of_event_def live_def id)
  have "order_book
      (mset (es_nfts s) ?k
        (updateNFTOrderProperties (nft\<lparr>nft_updatedAt := Some (seconds b)\<rparr>) ?order))
      (mset (cancel_current nft (seconds b) (es_orders s)) (oc_id ev) ?order)"
    using assms(2)
    by (intro order_book_replace [OF ob Some _ new(1,2,3)])
       (auto simp: order_view_update new(4) id fresh_order_def)
  then show ?thesis by (simp add: eth_handleOrderCreated_def Some Let_def eth_book_def)
qed

lemma own_by_buyer_view [simp]:
  "order_view (own_by_buyer accounts buyer nft) = order_view nft"
  "nft_id (own_by_buyer accounts buyer nft) = nft_id nft"
  "nft_activeOrder (own_by_buyer accounts buyer nft) = nft_activeOrder nft"
  by (simp_all add: own_by_buyer_def split: option.split)

lemma eth_handleOrderSuccessful_book:
  assumes book: "eth_book s"
    and ok: "closes_active (es_nfts s) (es_orders s)
          (marketNFTId e (os_nftAddress ev) (os_assetId ev)) (os_id ev)"
    and run: "eth_handleOrderSuccessful e rpc ev b tx c s = Inr s'"
  shows "eth_book s'"
proof (cases "mget (es_orders s) (os_id ev)")
  case None
  then show ?thesis using book run by (simp add: eth_handleOrderSuccessful_def Let_def)
next
  case (Some old)
  let ?k = "marketNFTId e (os_nftAddress ev) (os_assetId ev)"
  define order where "order = old\<lparr>ord_category := getCategory e (os_nftAddress ev), ord_status := Sold,
      ord_buyer := Some (os_buyer ev), ord_price := os_totalPrice ev,
      ord_blockNumber := blk_height b, ord_updatedAt := seconds b\<rparr>"
  have ob: "order_book (es_nfts s) (es_orders s)" using book by (simp add: eth_book_def)
  have closed: "ord_id order = os_id ev" "\<not> live order" "ord_status order = Sold"
    using order_bookD_order [OF ob Some] by (simp_all add: order_def live_def)
  have k: "ord_nft old = ?k" using ok Some by (simp add: closes_active_def)
  show ?thesis
  proof (cases "mget (es_nfts s) ?k")
    case None
    then have "order_book (es_nfts s) (mset (es_orders s) (os_id ev) order)"
      using order_book_close_missing [OF ob Some _ closed(1,2)] k by simp
    then show ?thesis
      using run Some None by (auto simp: eth_handleOrderSuccessful_def Let_def order_def eth_book_def)
  next
    case nft: (Some nft)
    define s1 where "s1 = s\<lparr>es_orders := mset (es_orders s) (os_id ev) order,
        es_nfts := mset (es_nfts s) ?k (updateNFTOrderProperties
          ((own_by_buyer (es_accounts s) (os_buyer ev) nft)\<lparr>nft_updatedAt := Some (seconds b)\<rparr>) order)\<rparr>"
    have "nft_activeOrder nft = None \<or> nft_activeOrder nft = Some (os_id ev)"
      using ok Some nft by (simp add: closes_active_def)
    then have "eth_book s1"
      unfolding eth_book_def s1_def using order_bookD_nft(1) [OF ob nft]
      by (auto intro!: order_book_close [OF ob nft Some k _ closed(1,2)]
          simp: order_view_update closed(3))
    moreover have "eth_trackSale rpc b Sale_order (os_buyer ev) (os_seller ev) (nft_id nft)
        (ord_price order) c (seconds b) tx s1 = Inr s'"
      using run Some nft by (simp add: eth_handleOrderSuccessful_def Let_def order_def s1_def)
    ultimately show ?thesis by (rule eth_trackSale_book)
  qed
qed

lemma eth_handleOrderCancelled_book:
  assumes book: "eth_book s"
    and ok: "closes_active (es_nfts s) (es_orders s)
          (marketNFTId e (ox_nftAddress ev) (ox_assetId ev)) (ox_id ev)"
  shows "eth_book (eth_handleOrderCancelled e ev b s)"
proof -
  let ?k = "marketNFTId e (ox_nftAddress ev) (ox_assetId ev)"
  have ob: "order_book (es_nfts s) (es_orders s)" using book by (simp add: eth_book_def)
  show ?thesis
  proof (cases "mget (es_nfts s) ?k = None \<or> mget (es_orders s) (ox_id ev) = None")
    case True
    then show ?thesis using book
      by (auto simp: eth_handleOrderCancelled_def Let_def split: option.split)
  next
    case False
    then obtain nft old where nft: "mget (es_nfts s) ?k = Some nft"
      and old: "mget (es_orders s) (ox_id ev) = Some old" by auto
    have "ord_nft old = ?k" "nft_activeOrder nft = None \<or> nft_activeOrder nft = Some (ox_id ev)"
      using ok nft old by (simp_all add: closes_active_def)
    then show ?thesis
      using order_bookD_nft(1) [OF ob nft] order_bookD_order [OF ob old]
      by (auto simp: eth_handleOrderCancelled_def Let_def nft old eth_book_def order_view_update
          live_def intro!: order_book_close [OF ob nft old])
  qed
qed

lemma eth_handleTraded_book:
  assumes "eth_book s" and "eth_handleTraded e rpc ev b tx s = Inr s'"
  shows "eth_book s'"
  using assms
  by (auto simp: eth_handleTraded_def Let_def bindR_eq_Inr split: option.splits if_splits
      elim!: eth_trackSale_book [rotated] intro: eth_book_keep)

section \<open>Transfers\<close>

lemma transfer_base_view [simp]:
  "order_view (transfer_base e a ev b owner uris nft) = order_view nft"
  "nft_id (transfer_base e a ev b owner uris nft) = nft_id nft"
  by (simp_all add: transfer_base_def Let_def)

lemma mint_defaults_view [simp]:
  "order_view (mint_defaults b nft) = order_view nft" "nft_id (mint_defaults b nft) = nft_id nft"
  by (simp_all add: mint_defaults_def)

definition keeps_book :: "NFT \<times> eth_state \<Rightarrow> NFT \<times> eth_state \<Rightarrow> bool" where
  "keeps_book p p' \<longleftrightarrow>
     order_view (fst p') = order_view (fst p) \<and> nft_id (fst p') = nft_id (fst p) \<and>
     es_nfts (snd p') = es_nfts (snd p) \<and> es_orders (snd p') = es_orders (snd p)"

lemma transfer_category_keeps:
  assumes "transfer_category e minted c t i nft s = Inr (nft', s')"
  shows "keeps_book (nft, s) (nft', s')"
  using assms
  by (auto simp: transfer_category_def transfer_parcel_def transfer_estate_def transfer_wearable_def
      transfer_ens_def keeps_book_def Let_def bindR_eq_Inr split: if_splits option.splits)

lemma handleTransfer_book:
  assumes book: "eth_book s" and run: "handleTransfer e b a ev s = Inr s'"
  shows "eth_book s'"
proof -
  define i where "i = getNFTId a (toStr (te_tokenId ev)) (Some (getCategory e a))"
  define acc where "acc = account_at (es_accounts s) (te_to ev) ETHEREUM"
  define nft1 where "nft1 = transfer_base e a ev b (account_refer acc) (es_tokenURIs s)
      (case mget (es_nfts s) i of Some n \<Rightarrow> n | None \<Rightarrow> new_NFT i (Some ETHEREUM))"
  have ob: "order_book (es_nfts s) (es_orders s)" using book by (simp add: eth_book_def)
  have id: "nft_id nft1 = i"
    using order_bookD_nft(1) [OF ob] by (simp add: nft1_def split: option.split)
  have view: "order_view nft1 = (case mget (es_nfts s) i of Some n \<Rightarrow> order_view n | None \<Rightarrow> no_view)"
    by (simp add: nft1_def split: option.split)
  show ?thesis
  proof (cases "isMint (te_from ev)")
    case True
    have touch: "order_book (mset (es_nfts s) i n) (es_orders s)"
      if "order_view n = order_view nft1" "nft_id n = nft_id nft1" for n
      using order_book_touch [OF ob, of n i] that id view by simp
    from True run show ?thesis
      using touch unfolding nft1_def i_def acc_def
      by (auto simp: handleTransfer_def Let_def createOrLoadAccount_eq bindR_eq_Inr keeps_book_def eth_book_def simp del: transfer_base_view
          dest!: transfer_category_keeps)
  next
    case False
    obtain nft2 orders' where move: "move_order (acc_address acc) nft1 (es_orders s) = (nft2, orders')"
      by fastforce
    with run False show ?thesis
      using move_order_book [OF ob id view move] unfolding nft1_def i_def acc_def
      by (auto simp: handleTransfer_def Let_def createOrLoadAccount_eq bindR_eq_Inr keeps_book_def eth_book_def simp del: transfer_base_view
          dest!: transfer_category_keeps)
  qed
qed

lemma transfer_v1_base_view [simp]:
  "nft_id (transfer_v1_base a ev b owner u c j it n) = nft_id n"
  "order_view (transfer_v1_base a ev b owner u c j it n) = order_view n"
  by (simp_all add: transfer_v1_base_def)

lemma mint_v1_keeps:
  "mint_v1 e b i u sender it j n s = Inr (n', s') \<Longrightarrow> keeps_book (n, s) (n', s')"
  by (auto simp: mint_v1_def Let_def bindR_eq_Inr keeps_book_def)

lemma handleTransferWearableV1_book:
  assumes book: "eth_book s" and run: "handleTransferWearableV1 e b a ev s = Inr s'"
  shows "eth_book s'"
proof -
  define i where "i = getNFTId a (toStr (te_tokenId ev)) None"
  define acc where "acc = account_at (es_accounts s) (te_to ev) ETHEREUM"
  have ob: "order_book (es_nfts s) (es_orders s)" using book by (simp add: eth_book_def)
  note defs = handleTransferWearableV1_def Let_def createOrLoadAccount_eq i_def [symmetric]
    acc_def [symmetric] bindR_eq_Inr
  show ?thesis
  proof (cases "es_nfts s' = es_nfts s \<and> es_orders s' = es_orders s")
    case True
    then show ?thesis using book by (simp add: eth_book_def)
  next
    case False
    then obtain uri item where known:
      "mget (es_tokenURIs s) (a @ dash @ toStr (te_tokenId ev)) = Some uri" "uri \<noteq> []"
      "mget (es_items s) (getItemId a (getWearableIdFromTokenURI uri)) = Some item"
      using run by (auto simp: handleTransferWearableV1_def Let_def split: option.splits if_splits)
    define nft where "nft = transfer_v1_base a ev b (account_refer acc) uri
        (map_option col_id (mget (es_collections s) a)) (getItemId a (getWearableIdFromTokenURI uri)) item
        (case mget (es_nfts s) i of Some n \<Rightarrow> n | None \<Rightarrow> new_NFT i (Some ETHEREUM))"
    have id: "nft_id nft = i"
      using order_bookD_nft(1) [OF ob] by (simp add: nft_def split: option.split)
    have view: "order_view nft = (case mget (es_nfts s) i of Some n \<Rightarrow> order_view n | None \<Rightarrow> no_view)"
      by (simp add: nft_def split: option.split)
    show ?thesis
    proof (cases "isMint (te_from ev)")
      case True
      have touch: "order_book (mset (es_nfts s) i n) (es_orders s)"
        if "order_view n = order_view nft" "nft_id n = nft_id nft" for n
        using order_book_touch [OF ob, of n i] that id view by simp
      from True show ?thesis
        using run known touch
        by (auto simp: defs nft_def [symmetric] eth_book_def keeps_book_def
            simp del: transfer_v1_base_view dest!: mint_v1_keeps)
    next
      case minted: False
      obtain nft' orders' where move: "move_order (acc_address acc) nft (es_orders s) = (nft', orders')"
        by fastforce
      have "s' = s\<lparr>es_accounts := mset (es_accounts s) (accountId (te_to ev) ETHEREUM) acc,
          es_orders := orders', es_nfts := mset (es_nfts s) i nft'\<rparr>"
        using run known False minted move
        by (cases "mget (es_nfts s) i") (auto simp: defs nft_def)
      then show ?thesis using move_order_book [OF ob id view move, of nft'] by (simp add: eth_book_def)
    qed
  qed
qed

lemma handleAddItemV1_book:
  assumes "eth_book s" and "handleAddItemV1 e rpc a ev b s = Inr s'"
  shows "eth_book s'"
  using assms
  by (auto simp: handleAddItemV1_def buildWearableV1Metadata_def Let_def bindR_eq_Inr eth_book_def
      split: option.splits)

section \<open>Land\<close>

lemma estate_gains_land_view:
  "estate_gains_land e p es n = Inr (es', n') \<Longrightarrow> nft_id n' = nft_id n \<and> order_view n' = order_view n"
  by (auto simp: estate_gains_land_def bindR_eq_Inr)

lemma estate_loses_land_view:
  "estate_loses_land e p es n = Inr (es', n') \<Longrightarrow> nft_id n' = nft_id n \<and> order_view n' = order_view n"
  by (auto simp: estate_loses_land_def bindR_eq_Inr Let_def split: option.splits if_splits)

lemma handleCreateEstate_book: "eth_book s \<Longrightarrow> eth_book (handleCreateEstate e b ev s)"
  by (auto simp: handleCreateEstate_def Let_def eth_book_def split: option.splits
      intro!: order_book_touch intro: order_bookD_nft(1))

lemma estate_handleUpdate_book: "eth_book s \<Longrightarrow> eth_book (estate_handleUpdate e ev b s)"
  by (auto simp: estate_handleUpdate_def Let_def eth_book_def split: option.splits
      intro!: order_book_touch intro: order_bookD_nft(1))

lemma parcel_handleUpdate_book:
  assumes book: "eth_book s" and run: "parcel_handleUpdate e ev b s = Inr s'"
  shows "eth_book s'"
proof -
  let ?i = "parcelNFTId e (ue_assetId ev)"
  have ob: "order_book (es_nfts s) (es_orders s)" using book by (simp add: eth_book_def)
  define nft where "nft = (case mget (es_nfts s) ?i of Some n \<Rightarrow> n | None \<Rightarrow> new_NFT ?i (Some ETHEREUM))"
  have touch: "order_book (mset (es_nfts s) ?i n) (es_orders s)"
    if "nft_id n = nft_id nft" "order_view n = order_view nft" for n
    using that ob by (intro order_book_touch [OF ob]) (simp_all add: nft_def)
  show ?thesis
    using run ob unfolding nft_def [symmetric] parcel_handleUpdate_def Let_def
    by (cases "buildData ?i (ue_data ev) PARCEL")
       (auto simp: bindR_eq_Inr eth_book_def split: option.splits if_splits intro!: touch)
qed

lemma parcel_estate_ids [simp]:
  "parcelNFTId e t \<noteq> estateNFTId e t'" "estateNFTId e t' \<noteq> parcelNFTId e t"
  by (simp_all add: parcelNFTId_def estateNFTId_def getNFTId_def)

lemma handleAddLand_book:
  assumes book: "eth_book s" and run: "handleAddLand e ev s = Inr s'"
  shows "eth_book s'"
proof -
  let ?i = "estateNFTId e (le_estateId ev)" and ?p = "parcelNFTId e (le_landId ev)"
  define nfts1 where "nfts1 = (case mget (es_estates s) ?i of
      None \<Rightarrow> es_nfts s
    | Some es \<Rightarrow> mmodify (es_nfts s) ?i
        (\<lambda>n. n\<lparr>nft_searchEstateSize := map_option (\<lambda>m. m + 1) (est_size es)\<rparr>))"
  define registry where "registry =
      account_at (es_accounts s) (ea_EstateRegistry (eth_getAddresses e)) ETHEREUM"
  define nfts2 where "nfts2 = mmodify nfts1 ?p
      (\<lambda>n. n\<lparr>nft_searchParcelEstateId := Some ?i, nft_owner := Some (account_refer registry),
             nft_ownerAddress := Some (acc_address registry)\<rparr>)"
  have "order_book nfts1 (es_orders s)"
    using book unfolding nfts1_def eth_book_def
    by (auto split: option.split intro!: order_book_mmodify)
  then have ob: "order_book nfts2 (es_orders s)"
    unfolding nfts2_def by (intro order_book_mmodify) simp_all
  have "es_orders s' = es_orders s \<and>
      (es_nfts s' = nfts2 \<or> (\<exists>n n'. mget nfts2 ?i = Some n \<and> nft_id n' = nft_id n \<and>
         order_view n' = order_view n \<and> es_nfts s' = mset nfts2 ?i n'))"
    using run unfolding nfts2_def nfts1_def registry_def handleAddLand_def Let_def createOrLoadAccount_eq
    by (cases "mget (es_estates s) ?i")
       (auto simp: bindR_eq_Inr split: option.splits dest!: estate_gains_land_view)
  then show ?thesis using ob by (auto simp: eth_book_def intro: order_book_keep)
qed

lemma handleRemoveLand_book:
  assumes book: "eth_book s" and run: "handleRemoveLand e ev s = Inr s'"
  shows "eth_book s'"
proof -
  let ?i = "estateNFTId e (le_estateId ev)" and ?p = "parcelNFTId e (le_landId ev)"
  define size' where "size' es = est_size (case est_size es of
      Some n \<Rightarrow> if n \<noteq> 0 then es\<lparr>est_size := Some (n - 1)\<rparr> else es | None \<Rightarrow> es)" for es :: Estate
  define nfts1 where "nfts1 = (case mget (es_estates s) ?i of
      None \<Rightarrow> es_nfts s
    | Some es \<Rightarrow> mmodify (es_nfts s) ?i (\<lambda>n. n\<lparr>nft_searchEstateSize := size' es\<rparr>))"
  define nfts2 where "nfts2 = (case mget (es_accounts s) (accountId (le_destinatary ev) ETHEREUM) of
      None \<Rightarrow> nfts1
    | Some a \<Rightarrow> mset nfts1 ?p
        ((case mget nfts1 ?p of Some n \<Rightarrow> n | None \<Rightarrow> new_NFT ?p (Some ETHEREUM))
          \<lparr>nft_network := Some ETHEREUM, nft_searchParcelEstateId := None,
           nft_owner := Some (account_refer a), nft_ownerAddress := Some (acc_address a)\<rparr>))"
  have ob1: "order_book nfts1 (es_orders s)"
    using book unfolding nfts1_def eth_book_def
    by (auto split: option.split intro!: order_book_mmodify)
  then have ob: "order_book nfts2 (es_orders s)"
    unfolding nfts2_def by (auto split: option.split intro!: order_book_touch intro: order_bookD_nft(1))
  have "es_orders s' = es_orders s \<and>
      (es_nfts s' = nfts2 \<or> (\<exists>n n'. mget nfts2 ?i = Some n \<and> nft_id n' = nft_id n \<and>
         order_view n' = order_view n \<and> es_nfts s' = mset nfts2 ?i n'))"
    using run unfolding nfts2_def nfts1_def size'_def handleRemoveLand_def Let_def
    by (cases "mget (es_estates s) ?i")
       (auto simp: bindR_eq_Inr split: option.splits dest!: estate_loses_land_view)
  then show ?thesis using ob by (auto simp: eth_book_def intro: order_book_keep)
qed

section \<open>The whole queue\<close>

lemmas eth_book_handlers =
  eth_handleOrderCreated_book eth_handleTraded_book eth_handleOrderSuccessful_book
  eth_handleOrderCancelled_book eth_handleBidCreated_book eth_handleBidAccepted_book
  eth_handleBidCancelled_book handleTransfer_book handleTransferWearableV1_book
  handleAddItemV1_book handleCreateEstate_book estate_handleUpdate_book handleAddLand_book
  handleRemoveLand_book

lemma handleInitializeWearablesV1_book: "eth_book s \<Longrightarrow> eth_book (handleInitializeWearablesV1 e s)"
  by (simp add: handleInitializeWearablesV1_def eth_book_def Let_def)

lemma eth_dispatch_book:
  assumes "eth_book s" and "market_event_ok e s q" and "eth_dispatch e rpc s q = Inr s'"
  shows "eth_book s'"
  using assms
  by (cases "q_event q")
     (auto simp: eth_dispatch_def dispatch_land_def dispatch_transfer_def market_event_ok_def Let_def
       split: if_splits
       intro: eth_book_handlers handleInitializeWearablesV1_book)

interpretation eth_orders: batch "eth_dispatch e rpc" eth_book "market_event_ok e" for e rpc
  by unfold_locales (rule eth_dispatch_book)

lemma handleNameRegistered_book:
  assumes "eth_book s" and "handleNameRegistered e ev h s = Inr s'"
  shows "eth_book s'"
  using assms
  by (auto simp: handleNameRegistered_def Let_def bindR_eq_Inr eth_book_def createOrLoadAccount_eq
      intro!: order_book_touch)

lemma ens_dispatch_book:
  assumes "eth_book s" and "ens_dispatch e s q = Inr s'"
  shows "eth_book s'"
  using assms
  by (auto simp: ens_dispatch_def handleNameBought_def eth_book_def Let_def split: eth_event.splits
      intro: handleNameRegistered_book [unfolded eth_book_def])

text \<open>
  C1: the order book of the Ethereum processor. Handling any queue of market events whose order
  events are of the form the marketplace contract emits (a closed order is for the token of the
  event and no other order of that token is active) keeps the invariant of the order and NFT
  maps: every row under its id, the order columns of every NFT equal to those of its active order,
  and every order that is open or suspended the active order of its token. In particular no token
  ever has two live orders.
\<close>

theorem eth_queue_keeps_order_book:
  assumes "eth_book s" and "ok_run (eth_dispatch e rpc) (market_event_ok e) s qs"
    and "foldR (eth_dispatch e rpc) s qs = Inr s'"
  shows "order_book (es_nfts s') (es_orders s') \<and>
    (\<forall>k l a b. mget (es_orders s') k = Some a \<and> live a \<and> mget (es_orders s') l = Some b \<and> live b \<and>
       ord_nft a = ord_nft b \<longrightarrow> k = l)"
proof -
  have "order_book (es_nfts s') (es_orders s')"
    using eth_orders.run_inv [OF assms] by (simp add: eth_book_def)
  then show ?thesis using order_book_unique by blast
qed

text \<open>A node that answers every contract read, and a short history of one token.\<close>

definition sample_rpc :: eth_rpc where
  "sample_rpc =
     \<lparr>rpc_ownerOf = (\<lambda>h a t. Inr ''0xowner''), rpc_feeRate = (\<lambda>h a. Inr 25000),
      rpc_ownerCutPerMillion = (\<lambda>h a. Inr 25000), rpc_owner = (\<lambda>h a. Inr ''0xowner''),
      rpc_name = (\<lambda>h a. Inr ''dcl://c''), rpc_symbol = (\<lambda>h a. Inr ''C''),
      rpc_baseURI = (\<lambda>h a. Inr ''dcl://c/''), rpc_tokenURIs = (\<lambda>h ps. Inr [])\<rparr>"

definition sample_block :: "int \<Rightarrow> block" where
  "sample_block h = \<lparr>blk_height = h, blk_timestamp = 1000 * h, blk_hash = ''0xb''\<rparr>"

definition sample_contract :: string where
  "sample_contract = ''0xc''"

definition sample_queued :: "eth_event \<Rightarrow> string \<Rightarrow> int \<Rightarrow> queued" where
  "sample_queued ev a h =
     \<lparr>q_event = ev, q_block = sample_block h, q_address = a, q_txHash = ''0xt'',
      q_marketCut = Some 25000, q_bidCut = None\<rparr>"

definition sample_transfer :: "string \<Rightarrow> string \<Rightarrow> int \<Rightarrow> queued" where
  "sample_transfer src to h =
     sample_queued (Ev_Transfer \<lparr>te_from = src, te_to = to, te_tokenId = 5\<rparr>) sample_contract h"

definition sample_history :: "queued list" where
  "sample_history =
     [sample_transfer ZERO_ADDRESS ''0xa'' 1,
      sample_queued (Ev_OrderCreated \<lparr>oc_id = ''o1'', oc_assetId = 5, oc_seller = ''0xa'',
        oc_nftAddress = sample_contract, oc_priceInWei = 70, oc_expiresAt = 7\<rparr>) ''0xm'' 2,
      sample_queued (Ev_OrderCreated \<lparr>oc_id = ''o2'', oc_assetId = 5, oc_seller = ''0xa'',
        oc_nftAddress = sample_contract, oc_priceInWei = 90, oc_expiresAt = 7\<rparr>) ''0xm'' 5]"

theorem eth_queue_keeps_order_book_witness:
  "ok_run (eth_dispatch sample_env sample_rpc) (market_event_ok sample_env) eth_empty sample_history \<and>
   (\<exists>s'. foldR (eth_dispatch sample_env sample_rpc) eth_empty sample_history = Inr s' \<and>
     order_book (es_nfts s') (es_orders s') \<and>
     map (\<lambda>(k, order). (k, ord_status order)) (es_orders s') = [(''o1'', Cancelled), (''o2'', Open)])"
proof -
  have ok: "ok_run (eth_dispatch sample_env sample_rpc) (market_event_ok sample_env) eth_empty sample_history"
    by code_simp
  have "case foldR (eth_dispatch sample_env sample_rpc) eth_empty sample_history of
      Inl err \<Rightarrow> False
    | Inr s' \<Rightarrow> map (\<lambda>(k, order). (k, ord_status order)) (es_orders s') =
                [(''o1'', Cancelled), (''o2'', Open)]"
    by code_simp
  then obtain s' where run: "foldR (eth_dispatch sample_env sample_rpc) eth_empty sample_history = Inr s'"
    and orders: "map (\<lambda>(k, order). (k, ord_status order)) (es_orders s') =
      [(''o1'', Cancelled), (''o2'', Open)]"
    by (auto split: sum.splits)
  have "eth_book eth_empty" by (simp add: eth_book_def eth_empty_def)
  then have "order_book (es_nfts s') (es_orders s')"
    using eth_queue_keeps_order_book [OF _ ok run] by simp
  then show ?thesis using ok run orders by (intro conjI exI)
qed

end
