(* ===== verification/Squid_Ledger.thy ===== *)
theory Squid_Ledger
  imports Squid_Sales
begin

text \<open>
  The bookkeeping both processors share. A sale is recorded five times: as a sale row, in the
  global counters, in the analytics of its day, and in the accounts of buyer and seller. \<open>ledger\<close>
  collects the differences between these totals and the sale rows of the batch; that a handler
  leaves \<open>ledger\<close> unchanged says that every sale it records is recorded everywhere exactly once.
  \<open>ledger_ok\<close> is the invariant this needs: rows under their ids, and sale rows numbered up to the
  counter.
\<close>

definition sales_numbered :: "network \<Rightarrow> counts \<Rightarrow> sales \<Rightarrow> bool" where
  "sales_numbered net counts sales \<longleftrightarrow>
     (\<forall>k. mget sales k \<noteq> None \<longrightarrow>
        (\<exists>n. n \<le> cnt_salesTotal (buildCount counts net) \<and> k = saleId n net))"

definition ledger_ok :: "network \<Rightarrow> counts \<Rightarrow> sales \<Rightarrow> analytics \<Rightarrow> accounts \<Rightarrow> bool" where
  "ledger_ok net counts sales analytics accounts \<longleftrightarrow>
     counts_keyed counts \<and> analytics_keyed analytics \<and>
     mwf sales \<and> mwf analytics \<and> mwf accounts \<and> sales_numbered net counts sales"

record ledger_view =
  lv_count_sales :: int
  lv_count_mana :: int
  lv_day_sales :: int
  lv_day_volume :: int
  lv_purchases :: int
  lv_spent :: int
  lv_sales :: int
  lv_earned :: int

definition ledger :: "network \<Rightarrow> counts \<Rightarrow> sales \<Rightarrow> analytics \<Rightarrow> accounts \<Rightarrow> ledger_view" where
  "ledger net counts sales analytics accounts =
     \<lparr>lv_count_sales = cnt_salesTotal (buildCount counts net) - int (length sales),
      lv_count_mana = cnt_salesManaTotal (buildCount counts net) - msum sal_price sales,
      lv_day_sales = msum add_sales analytics - int (length sales),
      lv_day_volume = msum add_volume analytics - msum sal_price sales,
      lv_purchases = msum acc_purchases accounts - int (length sales),
      lv_spent = msum acc_spent accounts - msum sal_price sales,
      lv_sales = msum acc_sales accounts - int (length sales),
      lv_earned = msum acc_earned accounts - msum sal_price sales\<rparr>"

section \<open>Changes that are not sales\<close>

lemma ledger_counts:
  assumes "ledger_ok net counts sales analytics accounts" and "counts_keyed counts'"
    and "cnt_salesTotal (buildCount counts' net) = cnt_salesTotal (buildCount counts net)"
    and "cnt_salesManaTotal (buildCount counts' net) = cnt_salesManaTotal (buildCount counts net)"
  shows "ledger_ok net counts' sales analytics accounts"
    and "ledger net counts' sales analytics accounts = ledger net counts sales analytics accounts"
  using assms by (simp_all add: ledger_ok_def ledger_def sales_numbered_def)

definition quiet_count :: "(Count \<Rightarrow> Count) \<Rightarrow> bool" where
  "quiet_count f \<longleftrightarrow>
     (\<forall>c. cnt_id (f c) = cnt_id c \<and> cnt_salesTotal (f c) = cnt_salesTotal c \<and>
          cnt_salesManaTotal (f c) = cnt_salesManaTotal c)"

lemma quiet_countD:
  "quiet_count f \<Longrightarrow> cnt_id (f c) = cnt_id c"
  "quiet_count f \<Longrightarrow> cnt_salesTotal (f c) = cnt_salesTotal c"
  "quiet_count f \<Longrightarrow> cnt_salesManaTotal (f c) = cnt_salesManaTotal c"
  by (simp_all add: quiet_count_def)

lemma ledger_set_count:
  assumes "ledger_ok net counts sales analytics accounts" and "quiet_count f"
  shows "ledger_ok net (set_count (with_count net f counts)) sales analytics accounts"
    and "ledger net (set_count (with_count net f counts)) sales analytics accounts =
         ledger net counts sales analytics accounts"
proof -
  have keyed: "counts_keyed counts" using assms(1) by (simp add: ledger_ok_def)
  have keyed': "counts_keyed (set_count (with_count net f counts))"
    using keyed quiet_countD(1) [OF assms(2)] by (rule counts_keyed_set_with_count)
  have same: "buildCount (set_count (with_count net f counts)) net = f (buildCount counts net)"
    using keyed quiet_countD(1) [OF assms(2)] by (rule buildCount_set_with_count)
  show "ledger_ok net (set_count (with_count net f counts)) sales analytics accounts"
    by (rule ledger_counts [OF assms(1) keyed']) (simp_all add: same quiet_countD [OF assms(2)])
  show "ledger net (set_count (with_count net f counts)) sales analytics accounts =
         ledger net counts sales analytics accounts"
    by (rule ledger_counts [OF assms(1) keyed']) (simp_all add: same quiet_countD [OF assms(2)])
qed

lemma buildCount_snd_with_count:
  "buildCount (snd (with_count net f counts)) net =
     (if mget counts (countId net) = None then buildCount counts net else f (buildCount counts net))"
  by (auto simp: with_count_def buildCount_def Let_def)

lemma ledger_with_count:
  assumes "ledger_ok net counts sales analytics accounts" and "quiet_count f"
  shows "ledger_ok net (snd (with_count net f counts)) sales analytics accounts"
    and "ledger net (snd (with_count net f counts)) sales analytics accounts =
         ledger net counts sales analytics accounts"
proof -
  have keyed': "counts_keyed (snd (with_count net f counts))"
    using assms(1) quiet_countD(1) [OF assms(2)]
    by (intro counts_keyed_with_count) (simp_all add: ledger_ok_def)
  show "ledger_ok net (snd (with_count net f counts)) sales analytics accounts"
    by (rule ledger_counts [OF assms(1) keyed'])
       (simp_all add: buildCount_snd_with_count quiet_countD [OF assms(2)])
  show "ledger net (snd (with_count net f counts)) sales analytics accounts =
         ledger net counts sales analytics accounts"
    by (rule ledger_counts [OF assms(1) keyed'])
       (simp_all add: buildCount_snd_with_count quiet_countD [OF assms(2)])
qed

text \<open>Loading or creating an account, and changing one outside its totals.\<close>

definition quiet_account :: "(Account \<Rightarrow> Account) \<Rightarrow> bool" where
  "quiet_account f \<longleftrightarrow>
     (\<forall>a. acc_purchases (f a) = acc_purchases a \<and> acc_spent (f a) = acc_spent a \<and>
          acc_sales (f a) = acc_sales a \<and> acc_earned (f a) = acc_earned a)"

lemma acc_createAccount [simp]:
  "acc_purchases (createAccount i net) = 0" "acc_spent (createAccount i net) = 0"
  "acc_sales (createAccount i net) = 0" "acc_earned (createAccount i net) = 0"
  "acc_address (createAccount i net) = i" "acc_id (createAccount i net) = accountId i net"
  "acc_network (createAccount i net) = net"
  by (simp_all add: createAccount_def)

lemma ledger_update_account:
  assumes "ledger_ok net counts sales analytics accounts" and "quiet_account f"
  shows "ledger_ok net counts sales analytics (update_account accounts i net' f)"
    and "ledger net counts sales analytics (update_account accounts i net' f) =
         ledger net counts sales analytics accounts"
proof -
  have wf: "mwf accounts" using assms(1) by (simp add: ledger_ok_def)
  show "ledger_ok net counts sales analytics (update_account accounts i net' f)"
    using assms(1) by (auto simp: ledger_ok_def)
  show "ledger net counts sales analytics (update_account accounts i net' f) =
         ledger net counts sales analytics accounts"
    using assms(2) by (simp add: ledger_def msum_update_account [OF wf] quiet_account_def)
qed

lemma createOrLoadAccount_update: "snd (createOrLoadAccount m i net) = update_account m i net (\<lambda>a. a)"
  by (simp add: createOrLoadAccount_eq update_account_eq)

lemma quiet_account_id [simp]: "quiet_account (\<lambda>a. a)"
  by (simp add: quiet_account_def)

lemmas ledger_createOrLoad =
  ledger_update_account [OF _ quiet_account_id, folded createOrLoadAccount_update]

lemma mset_account_at: "mset m (accountId i net) (account_at m i net) = update_account m i net (\<lambda>a. a)"
  by (simp add: update_account_eq)

section \<open>Recording a sale\<close>

text \<open>The day a sale is booked on moves by the sale.\<close>

lemma msum_analytics:
  assumes "mwf m" and "analytics_keyed m"
    and "d = getOrCreateAnalyticsDayData t m net" and "add_id d' = add_id d"
  shows "msum f (mset m (add_id d') d') = msum f m + f d' -
    (case mget m (dayId t net) of None \<Rightarrow> 0 | Some u \<Rightarrow> f u)"
  using assms add_id_getOrCreate [OF assms(2), of t net] by (simp add: msum_mset)

lemma ledger_sale:
  assumes ok: "ledger_ok net counts sales analytics accounts"
    and counts': "counts_keyed counts'"
      "cnt_salesTotal (buildCount counts' net) = cnt_salesTotal (buildCount counts net) + 1"
      "cnt_salesManaTotal (buildCount counts' net) = cnt_salesManaTotal (buildCount counts net) + p"
    and sale: "k = saleId (cnt_salesTotal (buildCount counts' net)) net" "sal_price sale = p"
    and day: "d = getOrCreateAnalyticsDayData t analytics net" "add_id d' = add_id d"
      "add_sales d' = add_sales d + 1" "add_volume d' = add_volume d + p"
    and accounts': "mwf accounts'"
      "msum acc_purchases accounts' = msum acc_purchases accounts + 1"
      "msum acc_spent accounts' = msum acc_spent accounts + p"
      "msum acc_sales accounts' = msum acc_sales accounts + 1"
      "msum acc_earned accounts' = msum acc_earned accounts + p"
  shows "ledger_ok net counts' (mset sales k sale) (mset analytics (add_id d') d') accounts'"
    and "ledger net counts' (mset sales k sale) (mset analytics (add_id d') d') accounts' =
         ledger net counts sales analytics accounts"
proof -
  have fresh: "mget sales k = None"
  proof (rule ccontr)
    assume "mget sales k \<noteq> None"
    then obtain n where "n \<le> cnt_salesTotal (buildCount counts net)" "k = saleId n net"
      using ok by (auto simp: ledger_ok_def sales_numbered_def)
    then show False using sale(1) counts'(2) by simp
  qed
  have keyed: "analytics_keyed analytics" "mwf analytics" "mwf sales"
    using ok by (simp_all add: ledger_ok_def)
  have sales: "msum sal_price (mset sales k sale) = msum sal_price sales + p"
    "length (mset sales k sale) = Suc (length sales)"
    using fresh sale(2) by (simp_all add: msum_mset [OF keyed(3)] mset_length)
  have days: "msum add_volume (mset analytics (add_id d') d') = msum add_volume analytics + p"
    "msum add_sales (mset analytics (add_id d') d') = msum add_sales analytics + 1"
    unfolding msum_analytics [OF keyed(2,1) day(1,2)]
    using day by (simp_all add: getOrCreateAnalyticsDayData_def split: option.split)
  show "ledger net counts' (mset sales k sale) (mset analytics (add_id d') d') accounts' =
         ledger net counts sales analytics accounts"
    using counts'(2,3) accounts' by (simp add: ledger_def sales days)
  have "sales_numbered net counts' (mset sales k sale)"
    unfolding sales_numbered_def
  proof (intro allI impI)
    fix j assume j: "mget (mset sales k sale) j \<noteq> None"
    show "\<exists>n\<le>cnt_salesTotal (buildCount counts' net). j = saleId n net"
    proof (cases "j = k")
      case True
      then show ?thesis using sale(1) by blast
    next
      case False
      then have "mget sales j \<noteq> None" using j by simp
      then obtain n where "n \<le> cnt_salesTotal (buildCount counts net)" "j = saleId n net"
        using ok by (auto simp: ledger_ok_def sales_numbered_def)
      then show ?thesis using counts'(2) by (intro exI [of _ n]) simp
    qed
  qed
  moreover have "analytics_keyed (mset analytics (add_id d') d')" using keyed(1) by auto
  ultimately show "ledger_ok net counts' (mset sales k sale) (mset analytics (add_id d') d') accounts'"
    using counts'(1) accounts'(1) keyed by (simp add: ledger_ok_def mwf_mset)
qed

end
