(* ===== verification/Eth_Ledger.thy ===== *)
theory Eth_Ledger
  imports Eth_Book Squid_Ledger
begin

text \<open>
  The bookkeeping of the Ethereum processor: every handler leaves the ledger unchanged, so each
  sale is recorded once in the sale rows, the counters, the analytics of its day and the two
  accounts. No assumption about the events is needed.
\<close>

definition eth_ledger_ok :: "eth_state \<Rightarrow> bool" where
  "eth_ledger_ok s = ledger_ok ETHEREUM (es_counts s) (es_sales s) (es_analytics s) (es_accounts s)"

definition eth_ledger :: "eth_state \<Rightarrow> ledger_view" where
  "eth_ledger s = ledger ETHEREUM (es_counts s) (es_sales s) (es_analytics s) (es_accounts s)"

definition booked :: "ledger_view \<Rightarrow> eth_state \<Rightarrow> bool" where
  "booked L s \<longleftrightarrow> eth_ledger_ok s \<and> eth_ledger s = L"

lemma booked_same:
  "booked L s \<Longrightarrow> es_counts s' = es_counts s \<Longrightarrow> es_sales s' = es_sales s \<Longrightarrow>
   es_analytics s' = es_analytics s \<Longrightarrow> es_accounts s' = es_accounts s \<Longrightarrow> booked L s'"
  by (simp add: booked_def eth_ledger_ok_def eth_ledger_def)

lemma booked_accounts:
  "booked L s \<Longrightarrow> es_counts s' = es_counts s \<Longrightarrow> es_sales s' = es_sales s \<Longrightarrow>
   es_analytics s' = es_analytics s \<Longrightarrow> es_accounts s' = update_account (es_accounts s) i net (\<lambda>a. a) \<Longrightarrow>
   booked L s'"
  using ledger_update_account [OF _ quiet_account_id]
  by (simp add: booked_def eth_ledger_ok_def eth_ledger_def)

lemma booked_set_count:
  "booked L s \<Longrightarrow> quiet_count f \<Longrightarrow> es_counts s' = set_count (with_count ETHEREUM f (es_counts s)) \<Longrightarrow>
   es_sales s' = es_sales s \<Longrightarrow> es_analytics s' = es_analytics s \<Longrightarrow> es_accounts s' = es_accounts s \<Longrightarrow>
   booked L s'"
  using ledger_set_count by (simp add: booked_def eth_ledger_ok_def eth_ledger_def)

lemma booked_with_count:
  "booked L s \<Longrightarrow> quiet_count f \<Longrightarrow> es_counts s' = snd (with_count ETHEREUM f (es_counts s)) \<Longrightarrow>
   es_sales s' = es_sales s \<Longrightarrow> es_analytics s' = es_analytics s \<Longrightarrow> es_accounts s' = es_accounts s \<Longrightarrow>
   booked L s'"
  using ledger_with_count by (simp add: booked_def eth_ledger_ok_def eth_ledger_def)

section \<open>Sales\<close>

lemma msum_trade_accounts:
  fixes m :: accounts and buyer seller :: string and net :: network and p :: int
  assumes "mwf m"
  defines "m' \<equiv> update_account (update_account m buyer net (buy p)) seller net (sell p)"
  shows "mwf m'" and "msum acc_purchases m' = msum acc_purchases m + 1"
    and "msum acc_spent m' = msum acc_spent m + p"
    and "msum acc_sales m' = msum acc_sales m + 1"
    and "msum acc_earned m' = msum acc_earned m + p"
  using assms(1) unfolding m'_def by (auto simp: msum_update_account buy_def sell_def)

lemma eth_sale_price: "eth_sale rpc b items nft buyer sale = Inr sale' \<Longrightarrow>
    sal_price sale' = sal_price sale \<and> sal_timestamp sale' = sal_timestamp sale"
  by (auto simp: eth_sale_def bindR_eq_Inr split: option.splits)

lemma eth_trackSale_booked:
  assumes ok: "booked L s"
    and run: "eth_trackSale rpc b ty buyer seller k price fee t tx s = Inr s'"
  shows "booked L s'"
proof (cases "price = 0")
  case True
  then show ?thesis using ok run by (simp add: eth_trackSale_def)
next
  case False
  let ?p = "eth_buildCountFromSale price fee (es_counts s)"
  let ?i = "saleId (cnt_salesTotal (fst ?p)) ETHEREUM"
  from run False obtain sale nfts' where
    sale: "eth_sale rpc b (es_items s) (mget (es_nfts s) k) buyer
             (eth_sale_base ?i ty seller price t tx) = Inr sale"
    and s': "s' = s\<lparr>es_counts := set_count ?p, es_sales := mset (es_sales s) ?i sale,
        es_accounts := update_account (update_account (es_accounts s) buyer ETHEREUM (buy price))
                         seller ETHEREUM (sell price),
        es_nfts := nfts',
        es_analytics := mset (es_analytics s)
          (add_id (updateAnalyticsDayData sale fee (es_analytics s)))
          (updateAnalyticsDayData sale fee (es_analytics s))\<rparr>"
    by (auto simp: eth_trackSale_def Let_def bindR_eq_Inr)
  have price: "sal_price sale = price" using eth_sale_price [OF sale] by (simp add: eth_sale_base_def)
  have lok: "ledger_ok ETHEREUM (es_counts s) (es_sales s) (es_analytics s) (es_accounts s)"
    using ok by (simp add: booked_def eth_ledger_ok_def)
  then have keyed: "counts_keyed (es_counts s)" and wf: "mwf (es_accounts s)"
    by (simp_all add: ledger_ok_def)
  have count: "counts_keyed (set_count ?p)"
    "buildCount (set_count ?p) ETHEREUM = count_sale price fee (buildCount (es_counts s) ETHEREUM)"
    unfolding eth_buildCountFromSale_def
    by (rule counts_keyed_set_with_count [OF keyed], simp)
       (rule buildCount_set_with_count [OF keyed], simp)
  have total: "cnt_salesTotal (fst ?p) = cnt_salesTotal (buildCount (set_count ?p) ETHEREUM)"
    unfolding count(2) by (simp add: eth_buildCountFromSale_def with_count_def Let_def)
  note day = updateAnalyticsDayData_def Let_def
  show ?thesis
    unfolding booked_def eth_ledger_ok_def eth_ledger_def s'
    using ledger_sale [OF lok count(1) _ _ _ price refl _ _ _ msum_trade_accounts [OF wf],
        of ?i "updateAnalyticsDayData sale fee (es_analytics s)" "sal_timestamp sale"]
    using ok price by (simp add: count(2) count_sale_def total day booked_def eth_ledger_def)
qed

section \<open>The other handlers\<close>

text \<open>Counters that do not count sales.\<close>

lemma quiet_count_simps [simp]:
  "quiet_count (count_nft_category cat)"
  "quiet_count (\<lambda>c. c\<lparr>cnt_nftTotal := cnt_nftTotal c + 1\<rparr>)"
  "quiet_count (\<lambda>c. c\<lparr>cnt_itemTotal := cnt_itemTotal c + 1\<rparr>)"
  "quiet_count (\<lambda>c. count_order_category cat' (c\<lparr>cnt_orderTotal := cnt_orderTotal c + 1\<rparr>))"
  "quiet_count (\<lambda>c. (if cnt_started c \<noteq> 0 then c\<lparr>cnt_collectionTotal := cnt_collectionTotal c + n\<rparr> else c)
     \<lparr>cnt_started := 1\<rparr>)"
  by (simp_all add: quiet_count_def count_nft_category_def count_order_category_def)

lemma eth_handleOrderCreated_booked:
  assumes "booked L s"
  shows "booked L (eth_handleOrderCreated e ev b a tx s)"
  using assms
  by (simp add: eth_handleOrderCreated_def Let_def eth_buildCountFromOrder_def
      booked_with_count [OF assms quiet_count_simps(4)] split: option.split)

lemma eth_handleOrderSuccessful_booked:
  assumes "booked L s" and "eth_handleOrderSuccessful e rpc ev b tx c s = Inr s'"
  shows "booked L s'"
  using assms
  by (auto simp: eth_handleOrderSuccessful_def Let_def split: option.splits
      elim!: eth_trackSale_booked [rotated] intro: booked_same)

lemma eth_handleTraded_booked:
  assumes "booked L s" and "eth_handleTraded e rpc ev b tx s = Inr s'"
  shows "booked L s'"
  using assms
  by (auto simp: eth_handleTraded_def Let_def bindR_eq_Inr split: option.splits if_splits
      elim!: eth_trackSale_booked [rotated] intro: booked_same)

lemma eth_handleOrderCancelled_booked: "booked L s \<Longrightarrow> booked L (eth_handleOrderCancelled e ev b s)"
  by (auto simp: eth_handleOrderCancelled_def Let_def split: option.split intro: booked_same)

lemma eth_handleBidCreated_booked:
  assumes "booked L s" and "eth_handleBidCreated e ev b a s = Inr s'"
  shows "booked L s'"
  using assms
  by (auto simp: eth_handleBidCreated_def Let_def bindR_eq_Inr split: option.splits
      intro!: booked_same [OF assms(1)])

lemma eth_handleBidAccepted_booked:
  assumes "booked L s" and "eth_handleBidAccepted rpc ev b tx c s = Inr s'"
  shows "booked L s'"
  using assms
  by (auto simp: eth_handleBidAccepted_def Let_def split: option.splits
      elim!: eth_trackSale_booked [rotated] intro: booked_same)

lemma eth_handleBidCancelled_booked: "booked L s \<Longrightarrow> booked L (eth_handleBidCancelled ev b s)"
  by (auto simp: eth_handleBidCancelled_def Let_def split: option.split intro: booked_same)

lemma transfer_category_books:
  assumes "transfer_category e minted c t i nft s = Inr (nft', s')"
  shows "es_counts s' = es_counts s \<and> es_sales s' = es_sales s \<and> es_analytics s' = es_analytics s \<and>
    es_accounts s' = es_accounts s"
  using assms
  by (auto simp: transfer_category_def transfer_parcel_def transfer_estate_def transfer_wearable_def
      transfer_ens_def Let_def bindR_eq_Inr split: if_splits option.splits)

lemma handleTransfer_booked:
  assumes ok: "booked L s" and run: "handleTransfer e b a ev s = Inr s'"
  shows "booked L s'"
proof -
  let ?acc = "update_account (es_accounts s) (te_to ev) ETHEREUM (\<lambda>a. a)"
  have "es_sales s' = es_sales s \<and> es_analytics s' = es_analytics s \<and> es_accounts s' = ?acc \<and>
      (es_counts s' = es_counts s \<or>
       (\<exists>cat. es_counts s' = set_count (with_count ETHEREUM (count_nft_category cat) (es_counts s))))"
    using run
    by (auto simp: handleTransfer_def Let_def createOrLoadAccount_eq mset_account_at bindR_eq_Inr
        eth_buildCountFromNFT_def split: if_splits prod.splits dest!: transfer_category_books)
  moreover have "booked L (s\<lparr>es_accounts := ?acc\<rparr>)"
    by (rule booked_accounts [OF ok, of _ "te_to ev" ETHEREUM]) simp_all
  ultimately show ?thesis
    by (auto intro: booked_same [of L "s\<lparr>es_accounts := ?acc\<rparr>"]
        booked_set_count [of L "s\<lparr>es_accounts := ?acc\<rparr>", OF _ quiet_count_simps(1)])
qed

lemma handleTransferWearableV1_booked:
  assumes ok: "booked L s" and run: "handleTransferWearableV1 e b a ev s = Inr s'"
  shows "booked L s'"
proof -
  let ?acc = "update_account (es_accounts s) (te_to ev) ETHEREUM (\<lambda>a. a)"
  have "es_sales s' = es_sales s \<and> es_analytics s' = es_analytics s \<and>
      (es_accounts s' = es_accounts s \<or> es_accounts s' = ?acc) \<and>
      (es_counts s' = es_counts s \<or>
       es_counts s' = set_count (with_count ETHEREUM (\<lambda>c. c\<lparr>cnt_nftTotal := cnt_nftTotal c + 1\<rparr>) (es_counts s)))"
    using run
    by (auto simp: handleTransferWearableV1_def mint_v1_def Let_def createOrLoadAccount_eq
        mset_account_at bindR_eq_Inr split: if_splits prod.splits option.splits)
  moreover have "booked L (s\<lparr>es_accounts := ?acc\<rparr>)"
    by (rule booked_accounts [OF ok, of _ "te_to ev" ETHEREUM]) simp_all
  ultimately show ?thesis
    using ok by (auto intro: booked_same [of L "s\<lparr>es_accounts := ?acc\<rparr>"] booked_same [of L s]
        booked_set_count [of L s, OF _ quiet_count_simps(2)]
        booked_set_count [of L "s\<lparr>es_accounts := ?acc\<rparr>", OF _ quiet_count_simps(2)])
qed

lemma handleAddItemV1_booked:
  assumes "booked L s" and "handleAddItemV1 e rpc a ev b s = Inr s'"
  shows "booked L s'"
proof (cases "getWearableV1Representation e (aw_wearableId ev)")
  case None
  then show ?thesis
    using assms by (auto simp: handleAddItemV1_def Let_def bindR_eq_Inr intro: booked_same)
next
  case (Some representation)
  then show ?thesis
    using assms(2)
    by (intro booked_with_count [OF assms(1) quiet_count_simps(3)])
       (auto simp: handleAddItemV1_def buildWearableV1Metadata_def Let_def bindR_eq_Inr
         buildCountFromItem_def)
qed

lemma handleInitializeWearablesV1_booked: "booked L s \<Longrightarrow> booked L (handleInitializeWearablesV1 e s)"
  unfolding handleInitializeWearablesV1_def Let_def
  by (rule booked_set_count [OF _ quiet_count_simps(5)]) simp_all

lemma handleCreateEstate_booked: "booked L s \<Longrightarrow> booked L (handleCreateEstate e b ev s)"
  by (auto simp: handleCreateEstate_def Let_def createOrLoadAccount_update split: option.split
      intro: booked_accounts)

lemma estate_handleUpdate_booked: "booked L s \<Longrightarrow> booked L (estate_handleUpdate e ev b s)"
  by (auto simp: estate_handleUpdate_def Let_def split: option.split intro: booked_same)

lemma handleAddLand_booked:
  assumes "booked L s" and "handleAddLand e ev s = Inr s'"
  shows "booked L s'"
  by (rule booked_accounts [OF assms(1), of _ "ea_EstateRegistry (eth_getAddresses e)" ETHEREUM];
      use assms(2) in \<open>auto simp: handleAddLand_def Let_def createOrLoadAccount_eq mset_account_at
        bindR_eq_Inr split: option.splits\<close>)

lemma handleRemoveLand_booked:
  assumes "booked L s" and "handleRemoveLand e ev s = Inr s'"
  shows "booked L s'"
  by (rule booked_same [OF assms(1)];
      use assms(2) in \<open>auto simp: handleRemoveLand_def Let_def bindR_eq_Inr split: option.splits\<close>)

lemma parcel_handleUpdate_booked:
  assumes "booked L s" and "parcel_handleUpdate e ev b s = Inr s'"
  shows "booked L s'"
  by (rule booked_same [OF assms(1)];
      use assms(2) in \<open>auto simp: parcel_handleUpdate_def Let_def bindR_eq_Inr split: option.splits\<close>)

lemma handleNameRegistered_booked:
  assumes ok: "booked L s" and run: "handleNameRegistered e ev h s = Inr s'"
  shows "booked L s'"
proof -
  let ?acc = "update_account (es_accounts s) (nr_beneficiary ev) ETHEREUM (\<lambda>a. a)"
  have "booked L (s\<lparr>es_accounts := ?acc\<rparr>)"
    by (rule booked_accounts [OF ok, of _ "nr_beneficiary ev" ETHEREUM]) simp_all
  then show ?thesis
    by (rule booked_accounts [of L _ _ "nr_caller ev" ETHEREUM];
        use run in \<open>auto simp: handleNameRegistered_def Let_def createOrLoadAccount_eq
          mset_account_at bindR_eq_Inr\<close>)
qed

text \<open>A bought name adds to the earnings of the day, which the ledger does not look at.\<close>

lemma handleNameBought_booked:
  assumes "booked L s"
  shows "booked L (handleNameBought price t s)"
proof -
  define d where "d = getOrCreateAnalyticsDayData t (es_analytics s) ETHEREUM"
  define d' where "d' = d\<lparr>add_daoEarnings := add_daoEarnings d + price\<rparr>"
  have keyed: "mwf (es_analytics s)" "analytics_keyed (es_analytics s)"
    using assms by (simp_all add: booked_def eth_ledger_ok_def ledger_ok_def)
  have id: "add_id d' = add_id d" by (simp add: d'_def)
  have "msum add_volume (mset (es_analytics s) (add_id d') d') = msum add_volume (es_analytics s)"
    "msum add_sales (mset (es_analytics s) (add_id d') d') = msum add_sales (es_analytics s)"
    unfolding msum_analytics [OF keyed d_def id]
    by (simp_all add: d'_def d_def getOrCreateAnalyticsDayData_def split: option.split)
  moreover have "analytics_keyed (mset (es_analytics s) (add_id d') d')" using keyed(2) by auto
  ultimately show ?thesis
    using assms unfolding handleNameBought_def d_def [symmetric] Let_def d'_def [symmetric]
    by (simp add: booked_def eth_ledger_ok_def eth_ledger_def ledger_ok_def ledger_def mwf_mset)
qed

section \<open>The whole batch\<close>

lemmas eth_booked_handlers =
  eth_handleOrderCreated_booked eth_handleTraded_booked eth_handleOrderSuccessful_booked
  eth_handleOrderCancelled_booked eth_handleBidCreated_booked eth_handleBidAccepted_booked
  eth_handleBidCancelled_booked handleTransfer_booked handleTransferWearableV1_booked
  handleAddItemV1_booked handleCreateEstate_booked estate_handleUpdate_booked handleAddLand_booked
  handleRemoveLand_booked handleInitializeWearablesV1_booked

lemma eth_dispatch_booked:
  assumes "booked L s" and "eth_dispatch e rpc s q = Inr s'"
  shows "booked L s'"
  using assms
  by (cases "q_event q")
     (auto simp: eth_dispatch_def dispatch_land_def dispatch_transfer_def Let_def split: if_splits
       intro: eth_booked_handlers)

lemma ens_dispatch_booked:
  assumes "booked L s" and "ens_dispatch e s q = Inr s'"
  shows "booked L s'"
  using assms
  by (auto simp: ens_dispatch_def split: eth_event.splits
      intro: handleNameRegistered_booked handleNameBought_booked)

interpretation eth_books: batch "eth_dispatch e rpc" "booked L" "\<lambda>_ _. True" for e rpc L
  by unfold_locales (rule eth_dispatch_booked)

interpretation land_books: batch "\<lambda>st (event, b). parcel_handleUpdate e event b st" "booked L" "\<lambda>_ _. True"
  for e L
  by unfold_locales (auto intro: parcel_handleUpdate_booked)

interpretation name_books: batch "ens_dispatch e" "booked L" "\<lambda>_ _. True" for e L
  by unfold_locales (rule ens_dispatch_booked)

text \<open>
  Every sale is booked everywhere exactly once. Handling the queues of a whole batch, whatever
  the events are, keeps the differences between the totals and the sale rows of the batch: the
  number and MANA volume of the sales in the global counter, in the analytics of the days, and the
  purchases, expenses, sales and earnings of all accounts grow by exactly the number and the total
  price of the sale rows the batch adds; no sale row is overwritten.
\<close>

lemma eth_batch_books_every_sale:
  assumes "eth_ledger_ok s" and "handle_queues e rpc sc s = Inr s'"
  shows "eth_ledger_ok s' \<and> eth_ledger s' = eth_ledger s"
proof -
  from assms(2) obtain s1 s2 where
    run: "foldR (eth_dispatch e rpc) s (sc_market sc) = Inr s1"
      "foldR (\<lambda>st (event, b). parcel_handleUpdate e event b st) s1 (sc_parcelEvents sc) = Inr s2"
      "foldR (ens_dispatch e) s2 (sc_ensEvents sc) = Inr s'"
    by (auto simp: handle_queues_def bindR_eq_Inr)
  have "booked (eth_ledger s) s" using assms(1) by (simp add: booked_def)
  from eth_books.run_inv [OF this ok_run_True run(1)]
  have "booked (eth_ledger s) s1" .
  from land_books.run_inv [OF this ok_run_True run(2)]
  have "booked (eth_ledger s) s2" .
  from name_books.run_inv [OF this ok_run_True run(3)]
  show ?thesis by (simp add: booked_def)
qed

end
