(* ===== verification/Squid_Simulation.thy ===== *)
theory Squid_Simulation
  imports Squid_Prelude
begin

text \<open>
  Refinement of event loops. \<open>simulation\<close> extends the contract of an event loop by an abstract loop
  and an abstraction function; \<open>labelled\<close> states that every step of a loop is allowed by a labelled
  specification; \<open>progress\<close> that no step fails. All three carry over to whole runs.
\<close>

locale simulation = batch step inv ok
  for step :: "'s \<Rightarrow> 'x \<Rightarrow> 'e + 's" and inv :: "'s \<Rightarrow> bool" and ok :: "'s \<Rightarrow> 'x \<Rightarrow> bool" +
  fixes abs_step :: "'a \<Rightarrow> 'x \<Rightarrow> 'e + 'a"
    and abs :: "'s \<Rightarrow> 'a"
  assumes sim: "inv s \<Longrightarrow> ok s x \<Longrightarrow> abs_step (abs s) x = map_sum id abs (step s x)"
begin

lemma run_sim:
  "inv s \<Longrightarrow> ok_run step ok s xs \<Longrightarrow> foldR abs_step (abs s) xs = map_sum id abs (foldR step s xs)"
proof (induction xs arbitrary: s)
  case Nil
  then show ?case by simp
next
  case (Cons x xs)
  then have "abs_step (abs s) x = map_sum id abs (step s x)" by (simp add: sim)
  with Cons show ?case by (cases "step s x") (auto intro: step_inv)
qed

text \<open>Both loops fail together, and where they return the results agree.\<close>

lemma run_sim_Inr:
  "inv s \<Longrightarrow> ok_run step ok s xs \<Longrightarrow> foldR step s xs = Inr s' \<Longrightarrow> foldR abs_step (abs s) xs = Inr (abs s')"
  using run_sim by fastforce

end

text \<open>Runs of a labelled specification.\<close>

inductive labelled_run :: "('l \<Rightarrow> 'a \<Rightarrow> 'a \<Rightarrow> bool) \<Rightarrow> 'l list \<Rightarrow> 'a \<Rightarrow> 'a \<Rightarrow> bool" for spec where
  run_Nil: "labelled_run spec [] a a"
| run_Cons: "spec l a b \<Longrightarrow> labelled_run spec ls b c \<Longrightarrow> labelled_run spec (l # ls) a c"

inductive_cases labelled_run_NilE: "labelled_run spec [] a b"
inductive_cases labelled_run_ConsE: "labelled_run spec (l # ls) a c"

locale labelled = batch step inv ok
  for step :: "'s \<Rightarrow> 'x \<Rightarrow> 'e + 's" and inv :: "'s \<Rightarrow> bool" and ok :: "'s \<Rightarrow> 'x \<Rightarrow> bool" +
  fixes spec :: "'l \<Rightarrow> 'a \<Rightarrow> 'a \<Rightarrow> bool"
    and label :: "'x \<Rightarrow> 'l"
    and abs :: "'s \<Rightarrow> 'a"
  assumes refines: "inv s \<Longrightarrow> ok s x \<Longrightarrow> step s x = Inr s' \<Longrightarrow> spec (label x) (abs s) (abs s')"
begin

lemma run_refines:
  "inv s \<Longrightarrow> ok_run step ok s xs \<Longrightarrow> foldR step s xs = Inr s' \<Longrightarrow>
   labelled_run spec (map label xs) (abs s) (abs s')"
proof (induction xs arbitrary: s)
  case Nil
  then show ?case by (simp add: run_Nil)
next
  case (Cons x xs)
  from Cons.prems(3) obtain t where t: "step s x = Inr t" "foldR step t xs = Inr s'"
    by (auto simp: bindR_eq_Inr)
  with Cons.prems(1,2) have "inv t" "ok_run step ok t xs"
    by (auto intro: step_inv)
  then have "labelled_run spec (map label xs) (abs t) (abs s')" using t(2) by (rule Cons.IH)
  then show ?case using refines [OF Cons.prems(1) _ t(1)] Cons.prems(2) by (auto intro: run_Cons)
qed

end

text \<open>A loop whose steps never throw, as one whose steps do.\<close>

lemma foldR_total: "foldR (\<lambda>s x. Inr (f s x)) s xs = Inr (foldl f s xs)"
  by (induction xs arbitrary: s) simp_all

text \<open>A loop whose steps never fail on the events they may meet.\<close>

locale progress = batch step inv ok
  for step :: "'s \<Rightarrow> 'x \<Rightarrow> 'e + 's" and inv :: "'s \<Rightarrow> bool" and ok :: "'s \<Rightarrow> 'x \<Rightarrow> bool" +
  assumes total: "inv s \<Longrightarrow> ok s x \<Longrightarrow> \<exists>s'. step s x = Inr s'"
begin

lemma run_total: "inv s \<Longrightarrow> ok_run step ok s xs \<Longrightarrow> \<exists>s'. foldR step s xs = Inr s'"
proof (induction xs arbitrary: s)
  case Nil
  then show ?case by simp
next
  case (Cons x xs)
  then obtain t where t: "step s x = Inr t" using total by fastforce
  with Cons have "inv t" "ok_run step ok t xs" by (auto intro: step_inv)
  then show ?case using Cons.IH t by simp
qed

end

end
