(* ===== verification/Squid_Listings.thy ===== *)
theory Squid_Listings
  imports Squid_Market Squid_Simulation
begin

text \<open>
  The abstract marketplace the order books of both processors implement: a map from tokens to the one
  order they are listed under. Creating an order lists the token, selling or cancelling the listed
  order removes it, and nothing else changes the listings, in particular no transfer, trade or bid.
\<close>

type_synonym listings = "string \<Rightarrow> string option"

datatype market_action = Listed string string | Closed string string | Elsewhere

text \<open>A token the indexer does not know is not listed; an order that is not the listed one is late.\<close>

inductive listing_step :: "market_action \<Rightarrow> listings \<Rightarrow> listings \<Rightarrow> bool" where
  listed: "listing_step (Listed k i) L (L(k \<mapsto> i))"
| unknown: "L k = None \<Longrightarrow> listing_step (Listed k i) L L"
| closed: "L k = Some i \<Longrightarrow> listing_step (Closed k i) L (L(k := None))"
| late: "L k \<noteq> Some i \<Longrightarrow> listing_step (Closed k i) L L"
| elsewhere: "listing_step Elsewhere L L"

inductive_simps listing_step_simps [simp]:
  "listing_step Elsewhere L L'" "listing_step (Closed k i) L L'" "listing_step (Listed k i) L L'"

text \<open>The listings of a state: the active orders of its tokens.\<close>

definition listings :: "nfts \<Rightarrow> listings" where
  "listings nfts k = (case mget nfts k of None \<Rightarrow> None | Some n \<Rightarrow> nft_activeOrder n)"

lemma listings_mset [simp]: "listings (mset nfts k n) = (listings nfts)(k := nft_activeOrder n)"
  by (auto simp: listings_def)

text \<open>In a consistent book the listings are determined by the live orders alone.\<close>

definition live_at :: "orders \<Rightarrow> string \<Rightarrow> string option" where
  "live_at orders i = (case mget orders i of
     None \<Rightarrow> None | Some order \<Rightarrow> if live order then Some (ord_nft order) else None)"

lemma live_at_iff: "live_at orders i = Some k \<longleftrightarrow> (\<exists>order. mget orders i = Some order \<and> live order \<and> ord_nft order = k)"
  by (auto simp: live_at_def split: option.split if_splits)

lemma listings_live:
  assumes "order_book nfts orders"
  shows "listings nfts k = Some i \<longleftrightarrow> live_at orders i = Some k"
proof
  assume "listings nfts k = Some i"
  then obtain n where "mget nfts k = Some n" "nft_activeOrder n = Some i"
    by (auto simp: listings_def split: option.splits)
  from order_book_active [OF assms this] show "live_at orders i = Some k" by (auto simp: live_at_iff)
next
  assume "live_at orders i = Some k"
  then obtain order where order: "mget orders i = Some order" "live order" "ord_nft order = k"
    by (auto simp: live_at_iff)
  from order_bookD_live [OF assms order(1,2)] order(3)
  show "listings nfts k = Some i" by (auto simp: listings_def)
qed

lemma listings_same:
  assumes "order_book nfts orders" and "order_book nfts' orders'" and "live_at orders' = live_at orders"
  shows "listings nfts' = listings nfts"
proof
  fix k
  have "listings nfts' k = Some i \<longleftrightarrow> listings nfts k = Some i" for i
    using assms(3) by (simp add: listings_live [OF assms(1)] listings_live [OF assms(2)])
  then show "listings nfts' k = listings nfts k" by (metis not_Some_eq)
qed

text \<open>A token that changes hands keeps its order listed, suspended or not.\<close>

lemma move_order_live:
  assumes ob: "order_book nfts orders" and old: "mget nfts k = Some old"
    and active: "nft_activeOrder nft = nft_activeOrder old"
    and move: "move_order owner nft orders = (nft', orders')"
  shows "live_at orders' = live_at orders"
proof (cases "nft_activeOrder nft")
  case None
  then show ?thesis using move by (simp add: move_order_def)
next
  case (Some i)
  then have "nft_activeOrder old = Some i" using active by simp
  from order_book_active [OF ob old this] obtain order where
    order: "mget orders i = Some order" "live order" by blast
  have "orders' = mset orders i (order\<lparr>ord_status := move_status order owner\<rparr>)"
    using move Some order(1) by (simp add: move_order_def)
  then show ?thesis using order by (auto simp: live_at_def live_def move_status_def fun_eq_iff)
qed

lemma move_order_idle: "nft_activeOrder nft = None \<Longrightarrow> move_order owner nft orders = (nft, orders)"
  by (simp add: move_order_def)

text \<open>Closing an order, for tokens of which the event guarantees what \<open>closes_active\<close> says.\<close>

lemma close_known:
  assumes "closes_active nfts orders k i" and "mget orders i = Some order" and "mget nfts k = Some nft"
  shows "listing_step (Closed k i) (listings nfts) ((listings nfts)(k := None))"
  using assms by (auto simp: closes_active_def listings_def fun_eq_iff)

lemma close_unknown_order:
  assumes "order_book nfts orders" and "mget orders i = None"
  shows "listing_step (Closed k i) (listings nfts) (listings nfts)"
  using assms by (auto simp: listings_live live_at_def)

lemma close_unknown_token:
  assumes "mget nfts k = None"
  shows "listing_step (Closed k i) (listings nfts) (listings nfts)"
  using assms by (auto simp: listings_def)

lemma activeOrder_update:
  "nft_activeOrder (updateNFTOrderProperties nft order) =
     (if ord_status order = Open then Some (ord_id order)
      else if ord_status order = Transferred then nft_activeOrder nft else None)"
  using order_view_update [of nft order] unfolding fst_view(3) [symmetric] by (auto simp: fst_view)

lemma listings_sold:
  "mget nfts k = Some n \<Longrightarrow> nft_sold price t n = Inr n' \<Longrightarrow> listings (mset nfts k n') = listings nfts"
  by (auto simp: nft_sold_Inr listings_def [of nfts] fun_eq_iff)

end
