(* ===== verification/Eth_Listings.thy ===== *)
theory Eth_Listings
  imports Eth_Book Squid_Listings
begin

text \<open>
  The order book of the Ethereum processor implements the abstract marketplace of
  \<open>Squid_Listings\<close>: every queued event changes the listings as its kind says.
\<close>

definition eth_action :: "env \<Rightarrow> queued \<Rightarrow> market_action" where
  "eth_action e q =
     (case q_event q of
        Ev_OrderCreated ev \<Rightarrow> Listed (marketNFTId e (oc_nftAddress ev) (oc_assetId ev)) (oc_id ev)
      | Ev_OrderSuccessful ev \<Rightarrow> Closed (marketNFTId e (os_nftAddress ev) (os_assetId ev)) (os_id ev)
      | Ev_OrderCancelled ev \<Rightarrow> Closed (marketNFTId e (ox_nftAddress ev) (ox_assetId ev)) (ox_id ev)
      | _ \<Rightarrow> Elsewhere)"

definition eth_listings :: "eth_state \<Rightarrow> listings" where
  "eth_listings s = listings (es_nfts s)"

lemma eth_listings_same:
  "eth_book s \<Longrightarrow> eth_book s' \<Longrightarrow> live_at (es_orders s') = live_at (es_orders s) \<Longrightarrow>
   eth_listings s' = eth_listings s"
  unfolding eth_book_def eth_listings_def by (rule listings_same)

section \<open>Order events\<close>

lemma eth_handleOrderCreated_listings:
  "listing_step (Listed (marketNFTId e (oc_nftAddress ev) (oc_assetId ev)) (oc_id ev))
     (eth_listings s) (eth_listings (eth_handleOrderCreated e ev b a tx s))"
  by (simp add: eth_handleOrderCreated_def eth_listings_def Let_def activeOrder_update order_of_event_def
      listings_def [of "es_nfts s"] split: option.split)

lemma eth_handleOrderCancelled_listings:
  assumes "eth_book s"
    and "closes_active (es_nfts s) (es_orders s) (marketNFTId e (ox_nftAddress ev) (ox_assetId ev)) (ox_id ev)"
  shows "listing_step (Closed (marketNFTId e (ox_nftAddress ev) (ox_assetId ev)) (ox_id ev))
     (eth_listings s) (eth_listings (eth_handleOrderCancelled e ev b s))"
  using assms close_known [OF assms(2)] close_unknown_order [of "es_nfts s" "es_orders s"]
    close_unknown_token [of "es_nfts s"]
  unfolding eth_book_def eth_listings_def
  by (auto simp: eth_handleOrderCancelled_def Let_def activeOrder_update simp del: listing_step_simps
      split: option.split)

lemma eth_handleOrderSuccessful_listings:
  assumes book: "eth_book s"
    and ok: "closes_active (es_nfts s) (es_orders s) (marketNFTId e (os_nftAddress ev) (os_assetId ev)) (os_id ev)"
    and run: "eth_handleOrderSuccessful e rpc ev b tx c s = Inr s'"
  shows "listing_step (Closed (marketNFTId e (os_nftAddress ev) (os_assetId ev)) (os_id ev))
     (eth_listings s) (eth_listings s')"
proof -
  let ?k = "marketNFTId e (os_nftAddress ev) (os_assetId ev)"
  have ob: "order_book (es_nfts s) (es_orders s)" using book by (simp add: eth_book_def)
  show ?thesis
  proof (cases "mget (es_orders s) (os_id ev)")
    case None
    then show ?thesis
      using run close_unknown_order [OF ob None]
      by (simp add: eth_handleOrderSuccessful_def Let_def eth_listings_def del: listing_step_simps)
  next
    case order: (Some old)
    show ?thesis
    proof (cases "mget (es_nfts s) ?k")
      case None
      then show ?thesis
        using run order close_unknown_token [OF None]
        by (auto simp: eth_handleOrderSuccessful_def Let_def eth_listings_def simp del: listing_step_simps)
    next
      case (Some nft)
      then have id: "nft_id nft = ?k" using order_bookD_nft(1) [OF ob] by blast
      obtain s1 price where s1: "eth_trackSale rpc b Sale_order (os_buyer ev) (os_seller ev) ?k price c
            (seconds b) tx s1 = Inr s'"
        and listed: "eth_listings s1 = (eth_listings s)(?k := None)"
        using run order Some
        by (auto simp: eth_handleOrderSuccessful_def Let_def eth_listings_def id activeOrder_update)
      have "eth_listings s' = eth_listings s1"
        using eth_trackSale_nfts [OF s1] by (auto simp: eth_listings_def listings_sold simp del: listings_mset)
      then show ?thesis
        using listed close_known [OF ok order Some] by (simp add: eth_listings_def del: listing_step_simps)
    qed
  qed
qed

section \<open>The other events\<close>

lemma handleTransfer_live:
  assumes book: "eth_book s" and run: "handleTransfer e b a ev s = Inr s'"
  shows "live_at (es_orders s') = live_at (es_orders s)"
proof -
  define i where "i = getNFTId a (toStr (te_tokenId ev)) (Some (getCategory e a))"
  define acc where "acc = account_at (es_accounts s) (te_to ev) ETHEREUM"
  define nft1 where "nft1 = transfer_base e a ev b (account_refer acc) (es_tokenURIs s)
      (case mget (es_nfts s) i of Some n \<Rightarrow> n | None \<Rightarrow> new_NFT i (Some ETHEREUM))"
  have ob: "order_book (es_nfts s) (es_orders s)" using book by (simp add: eth_book_def)
  obtain nft2 orders' where move: "move_order (acc_address acc) nft1 (es_orders s) = (nft2, orders')"
    by fastforce
  have "es_orders s' = es_orders s \<or> es_orders s' = orders'"
    using run move unfolding nft1_def i_def acc_def
    by (auto simp: handleTransfer_def Let_def createOrLoadAccount_eq bindR_eq_Inr keeps_book_def
        split: if_splits dest!: transfer_category_keeps)
  moreover have "live_at orders' = live_at (es_orders s)"
  proof (cases "mget (es_nfts s) i")
    case None
    then have "nft_activeOrder nft1 = None" by (simp add: nft1_def transfer_base_def new_NFT_def Let_def)
    then show ?thesis using move by (simp add: move_order_idle)
  next
    case (Some old)
    then show ?thesis using move_order_live [OF ob Some _ move] by (simp add: nft1_def transfer_base_def Let_def)
  qed
  ultimately show ?thesis by auto
qed

lemma handleTransferWearableV1_live:
  assumes book: "eth_book s" and run: "handleTransferWearableV1 e b a ev s = Inr s'"
  shows "live_at (es_orders s') = live_at (es_orders s)"
proof -
  define i where "i = getNFTId a (toStr (te_tokenId ev)) None"
  define acc where "acc = account_at (es_accounts s) (te_to ev) ETHEREUM"
  define old where "old = (case mget (es_nfts s) i of Some n \<Rightarrow> n | None \<Rightarrow> new_NFT i (Some ETHEREUM))"
  have ob: "order_book (es_nfts s) (es_orders s)" using book by (simp add: eth_book_def)
  have moved: "live_at orders' = live_at (es_orders s)"
    if "move_order owner nft (es_orders s) = (nft', orders')" "nft_activeOrder nft = nft_activeOrder old"
    for owner nft nft' orders'
  proof (cases "mget (es_nfts s) i")
    case None
    then show ?thesis using that by (simp add: old_def new_NFT_def move_order_idle)
  next
    case (Some n)
    then show ?thesis using move_order_live [OF ob Some _ that(1)] that(2) by (simp add: old_def)
  qed
  have "es_orders s' = es_orders s \<or>
      (\<exists>owner uri c j item nft' orders'.
         move_order owner (transfer_v1_base a ev b (account_refer acc) uri c j item old) (es_orders s) =
           (nft', orders') \<and> es_orders s' = orders')"
    using run unfolding old_def i_def acc_def
    by (auto simp: handleTransferWearableV1_def mint_v1_def Let_def createOrLoadAccount_eq bindR_eq_Inr
        split: if_splits prod.splits option.splits)
  then show ?thesis using moved by (auto simp: transfer_v1_base_def)
qed

lemma land_handlers_orders:
  "es_orders (handleCreateEstate e b ce s) = es_orders s"
  "es_orders (estate_handleUpdate e ue b s) = es_orders s"
  "handleAddLand e le s = Inr s' \<Longrightarrow> es_orders s' = es_orders s"
  "handleRemoveLand e le s = Inr s' \<Longrightarrow> es_orders s' = es_orders s"
  "handleAddItemV1 e rpc a ev b s = Inr s' \<Longrightarrow> es_orders s' = es_orders s"
  by (auto simp: handleCreateEstate_def estate_handleUpdate_def handleAddLand_def handleRemoveLand_def
      handleAddItemV1_def buildWearableV1Metadata_def createOrLoadAccount_eq Let_def bindR_eq_Inr
      split: option.splits)

lemma bid_handlers_orders:
  "eth_handleBidCreated e bc b a s = Inr s' \<Longrightarrow> es_orders s' = es_orders s"
  "es_orders (eth_handleBidCancelled bx b s) = es_orders s"
  "eth_handleBidAccepted rpc ba b tx c s = Inr s' \<Longrightarrow> es_orders s' = es_orders s"
  "eth_handleTraded e rpc tr b tx s = Inr s' \<Longrightarrow> es_orders s' = es_orders s"
  by (auto simp: eth_handleBidCreated_def eth_handleBidCancelled_def eth_handleBidAccepted_def
      eth_handleTraded_def Let_def bindR_eq_Inr split: option.splits if_splits
      dest!: eth_trackSale_orders)

lemma eth_dispatch_live:
  assumes "eth_book s" and "eth_dispatch e rpc s q = Inr s'" and "eth_action e q = Elsewhere"
  shows "live_at (es_orders s') = live_at (es_orders s)"
  using assms
  by (cases "q_event q")
     (auto simp: eth_dispatch_def eth_action_def dispatch_land_def dispatch_transfer_def Let_def
       handleInitializeWearablesV1_def land_handlers_orders(1,2) bid_handlers_orders(2)
       split: if_splits
       intro: handleTransfer_live handleTransferWearableV1_live
       dest: land_handlers_orders(3-5) bid_handlers_orders(1,3,4))

lemma eth_dispatch_listings:
  assumes "eth_book s" and "market_event_ok e s q" and "eth_dispatch e rpc s q = Inr s'"
  shows "listing_step (eth_action e q) (eth_listings s) (eth_listings s')"
proof (cases "eth_action e q = Elsewhere")
  case True
  have "eth_book s'" using assms by (rule eth_dispatch_book)
  then have "eth_listings s' = eth_listings s"
    using eth_listings_same [OF assms(1)] eth_dispatch_live [OF assms(1,3) True] by blast
  then show ?thesis by (simp add: True)
next
  case False
  then show ?thesis
    using assms
    by (cases "q_event q")
       (auto simp: eth_action_def eth_dispatch_def market_event_ok_def Let_def simp del: listing_step_simps
         intro: eth_handleOrderCreated_listings eth_handleOrderSuccessful_listings
           eth_handleOrderCancelled_listings)
qed

interpretation eth_market:
  labelled "eth_dispatch e rpc" eth_book "market_event_ok e" listing_step "eth_action e" eth_listings
  for e rpc
  by unfold_locales (rule eth_dispatch_listings)



end
