(* ===== verification/Poly_State.thy ===== *)
theory Poly_State
  imports Squid_Market
begin

text \<open>
  The state of the Polygon processor: the maps of one batch (\<^verbatim>\<open>polygon/types.ts\<close>), the contract
  data that lives in module variables (\<^verbatim>\<open>polygon/state.ts\<close>), the contract reads, and the small
  handlers that only touch one map: rarities and committee members.

  \<open>poly_rpc\<close> is the parameter for contract calls: each is a fallible function of the block height
  and the contract address. The queued events hold references to the module variables of
  \<^verbatim>\<open>state.ts\<close>, so a handler sees their values at the time it runs: \<open>ps_module\<close> is part of the state.
\<close>

section \<open>Contract reads\<close>

text \<open>The nine values read from a collection contract (\<^verbatim>\<open>PrefetchedCollectionData\<close>).\<close>

record collection_data =
  cd_name :: string
  cd_symbol :: string
  cd_owner :: string
  cd_creator :: string
  cd_isCompleted :: bool
  cd_isApproved :: bool
  cd_isEditable :: bool
  cd_baseURI :: string
  cd_chainId :: int

record chain_rarity =
  cr_name :: string
  cr_price :: int
  cr_maxSupply :: int

text \<open>A value returned by a multicall.\<close>

datatype abi_value = V_string string | V_bool bool | V_int int

record poly_rpc =
  pr_ownerOf :: "int \<Rightarrow> string \<Rightarrow> int \<Rightarrow> string result"
  pr_owner :: "int \<Rightarrow> string \<Rightarrow> string result"
  pr_collection :: "int \<Rightarrow> string \<Rightarrow> collection_data result"
  pr_totalSupply :: "int \<Rightarrow> string \<Rightarrow> int \<Rightarrow> int result"
  pr_raritiesCount :: "int \<Rightarrow> string \<Rightarrow> int result"
  pr_rarities :: "int \<Rightarrow> string \<Rightarrow> int \<Rightarrow> chain_rarity result"
  pr_rarityByName :: "int \<Rightarrow> string \<Rightarrow> string \<Rightarrow> chain_rarity result"
  pr_fee :: "int \<Rightarrow> string \<Rightarrow> int result"
  pr_feeOwner :: "int \<Rightarrow> string \<Rightarrow> string result"
  pr_ownerCutPerMillion :: "int \<Rightarrow> string \<Rightarrow> int result"
  pr_feesCollectorCutPerMillion :: "int \<Rightarrow> string \<Rightarrow> int result"
  pr_feesCollector :: "int \<Rightarrow> string \<Rightarrow> string result"
  pr_royaltiesCutPerMillion :: "int \<Rightarrow> string \<Rightarrow> int result"
  pr_feeCollector :: "int \<Rightarrow> string \<Rightarrow> string result"
  pr_feeRate :: "int \<Rightarrow> string \<Rightarrow> int result"
  pr_royaltiesRate :: "int \<Rightarrow> string \<Rightarrow> int result"
  pr_tryAggregate :: "int \<Rightarrow> (string \<times> string) list \<Rightarrow> (bool \<times> abi_value) list result"

section \<open>Contract data in module variables\<close>

record StoreContractData =
  sd_fee :: "int option"
  sd_feeOwner :: "string option"

record MarketplaceContractData =
  md_ownerCutPerMillion :: "int option"
  md_owner :: "string option"

text \<open>\<^verbatim>\<open>MarketplaceV2ContractData\<close> and \<^verbatim>\<open>BidV2ContractData\<close> have the same three fields.\<close>

record FeesContractData =
  fd_feesCollectorCutPerMillion :: "int option"
  fd_feesCollector :: "string option"
  fd_royaltiesCutPerMillion :: "int option"

record MarketplaceV3ContractData =
  vd_feeCollector :: "string option"
  vd_feeRate :: "int option"
  vd_royaltiesRate :: "int option"

record poly_module =
  pm_store :: StoreContractData
  pm_marketplace :: MarketplaceContractData
  pm_marketplaceV2 :: FeesContractData
  pm_bidV2 :: FeesContractData
  pm_marketplaceV3 :: MarketplaceV3ContractData
  pm_marketplaceOwnerCut :: "int option"
  pm_bidOwnerCut :: "int option"

definition poly_module_init :: poly_module where
  "poly_module_init =
     \<lparr>pm_store = \<lparr>sd_fee = None, sd_feeOwner = None\<rparr>,
      pm_marketplace = \<lparr>md_ownerCutPerMillion = None, md_owner = None\<rparr>,
      pm_marketplaceV2 = \<lparr>fd_feesCollectorCutPerMillion = None, fd_feesCollector = None,
                          fd_royaltiesCutPerMillion = None\<rparr>,
      pm_bidV2 = \<lparr>fd_feesCollectorCutPerMillion = None, fd_feesCollector = None,
                  fd_royaltiesCutPerMillion = None\<rparr>,
      pm_marketplaceV3 = \<lparr>vd_feeCollector = None, vd_feeRate = None, vd_royaltiesRate = None\<rparr>,
      pm_marketplaceOwnerCut = None, pm_bidOwnerCut = None\<rparr>"

text \<open>
  \<^verbatim>\<open>+(process.env.POLYGON_CHAIN_ID || ChainId.MATIC_MAINNET)\<close> for integral values; \<open>None\<close> is \<^verbatim>\<open>NaN\<close>.
\<close>

definition poly_chainNumber :: "env \<Rightarrow> int option" where
  "poly_chainNumber e =
     (case bigint_of_string (env_or (env_POLYGON_CHAIN_ID e) (toStr MATIC_MAINNET)) of
        Inr n \<Rightarrow> Some n
      | Inl _ \<Rightarrow> None)"

definition start_block :: "int \<Rightarrow> int \<Rightarrow> env \<Rightarrow> int option" where
  "start_block amoy mainnet e =
     (if poly_chainNumber e = Some MATIC_AMOY then Some amoy
      else if poly_chainNumber e = Some MATIC_MAINNET then Some mainnet
      else None)"

text \<open>\<^verbatim>\<open>block.height >= contractStartingBlock\<close>; a missing start block never passes.\<close>

definition deployed :: "int option \<Rightarrow> block \<Rightarrow> bool" where
  "deployed start b = (case start of None \<Rightarrow> False | Some n \<Rightarrow> n \<le> blk_height b)"

text \<open>
  The getters assign the fields one by one inside a \<^verbatim>\<open>try\<close>: what was read before a failing call
  stays assigned.
\<close>

definition getStoreContractData :: "env \<Rightarrow> poly_rpc \<Rightarrow> block \<Rightarrow> StoreContractData \<Rightarrow> StoreContractData" where
  "getStoreContractData e rpc b d =
     (if (sd_fee d = None \<or> sd_feeOwner d = None) \<and> deployed (start_block 5706656 15202567 e) b
      then (let a = pa_CollectionStore (poly_getAddresses e) in
            case pr_fee rpc (blk_height b) a of
              Inl _ \<Rightarrow> d
            | Inr fee \<Rightarrow>
                (let d1 = d\<lparr>sd_fee := Some fee\<rparr> in
                 case pr_feeOwner rpc (blk_height b) a of
                   Inl _ \<Rightarrow> d1
                 | Inr owner \<Rightarrow> d1\<lparr>sd_feeOwner := Some owner\<rparr>))
      else d)"

definition getMarketplaceContractData ::
  "env \<Rightarrow> poly_rpc \<Rightarrow> block \<Rightarrow> MarketplaceContractData \<Rightarrow> MarketplaceContractData" where
  "getMarketplaceContractData e rpc b d =
     (if poly_chainNumber e = Some MATIC_MAINNET \<and>
         (md_ownerCutPerMillion d = None \<or> md_owner d = None) \<and>
         deployed (start_block 14517370 15202000 e) b
      then (let a = pa_Marketplace (poly_getAddresses e) in
            case pr_ownerCutPerMillion rpc (blk_height b) a of
              Inl _ \<Rightarrow> d
            | Inr ownerCut \<Rightarrow>
                (let d1 = d\<lparr>md_ownerCutPerMillion := Some ownerCut\<rparr> in
                 case pr_owner rpc (blk_height b) a of
                   Inl _ \<Rightarrow> d1
                 | Inr owner \<Rightarrow> d1\<lparr>md_owner := Some owner\<rparr>))
      else d)"

definition fees_known :: "FeesContractData \<Rightarrow> bool" where
  "fees_known d \<longleftrightarrow>
     fd_feesCollectorCutPerMillion d \<noteq> None \<and> fd_feesCollector d \<noteq> None \<and>
     fd_royaltiesCutPerMillion d \<noteq> None"

definition read_fees :: "poly_rpc \<Rightarrow> block \<Rightarrow> string \<Rightarrow> FeesContractData \<Rightarrow> FeesContractData" where
  "read_fees rpc b a d =
     (case pr_feesCollectorCutPerMillion rpc (blk_height b) a of
        Inl _ \<Rightarrow> d
      | Inr feesCut \<Rightarrow>
          (let d1 = d\<lparr>fd_feesCollectorCutPerMillion := Some feesCut\<rparr> in
           case pr_feesCollector rpc (blk_height b) a of
             Inl _ \<Rightarrow> d1
           | Inr collector \<Rightarrow>
               (let d2 = d1\<lparr>fd_feesCollector := Some collector\<rparr> in
                case pr_royaltiesCutPerMillion rpc (blk_height b) a of
                  Inl _ \<Rightarrow> d2
                | Inr royalties \<Rightarrow> d2\<lparr>fd_royaltiesCutPerMillion := Some royalties\<rparr>)))"

definition getMarketplaceV2ContractData ::
  "env \<Rightarrow> poly_rpc \<Rightarrow> block \<Rightarrow> FeesContractData \<Rightarrow> FeesContractData" where
  "getMarketplaceV2ContractData e rpc b d =
     (if \<not> fees_known d \<and> deployed (start_block 5706656 22514900 e) b
      then read_fees rpc b (pa_MarketplaceV2 (poly_getAddresses e)) d else d)"

definition getBidV2ContractData ::
  "env \<Rightarrow> poly_rpc \<Rightarrow> block \<Rightarrow> FeesContractData \<Rightarrow> FeesContractData" where
  "getBidV2ContractData e rpc b d =
     (if \<not> fees_known d \<and> deployed (start_block 5706662 22913743 e) b
      then read_fees rpc b (pa_BidV2 (poly_getAddresses e)) d else d)"

text \<open>The third marketplace: no \<^verbatim>\<open>try\<close>, a failing read fails the batch.\<close>

definition getMarketplaceV3ContractData ::
  "env \<Rightarrow> poly_rpc \<Rightarrow> block \<Rightarrow> MarketplaceV3ContractData \<Rightarrow>
   (string \<times> int \<times> int \<times> MarketplaceV3ContractData) result" where
  "getMarketplaceV3ContractData e rpc b d =
     (case (vd_feeCollector d, vd_feeRate d, vd_royaltiesRate d) of
        (Some c, Some f, Some r) \<Rightarrow> Inr (c, f, r, d)
      | _ \<Rightarrow>
          (let a = pa_MarketplaceV3 (poly_getAddresses e) in
           bindR (pr_feeCollector rpc (blk_height b) a) (\<lambda>c.
           bindR (pr_feeRate rpc (blk_height b) a) (\<lambda>f.
           bindR (pr_royaltiesRate rpc (blk_height b) a) (\<lambda>r.
             Inr (c, f, r, d\<lparr>vd_feeCollector := Some c, vd_feeRate := Some f,
                             vd_royaltiesRate := Some r\<rparr>))))))"

section \<open>The maps of a batch\<close>

type_synonym itemDayDatas = "(string, ItemsDayData) jsmap"
type_synonym accountsDayDatas = "(string, AccountsDayData) jsmap"
type_synonym rarities = "(string, Rarity) jsmap"

text \<open>\<^verbatim>\<open>TransferGiftCandidate\<close> of \<^verbatim>\<open>common/utils/events.ts\<close>.\<close>

record gift_candidate =
  gc_nftId :: string
  gc_from :: string
  gc_to :: string
  gc_tokenURI :: "string option"
  gc_timestamp :: int
  gc_txHash :: string

record poly_state =
  ps_accounts :: accounts
  ps_counts :: counts
  ps_collections :: collections
  ps_orders :: orders
  ps_bids :: "(string, Bid) jsmap"
  ps_nfts :: nfts
  ps_analytics :: analytics
  ps_itemDayDatas :: itemDayDatas
  ps_accountsDayDatas :: accountsDayDatas
  ps_items :: items
  ps_wearables :: wearables
  ps_emotes :: emotes
  ps_metadatas :: metadatas
  ps_sales :: sales
  ps_curations :: "(string, Curation) jsmap"
  ps_mints :: "(string, Mint) jsmap"
  ps_gifts :: "(string, gift_candidate) jsmap"
  ps_consumedIssueLogs :: "string list"
  ps_module :: poly_module

definition poly_empty :: poly_state where
  "poly_empty =
     \<lparr>ps_accounts = [], ps_counts = [], ps_collections = [], ps_orders = [], ps_bids = [],
      ps_nfts = [], ps_analytics = [], ps_itemDayDatas = [], ps_accountsDayDatas = [],
      ps_items = [], ps_wearables = [], ps_emotes = [], ps_metadatas = [], ps_sales = [],
      ps_curations = [], ps_mints = [], ps_gifts = [], ps_consumedIssueLogs = [],
      ps_module = poly_module_init\<rparr>"

end
