(* ===== verification/Poly_Analytics.thy ===== *)
theory Poly_Analytics
  imports Poly_State Squid_Ledger
begin

text \<open>
  Recording a sale on Polygon: \<^verbatim>\<open>polygon/modules/analytics.ts\<close> and
  \<^verbatim>\<open>polygon/modules/accountsDayData.ts\<close>. Unlike the Ethereum processor this one splits the price
  into the fees of the marketplace, the royalties of the creator and the earnings of the seller,
  and keeps per-day rows for items and accounts.
\<close>

section \<open>Sets of ids in array columns\<close>

definition updateUniqueAndMythicItemsSet :: "string list \<Rightarrow> Item \<Rightarrow> string list" where
  "updateUniqueAndMythicItemsSet uniqueAndMythicItems item =
     sadd (set_of_array uniqueAndMythicItems) (itm_id item)"

definition updateCreatorsSupportedSet :: "string list \<Rightarrow> string \<Rightarrow> string list" where
  "updateCreatorsSupportedSet creatorsSupported seller = sadd (set_of_array creatorsSupported) seller"

definition updateUniqueCollectorsSet :: "string list \<Rightarrow> string \<Rightarrow> string list" where
  "updateUniqueCollectorsSet collectors buyer = sadd (set_of_array collectors) buyer"

definition updateUniqueCollectionsSalesSet :: "string list \<Rightarrow> string \<Rightarrow> string list" where
  "updateUniqueCollectionsSalesSet uniqueCollectionsSales collectionId =
     sadd (set_of_array uniqueCollectionsSales) collectionId"

definition top_rarity :: "Item \<Rightarrow> bool" where
  "top_rarity item \<longleftrightarrow> itm_rarity item = ''unique'' \<or> itm_rarity item = ''mythic''"

section \<open>Accounts per day\<close>

definition accountsDayDataId :: "int \<Rightarrow> string \<Rightarrow> string" where
  "accountsDayDataId timestamp address = toStr (timestamp sdiv 86400) @ dash @ address"

definition getOrCreateAccountsDayData :: "accountsDayDatas \<Rightarrow> int \<Rightarrow> string \<Rightarrow> AccountsDayData" where
  "getOrCreateAccountsDayData accountsDayDatas timestamp address =
     (case mget accountsDayDatas (accountsDayDataId timestamp address) of
        Some d \<Rightarrow> d
      | None \<Rightarrow>
          \<lparr>acd_id = accountsDayDataId timestamp address,
           acd_date = (timestamp sdiv 86400) * 86400, acd_sales = 0, acd_purchases = 0,
           acd_spent = 0, acd_earned = 0, acd_uniqueAndMythicItems = [],
           acd_uniqueAndMythicItemsTotal = 0, acd_creatorsSupported = [],
           acd_creatorsSupportedTotal = 0, acd_uniqueCollectors = [],
           acd_uniqueCollectorsTotal = 0, acd_uniqueCollectionsSales = [],
           acd_network = POLYGON\<rparr>)"

definition updateBuyerAccountsDayData ::
  "accountsDayDatas \<Rightarrow> int \<Rightarrow> string \<Rightarrow> string \<Rightarrow> int \<Rightarrow> Item \<Rightarrow> AccountsDayData" where
  "updateBuyerAccountsDayData accountsDayDatas timestamp buyer seller price item =
     (let d = getOrCreateAccountsDayData accountsDayDatas timestamp buyer;
          d1 = d\<lparr>acd_purchases := acd_purchases d + 1, acd_spent := acd_spent d + price\<rparr>;
          d2 = (if top_rarity item
                then (let xs = updateUniqueAndMythicItemsSet (acd_uniqueAndMythicItems d1) item in
                      d1\<lparr>acd_uniqueAndMythicItems := xs,
                         acd_uniqueAndMythicItemsTotal := int (length xs)\<rparr>)
                else d1);
          cs = updateCreatorsSupportedSet (acd_creatorsSupported d2) seller
      in d2\<lparr>acd_creatorsSupported := cs, acd_creatorsSupportedTotal := int (length cs)\<rparr>)"

definition updateCreatorAccountsDayData ::
  "accountsDayDatas \<Rightarrow> int \<Rightarrow> saleType \<Rightarrow> string \<Rightarrow> string \<Rightarrow> int \<Rightarrow> string \<Rightarrow> AccountsDayData" where
  "updateCreatorAccountsDayData accountsDayDatas timestamp ty buyer seller earned collectionId =
     (let d = getOrCreateAccountsDayData accountsDayDatas timestamp seller;
          d1 = d\<lparr>acd_earned := acd_earned d + earned\<rparr>
      in if ty = Sale_mint
         then (let cs = updateUniqueCollectorsSet (acd_uniqueCollectors d1) buyer in
               d1\<lparr>acd_sales := acd_sales d1 + 1,
                  acd_uniqueCollectionsSales :=
                    updateUniqueCollectionsSalesSet (acd_uniqueCollectionsSales d1) collectionId,
                  acd_uniqueCollectors := cs,
                  acd_uniqueCollectorsTotal := int (length cs)\<rparr>)
         else d1)"

section \<open>Items per day and analytics\<close>

definition itemDayDataId :: "int \<Rightarrow> string \<Rightarrow> string" where
  "itemDayDataId timestamp itemId = toStr (timestamp sdiv 86400) @ dash @ itemId"

definition getOrCreateItemDayData :: "itemDayDatas \<Rightarrow> int \<Rightarrow> string \<Rightarrow> ItemsDayData" where
  "getOrCreateItemDayData itemsDayDatas timestamp itemId =
     (case mget itemsDayDatas (itemDayDataId timestamp itemId) of
        Some d \<Rightarrow> d
      | None \<Rightarrow>
          \<lparr>idd_id = itemDayDataId timestamp itemId, idd_date = (timestamp sdiv 86400) * 86400,
           idd_sales = 0, idd_volume = 0, idd_searchWearableCategory = None,
           idd_searchEmoteCategory = None, idd_searchRarity = None\<rparr>)"

definition updateItemDayData :: "itemDayDatas \<Rightarrow> int \<Rightarrow> int \<Rightarrow> Item \<Rightarrow> ItemsDayData" where
  "updateItemDayData itemsDayDatas timestamp price item =
     (let d = getOrCreateItemDayData itemsDayDatas timestamp (itm_id item) in
      d\<lparr>idd_sales := idd_sales d + 1, idd_volume := idd_volume d + price,
        idd_searchWearableCategory := itm_searchWearableCategory item,
        idd_searchEmoteCategory := itm_searchEmoteCategory item,
        idd_searchRarity := Some (itm_rarity item)\<rparr>)"

definition poly_updateAnalyticsDayData :: "analytics \<Rightarrow> Sale \<Rightarrow> AnalyticsDayData" where
  "poly_updateAnalyticsDayData analytics sale =
     (let d = getOrCreateAnalyticsDayData (sal_timestamp sale) analytics POLYGON in
      case (sal_feesCollectorCut sale, sal_royaltiesCut sale) of
        (Some fees, Some royalties) \<Rightarrow>
          d\<lparr>add_sales := add_sales d + 1,
            add_volume := add_volume d + sal_price sale,
            add_creatorsEarnings :=
              (if sal_type sale = Sale_mint
               then add_creatorsEarnings d + (sal_price sale - fees)
               else add_creatorsEarnings d + royalties),
            add_daoEarnings := add_daoEarnings d + fees\<rparr>
      | _ \<Rightarrow> d)"

section \<open>Splitting the price\<close>

text \<open>The first cut of both fees, and who receives the royalties.\<close>

definition fee_of :: "int \<Rightarrow> int \<Rightarrow> int" where
  "fee_of perMillion price = (perMillion * price) sdiv ONE_MILLION"

definition royalties_receiver :: "Item \<Rightarrow> string option" where
  "royalties_receiver item =
     (if itm_beneficiary item \<noteq> ZERO_ADDRESS \<or> itm_creator item \<noteq> ZERO_ADDRESS
      then Some (if itm_beneficiary item \<noteq> ZERO_ADDRESS then itm_beneficiary item
                 else itm_creator item)
      else None)"

text \<open>
  The two cuts a sale ends up with, and the account that is paid royalties. Without a receiver the
  royalties go to the fees collector.
\<close>

record cuts =
  cut_fees :: int
  cut_royalties :: int
  cut_receiver :: "string option"

definition split_price :: "int \<Rightarrow> int \<Rightarrow> int \<Rightarrow> Item \<Rightarrow> cuts" where
  "split_price price feesCollectorCut royaltiesCut item =
     (let fees = fee_of feesCollectorCut price; royalties = fee_of royaltiesCut price in
      if royaltiesCut > 0
      then (case royalties_receiver item of
              Some a \<Rightarrow> \<lparr>cut_fees = fees, cut_royalties = royalties, cut_receiver = Some a\<rparr>
            | None \<Rightarrow> \<lparr>cut_fees = fees + royalties, cut_royalties = 0, cut_receiver = None\<rparr>)
      else \<lparr>cut_fees = fees, cut_royalties = royalties, cut_receiver = None\<rparr>)"

definition total_fees :: "int \<Rightarrow> int \<Rightarrow> int \<Rightarrow> int" where
  "total_fees price feesCollectorCut royaltiesCut =
     fee_of feesCollectorCut price + fee_of royaltiesCut price"

section \<open>Accounts and counters of a sale\<close>

definition pay :: "int \<Rightarrow> Account \<Rightarrow> Account" where
  "pay amount a = a\<lparr>acc_earned := acc_earned a + amount, acc_royalties := acc_royalties a + amount\<rparr>"

definition poly_buy :: "Item \<Rightarrow> string \<Rightarrow> int \<Rightarrow> Account \<Rightarrow> Account" where
  "poly_buy item seller price a =
     (let a1 = a\<lparr>acc_purchases := acc_purchases a + 1, acc_spent := acc_spent a + price\<rparr>;
          a2 = (if top_rarity item
                then (let xs = updateUniqueAndMythicItemsSet (acc_uniqueAndMythicItems a1) item in
                      a1\<lparr>acc_uniqueAndMythicItems := xs,
                         acc_uniqueAndMythicItemsTotal := int (length xs)\<rparr>)
                else a1);
          cs = updateCreatorsSupportedSet (acc_creatorsSupported a2) seller
      in a2\<lparr>acc_creatorsSupported := cs, acc_creatorsSupportedTotal := int (length cs)\<rparr>)"

definition poly_sell :: "string \<Rightarrow> int \<Rightarrow> Account \<Rightarrow> Account" where
  "poly_sell buyer amount a =
     (let cs = updateUniqueCollectorsSet (acc_uniqueCollectors a) buyer in
      a\<lparr>acc_sales := acc_sales a + 1, acc_earned := acc_earned a + amount,
        acc_uniqueCollectors := cs, acc_uniqueCollectorsTotal := int (length cs)\<rparr>)"

definition poly_primary :: "int \<Rightarrow> Account \<Rightarrow> Account" where
  "poly_primary amount a =
     a\<lparr>acc_primarySales := acc_primarySales a + 1,
       acc_primarySalesEarned := acc_primarySalesEarned a + amount\<rparr>"

text \<open>The accounts a sale touches, in the order of the code.\<close>

definition sale_accounts ::
  "saleType \<Rightarrow> string \<Rightarrow> string \<Rightarrow> string \<Rightarrow> Item \<Rightarrow> int \<Rightarrow> int \<Rightarrow> cuts \<Rightarrow> accounts \<Rightarrow> accounts" where
  "sale_accounts ty buyer seller feesCollector item price totalFees c accounts =
     (let m1 = (case cut_receiver c of
                  None \<Rightarrow> accounts
                | Some a \<Rightarrow> update_account accounts a POLYGON (pay (cut_royalties c)));
          m2 = update_account m1 buyer POLYGON (poly_buy item seller price);
          m3 = update_account m2 seller POLYGON (poly_sell buyer (price - totalFees));
          m4 = update_account m3 feesCollector POLYGON (pay (cut_fees c))
      in if ty = Sale_mint
         then update_account m4 (itm_creator item) POLYGON (poly_primary (price - totalFees))
         else m4)"

text \<open>
  The counter row. It is stored before the item is looked up; the later assignments reach the same
  object.
\<close>

definition count_sold :: "int \<Rightarrow> Count \<Rightarrow> Count" where
  "count_sold price c =
     c\<lparr>cnt_salesTotal := cnt_salesTotal c + 1, cnt_salesManaTotal := cnt_salesManaTotal c + price\<rparr>"

definition count_split :: "saleType \<Rightarrow> int \<Rightarrow> int \<Rightarrow> cuts \<Rightarrow> Count \<Rightarrow> Count" where
  "count_split ty price totalFees c n =
     n\<lparr>cnt_royaltiesManaTotal := cnt_royaltiesManaTotal n + totalFees,
       cnt_creatorEarningsManaTotal := cnt_creatorEarningsManaTotal n +
         (if ty = Sale_mint then price - cut_fees c else cut_royalties c),
       cnt_daoEarningsManaTotal := cnt_daoEarningsManaTotal n +
         (if ty = Sale_mint then cut_fees c else 0)\<rparr>"

definition sale_counts :: "saleType \<Rightarrow> int \<Rightarrow> int \<Rightarrow> cuts \<Rightarrow> counts \<Rightarrow> counts" where
  "sale_counts ty price totalFees c counts =
     (let counts1 = snd (with_count POLYGON (count_split ty price totalFees c) counts) in
      if ty = Sale_mint then snd (buildCountFromPrimarySale counts1 price)
      else snd (buildCountFromSecondarySale counts1 price))"

section \<open>trackSale\<close>

text \<open>
  The item object of the sale: the row of the item map, or the one the NFT refers to. The copy that
  was loaded with an NFT has no collection, so using it ends in a \<^verbatim>\<open>TypeError\<close> at
  \<^verbatim>\<open>item.collection.id\<close>.
\<close>

definition sold_item :: "items \<Rightarrow> string \<Rightarrow> NFT option \<Rightarrow> item_ref option" where
  "sold_item items itemId nft =
     (if mget items itemId \<noteq> None then Some (SharedItem itemId)
      else case nft of
             None \<Rightarrow> None
           | Some n \<Rightarrow>
               (case nft_item n of
                  None \<Rightarrow> None
                | Some r \<Rightarrow> if resolve_item items r = None then None else Some r))"

definition poly_getOwner :: "poly_rpc \<Rightarrow> block \<Rightarrow> NFT \<Rightarrow> string result" where
  "poly_getOwner rpc b nft =
     bindR (throw_if_none TypeError (nft_contractAddress nft)) (\<lambda>a.
     bindR (throw_if_none TypeError (nft_tokenId nft)) (\<lambda>t. pr_ownerOf rpc (blk_height b) a t))"

definition poly_sale ::
  "string \<Rightarrow> saleType \<Rightarrow> string \<Rightarrow> string \<Rightarrow> string \<Rightarrow> string \<Rightarrow> int \<Rightarrow> string \<Rightarrow> cuts \<Rightarrow> int \<Rightarrow> string \<Rightarrow>
   Item \<Rightarrow> NFT \<Rightarrow> Sale" where
  "poly_sale i ty buyer owner seller beneficiary price feesCollector c timestamp txHash item nft =
     \<lparr>sal_id = i, sal_type = ty, sal_buyer = Some owner, sal_realBuyer = Some buyer,
      sal_operation = Some (getOperation buyer), sal_seller = seller, sal_price = price,
      sal_nft = Some (nft_id nft), sal_timestamp = timestamp, sal_txHash = txHash,
      sal_searchTokenId = nft_tokenId nft, sal_searchContractAddress = nft_contractAddress nft,
      sal_searchCategory = nft_category nft, sal_beneficiary = Some (address_bytes beneficiary),
      sal_feesCollectorCut = Some (cut_fees c), sal_feesCollector = Some (address_bytes feesCollector),
      sal_royaltiesCut = Some (cut_royalties c),
      sal_royaltiesCollector = Some (address_bytes
        (case cut_receiver c of None \<Rightarrow> ZERO_ADDRESS | Some a \<Rightarrow> a)),
      sal_item = Some (itm_id item), sal_searchItemId = Some (itm_blockchainId item),
      sal_network = POLYGON\<rparr>"

definition item_sold :: "string \<Rightarrow> int \<Rightarrow> int \<Rightarrow> Item \<Rightarrow> Item" where
  "item_sold buyer price timestamp item =
     (let cs = updateUniqueCollectorsSet (itm_uniqueCollectors item) buyer in
      item\<lparr>itm_soldAt := Some timestamp, itm_sales := itm_sales item + 1,
           itm_volume := itm_volume item + price, itm_updatedAt := timestamp,
           itm_uniqueCollectors := cs, itm_uniqueCollectorsTotal := int (length cs)\<rparr>)"

text \<open>The two rows per day and account: the buyer's first, then the seller's.\<close>

definition sale_accountsDayDatas ::
  "int \<Rightarrow> saleType \<Rightarrow> string \<Rightarrow> string \<Rightarrow> int \<Rightarrow> int \<Rightarrow> Item \<Rightarrow> accountsDayDatas \<Rightarrow> accountsDayDatas" where
  "sale_accountsDayDatas timestamp ty owner seller price totalFees item m =
     (let d = updateBuyerAccountsDayData m timestamp owner seller price item;
          m1 = mset m (acd_id d) d;
          d' = updateCreatorAccountsDayData m1 timestamp ty owner seller (price - totalFees)
                 (itm_collection item)
      in mset m1 (acd_id d') d')"

definition record_sale ::
  "saleType \<Rightarrow> string \<Rightarrow> string \<Rightarrow> string \<Rightarrow> string \<Rightarrow> string \<Rightarrow> int \<Rightarrow> int \<Rightarrow> string \<Rightarrow> int \<Rightarrow> int \<Rightarrow> string \<Rightarrow>
   string \<Rightarrow> Item \<Rightarrow> NFT \<Rightarrow> NFT \<Rightarrow> poly_state \<Rightarrow> poly_state" where
  "record_sale ty buyer owner seller beneficiary nftId price feesCollectorCut feesCollector royaltiesCut
     timestamp txHash j item nft nft' s =
     (let i = saleId (cnt_salesTotal (buildCount (ps_counts s) POLYGON)) POLYGON;
          totalFees = total_fees price feesCollectorCut royaltiesCut;
          c = split_price price feesCollectorCut royaltiesCut item;
          sale = poly_sale i ty buyer owner seller beneficiary price feesCollector c timestamp txHash
                   item nft;
          item' = item_sold buyer price timestamp item;
          d = poly_updateAnalyticsDayData (ps_analytics s) sale;
          di = updateItemDayData (ps_itemDayDatas s) timestamp price item'
      in s\<lparr>ps_counts := sale_counts ty price totalFees c (ps_counts s),
           ps_sales := mset (ps_sales s) i sale,
           ps_accounts := sale_accounts ty buyer seller feesCollector item price totalFees c (ps_accounts s),
           ps_items := mset (ps_items s) j item',
           ps_nfts := mset (ps_nfts s) nftId nft',
           ps_analytics := mset (ps_analytics s) (add_id d) d,
           ps_itemDayDatas := mset (ps_itemDayDatas s) (idd_id di) di,
           ps_accountsDayDatas :=
             sale_accountsDayDatas timestamp ty owner seller price totalFees item'
               (ps_accountsDayDatas s)\<rparr>)"

definition poly_trackSale ::
  "poly_rpc \<Rightarrow> block \<Rightarrow> saleType \<Rightarrow> string \<Rightarrow> string \<Rightarrow> string \<Rightarrow> string \<Rightarrow> string \<Rightarrow> int \<Rightarrow> int \<Rightarrow> string \<Rightarrow> int \<Rightarrow>
   int \<Rightarrow> string \<Rightarrow> poly_state \<Rightarrow> poly_state result" where
  "poly_trackSale rpc b ty buyer seller beneficiary itemId nftId price feesCollectorCut feesCollector
     royaltiesCut timestamp txHash s =
     (if price = 0 then Inr s
      else
        let s1 = s\<lparr>ps_counts := set_count (with_count POLYGON (count_sold price) (ps_counts s))\<rparr>;
            nft = mget (ps_nfts s) nftId
        in case (sold_item (ps_items s) itemId nft, nft) of
             (Some r, Some n) \<Rightarrow>
               bindR (if isThirdPartySale buyer \<or> isCreditSale buyer then poly_getOwner rpc b n
                      else Inr buyer) (\<lambda>owner.
               bindR (nft_sold price timestamp n) (\<lambda>n'.
                 case r of
                   OwnItem _ \<Rightarrow> Inl TypeError
                 | SharedItem j \<Rightarrow>
                     bindR (throw_if_none TypeError (mget (ps_items s) j)) (\<lambda>item.
                       Inr (record_sale ty buyer owner seller beneficiary nftId price feesCollectorCut
                              feesCollector royaltiesCut timestamp txHash j item n n' s1))))
           | _ \<Rightarrow> Inr s1)"

section \<open>No MANA is lost or made up\<close>

lemma acc_royalties_createAccount [simp]: "acc_royalties (createAccount i net) = 0"
  by (simp add: createAccount_def)

lemma fee_of_0 [simp]: "fee_of 0 price = 0"
  by (simp add: fee_of_def)

lemma cuts_total:
  "0 \<le> royaltiesCut \<Longrightarrow>
   cut_fees (split_price price feesCut royaltiesCut item) +
   cut_royalties (split_price price feesCut royaltiesCut item) = total_fees price feesCut royaltiesCut"
  by (auto simp: split_price_def total_fees_def Let_def split: option.split)

lemma cut_royalties_unpaid:
  "0 \<le> royaltiesCut \<Longrightarrow> cut_receiver (split_price price feesCut royaltiesCut item) = None \<Longrightarrow>
   cut_royalties (split_price price feesCut royaltiesCut item) = 0"
  by (auto simp: split_price_def Let_def split: option.splits if_splits)

lemma pay_fields [simp]:
  "acc_purchases (pay p a) = acc_purchases a" "acc_spent (pay p a) = acc_spent a"
  "acc_sales (pay p a) = acc_sales a" "acc_earned (pay p a) = acc_earned a + p"
  "acc_royalties (pay p a) = acc_royalties a + p"
  by (simp_all add: pay_def)

lemma poly_buy_fields [simp]:
  "acc_purchases (poly_buy it seller p a) = acc_purchases a + 1"
  "acc_spent (poly_buy it seller p a) = acc_spent a + p"
  "acc_sales (poly_buy it seller p a) = acc_sales a"
  "acc_earned (poly_buy it seller p a) = acc_earned a"
  "acc_royalties (poly_buy it seller p a) = acc_royalties a"
  by (simp_all add: poly_buy_def Let_def)

lemma poly_sell_fields [simp]:
  "acc_purchases (poly_sell buyer p a) = acc_purchases a"
  "acc_spent (poly_sell buyer p a) = acc_spent a"
  "acc_sales (poly_sell buyer p a) = acc_sales a + 1"
  "acc_earned (poly_sell buyer p a) = acc_earned a + p"
  "acc_royalties (poly_sell buyer p a) = acc_royalties a"
  by (simp_all add: poly_sell_def Let_def)

lemma poly_primary_fields [simp]:
  "acc_purchases (poly_primary p a) = acc_purchases a" "acc_spent (poly_primary p a) = acc_spent a"
  "acc_sales (poly_primary p a) = acc_sales a" "acc_earned (poly_primary p a) = acc_earned a"
  "acc_royalties (poly_primary p a) = acc_royalties a"
  by (simp_all add: poly_primary_def)

lemma mwf_sale_accounts [simp]: "mwf m \<Longrightarrow> mwf (sale_accounts ty buyer seller fc it p f c m)"
  by (auto simp: sale_accounts_def Let_def split: option.split)

lemma msum_sale_accounts:
  fixes ty :: saleType and buyer seller fc :: string and it :: Item and p f :: int and c :: cuts
    and m :: accounts
  assumes "mwf m"
  defines "m' \<equiv> sale_accounts ty buyer seller fc it p f c m"
  defines "r \<equiv> (if cut_receiver c = None then 0 else cut_royalties c)"
  shows "msum acc_purchases m' = msum acc_purchases m + 1" and "msum acc_spent m' = msum acc_spent m + p"
    and "msum acc_sales m' = msum acc_sales m + 1"
    and "msum acc_earned m' = msum acc_earned m + (p - f) + cut_fees c + r"
    and "msum acc_royalties m' = msum acc_royalties m + cut_fees c + r"
  using assms(1) unfolding m'_def r_def sale_accounts_def Let_def
  by (auto simp: msum_update_account split: option.split)

text \<open>
  C8: a sale on Polygon only moves MANA. Whoever the buyer, the seller, the fees collector, the
  receiver of the royalties and the creator are (they may coincide), the expenses and the earnings
  of all accounts together grow by exactly the price, and the fees they receive by exactly the fees
  of the sale; purchases and sales grow by one.
\<close>

theorem sale_accounts_conserve:
  fixes ty :: saleType and buyer seller feesCollector :: string and item :: Item
    and price feesCut royaltiesCut :: int and m :: accounts
  assumes "mwf m" and "0 \<le> royaltiesCut"
  defines "m' \<equiv> sale_accounts ty buyer seller feesCollector item price
      (total_fees price feesCut royaltiesCut) (split_price price feesCut royaltiesCut item) m"
  shows "msum acc_spent m' = msum acc_spent m + price \<and>
    msum acc_earned m' = msum acc_earned m + price \<and>
    msum acc_royalties m' = msum acc_royalties m + total_fees price feesCut royaltiesCut \<and>
    msum acc_purchases m' = msum acc_purchases m + 1 \<and> msum acc_sales m' = msum acc_sales m + 1"
  using cuts_total [OF assms(2), of price feesCut item]
    cut_royalties_unpaid [OF assms(2), of price feesCut item]
  unfolding m'_def msum_sale_accounts [OF assms(1)] by auto

theorem sale_accounts_conserve_witness:
  "msum acc_earned (sale_accounts Sale_order ''0xa'' ''0xb'' ''0xdao'' (sample_item ''i'' ''m'' ''epic'') 200
     (total_fees 200 25000 25000) (split_price 200 25000 25000 (sample_item ''i'' ''m'' ''epic'')) []) = 200"
  using sale_accounts_conserve [of "[]" 25000 Sale_order "''0xa''" "''0xb''" "''0xdao''"
      "sample_item ''i'' ''m'' ''epic''" 200 25000]
  by simp

lemma fee_of_bounds:
  assumes "0 \<le> c" and "c \<le> ONE_MILLION" and "0 \<le> p"
  shows "0 \<le> fee_of c p" and "fee_of c p \<le> p"
proof -
  have "c * p \<le> ONE_MILLION * p" using assms by (intro mult_right_mono) auto
  then show "fee_of c p \<le> p"
    using assms zdiv_mono1 [of "c * p" "ONE_MILLION * p" ONE_MILLION]
    by (simp add: fee_of_def ONE_MILLION_def sdiv_nonneg)
  show "0 \<le> fee_of c p"
    using assms by (simp add: fee_of_def ONE_MILLION_def sdiv_nonneg pos_imp_zdiv_nonneg_iff)
qed

text \<open>
  C25: the shares of a sale. When the two rates are not negative and together at most one million,
  fees, royalties and the share of the seller are not negative and add up to the price; the
  royalties are zero when nobody can receive them.
\<close>

theorem split_price_shares:
  fixes item :: Item and price feesCut royaltiesCut :: int
  assumes "0 \<le> price" and "0 \<le> feesCut" and "0 \<le> royaltiesCut" and "feesCut + royaltiesCut \<le> ONE_MILLION"
  defines "c \<equiv> split_price price feesCut royaltiesCut item"
  shows "0 \<le> cut_fees c \<and> 0 \<le> cut_royalties c \<and> 0 \<le> price - total_fees price feesCut royaltiesCut \<and>
    cut_fees c + cut_royalties c + (price - total_fees price feesCut royaltiesCut) = price \<and>
    (royalties_receiver item = None \<longrightarrow> cut_royalties c = 0)"
proof -
  have "feesCut * price + royaltiesCut * price \<le> ONE_MILLION * price"
    using assms mult_right_mono [of "feesCut + royaltiesCut" ONE_MILLION price]
    by (simp add: distrib_right)
  moreover have "fee_of feesCut price = feesCut * price div ONE_MILLION"
    "fee_of royaltiesCut price = royaltiesCut * price div ONE_MILLION"
    using assms by (simp_all add: fee_of_def ONE_MILLION_def sdiv_nonneg)
  ultimately have total: "total_fees price feesCut royaltiesCut \<le> price"
    by (simp add: total_fees_def ONE_MILLION_def)
  have rates: "feesCut \<le> ONE_MILLION" "royaltiesCut \<le> ONE_MILLION" using assms by simp_all
  have parts: "0 \<le> cut_fees c" "0 \<le> cut_royalties c"
    using fee_of_bounds(1) [OF assms(2) rates(1) assms(1)] fee_of_bounds(1) [OF assms(3) rates(2) assms(1)]
    by (auto simp: c_def split_price_def Let_def split: option.split)
  have "royalties_receiver item = None \<longrightarrow> cut_royalties c = 0"
    using assms(3) by (auto simp: c_def split_price_def Let_def)
  with total parts show ?thesis
    using cuts_total [OF assms(3), of price feesCut item] by (simp add: c_def)
qed

theorem split_price_shares_witness:
  "cut_fees (split_price 1000 25000 25000 (sample_item ''i'' ''m'' ''epic'')) +
   cut_royalties (split_price 1000 25000 25000 (sample_item ''i'' ''m'' ''epic'')) +
   (1000 - total_fees 1000 25000 25000) = 1000"
  using split_price_shares [of 1000 25000 25000 "sample_item ''i'' ''m'' ''epic''"]
  by (simp add: ONE_MILLION_def)

end
