(* ===== verification/Poly_Nft.thy ===== *)
theory Poly_Nft
  imports Poly_Analytics
begin

text \<open>
  The token handlers of the Polygon processor: \<^verbatim>\<open>polygon/handlers/nft.ts\<close>. Minting creates the NFT
  row, the mint row and, for a primary sale, the sale; a transfer changes the owner, suspends or
  revives the active order and notes a candidate for a gift notification.
\<close>

record issue_event =
  ie_beneficiary :: string
  ie_tokenId :: int
  ie_itemId :: int
  ie_issuedId :: int
  ie_caller :: string

record poly_tx =
  tx_hash :: string
  tx_from :: string
  tx_input :: string
  tx_transactionIndex :: int

section \<open>Minting\<close>

text \<open>
  The NFT row of an issued token, up to the search columns. The owner is the account of the
  beneficiary, which \<^verbatim>\<open>createOrLoadAccount\<close> always returns.
\<close>

definition minted_nft ::
  "string \<Rightarrow> issue_event \<Rightarrow> block \<Rightarrow> string \<Rightarrow> Collection \<Rightarrow> string \<Rightarrow> Item \<Rightarrow> account_ref \<Rightarrow> NFT" where
  "minted_nft nftId event b collectionAddress collection j item owner =
     (new_NFT nftId None)
       \<lparr>nft_collection := Some (col_id collection),
        nft_category := Some (if itm_itemType item = IT_emote_v1 then Category_emote
                              else Category_wearable),
        nft_tokenId := Some (ie_tokenId event),
        nft_contractAddress := Some collectionAddress,
        nft_itemBlockchainId := Some (ie_itemId event),
        nft_itemType := Some (itm_itemType item),
        nft_issuedId := Some (ie_issuedId event),
        nft_item := Some (SharedItem j),
        nft_urn := Some (itm_urn item),
        nft_owner := Some owner,
        nft_ownerAddress := Some (ar_address owner),
        nft_tokenURI := Some (itm_uri item @ ''/'' @ toStr (ie_issuedId event)),
        nft_image := itm_image item,
        nft_metadata := itm_metadata item,
        nft_createdAt := Some (seconds b),
        nft_updatedAt := Some (seconds b),
        nft_soldAt := None,
        nft_transferredAt := Some (seconds b),
        nft_sales := Some 0,
        nft_volume := Some 0\<rparr>"

definition v3_minter :: "env \<Rightarrow> string \<Rightarrow> bool" where
  "v3_minter e minter \<longleftrightarrow>
     minter = pa_MarketplaceV3 (poly_getAddresses e) \<or> minter = pa_MarketplaceV3_V2 (poly_getAddresses e)"

definition isStoreMinter :: "env \<Rightarrow> string \<Rightarrow> bool" where
  "isStoreMinter e minter \<longleftrightarrow>
     minter = pa_CollectionStore (poly_getAddresses e) \<or> v3_minter e minter"

definition new_mint :: "env \<Rightarrow> string \<Rightarrow> issue_event \<Rightarrow> block \<Rightarrow> string \<Rightarrow> Item \<Rightarrow> account_ref \<Rightarrow> Mint" where
  "new_mint e nftId event b collectionAddress item owner =
     \<lparr>mnt_id = nftId, mnt_nft = nftId, mnt_item = itm_id item, mnt_beneficiary = ar_id owner,
      mnt_creator = itm_creator item, mnt_minter = ie_caller event, mnt_timestamp = seconds b,
      mnt_searchContractAddress = Some collectionAddress, mnt_searchTokenId = Some (ie_tokenId event),
      mnt_searchItemId = itm_blockchainId item, mnt_searchIssuedId = Some (ie_issuedId event),
      mnt_searchIsStoreMinter = isStoreMinter e (ie_caller event),
      mnt_searchPrimarySalePrice = None, mnt_network = POLYGON\<rparr>"

text \<open>
  Price and beneficiary of the primary sale: those of the first received asset for a trade, those of
  the item otherwise.
\<close>

definition mint_terms :: "env \<Rightarrow> string \<Rightarrow> Item \<Rightarrow> traded_event option \<Rightarrow> (int \<times> string) result" where
  "mint_terms e minter item traded =
     (case (if v3_minter e minter then traded else None) of
        Some t \<Rightarrow>
          bindR (throw_if_none TypeError (js_at (trd_received t) 0)) (\<lambda>r.
            Inr (ast_value r, ast_beneficiary r))
      | None \<Rightarrow>
          Inr (itm_price item,
               if itm_beneficiary item \<noteq> ZERO_ADDRESS then itm_beneficiary item else itm_creator item))"

text \<open>
  \<open>txHash\<close> is \<^verbatim>\<open>transaction.hash\<close>, which is read only when the sale is recorded; \<open>None\<close> is a log without
  a transaction.
\<close>

definition handleMintNFT ::
  "env \<Rightarrow> poly_rpc \<Rightarrow> issue_event \<Rightarrow> block \<Rightarrow> string option \<Rightarrow> string \<Rightarrow> string \<Rightarrow> Item \<Rightarrow>
   StoreContractData \<Rightarrow> traded_event option \<Rightarrow> poly_state \<Rightarrow> poly_state result" where
  "handleMintNFT e rpc event b txHash collectionAddress j item storeData traded s =
     (let nftId = getNFTId collectionAddress (toStr (ie_tokenId event)) None in
      case mget (ps_collections s) collectionAddress of
        None \<Rightarrow> Inr s
      | Some collection \<Rightarrow>
          (let (account, accounts1) = createOrLoadAccount (ps_accounts s) (ie_beneficiary event) POLYGON;
               owner = account_refer account;
               nft = setNFTSearchFields
                       (minted_nft nftId event b collectionAddress collection j item owner)
                       (ps_metadatas s);
               accounts2 = snd (createOrLoadAccount accounts1 (ie_beneficiary event) POLYGON);
               s1 = s\<lparr>ps_accounts := accounts2,
                      ps_counts := set_count (buildCountFromNFT nft (ps_counts s) POLYGON),
                      ps_nfts := mset (ps_nfts s) nftId (nft\<lparr>nft_network := Some POLYGON\<rparr>)\<rparr>;
               mint = new_mint e nftId event b collectionAddress item owner
           in case (sd_fee storeData, sd_feeOwner storeData) of
                (Some fee, Some feeOwner) \<Rightarrow>
                  bindR (mint_terms e (ie_caller event) item traded) (\<lambda>(price, beneficiary).
                    if isStoreMinter e (ie_caller event)
                    then bindR (throw_if_none TypeError txHash) (\<lambda>h.
                         bindR (poly_trackSale rpc b Sale_mint (ie_beneficiary event) (itm_creator item)
                                  beneficiary (itm_id item) nftId price fee feeOwner 0 (seconds b)
                                  h s1) (\<lambda>s2.
                           Inr (s2\<lparr>ps_mints := mset (ps_mints s2) nftId
                                     (mint\<lparr>mnt_searchPrimarySalePrice := Some (itm_price item)\<rparr>)\<rparr>)))
                    else Inr (s1\<lparr>ps_mints := mset (ps_mints s1) nftId mint\<rparr>))
              | _ \<Rightarrow> Inr s1))"

section \<open>Transfers\<close>

definition gift_of :: "transfer_event \<Rightarrow> NFT \<Rightarrow> block \<Rightarrow> string \<Rightarrow> gift_candidate" where
  "gift_of event nft b txHash =
     \<lparr>gc_nftId = nft_id nft, gc_from = te_from event, gc_to = te_to event,
      gc_tokenURI = nft_tokenURI nft, gc_timestamp = seconds b, gc_txHash = txHash\<rparr>"

definition giftKey :: "string \<Rightarrow> string \<Rightarrow> string" where
  "giftKey txHash nftId = txHash @ dash @ nftId"

definition handleTransferNFT ::
  "string \<Rightarrow> transfer_event \<Rightarrow> block \<Rightarrow> string \<Rightarrow> poly_state \<Rightarrow> poly_state" where
  "handleTransferNFT collectionAddress event b txHash s =
     (let i = getNFTId collectionAddress (toStr (te_tokenId event)) None in
      case mget (ps_nfts s) i of
        None \<Rightarrow> s
      | Some nft \<Rightarrow>
          (let (account, accounts1) = createOrLoadAccount (ps_accounts s) (te_to event) POLYGON;
               nft1 = nft\<lparr>nft_owner := Some (account_refer account),
                          nft_ownerAddress := Some (acc_address account),
                          nft_updatedAt := Some (seconds b), nft_transferredAt := Some (seconds b)\<rparr>
           in case move_order (acc_address account) nft1 (ps_orders s) of
                (nft2, orders1) \<Rightarrow>
                  s\<lparr>ps_accounts := accounts1, ps_orders := orders1,
                    ps_nfts := mset (ps_nfts s) i nft2,
                    ps_gifts := mset (ps_gifts s) (giftKey txHash (nft_id nft))
                      (gift_of event nft b txHash)\<rparr>))"

end
