(* ===== verification/Poly_Collection.thy ===== *)
theory Poly_Collection
  imports Poly_Nft
begin

text \<open>
  The collection handlers of the Polygon processor: \<^verbatim>\<open>polygon/handlers/collection.ts\<close>. Collections
  are created from a factory event, items are added, changed, rescued and issued, and minters,
  managers, approval and ownership are kept up to date.
\<close>

unbundle bit_operations_syntax

section \<open>Creating a collection\<close>

definition new_collection ::
  "env \<Rightarrow> block \<Rightarrow> string \<Rightarrow> bool \<Rightarrow> int option \<Rightarrow> string option \<Rightarrow> collection_data \<Rightarrow> Collection" where
  "new_collection e b address usedCredits creditValue txHash d =
     \<lparr>col_id = address, col_owner = cd_owner d, col_creator = cd_creator d, col_name = cd_name d,
      col_symbol = cd_symbol d, col_isCompleted = Some (cd_isCompleted d),
      col_isApproved = Some (cd_isApproved d), col_isEditable = Some (cd_isEditable d),
      col_minters = [], col_managers = [], col_urn = getURNForCollectionV2 e POLYGON address,
      col_itemsCount = 0, col_createdAt = seconds b, col_updatedAt = seconds b,
      col_reviewedAt = seconds b, col_firstListedAt = None, col_searchIsStoreMinter = False,
      col_searchIsMarketplaceV3Minter = False, col_searchText = toLowerCase (cd_name d),
      col_baseURI = cd_baseURI d, col_chainId = cd_chainId d, col_usedCredits = usedCredits,
      col_creditValue = creditValue,
      col_txHash = (case txHash of None \<Rightarrow> [] | Some h \<Rightarrow> h), col_network = POLYGON\<rparr>"

text \<open>The data comes from the multicall of the batch, or from nine reads of the contract.\<close>

definition handleCollectionCreation ::
  "env \<Rightarrow> poly_rpc \<Rightarrow> block \<Rightarrow> string \<Rightarrow> bool \<Rightarrow> int option \<Rightarrow> string option \<Rightarrow> collection_data option \<Rightarrow>
   poly_state \<Rightarrow> poly_state result" where
  "handleCollectionCreation e rpc b address usedCredits creditValue txHash prefetched s =
     bindR (case prefetched of
              Some d \<Rightarrow> Inr d
            | None \<Rightarrow> pr_collection rpc (blk_height b) address) (\<lambda>d.
       Inr (s\<lparr>ps_collections := mset (ps_collections s) address
                (new_collection e b address usedCredits creditValue txHash d),
              ps_counts := set_count (buildCountFromCollection (ps_counts s)),
              ps_accounts := update_account (ps_accounts s) (cd_creator d) POLYGON
                (\<lambda>a. a\<lparr>acc_collections := acc_collections a + 1\<rparr>)\<rparr>))"

section \<open>Minters and managers\<close>

text \<open>The loops over the items of a collection: the body for index \<open>i\<close>, where the item is known.\<close>

definition each_item :: "(int \<Rightarrow> Item \<Rightarrow> Item) \<Rightarrow> string \<Rightarrow> int \<Rightarrow> items \<Rightarrow> items" where
  "each_item f collectionAddress n items =
     foldl (\<lambda>m i. mmodify m (getItemId collectionAddress (toStr i)) (f i)) items (map int [0..<nat n])"

text \<open>\<^verbatim>\<open>!x\<close> on a bigint column: unset or zero.\<close>

definition unset :: "int option \<Rightarrow> bool" where
  "unset v \<longleftrightarrow> v = None \<or> v = Some 0"

definition list_item :: "env \<Rightarrow> string \<Rightarrow> block \<Rightarrow> Item \<Rightarrow> Item" where
  "list_item e minter b item =
     (let item1 = (if minter = pa_CollectionStore (poly_getAddresses e)
                   then item\<lparr>itm_searchIsStoreMinter := True\<rparr>
                   else if v3_minter e minter then item\<lparr>itm_searchIsMarketplaceV3Minter := True\<rparr>
                   else item)
      in if unset (itm_firstListedAt item1) then item1\<lparr>itm_firstListedAt := Some (seconds b)\<rparr>
         else item1)"

definition list_collection :: "env \<Rightarrow> string \<Rightarrow> block \<Rightarrow> Collection \<Rightarrow> Collection" where
  "list_collection e minter b collection =
     (let c1 = (if minter = pa_CollectionStore (poly_getAddresses e)
                then collection\<lparr>col_searchIsStoreMinter := True\<rparr>
                else if v3_minter e minter then collection\<lparr>col_searchIsMarketplaceV3Minter := True\<rparr>
                else collection)
      in if unset (col_firstListedAt c1) then c1\<lparr>col_firstListedAt := Some (seconds b)\<rparr> else c1)"

text \<open>
  Removing a global minter re-examines the minters of every item. The inner loop runs over the
  minters of the item but reads \<^verbatim>\<open>itemMinters[i]\<close> with the index \<open>i\<close> of the outer loop: each round
  looks at the same entry, and past the end of the array at \<^verbatim>\<open>undefined\<close>.
\<close>

definition unlist_item :: "env \<Rightarrow> int \<Rightarrow> Item \<Rightarrow> Item" where
  "unlist_item e i item =
     (let seen = (if itm_minters item = [] then None else js_at (itm_minters item) (nat i));
          store = (seen = Some (pa_CollectionStore (poly_getAddresses e)))
      in item\<lparr>itm_searchIsStoreMinter := store,
              itm_searchIsMarketplaceV3Minter :=
                (\<not> store \<and> (case seen of None \<Rightarrow> False | Some m \<Rightarrow> v3_minter e m))\<rparr>)"

definition unlist_collection :: "env \<Rightarrow> string \<Rightarrow> Collection \<Rightarrow> Collection" where
  "unlist_collection e minter collection =
     (if minter = pa_CollectionStore (poly_getAddresses e)
      then collection\<lparr>col_searchIsStoreMinter := False\<rparr>
      else if v3_minter e minter then collection\<lparr>col_searchIsMarketplaceV3Minter := False\<rparr>
      else collection)"

definition handleSetGlobalMinter ::
  "env \<Rightarrow> string \<Rightarrow> string \<Rightarrow> bool \<Rightarrow> block \<Rightarrow> poly_state \<Rightarrow> poly_state" where
  "handleSetGlobalMinter e collectionAddress minter value b s =
     (case mget (ps_collections s) collectionAddress of
        None \<Rightarrow> s
      | Some collection \<Rightarrow>
          if value
          then (let c1 = collection\<lparr>col_minters := col_minters collection @ [minter]\<rparr> in
                if isStoreMinter e minter
                then s\<lparr>ps_collections := mset (ps_collections s) collectionAddress
                         (list_collection e minter b c1),
                       ps_items := each_item (\<lambda>_. list_item e minter b) collectionAddress
                         (col_itemsCount collection) (ps_items s)\<rparr>
                else s\<lparr>ps_collections := mset (ps_collections s) collectionAddress c1\<rparr>)
          else (let c1 = collection\<lparr>col_minters := filter (\<lambda>m. m \<noteq> minter) (col_minters collection)\<rparr> in
                if isStoreMinter e minter
                then s\<lparr>ps_collections := mset (ps_collections s) collectionAddress
                         (unlist_collection e minter c1),
                       ps_items := each_item (unlist_item e) collectionAddress
                         (col_itemsCount collection) (ps_items s)\<rparr>
                else s\<lparr>ps_collections := mset (ps_collections s) collectionAddress c1\<rparr>))"

definition handleSetGlobalManager :: "string \<Rightarrow> string \<Rightarrow> bool \<Rightarrow> poly_state \<Rightarrow> poly_state" where
  "handleSetGlobalManager collectionAddress manager value s =
     s\<lparr>ps_collections := mmodify (ps_collections s) collectionAddress (\<lambda>c.
         if value then c\<lparr>col_managers := col_managers c @ [manager]\<rparr>
         else c\<lparr>col_managers := filter (\<lambda>m. m \<noteq> manager) (col_managers c)\<rparr>)\<rparr>"

definition handleSetItemMinter ::
  "env \<Rightarrow> string \<Rightarrow> int \<Rightarrow> string \<Rightarrow> int \<Rightarrow> block \<Rightarrow> poly_state \<Rightarrow> poly_state" where
  "handleSetItemMinter e collectionAddress itemId minter value b s =
     (let i = getItemId collectionAddress (toStr itemId) in
      case mget (ps_items s) i of
        None \<Rightarrow> s
      | Some item \<Rightarrow>
          if value > 0
          then (let item1 = item\<lparr>itm_minters := itm_minters item @ [minter]\<rparr> in
                s\<lparr>ps_items := mset (ps_items s) i
                    (if isStoreMinter e minter then list_item e minter b item1 else item1)\<rparr>)
          else (let item1 = item\<lparr>itm_minters := filter (\<lambda>m. m \<noteq> minter) (itm_minters item)\<rparr>;
                    item2 = (case mget (ps_collections s) (itm_collection item) of
                               None \<Rightarrow> item1
                             | Some collection \<Rightarrow>
                                 if \<not> col_searchIsStoreMinter collection \<and>
                                    minter = pa_CollectionStore (poly_getAddresses e)
                                 then item1\<lparr>itm_searchIsStoreMinter := False\<rparr>
                                 else if \<not> col_searchIsMarketplaceV3Minter collection \<and> v3_minter e minter
                                 then item1\<lparr>itm_searchIsMarketplaceV3Minter := False\<rparr>
                                 else item1)
                in s\<lparr>ps_items := mset (ps_items s) i item2\<rparr>))"

definition handleSetItemManager :: "string \<Rightarrow> int \<Rightarrow> string \<Rightarrow> bool \<Rightarrow> poly_state \<Rightarrow> poly_state" where
  "handleSetItemManager collectionAddress itemId manager value s =
     s\<lparr>ps_items := mmodify (ps_items s) (getItemId collectionAddress (toStr itemId)) (\<lambda>item.
         if value then item\<lparr>itm_managers := itm_managers item @ [manager]\<rparr>
         else item\<lparr>itm_managers := filter (\<lambda>m. m \<noteq> manager) (itm_managers item)\<rparr>)\<rparr>"

section \<open>Items\<close>

record contract_item =
  ci_rarity :: string
  ci_maxSupply :: int
  ci_totalSupply :: int
  ci_price :: int
  ci_beneficiary :: string
  ci_metadata :: string
  ci_contentHash :: string

text \<open>The creation fee: the price of the rarity, read in MANA from the oracle contract when it is in USD.\<close>

definition creation_fee :: "env \<Rightarrow> poly_rpc \<Rightarrow> block \<Rightarrow> Rarity option \<Rightarrow> int result" where
  "creation_fee e rpc b rarity =
     (case rarity of
        None \<Rightarrow> Inr 0
      | Some r \<Rightarrow>
          if rar_currency r = USD_currency
          then bindR (pr_rarityByName rpc (blk_height b) (pa_RaritiesWithOracle (poly_getAddresses e))
                        (rar_name r)) (\<lambda>c. Inr (cr_price c))
          else Inr (rar_price r))"

definition new_item ::
  "env \<Rightarrow> block \<Rightarrow> string \<Rightarrow> int \<Rightarrow> contract_item \<Rightarrow> Collection \<Rightarrow> int \<Rightarrow> Item" where
  "new_item e b collectionAddress itemId ci collection fee =
     (let item = \<lparr>itm_id = getItemId collectionAddress (toStr itemId),
            itm_collection = col_id collection, itm_blockchainId = itemId,
            itm_creator = col_creator collection, itm_itemType = IT_undefined,
            itm_totalSupply = ci_totalSupply ci, itm_maxSupply = ci_maxSupply ci,
            itm_rarity = ci_rarity ci, itm_creationFee = fee, itm_available = ci_maxSupply ci,
            itm_price = ci_price ci, itm_beneficiary = ci_beneficiary ci,
            itm_contentHash = Some (ci_contentHash ci),
            itm_uri = col_baseURI collection @ toStr (col_chainId collection) @ ''/'' @
              collectionAddress @ ''/'' @ toStr itemId,
            itm_image = None, itm_minters = [], itm_managers = [], itm_metadata = None,
            itm_rawMetadata = ci_metadata ci,
            itm_urn = getURNForWearableV2 e collectionAddress (toStr itemId) POLYGON,
            itm_createdAt = seconds b, itm_updatedAt = seconds b, itm_reviewedAt = seconds b,
            itm_soldAt = None, itm_firstListedAt = None, itm_sales = 0, itm_volume = 0,
            itm_searchText = None, itm_searchItemType = None, itm_searchIsCollectionApproved = None,
            itm_searchIsStoreMinter = False, itm_searchIsMarketplaceV3Minter = False,
            itm_searchIsWearableHead = None, itm_searchIsWearableAccessory = None,
            itm_searchWearableCategory = None, itm_searchWearableRarity = None,
            itm_searchWearableBodyShapes = None, itm_searchEmoteCategory = None,
            itm_searchEmoteLoop = None, itm_searchEmoteRarity = None,
            itm_searchEmoteBodyShapes = None, itm_searchEmoteHasSound = None,
            itm_searchEmoteHasGeometry = None, itm_searchEmoteOutcomeType = None,
            itm_uniqueCollectors = [], itm_uniqueCollectorsTotal = 0, itm_network = POLYGON\<rparr>
      in item\<lparr>itm_image := Some (getItemImage e item)\<rparr>)"

text \<open>Rebuilding the metadata of an item and copying it to the search columns.\<close>

definition refresh_metadata :: "Item \<Rightarrow> metadatas \<Rightarrow> wearables \<Rightarrow> emotes \<Rightarrow> Item \<times> metadata_state" where
  "refresh_metadata item metadatas wearables emotes =
     (case buildItemMetadata item metadatas wearables emotes of
        (metadata, ms, ws, es) \<Rightarrow>
          (setItemSearchFields
             (item\<lparr>itm_metadata := Some (met_id metadata), itm_itemType := met_itemType metadata\<rparr>)
             ms ws (Some es), ms, ws, es))"

definition handleAddItem ::
  "env \<Rightarrow> poly_rpc \<Rightarrow> block \<Rightarrow> string \<Rightarrow> int \<Rightarrow> contract_item \<Rightarrow> rarities \<Rightarrow> poly_state \<Rightarrow> poly_state result" where
  "handleAddItem e rpc b collectionAddress itemId ci rarities s =
     (case mget (ps_collections s) collectionAddress of
        None \<Rightarrow> Inr s
      | Some c \<Rightarrow>
          (let collection = c\<lparr>col_itemsCount := col_itemsCount c + 1\<rparr> in
           bindR (creation_fee e rpc b (mget rarities (ci_rarity ci))) (\<lambda>fee.
             case refresh_metadata (new_item e b collectionAddress itemId ci collection fee)
                    (ps_metadatas s) (ps_wearables s) (ps_emotes s) of
               (item, ms, ws, es) \<Rightarrow>
                 (let counts1 = snd (buildCountFromItem (ps_counts s) POLYGON);
                      d = getOrCreateAnalyticsDayData (seconds b) (ps_analytics s) POLYGON;
                      d' = d\<lparr>add_daoEarnings := add_daoEarnings d + fee\<rparr>
                  in Inr (s\<lparr>ps_collections := mset (ps_collections s) collectionAddress collection,
                            ps_metadatas := ms, ps_wearables := ws, ps_emotes := es,
                            ps_counts := snd (with_count POLYGON
                              (\<lambda>n. n\<lparr>cnt_daoEarningsManaTotal := cnt_daoEarningsManaTotal n + fee\<rparr>) counts1),
                            ps_analytics := mset (ps_analytics s) (add_id d') d',
                            ps_items := mset (ps_items s) (getItemId collectionAddress (toStr itemId)) item\<rparr>)))))"

text \<open>
  The account that curated: the sender of the transaction, or the first parameter of the wrapped
  meta transaction. \<^verbatim>\<open>curation_input\<close> are the two selectors the code looks for.
\<close>

definition curation_input :: "string \<Rightarrow> bool" where
  "curation_input input \<longleftrightarrow> startsWith input ''0x07bd3522'' \<or> startsWith input ''0x81c9308e''"

definition curator_of :: "poly_tx \<Rightarrow> string" where
  "curator_of tx =
     (if startsWith (tx_input tx) ''0x81c9308e'' then tx_from tx
      else ''0x'' @ substr (tx_input tx) (indexOf (tx_input tx) ''0c53c51c'' + 32) 40)"

definition curate :: "Account \<Rightarrow> Account" where
  "curate a = a\<lparr>acc_totalCurations := map_option (\<lambda>n. n + 1) (acc_totalCurations a)\<rparr>"

record rescue_item =
  ri_itemId :: int
  ri_contentHash :: string
  ri_metadata :: string

definition handleRescueItem ::
  "env \<Rightarrow> rescue_item \<Rightarrow> block \<Rightarrow> string \<Rightarrow> int \<Rightarrow> poly_tx \<Rightarrow> poly_state \<Rightarrow> poly_state" where
  "handleRescueItem e event b collectionAddress logIndex tx s =
     (let i = getItemId collectionAddress (toStr (ri_itemId event)) in
      case mget (ps_items s) i of
        None \<Rightarrow> s
      | Some old \<Rightarrow>
          (let isNewContent = (itm_contentHash old \<noteq> Some (ri_contentHash event)) in
           case refresh_metadata
                  (old\<lparr>itm_rawMetadata := ri_metadata event, itm_contentHash := Some (ri_contentHash event)\<rparr>)
                  (ps_metadatas s) (ps_wearables s) (ps_emotes s) of
             (item, ms, ws, es) \<Rightarrow>
               (let s1 = s\<lparr>ps_metadatas := ms, ps_wearables := ws, ps_emotes := es,
                          ps_items := mset (ps_items s) i (item\<lparr>itm_updatedAt := seconds b\<rparr>)\<rparr>
                in case mget (ps_collections s) collectionAddress of
                     None \<Rightarrow> s1
                   | Some c \<Rightarrow>
                       (let collection = c\<lparr>col_updatedAt := seconds b, col_reviewedAt := seconds b\<rparr>;
                            s2 = s1\<lparr>ps_collections := mset (ps_collections s) collectionAddress collection\<rparr>
                        in if isNewContent \<and> getBlockWhereRescueItemsStarted e \<le> blk_height b \<and>
                              curation_input (tx_input tx)
                           then (let k = getCurationId collectionAddress (tx_hash tx) (toStr logIndex);
                                     account = account_at (ps_accounts s2) (curator_of tx) POLYGON;
                                     curation =
                                       \<lparr>cur_id = k, cur_txHash = address_bytes (tx_hash tx),
                                        cur_curator = account_refer account,
                                        cur_collection = col_id collection,
                                        cur_item = Some (itm_id item), cur_isApproved = True,
                                        cur_timestamp = seconds b\<rparr>
                                 in s2\<lparr>ps_curations := mset (ps_curations s2) k curation,
                                       ps_accounts := update_account (ps_accounts s2) (curator_of tx)
                                         POLYGON curate\<rparr>)
                           else s2))))"

record update_item =
  ui_itemId :: int
  ui_price :: int
  ui_beneficiary :: string
  ui_metadata :: string

definition handleUpdateItemData :: "string \<Rightarrow> update_item \<Rightarrow> block \<Rightarrow> poly_state \<Rightarrow> poly_state" where
  "handleUpdateItemData collectionAddress event b s =
     (let i = getItemId collectionAddress (toStr (ui_itemId event)) in
      case mget (ps_items s) i of
        None \<Rightarrow> s
      | Some old \<Rightarrow>
          (case refresh_metadata
                  (old\<lparr>itm_price := ui_price event, itm_beneficiary := ui_beneficiary event,
                       itm_rawMetadata := ui_metadata event\<rparr>)
                  (ps_metadatas s) (ps_wearables s) (ps_emotes s) of
             (item, ms, ws, es) \<Rightarrow>
               s\<lparr>ps_metadatas := ms, ps_wearables := ws, ps_emotes := es,
                 ps_items := mset (ps_items s) i (item\<lparr>itm_updatedAt := seconds b\<rparr>)\<rparr>))"

section \<open>Issuing\<close>

definition MAX_ITEM_ID :: int where
  "MAX_ITEM_ID = 0xFFFFFFFFFF"

definition MAX_ISSUED_ID :: int where
  "MAX_ISSUED_ID = 0xFFFFFFFFFFFFFFFFFFFFFFFFFFFFFFFFFFFFFFFFFFFFFFFFFFFFFFFFFFFF"

definition poly_encodeTokenId :: "int \<Rightarrow> int \<Rightarrow> int result" where
  "poly_encodeTokenId itemId issuedId =
     (if itemId > MAX_ITEM_ID then Inl (JsError ''encodeTokenId: INVALID_ITEM_ID'')
      else if issuedId > MAX_ISSUED_ID then Inl (JsError ''encodeTokenId: INVALID_ISSUED_ID'')
      else Inr (push_bit 216 itemId OR issuedId))"

text \<open>The test of the minters at the end of \<^verbatim>\<open>handleIssue\<close> has no effect and is left out.\<close>

definition handleIssue ::
  "env \<Rightarrow> poly_rpc \<Rightarrow> string \<Rightarrow> issue_event \<Rightarrow> block \<Rightarrow> string option \<Rightarrow> StoreContractData \<Rightarrow>
   traded_event option \<Rightarrow> poly_state \<Rightarrow> poly_state result" where
  "handleIssue e rpc collectionAddress event b txHash storeData traded s =
     (let i = getItemId collectionAddress (toStr (ie_itemId event)) in
      case mget (ps_items s) i of
        None \<Rightarrow> Inr s
      | Some old \<Rightarrow>
          (let item = old\<lparr>itm_available := itm_available old - 1,
                          itm_totalSupply := itm_totalSupply old + 1\<rparr>
           in handleMintNFT e rpc event b txHash collectionAddress i item storeData traded
                (s\<lparr>ps_items := mset (ps_items s) i item\<rparr>)))"

section \<open>Approval, completion and ownership\<close>

text \<open>
  The curation object of \<^verbatim>\<open>handleSetApproved\<close> is filled and dropped: it is never put into the map of
  curations. What remains is the account of the curator.
\<close>

definition handleSetApproved ::
  "env \<Rightarrow> string \<Rightarrow> bool \<Rightarrow> block \<Rightarrow> poly_tx \<Rightarrow> poly_state \<Rightarrow> poly_state" where
  "handleSetApproved e collectionAddress newValue b tx s =
     (case mget (ps_collections s) collectionAddress of
        None \<Rightarrow> s
      | Some c \<Rightarrow>
          (let s1 = s\<lparr>ps_collections := mset (ps_collections s) collectionAddress
                        (c\<lparr>col_isApproved := Some newValue, col_updatedAt := seconds b,
                           col_reviewedAt := seconds b\<rparr>),
                      ps_items := each_item
                        (\<lambda>_ item. item\<lparr>itm_searchIsCollectionApproved := Some newValue,
                                       itm_reviewedAt := seconds b\<rparr>)
                        collectionAddress (col_itemsCount c) (ps_items s)\<rparr>
           in if getBlockWhereRescueItemsStarted e < blk_height b \<and> curation_input (tx_input tx)
              then s1\<lparr>ps_accounts := update_account (ps_accounts s1) (curator_of tx) POLYGON curate\<rparr>
              else s1))"

definition handleSetEditable :: "string \<Rightarrow> bool \<Rightarrow> poly_state \<Rightarrow> poly_state" where
  "handleSetEditable collectionAddress newValue s =
     s\<lparr>ps_collections := mmodify (ps_collections s) collectionAddress
         (\<lambda>c. c\<lparr>col_isEditable := Some newValue\<rparr>)\<rparr>"

definition handleCompleteCollection :: "string \<Rightarrow> poly_state \<Rightarrow> poly_state" where
  "handleCompleteCollection collectionAddress s =
     s\<lparr>ps_collections := mmodify (ps_collections s) collectionAddress
         (\<lambda>c. c\<lparr>col_isCompleted := Some True\<rparr>)\<rparr>"

definition handleTransferCreatorship :: "string \<Rightarrow> string \<Rightarrow> block \<Rightarrow> poly_state \<Rightarrow> poly_state" where
  "handleTransferCreatorship collectionAddress newCreator b s =
     (case mget (ps_collections s) collectionAddress of
        None \<Rightarrow> s
      | Some c \<Rightarrow>
          s\<lparr>ps_collections := mset (ps_collections s) collectionAddress
              (c\<lparr>col_creator := newCreator, col_updatedAt := seconds b\<rparr>),
            ps_items := each_item
              (\<lambda>_ item. item\<lparr>itm_creator := newCreator, itm_updatedAt := seconds b\<rparr>)
              (col_id c) (col_itemsCount c) (ps_items s)\<rparr>)"

definition handleTransferOwnership :: "string \<Rightarrow> string \<Rightarrow> block \<Rightarrow> poly_state \<Rightarrow> poly_state" where
  "handleTransferOwnership collectionAddress newOwner b s =
     s\<lparr>ps_collections := mmodify (ps_collections s) collectionAddress
         (\<lambda>c. c\<lparr>col_owner := newOwner, col_updatedAt := seconds b\<rparr>)\<rparr>"

definition poly_handleTransfer ::
  "string \<Rightarrow> transfer_event \<Rightarrow> block \<Rightarrow> string \<Rightarrow> poly_state \<Rightarrow> poly_state" where
  "poly_handleTransfer collectionAddress event b txHash s =
     (if \<not> isMint (te_from event) then handleTransferNFT collectionAddress event b txHash s else s)"

end
