(* ===== verification/Poly_Issue.thy ===== *)
theory Poly_Issue
  imports Poly_State
begin

text \<open>
  Pairing the \<^verbatim>\<open>Traded\<close> events of the third marketplace with the \<^verbatim>\<open>Issue\<close> logs of the items they
  mint: \<^verbatim>\<open>polygon/utils/issueLog.ts\<close>. One transaction may mint the same item several times; the
  lemmas show that successive trades consume the matching logs one by one in log order, so no mint
  is dropped and none is used twice.
\<close>

record issue_log =
  il_transactionIndex :: int
  il_address :: string
  il_topics :: "string list"
  il_logIndex :: int

text \<open>The filter of the matching logs; \<^verbatim>\<open>BigInt\<close> of a topic that is not a number throws.\<close>

definition issue_matches ::
  "int \<Rightarrow> string \<Rightarrow> int \<Rightarrow> string \<Rightarrow> 'a issue_log_scheme \<Rightarrow> bool result" where
  "issue_matches txIndex collectionAddress itemId issueTopic l =
     (if il_transactionIndex l = txIndex \<and>
         toLowerCase (il_address l) = toLowerCase collectionAddress \<and>
         length (il_topics l) \<ge> 4 \<and> il_topics l ! 0 = issueTopic
      then bindR (bigint_of_string (il_topics l ! 3)) (\<lambda>n. Inr (n = itemId))
      else Inr False)"

primrec filterR :: "('a \<Rightarrow> bool result) \<Rightarrow> 'a list \<Rightarrow> 'a list result" where
  "filterR p [] = Inr []"
| "filterR p (x # xs) =
     bindR (p x) (\<lambda>keep. bindR (filterR p xs) (\<lambda>ys. Inr (if keep then x # ys else ys)))"

definition issueLogKey :: "int \<Rightarrow> int \<Rightarrow> string" where
  "issueLogKey blockHeight logIndex = toStr blockHeight @ dash @ toStr logIndex"

text \<open>The chosen log and the set of consumed logs afterwards.\<close>

definition selectIssueLogForTrade ::
  "'a issue_log_scheme list \<Rightarrow> int \<Rightarrow> string \<Rightarrow> int \<Rightarrow> string \<Rightarrow> int \<Rightarrow> string list \<Rightarrow>
   ('a issue_log_scheme option \<times> string list) result" where
  "selectIssueLogForTrade logs txIndex collectionAddress itemId issueTopic blockHeight consumed =
     bindR (filterR (issue_matches txIndex collectionAddress itemId issueTopic) logs) (\<lambda>ls.
       let chosen = List.find (\<lambda>l. issueLogKey blockHeight (il_logIndex l) \<notin> set consumed)
                      (sort_key il_logIndex ls)
       in Inr (chosen, (case chosen of
                          None \<Rightarrow> consumed
                        | Some l \<Rightarrow> sadd consumed (issueLogKey blockHeight (il_logIndex l)))))"

section \<open>Selecting again and again\<close>

text \<open>The first \<open>n\<close> trades of the same item in one transaction.\<close>

fun select_times ::
  "nat \<Rightarrow> 'a issue_log_scheme list \<Rightarrow> int \<Rightarrow> string \<Rightarrow> int \<Rightarrow> string \<Rightarrow> int \<Rightarrow> string list \<Rightarrow>
   'a issue_log_scheme option list result" where
  "select_times 0 logs t a i topic h consumed = Inr []"
| "select_times (Suc n) logs t a i topic h consumed =
     bindR (selectIssueLogForTrade logs t a i topic h consumed) (\<lambda>(chosen, consumed').
     bindR (select_times n logs t a i topic h consumed') (\<lambda>rest. Inr (chosen # rest)))"

lemma issueLogKey_inject [simp]:
  "issueLogKey h i = issueLogKey h j \<longleftrightarrow> i = j"
  by (simp add: issueLogKey_def)

lemma filterR_filter: "filterR p xs = Inr ys \<Longrightarrow> ys = filter (\<lambda>x. p x = Inr True) xs"
  by (induction xs arbitrary: ys) (auto simp: bindR_eq_Inr)

lemma select_drop:
  assumes logs: "filterR (issue_matches t a i topic) logs = Inr ls"
    and sorted: "sort_key il_logIndex ls = used @ free"
    and consumed: "\<And>l. l \<in> set used \<Longrightarrow> issueLogKey h (il_logIndex l) \<in> set consumed"
      "\<And>l. l \<in> set free \<Longrightarrow> issueLogKey h (il_logIndex l) \<notin> set consumed"
  shows "selectIssueLogForTrade logs t a i topic h consumed =
    Inr (case free of [] \<Rightarrow> (None, consumed)
         | l # _ \<Rightarrow> (Some l, sadd consumed (issueLogKey h (il_logIndex l))))"
proof -
  have "List.find (\<lambda>l. issueLogKey h (il_logIndex l) \<notin> set consumed) (used @ free) =
      (case free of [] \<Rightarrow> None | l # _ \<Rightarrow> Some l)"
    using consumed by (induction used) (auto split: list.split)
  then show ?thesis
    by (simp add: selectIssueLogForTrade_def logs sorted split: list.split)
qed

text \<open>Nothing left to select: every later trade finds no log and consumes nothing.\<close>

lemma select_times_exact:
  assumes logs: "filterR (issue_matches t a i topic) logs = Inr ls"
    and dist: "distinct (map il_logIndex ls)"
    and sorted: "sort_key il_logIndex ls = used @ free"
    and consumed: "\<And>l. l \<in> set used \<Longrightarrow> issueLogKey h (il_logIndex l) \<in> set consumed"
      "\<And>l. l \<in> set free \<Longrightarrow> issueLogKey h (il_logIndex l) \<notin> set consumed"
  shows "select_times n logs t a i topic h consumed =
    Inr (map Some (take n free) @ replicate (n - length free) None)"
  using sorted consumed
proof (induction n arbitrary: used free consumed)
  case (Suc n)
  have dist': "distinct (map il_logIndex (used @ free))"
    using dist unfolding Suc.prems(1) [symmetric] by (simp add: distinct_map)
  show ?case
  proof (cases free)
    case Nil
    then show ?thesis
      using Suc.IH [OF Suc.prems] select_drop [OF logs Suc.prems] by simp
  next
    case (Cons l rest)
    let ?c = "sadd consumed (issueLogKey h (il_logIndex l))"
    have "issueLogKey h (il_logIndex l') \<notin> set ?c" if "l' \<in> set rest" for l'
      using that dist' Suc.prems(3) Cons by (auto simp: image_iff)
    moreover have "issueLogKey h (il_logIndex l') \<in> set ?c" if "l' \<in> set (used @ [l])" for l'
      using that Suc.prems(2) by auto
    ultimately have "select_times n logs t a i topic h ?c =
        Inr (map Some (take n rest) @ replicate (n - length rest) None)"
      using Suc.prems(1) Cons by (intro Suc.IH [of "used @ [l]"]) simp_all
    then show ?thesis
      using select_drop [OF logs Suc.prems] Cons by simp
  qed
qed simp

text \<open>
  C10: minting several units of one item in one transaction. When none of the matching \<^verbatim>\<open>Issue\<close> logs
  has been consumed, the first \<open>n\<close> trades receive the first \<open>n\<close> matching logs in ascending order of
  their log index, each log once; trades beyond the number of matching logs receive none.
\<close>

theorem trades_consume_issues_in_order:
  assumes "filterR (issue_matches txIndex collection itemId topic) logs = Inr ls"
    and "distinct (map il_logIndex ls)"
    and "\<forall>l\<in>set ls. issueLogKey height (il_logIndex l) \<notin> set consumed"
  shows "select_times n logs txIndex collection itemId topic height consumed =
    Inr (map Some (take n (sort_key il_logIndex ls)) @ replicate (n - length ls) None)"
  using select_times_exact [OF assms(1,2), of "[]" "sort_key il_logIndex ls" height consumed n] assms(3)
  by simp

definition sample_issue :: "int \<Rightarrow> issue_log" where
  "sample_issue i = \<lparr>il_transactionIndex = 1, il_address = ''0xC'', il_topics = [''t'', '''', '''', ''0x5''],
     il_logIndex = i\<rparr>"

theorem trades_consume_issues_in_order_witness:
  "select_times 3 [sample_issue 9, sample_issue 4] 1 ''0xc'' 5 ''t'' 7 [] =
     Inr [Some (sample_issue 4), Some (sample_issue 9), None]"
proof -
  have "filterR (issue_matches 1 ''0xc'' 5 ''t'') [sample_issue 9, sample_issue 4] =
      Inr [sample_issue 9, sample_issue 4]"
    by code_simp
  from trades_consume_issues_in_order [OF this, of 7 "[]" 3] show ?thesis
    by (simp add: sample_issue_def numeral_3_eq_3)
qed

end
