(* ===== verification/Poly_Market.thy ===== *)
theory Poly_Market
  imports Poly_Collection Poly_Issue
begin

text \<open>
  The order, bid and trade handlers of the Polygon processor: \<^verbatim>\<open>polygon/handlers/marketplace.ts\<close> and
  \<^verbatim>\<open>polygon/handlers/bid.ts\<close>.
\<close>

section \<open>Orders\<close>

definition polyNFTId :: "string \<Rightarrow> int \<Rightarrow> string" where
  "polyNFTId nftAddress assetId = getNFTId nftAddress (toStr assetId) None"

definition poly_order_of_event :: "order_created \<Rightarrow> block \<Rightarrow> string \<Rightarrow> string \<Rightarrow> NFT \<Rightarrow> Order" where
  "poly_order_of_event event b contractAddress txHash nft =
     \<lparr>ord_id = oc_id event, ord_marketplaceAddress = contractAddress,
      ord_category = Category_wearable, ord_nft = nft_id nft,
      ord_nftAddress = oc_nftAddress event, ord_tokenId = oc_assetId event, ord_txHash = txHash,
      ord_owner = oc_seller event, ord_buyer = None, ord_price = oc_priceInWei event,
      ord_status = Open, ord_blockNumber = blk_height b, ord_expiresAt = oc_expiresAt event,
      ord_expiresAtNormalized = normalizeTimestamp (oc_expiresAt event),
      ord_createdAt = seconds b, ord_updatedAt = seconds b,
      ord_item = map_option item_ref_id (nft_item nft), ord_network = POLYGON\<rparr>"

definition poly_handleOrderCreated ::
  "order_created \<Rightarrow> block \<Rightarrow> string \<Rightarrow> string \<Rightarrow> poly_state \<Rightarrow> poly_state" where
  "poly_handleOrderCreated event b contractAddress txHash s =
     (let nftId = polyNFTId (oc_nftAddress event) (oc_assetId event) in
      case mget (ps_nfts s) nftId of
        None \<Rightarrow> s
      | Some nft \<Rightarrow>
          (let order = poly_order_of_event event b contractAddress txHash nft;
               orders1 = cancel_current nft (seconds b) (ps_orders s);
               nft' = updateNFTOrderProperties (nft\<lparr>nft_updatedAt := Some (seconds b)\<rparr>) order
           in s\<lparr>ps_nfts := mset (ps_nfts s) nftId nft',
                ps_counts := buildCountFromOrder order (ps_counts s) POLYGON,
                ps_orders := mset orders1 (oc_id event) order\<rparr>))"

definition poly_own_by_buyer :: "accounts \<Rightarrow> string \<Rightarrow> NFT \<Rightarrow> NFT" where
  "poly_own_by_buyer accounts buyer nft =
     (case mget accounts (accountId buyer POLYGON) of
        None \<Rightarrow> nft
      | Some a \<Rightarrow> nft\<lparr>nft_owner := Some (account_refer a), nft_ownerAddress := Some buyer\<rparr>)"

text \<open>
  The fees of a closed order: those of the first marketplace for its own orders, those of the second
  one otherwise; \<open>None\<close> where a value has not been read yet.
\<close>

definition order_fees :: "env \<Rightarrow> poly_module \<Rightarrow> Order \<Rightarrow> (int \<times> string \<times> int) option" where
  "order_fees e m order =
     (if pa_Marketplace (poly_getAddresses e) = ord_marketplaceAddress order
      then (case (md_ownerCutPerMillion (pm_marketplace m), md_owner (pm_marketplace m)) of
              (Some c, Some owner) \<Rightarrow> Some (c, owner, 0)
            | _ \<Rightarrow> None)
      else (case (fd_feesCollectorCutPerMillion (pm_marketplaceV2 m),
                  fd_feesCollector (pm_marketplaceV2 m),
                  fd_royaltiesCutPerMillion (pm_marketplaceV2 m)) of
              (Some c, Some collector, Some r) \<Rightarrow> Some (c, collector, r)
            | _ \<Rightarrow> None))"

definition poly_handleOrderSuccessful ::
  "env \<Rightarrow> poly_rpc \<Rightarrow> order_successful \<Rightarrow> block \<Rightarrow> string \<Rightarrow> poly_state \<Rightarrow> poly_state result" where
  "poly_handleOrderSuccessful e rpc event b txHash s =
     (let nftId = polyNFTId (os_nftAddress event) (os_assetId event) in
      case mget (ps_orders s) (os_id event) of
        None \<Rightarrow> Inr s
      | Some old \<Rightarrow>
          (let order = old\<lparr>ord_status := Sold, ord_buyer := Some (os_buyer event),
                           ord_price := os_totalPrice event, ord_blockNumber := blk_height b,
                           ord_updatedAt := seconds b\<rparr>;
               s1 = s\<lparr>ps_orders := mset (ps_orders s) (os_id event) order\<rparr>
           in case mget (ps_nfts s) nftId of
                None \<Rightarrow> Inr s1
              | Some nft \<Rightarrow>
                  (let nft' = updateNFTOrderProperties
                         ((poly_own_by_buyer (ps_accounts s) (os_buyer event) nft)
                            \<lparr>nft_updatedAt := Some (seconds b)\<rparr>) order;
                       s2 = s1\<lparr>ps_nfts := mset (ps_nfts s) nftId nft'\<rparr>
                   in case (order_fees e (ps_module s) order, nft_item nft) of
                        (Some (feesCut, feesCollector, royaltiesCut), Some r) \<Rightarrow>
                          poly_trackSale rpc b Sale_order (os_buyer event) (os_seller event)
                            (os_seller event) (item_ref_id r) (nft_id nft) (os_totalPrice event)
                            feesCut feesCollector royaltiesCut (seconds b) txHash s2
                      | _ \<Rightarrow> Inr s2)))"

definition poly_handleOrderCancelled :: "order_cancelled \<Rightarrow> block \<Rightarrow> poly_state \<Rightarrow> poly_state" where
  "poly_handleOrderCancelled event b s =
     (let nftId = polyNFTId (ox_nftAddress event) (ox_assetId event) in
      case (mget (ps_nfts s) nftId, mget (ps_orders s) (ox_id event)) of
        (Some nft, Some old) \<Rightarrow>
          (let order = old\<lparr>ord_status := Cancelled, ord_blockNumber := blk_height b,
                           ord_updatedAt := seconds b\<rparr>
           in s\<lparr>ps_orders := mset (ps_orders s) (ox_id event) order,
                ps_nfts := mset (ps_nfts s) nftId
                  (updateNFTOrderProperties (nft\<lparr>nft_updatedAt := Some (seconds b)\<rparr>) order)\<rparr>)
      | _ \<Rightarrow> s)"

section \<open>Bids\<close>

definition poly_handleBidCreated ::
  "bid_created \<Rightarrow> block \<Rightarrow> string \<Rightarrow> poly_state \<Rightarrow> poly_state result" where
  "poly_handleBidCreated event b contractAddress s =
     (let nftId = polyNFTId (bc_tokenAddress event) (bc_tokenId event);
          i = getBidId (bc_tokenAddress event) (toStr (bc_tokenId event)) (bc_bidder event);
          count = (\<lambda>st. st\<lparr>ps_counts := set_count (buildCountFromBid (ps_counts st))\<rparr>)
      in case mget (ps_nfts s) nftId of
           None \<Rightarrow> Inr (count s)
         | Some nft \<Rightarrow>
             bindR (throw_if_none TypeError (nft_owner nft)) (\<lambda>owner.
               let bid =
                 \<lparr>bid_id = i, bid_bidAddress = contractAddress, bid_category = Category_wearable,
                  bid_nft = Some (nft_id nft), bid_nftAddress = bc_tokenAddress event,
                  bid_tokenId = bc_tokenId event, bid_bidder = address_bytes (bc_bidder event),
                  bid_seller = address_bytes (ar_address owner), bid_price = bc_price event,
                  bid_fingerprint = (if bc_fingerprint event = ''0x'' then []
                                     else buffer_from_hex (drop 2 (bc_fingerprint event))),
                  bid_status = Open, bid_blockchainId = bc_id event,
                  bid_blockNumber = blk_height b, bid_expiresAt = bc_expiresAt event * 1000,
                  bid_createdAt = seconds b, bid_updatedAt = seconds b, bid_network = POLYGON\<rparr>
               in Inr (count (s\<lparr>ps_bids := mset (ps_bids s) i bid,
                    ps_nfts := mset (ps_nfts s) nftId (nft\<lparr>nft_updatedAt := Some (seconds b)\<rparr>)\<rparr>))))"

definition poly_handleBidAccepted ::
  "poly_rpc \<Rightarrow> bid_accepted \<Rightarrow> block \<Rightarrow> string \<Rightarrow> poly_state \<Rightarrow> poly_state result" where
  "poly_handleBidAccepted rpc event b txHash s =
     (let i = getBidId (ba_tokenAddress event) (toStr (ba_tokenId event)) (ba_bidder event) in
      case bid_with_nft (ps_bids s) (ps_nfts s) i of
        None \<Rightarrow> Inr s
      | Some (bid, k, nft) \<Rightarrow>
          (let s1 = s\<lparr>ps_bids := mset (ps_bids s) i
                 (bid\<lparr>bid_status := Sold, bid_seller := address_bytes (ba_seller event),
                      bid_blockNumber := blk_height b, bid_updatedAt := seconds b\<rparr>),
               ps_nfts := mset (ps_nfts s) k (nft\<lparr>nft_updatedAt := Some (seconds b)\<rparr>)\<rparr>;
               d = pm_bidV2 (ps_module s)
           in case (fd_feesCollectorCutPerMillion d, fd_feesCollector d, fd_royaltiesCutPerMillion d,
                    map_option item_ref_id (nft_item nft)) of
                (Some feesCut, Some feesCollector, Some royaltiesCut, Some itemId) \<Rightarrow>
                  if itemId = [] then Inr s1
                  else poly_trackSale rpc b Sale_bid (ba_bidder event) (ba_seller event)
                         (ba_seller event) itemId (nft_id nft) (bid_price bid) feesCut feesCollector
                         royaltiesCut (seconds b) txHash s1
              | _ \<Rightarrow> Inr s1))"

definition poly_handleBidCancelled :: "bid_cancelled \<Rightarrow> block \<Rightarrow> poly_state \<Rightarrow> poly_state" where
  "poly_handleBidCancelled event b s =
     (let i = getBidId (bx_tokenAddress event) (toStr (bx_tokenId event)) (bx_bidder event) in
      case bid_with_nft (ps_bids s) (ps_nfts s) i of
        None \<Rightarrow> s
      | Some (bid, k, nft) \<Rightarrow>
          s\<lparr>ps_bids := mset (ps_bids s) i
              (bid\<lparr>bid_status := Cancelled, bid_blockNumber := blk_height b,
                   bid_updatedAt := seconds b\<rparr>),
            ps_nfts := mset (ps_nfts s) k (nft\<lparr>nft_updatedAt := Some (seconds b)\<rparr>)\<rparr>)"

section \<open>Logs\<close>

text \<open>
  A log carries its decoded event, whose constructor stands for the topic; the raw topics are kept
  for the search of \<^verbatim>\<open>Issue\<close> logs. Decoding is the generated ABI code.
\<close>

datatype poly_event =
    Pe_ProxyCreated string
  | Pe_OrderCreated order_created
  | Pe_OrderSuccessful order_successful
  | Pe_OrderCancelled order_cancelled
  | Pe_BidCreated bid_created
  | Pe_BidAccepted bid_accepted
  | Pe_BidCancelled bid_cancelled
  | Pe_FeeCollectorUpdated string
  | Pe_FeeRateUpdated int
  | Pe_RoyaltiesRateUpdated int
  | Pe_ChangedCutPerMillion int
  | Pe_MemberSet string bool
  | Pe_SetGlobalMinter string bool
  | Pe_SetGlobalManager string bool
  | Pe_SetItemMinter int string int
  | Pe_SetItemManager int string bool
  | Pe_AddItem int contract_item
  | Pe_RescueItem rescue_item
  | Pe_UpdateItemData update_item
  | Pe_Issue issue_event
  | Pe_SetApproved bool
  | Pe_SetEditable bool
  | Pe_Complete
  | Pe_CreatorshipTransferred string
  | Pe_OwnershipTransferred string
  | Pe_Transfer transfer_event
  | Pe_AddRarity chain_rarity
  | Pe_UpdatePrice string int
  | Pe_SetFee int
  | Pe_SetFeeOwner string
  | Pe_RaritiesSet string
  | Pe_Traded traded_event
  | Pe_CreditUsed string int
  | Pe_SpokeOrderCreated string
  | Pe_Unknown

record poly_log = issue_log +
  pl_event :: poly_event
  pl_txHash :: string
  pl_transaction :: "poly_tx option"

record poly_block =
  pb_header :: block
  pb_logs :: "poly_log list"

definition ISSUE_TOPIC :: string where
  "ISSUE_TOPIC = ''0x57e2fe3f4d57a597e655a893f43c395d7dc18cb9c9c1898eda75cc0ad7608525''"

section \<open>Trades\<close>

text \<open>\<^verbatim>\<open>!tokenId\<close>: a missing token id, or token id zero.\<close>

definition trade_token :: "trade_data \<Rightarrow> int option" where
  "trade_token td = (case td_tokenId td of None \<Rightarrow> None | Some t \<Rightarrow> if t = 0 then None else Some t)"

definition trade_erc721 ::
  "env \<Rightarrow> poly_rpc \<Rightarrow> traded_event \<Rightarrow> trade_data \<Rightarrow> block \<Rightarrow> string \<Rightarrow> int \<Rightarrow> string \<Rightarrow> int \<Rightarrow> poly_state \<Rightarrow>
   poly_state result" where
  "trade_erc721 e rpc event td b txHash feeRate feesCollector royaltiesRate s =
     (case trade_token td of
        None \<Rightarrow> Inr s
      | Some tokenId \<Rightarrow>
          (let nftId = polyNFTId (td_collectionAddress td) tokenId in
           case mget (ps_nfts s) nftId of
             None \<Rightarrow> Inr s
           | Some nft \<Rightarrow>
               (let nft' = (poly_own_by_buyer (ps_accounts s) (td_buyer td) nft)
                             \<lparr>nft_updatedAt := Some (seconds b)\<rparr>;
                    s1 = s\<lparr>ps_nfts := mset (ps_nfts s) nftId nft'\<rparr>
                in case nft_item nft of
                     None \<Rightarrow> Inr s1
                   | Some r \<Rightarrow>
                       poly_trackSale rpc b
                         (if getTradeEventType e event POLYGON = Some Trade_Bid then Sale_bid
                          else Sale_order)
                         (td_buyer td) (td_seller td) (td_seller td) (item_ref_id r) (nft_id nft)
                         (td_price td) feeRate feesCollector royaltiesRate (seconds b) txHash s1)))"

text \<open>The address of the first \<^verbatim>\<open>Traded\<close> log of the transaction, or the empty string.\<close>

definition traded_address :: "poly_block \<Rightarrow> int \<Rightarrow> string" where
  "traded_address bd txIndex =
     (case List.find (\<lambda>l. il_transactionIndex l = txIndex \<and>
                          (case pl_event l of Pe_Traded _ \<Rightarrow> True | _ \<Rightarrow> False)) (pb_logs bd) of
        None \<Rightarrow> []
      | Some l \<Rightarrow> il_address l)"

definition trade_beneficiary :: "env \<Rightarrow> traded_event \<Rightarrow> string result" where
  "trade_beneficiary e event =
     bindR (throw_if_none TypeError
       (if getTradeEventType e event POLYGON = Some Trade_Order then js_at (trd_sent event) 0
        else js_at (trd_received event) 0)) (\<lambda>a. Inr (ast_beneficiary a))"

definition trade_item ::
  "env \<Rightarrow> poly_rpc \<Rightarrow> traded_event \<Rightarrow> trade_data \<Rightarrow> poly_block \<Rightarrow> poly_tx \<Rightarrow> int \<Rightarrow> string \<Rightarrow> poly_state \<Rightarrow>
   poly_state result" where
  "trade_item e rpc event td bd tx feeRate feesCollector s =
     (case td_itemId td of
        None \<Rightarrow> Inr s
      | Some itemId \<Rightarrow>
          bindR (selectIssueLogForTrade (pb_logs bd) (tx_transactionIndex tx) (td_collectionAddress td)
                   itemId ISSUE_TOPIC (blk_height (pb_header bd)) (ps_consumedIssueLogs s))
            (\<lambda>(chosen, consumed).
              case chosen of
                None \<Rightarrow> Inr s
              | Some l \<Rightarrow>
                  (case pl_event l of
                     Pe_Issue issued \<Rightarrow>
                       bindR (trade_beneficiary e event) (\<lambda>beneficiary.
                         handleIssue e rpc (td_collectionAddress td)
                           \<lparr>ie_beneficiary = beneficiary, ie_tokenId = ie_tokenId issued,
                            ie_itemId = itemId, ie_issuedId = ie_issuedId issued,
                            ie_caller = traded_address bd (tx_transactionIndex tx)\<rparr>
                           (pb_header bd) (Some (tx_hash tx))
                           \<lparr>sd_fee = Some feeRate, sd_feeOwner = Some feesCollector\<rparr> (Some event)
                           (s\<lparr>ps_consumedIssueLogs := consumed\<rparr>))
                   | _ \<Rightarrow> Inl (JsError ''decode''))))"

definition poly_handleTraded ::
  "env \<Rightarrow> poly_rpc \<Rightarrow> traded_event \<Rightarrow> poly_block \<Rightarrow> poly_tx \<Rightarrow> poly_state \<Rightarrow> poly_state result" where
  "poly_handleTraded e rpc event bd tx s =
     (case getTradeEventData e event POLYGON of
        None \<Rightarrow> Inr s
      | Some td \<Rightarrow>
          bindR (getMarketplaceV3ContractData e rpc (pb_header bd) (pm_marketplaceV3 (ps_module s)))
            (\<lambda>(feesCollector, feeRate, royaltiesRate, v3).
              let s1 = s\<lparr>ps_module := (ps_module s)\<lparr>pm_marketplaceV3 := v3\<rparr>\<rparr> in
              if td_assetType td = Asset_ERC721
              then trade_erc721 e rpc event td (pb_header bd) (tx_hash tx) feeRate feesCollector
                     royaltiesRate s1
              else if td_assetType td = Asset_ITEM
              then trade_item e rpc event td bd tx feeRate feesCollector s1
              else Inr s1))"

end
