(* ===== verification/Poly_Scan.thy ===== *)
theory Poly_Scan
  imports Poly_Market Poly_Rarity
begin

text \<open>
  The first half of the batch loop of the Polygon processor (\<^verbatim>\<open>polygon/main.ts\<close>): the contract data
  of the batch, the index of credit and router events per transaction, the multicall for new
  collections (\<^verbatim>\<open>polygon/utils/collectionMulticall.ts\<close>) and the scan that sorts every log into a
  queue and collects the ids of the entities to load.
\<close>

section \<open>State of the scan\<close>

record factory_event =
  fe_address :: string
  fe_block :: block
  fe_usedCredits :: bool
  fe_creditValue :: "int option"
  fe_txHash :: string

record poly_queued =
  pq_event :: poly_event
  pq_block :: poly_block
  pq_log :: poly_log
  pq_transaction :: "poly_tx option"
  pq_rarities :: "rarities option"

record poly_scan =
  pc_transfers :: "(string, Transfer) jsmap"
  pc_collectionIds :: "string list"
  pc_tokenIds :: "(string, int list) jsmap"
  pc_itemIds :: "(string, int list) jsmap"
  pc_accountIds :: "string list"
  pc_analyticsIds :: "string list"
  pc_itemDayDataIds :: "string list"
  pc_bidIds :: "string list"
  pc_factory :: "factory_event list"
  pc_events :: "poly_queued list"
  pc_committee :: "(string \<times> bool) list"
  pc_validCollections :: "string list"
  pc_rarities :: rarities
  pc_snapshot :: rarities
  pc_dirty :: bool
  pc_module :: poly_module

text \<open>\<^verbatim>\<open>getBatchInMemoryState()\<close> with the rarities loaded from the store and the known collections.\<close>

definition poly_getBatchInMemoryState ::
  "rarities \<Rightarrow> string list \<Rightarrow> poly_module \<Rightarrow> poly_scan" where
  "poly_getBatchInMemoryState rarities validCollections m =
     \<lparr>pc_transfers = [], pc_collectionIds = [], pc_tokenIds = [], pc_itemIds = [],
      pc_accountIds = [], pc_analyticsIds = [], pc_itemDayDataIds = [], pc_bidIds = [],
      pc_factory = [], pc_events = [], pc_committee = [],
      pc_validCollections = set_of_array validCollections,
      pc_rarities = rarities, pc_snapshot = rarities, pc_dirty = False, pc_module = m\<rparr>"

text \<open>The contract data read at the last block of the batch.\<close>

definition read_contract_data :: "env \<Rightarrow> poly_rpc \<Rightarrow> block \<Rightarrow> poly_module \<Rightarrow> poly_module" where
  "read_contract_data e rpc b m =
     m\<lparr>pm_marketplace := getMarketplaceContractData e rpc b (pm_marketplace m),
       pm_marketplaceV2 := getMarketplaceV2ContractData e rpc b (pm_marketplaceV2 m),
       pm_bidV2 := getBidV2ContractData e rpc b (pm_bidV2 m),
       pm_store := getStoreContractData e rpc b (pm_store m)\<rparr>"

text \<open>
  \<^verbatim>\<open>isThereImportantDataInBatch\<close>. \<^verbatim>\<open>addresses.ERC721Bid\<close> is not defined for Polygon and never equals
  an address.
\<close>

definition important_addresses :: "env \<Rightarrow> string list" where
  "important_addresses e =
     (let a = poly_getAddresses e in
      [pa_CollectionFactory a, pa_CollectionFactoryV3 a, pa_BidV2 a, pa_Marketplace a,
       pa_MarketplaceV2 a, pa_OldCommittee a, pa_Committee a, pa_CollectionStore a,
       pa_RaritiesWithOracle a, pa_Rarity a, pa_CollectionManager a, pa_MarketplaceV3 a,
       pa_MarketplaceV3_V2 a])"

definition skip_batch :: "env \<Rightarrow> string list \<Rightarrow> string list \<Rightarrow> int \<Rightarrow> poly_block list \<Rightarrow> bool" where
  "skip_batch e preloaded others preloadedHeight blocks \<longleftrightarrow>
     \<not> list_ex (\<lambda>bd. list_ex (\<lambda>l. il_address l \<in> set (important_addresses e) \<or>
            il_address l \<in> set preloaded \<or> il_address l \<in> set others) (pb_logs bd)) blocks \<and>
     preloadedHeight < blk_height (pb_header (last blocks))"

section \<open>Index per transaction\<close>

record tx_index =
  ti_credits :: "(string, (string \<times> int) list) jsmap"
  ti_orderHash :: "(string, string) jsmap"
  ti_created :: "string list"

definition txKey :: "int \<Rightarrow> int \<Rightarrow> string" where
  "txKey height txIndex = toStr height @ dash @ toStr txIndex"

definition pushToMapArray :: "('k, 'v list) jsmap \<Rightarrow> 'k \<Rightarrow> 'v \<Rightarrow> ('k, 'v list) jsmap" where
  "pushToMapArray m k v = mset m k ((case mget m k of None \<Rightarrow> [] | Some vs \<Rightarrow> vs) @ [v])"

definition index_log :: "env \<Rightarrow> block \<Rightarrow> tx_index \<Rightarrow> poly_log \<Rightarrow> tx_index" where
  "index_log e b ti lg =
     (let a = poly_getAddresses e; lower = toLowerCase (il_address lg);
          k = txKey (blk_height b) (il_transactionIndex lg)
      in case pl_event lg of
           Pe_CreditUsed creditId value \<Rightarrow>
             if lower \<in> set (map toLowerCase (pa_CreditsManager a))
             then ti\<lparr>ti_credits := pushToMapArray (ti_credits ti) k (creditId, value)\<rparr> else ti
         | Pe_SpokeOrderCreated orderHash \<Rightarrow>
             if lower = toLowerCase (pa_Spoke a)
             then ti\<lparr>ti_orderHash := mset (ti_orderHash ti) k orderHash\<rparr> else ti
         | Pe_ProxyCreated address \<Rightarrow>
             if lower \<in> {toLowerCase (pa_CollectionFactory a), toLowerCase (pa_CollectionFactoryV3 a)}
             then ti\<lparr>ti_created := ti_created ti @ [address]\<rparr> else ti
         | _ \<Rightarrow> ti)"

definition index_blocks :: "env \<Rightarrow> poly_block list \<Rightarrow> tx_index" where
  "index_blocks e blocks =
     foldl (\<lambda>ti bd. foldl (index_log e (pb_header bd)) ti (pb_logs bd))
       \<lparr>ti_credits = [], ti_orderHash = [], ti_created = []\<rparr> blocks"

section \<open>Multicall for new collections\<close>

definition CALLS_PER_COLLECTION :: nat where
  "CALLS_PER_COLLECTION = 9"

definition POLYGON_MULTICALL_CREATION_BLOCK :: int where
  "POLYGON_MULTICALL_CREATION_BLOCK = 25770160"

definition collection_calls :: "string \<Rightarrow> (string \<times> string) list" where
  "collection_calls address =
     map (\<lambda>f. (f, address)) [''name'', ''symbol'', ''owner'', ''creator'', ''isCompleted'',
       ''isApproved'', ''isEditable'', ''baseURI'', ''getChainId'']"

text \<open>
  One collection: its nine results, if all calls succeeded; a missing result is a \<^verbatim>\<open>TypeError\<close>. The
  ABI of the nine functions fixes the types of the values.
\<close>

definition collection_of_results :: "(bool \<times> abi_value) list \<Rightarrow> collection_data option result" where
  "collection_of_results rs =
     (if \<not> list_all fst rs then Inr None
      else case map snd rs of
        [V_string n, V_string sy, V_string own, V_string cr, V_bool isC, V_bool isA, V_bool isE,
         V_string base, V_int chain] \<Rightarrow>
          Inr (Some \<lparr>cd_name = n, cd_symbol = sy, cd_owner = toLowerCase own,
                     cd_creator = toLowerCase cr, cd_isCompleted = isC, cd_isApproved = isA,
                     cd_isEditable = isE, cd_baseURI = base, cd_chainId = chain\<rparr>)
      | _ \<Rightarrow> Inl TypeError)"

definition collect_results ::
  "string list \<Rightarrow> (bool \<times> abi_value) list \<Rightarrow> (string, collection_data) jsmap result" where
  "collect_results addresses raw =
     foldR (\<lambda>m (i, address).
       bindR (collection_of_results (take CALLS_PER_COLLECTION (drop (i * CALLS_PER_COLLECTION) raw)))
         (\<lambda>r. case r of None \<Rightarrow> Inr m | Some d \<Rightarrow> Inr (mset m (toLowerCase address) d)))
       [] (List.enumerate 0 addresses)"

text \<open>Everything after the two guards runs in a \<^verbatim>\<open>try\<close>: on any error there is no prefetched data.\<close>

definition fetchCollectionDataMulticall ::
  "poly_rpc \<Rightarrow> block \<Rightarrow> string list \<Rightarrow> (string, collection_data) jsmap" where
  "fetchCollectionDataMulticall rpc b addresses =
     (if addresses = [] \<or> blk_height b < POLYGON_MULTICALL_CREATION_BLOCK then []
      else case bindR (pr_tryAggregate rpc (blk_height b) (concat (map collection_calls addresses)))
                  (collect_results addresses) of
             Inr m \<Rightarrow> m
           | Inl _ \<Rightarrow> [])"

section \<open>Scanning a log\<close>

text \<open>
  Queueing an event: market events carry no transaction and no rarities, collection events and trades
  carry both. The snapshot of the rarities is refreshed only when it is out of date.
\<close>

definition queue_market :: "poly_block \<Rightarrow> poly_log \<Rightarrow> poly_scan \<Rightarrow> poly_scan" where
  "queue_market bd lg sc =
     sc\<lparr>pc_events := pc_events sc @
          [\<lparr>pq_event = pl_event lg, pq_block = bd, pq_log = lg, pq_transaction = None,
            pq_rarities = None\<rparr>]\<rparr>"

definition refresh_snapshot :: "poly_scan \<Rightarrow> poly_scan" where
  "refresh_snapshot sc =
     (if pc_dirty sc then sc\<lparr>pc_snapshot := pc_rarities sc, pc_dirty := False\<rparr> else sc)"

definition queue_collection :: "poly_block \<Rightarrow> poly_log \<Rightarrow> poly_scan \<Rightarrow> poly_scan" where
  "queue_collection bd lg sc =
     (let sc1 = refresh_snapshot sc in
      sc1\<lparr>pc_events := pc_events sc1 @
           [\<lparr>pq_event = pl_event lg, pq_block = bd, pq_log = lg, pq_transaction = pl_transaction lg,
             pq_rarities = Some (pc_snapshot sc1)\<rparr>]\<rparr>)"

definition pc_token :: "string \<Rightarrow> int \<Rightarrow> poly_scan \<Rightarrow> poly_scan" where
  "pc_token a t sc = sc\<lparr>pc_tokenIds := pushToMapArray (pc_tokenIds sc) a t\<rparr>"

definition pc_account :: "string \<Rightarrow> poly_scan \<Rightarrow> poly_scan" where
  "pc_account a sc = sc\<lparr>pc_accountIds := sadd (pc_accountIds sc) a\<rparr>"

definition pc_bid :: "string \<Rightarrow> poly_scan \<Rightarrow> poly_scan" where
  "pc_bid i sc = sc\<lparr>pc_bidIds := sadd (pc_bidIds sc) i\<rparr>"

definition pc_collection :: "string \<Rightarrow> poly_scan \<Rightarrow> poly_scan" where
  "pc_collection a sc = sc\<lparr>pc_collectionIds := sadd (pc_collectionIds sc) a\<rparr>"

definition pc_analytic :: "block \<Rightarrow> poly_scan \<Rightarrow> poly_scan" where
  "pc_analytic b sc = sc\<lparr>pc_analyticsIds := sadd (pc_analyticsIds sc) (dayId (seconds b) POLYGON)\<rparr>"

definition pc_itemDay :: "string \<Rightarrow> poly_scan \<Rightarrow> poly_scan" where
  "pc_itemDay i sc = sc\<lparr>pc_itemDayDataIds := sadd (pc_itemDayDataIds sc) i\<rparr>"

text \<open>The placeholder for the item of a token that is not loaded yet: \<^verbatim>\<open>dayID-nft-contract-token\<close>.\<close>

definition placeholderId :: "block \<Rightarrow> string \<Rightarrow> int \<Rightarrow> string" where
  "placeholderId b nftAddress tokenId =
     toStr (seconds b sdiv 86400) @ ''-nft-'' @ nftAddress @ dash @ toStr tokenId"

definition lower_member :: "string \<Rightarrow> string list \<Rightarrow> bool" where
  "lower_member a addresses \<longleftrightarrow> a \<in> set (map toLowerCase addresses)"

definition pc_set_module :: "(poly_module \<Rightarrow> poly_module) \<Rightarrow> poly_scan \<Rightarrow> poly_scan" where
  "pc_set_module f sc = sc\<lparr>pc_module := f (pc_module sc)\<rparr>"

text \<open>A new collection: credits used in the same transaction are summed up.\<close>

definition scan_created ::
  "env \<Rightarrow> poly_rpc \<Rightarrow> tx_index \<Rightarrow> (string, collection_data) jsmap \<Rightarrow> block \<Rightarrow> poly_log \<Rightarrow> string \<Rightarrow>
   poly_scan \<Rightarrow> poly_scan result" where
  "scan_created e rpc ti prefetched b lg address sc =
     (let a = poly_getAddresses e in
      if \<not> lower_member (il_address lg) [pa_CollectionFactory a, pa_CollectionFactoryV3 a] then Inr sc
      else
        bindR (case mget prefetched (toLowerCase address) of
                 Some d \<Rightarrow> Inr (cd_owner d)
               | None \<Rightarrow> bindR (pr_owner rpc (blk_height b) address) (\<lambda>o'. Inr (toLowerCase o'))) (\<lambda>owner.
          let credits = (case mget (ti_credits ti) (txKey (blk_height b) (il_transactionIndex lg)) of
                           None \<Rightarrow> [] | Some cs \<Rightarrow> cs);
              sc1 = pc_collection (toLowerCase address) (pc_account owner
                      (sc\<lparr>pc_validCollections := sadd (pc_validCollections sc) (toLowerCase address)\<rparr>))
          in Inr (sc1\<lparr>pc_factory := pc_factory sc1 @
                   [\<lparr>fe_address = address, fe_block = b, fe_usedCredits = (credits \<noteq> []),
                     fe_creditValue = (if credits \<noteq> [] then Some (sum_list (map snd credits)) else None),
                     fe_txHash = pl_txHash lg\<rparr>]\<rparr>)))"

definition scan_order :: "env \<Rightarrow> poly_block \<Rightarrow> poly_log \<Rightarrow> (poly_scan \<Rightarrow> poly_scan) \<Rightarrow> poly_scan \<Rightarrow> poly_scan" where
  "scan_order e bd lg ids sc =
     (let a = poly_getAddresses e in
      if lower_member (il_address lg) [pa_Marketplace a, pa_MarketplaceV2 a]
      then queue_market bd lg (ids sc) else sc)"

text \<open>The ids a collection event asks for, by its kind.\<close>

definition poly_transfer_row :: "block \<Rightarrow> poly_log \<Rightarrow> transfer_event \<Rightarrow> Transfer" where
  "poly_transfer_row b lg event =
     (let nftId = getNFTId (il_address lg) (toStr (te_tokenId event)) None in
      \<lparr>trf_id = nftId @ dash @ toStr (seconds b), trf_nftId = nftId, trf_block = blk_height b,
       trf_from = te_from event, trf_to = te_to event, trf_network = POLYGON,
       trf_timestamp = seconds b, trf_txHash = pl_txHash lg\<rparr>)"

definition collection_ids :: "block \<Rightarrow> poly_log \<Rightarrow> poly_scan \<Rightarrow> poly_scan" where
  "collection_ids b lg sc =
     (let a = il_address lg in
      case pl_event lg of
        Pe_AddItem _ _ \<Rightarrow> pc_analytic b sc
      | Pe_UpdateItemData u \<Rightarrow>
          sc\<lparr>pc_itemIds := pushToMapArray (pc_itemIds sc) a (ui_itemId u)\<rparr>
      | Pe_Issue i \<Rightarrow>
          (let sc1 = pc_itemDay (itemDayDataId (seconds b) (a @ dash @ toStr (ie_itemId i)))
                       (pc_analytic b (pc_account (toLowerCase (ie_beneficiary i)) sc))
           in sc1\<lparr>pc_itemIds := pushToMapArray (pc_itemIds sc1) a (ie_itemId i)\<rparr>)
      | Pe_Transfer t \<Rightarrow>
          (let row = poly_transfer_row b lg t;
               sc1 = pc_token a (te_tokenId t) (pc_account (toLowerCase (te_to t)) sc)
           in sc1\<lparr>pc_transfers := mset (pc_transfers sc1) (trf_id row) row\<rparr>)
      | _ \<Rightarrow> sc)"

definition collection_event :: "poly_event \<Rightarrow> bool" where
  "collection_event ev =
     (case ev of
        Pe_SetGlobalMinter _ _ \<Rightarrow> True | Pe_SetGlobalManager _ _ \<Rightarrow> True
      | Pe_SetItemMinter _ _ _ \<Rightarrow> True | Pe_SetItemManager _ _ _ \<Rightarrow> True
      | Pe_AddItem _ _ \<Rightarrow> True | Pe_RescueItem _ \<Rightarrow> True | Pe_UpdateItemData _ \<Rightarrow> True
      | Pe_Issue _ \<Rightarrow> True | Pe_SetApproved _ \<Rightarrow> True | Pe_SetEditable _ \<Rightarrow> True
      | Pe_Complete \<Rightarrow> True | Pe_CreatorshipTransferred _ \<Rightarrow> True
      | Pe_OwnershipTransferred _ \<Rightarrow> True | Pe_Transfer _ \<Rightarrow> True
      | _ \<Rightarrow> False)"

definition scan_collection :: "poly_block \<Rightarrow> poly_log \<Rightarrow> poly_scan \<Rightarrow> poly_scan" where
  "scan_collection bd lg sc =
     (if il_address lg \<in> set (pc_validCollections sc)
      then queue_collection bd lg
             (pc_collection (toLowerCase (il_address lg)) (collection_ids (pb_header bd) lg sc))
      else sc)"

text \<open>
  A trade. For an item the token id is guessed from the supply at the end of the block. Without a
  token id (or with token id zero) the trade is not queued.
\<close>

definition scanned_token ::
  "poly_rpc \<Rightarrow> block \<Rightarrow> trade_data \<Rightarrow> int option result" where
  "scanned_token rpc b td =
     (case (td_assetType td = Asset_ITEM, td_itemId td) of
        (True, Some itemId) \<Rightarrow>
          bindR (pr_totalSupply rpc (blk_height b) (td_collectionAddress td) itemId) (\<lambda>supply.
          bindR (poly_encodeTokenId itemId supply) (\<lambda>t. Inr (Some t)))
      | _ \<Rightarrow> Inr (td_tokenId td))"

definition poly_scan_traded ::
  "env \<Rightarrow> poly_rpc \<Rightarrow> poly_block \<Rightarrow> poly_log \<Rightarrow> traded_event \<Rightarrow> poly_scan \<Rightarrow> poly_scan result" where
  "poly_scan_traded e rpc bd lg event sc =
     (case getTradeEventData e event POLYGON of
        None \<Rightarrow> Inr sc
      | Some td \<Rightarrow>
          (let b = pb_header bd; a = td_collectionAddress td in
           bindR (scanned_token rpc b td) (\<lambda>token.
             let sc1 = pc_collection a sc in
             case token of
               None \<Rightarrow> Inr sc1
             | Some tokenId \<Rightarrow>
                 if tokenId = 0 then Inr sc1
                 else
                   let sc2 = pc_analytic b (pc_account (td_buyer td) (pc_account (td_seller td)
                               (pc_token a tokenId sc1)));
                       sc3 = (case td_itemId td of
                                Some itemId \<Rightarrow>
                                  pc_itemDay (itemDayDataId (seconds b) (a @ dash @ toStr itemId)) sc2
                              | None \<Rightarrow> pc_itemDay (placeholderId b a tokenId) sc2)
                   in Inr (queue_collection bd lg sc3))))"

definition rarity_currency :: "env \<Rightarrow> poly_log \<Rightarrow> currency" where
  "rarity_currency e lg =
     (if il_address lg = pa_Rarity (poly_getAddresses e) then MANA_currency else USD_currency)"

definition pc_change_rarities :: "rarities \<Rightarrow> poly_scan \<Rightarrow> poly_scan" where
  "pc_change_rarities m sc = sc\<lparr>pc_rarities := m, pc_dirty := True\<rparr>"

text \<open>Events that only change module variables.\<close>

definition scan_module :: "env \<Rightarrow> poly_log \<Rightarrow> poly_event \<Rightarrow> poly_module \<Rightarrow> poly_module" where
  "scan_module e lg ev m =
     (case ev of
        Pe_FeeCollectorUpdated a \<Rightarrow>
          m\<lparr>pm_marketplaceV3 := (pm_marketplaceV3 m)\<lparr>vd_feeCollector := Some a\<rparr>\<rparr>
      | Pe_FeeRateUpdated r \<Rightarrow> m\<lparr>pm_marketplaceV3 := (pm_marketplaceV3 m)\<lparr>vd_feeRate := Some r\<rparr>\<rparr>
      | Pe_RoyaltiesRateUpdated r \<Rightarrow>
          m\<lparr>pm_marketplaceV3 := (pm_marketplaceV3 m)\<lparr>vd_royaltiesRate := Some r\<rparr>\<rparr>
      | Pe_ChangedCutPerMillion v \<Rightarrow>
          if il_address lg = pa_Marketplace (poly_getAddresses e)
          then m\<lparr>pm_marketplaceOwnerCut := Some v\<rparr> else m\<lparr>pm_bidOwnerCut := Some v\<rparr>
      | Pe_SetFee fee \<Rightarrow> m\<lparr>pm_store := (pm_store m)\<lparr>sd_fee := Some fee\<rparr>\<rparr>
      | Pe_SetFeeOwner a \<Rightarrow> m\<lparr>pm_store := (pm_store m)\<lparr>sd_feeOwner := Some a\<rparr>\<rparr>
      | _ \<Rightarrow> m)"

text \<open>Orders and bids. Only order events are checked to come from a marketplace contract.\<close>

definition scan_market :: "env \<Rightarrow> poly_block \<Rightarrow> poly_log \<Rightarrow> poly_scan \<Rightarrow> poly_scan" where
  "scan_market e bd lg sc =
     (let b = pb_header bd in
      case pl_event lg of
        Pe_OrderCreated ev \<Rightarrow>
          (scan_order e bd lg (pc_token (oc_nftAddress ev) (oc_assetId ev)) sc)
      | Pe_OrderSuccessful ev \<Rightarrow>
          (scan_order e bd lg (\<lambda>st.
            pc_itemDay (placeholderId b (os_nftAddress ev) (os_assetId ev)) (pc_analytic b
              (pc_account (os_buyer ev) (pc_account (os_seller ev)
                (pc_token (os_nftAddress ev) (os_assetId ev) st))))) sc)
      | Pe_OrderCancelled ev \<Rightarrow>
          (scan_order e bd lg (pc_token (ox_nftAddress ev) (ox_assetId ev)) sc)
      | Pe_BidCreated ev \<Rightarrow>
          (queue_market bd lg (pc_token (bc_tokenAddress ev) (bc_tokenId ev) sc))
      | Pe_BidAccepted ev \<Rightarrow>
          (queue_market bd lg
            (pc_itemDay (placeholderId b (ba_tokenAddress ev) (ba_tokenId ev)) (pc_analytic b
              (pc_token (ba_tokenAddress ev) (ba_tokenId ev)
                (pc_bid (getBidId (ba_tokenAddress ev) (toStr (ba_tokenId ev)) (ba_bidder ev))
                  (pc_account (ba_bidder ev) (pc_account (ba_seller ev) sc)))))))
      | Pe_BidCancelled ev \<Rightarrow>
          (queue_market bd lg
            (pc_token (bx_tokenAddress ev) (bx_tokenId ev)
              (pc_bid (getBidId (bx_tokenAddress ev) (toStr (bx_tokenId ev)) (bx_bidder ev)) sc)))
      | _ \<Rightarrow> sc)"

text \<open>Events of the rarity contracts, applied while the batch is scanned.\<close>

definition scan_rarity :: "env \<Rightarrow> poly_rpc \<Rightarrow> block \<Rightarrow> poly_log \<Rightarrow> poly_scan \<Rightarrow> poly_scan result" where
  "scan_rarity e rpc b lg sc =
     (case pl_event lg of
        Pe_AddRarity r \<Rightarrow>
          Inr (pc_change_rarities (handleAddRarity (pc_rarities sc) (cr_name r) (cr_price r)
                 (cr_maxSupply r) (rarity_currency e lg)) sc)
      | Pe_UpdatePrice name price \<Rightarrow>
          Inr (pc_change_rarities (handleUpdatePrice (pc_rarities sc) name price
                 (rarity_currency e lg)) sc)
      | Pe_RaritiesSet new \<Rightarrow>
          bindR (handleRaritiesSet e rpc b new (pc_rarities sc)) (\<lambda>m. Inr (pc_change_rarities m sc))
      | _ \<Rightarrow> Inr sc)"

definition market_event :: "poly_event \<Rightarrow> bool" where
  "market_event ev =
     (case ev of
        Pe_OrderCreated _ \<Rightarrow> True | Pe_OrderSuccessful _ \<Rightarrow> True | Pe_OrderCancelled _ \<Rightarrow> True
      | Pe_BidCreated _ \<Rightarrow> True | Pe_BidAccepted _ \<Rightarrow> True | Pe_BidCancelled _ \<Rightarrow> True
      | _ \<Rightarrow> False)"

definition rarity_event :: "poly_event \<Rightarrow> bool" where
  "rarity_event ev =
     (case ev of Pe_AddRarity _ \<Rightarrow> True | Pe_UpdatePrice _ _ \<Rightarrow> True | Pe_RaritiesSet _ \<Rightarrow> True
      | _ \<Rightarrow> False)"

definition poly_scan_log ::
  "env \<Rightarrow> poly_rpc \<Rightarrow> tx_index \<Rightarrow> (string, collection_data) jsmap \<Rightarrow> poly_block \<Rightarrow> poly_scan \<Rightarrow> poly_log \<Rightarrow>
   poly_scan result" where
  "poly_scan_log e rpc ti prefetched bd sc lg =
     (let b = pb_header bd in
      case pl_event lg of
        Pe_ProxyCreated address \<Rightarrow> scan_created e rpc ti prefetched b lg address sc
      | Pe_MemberSet member value \<Rightarrow>
          (let a = poly_getAddresses e in
           if lower_member (il_address lg) [pa_Committee a, pa_OldCommittee a]
           then Inr (pc_account (toLowerCase member)
                       (sc\<lparr>pc_committee := pc_committee sc @ [(member, value)]\<rparr>))
           else Inr sc)
      | Pe_Traded ev \<Rightarrow> poly_scan_traded e rpc bd lg ev sc
      | ev \<Rightarrow>
          if market_event ev then Inr (scan_market e bd lg sc)
          else if rarity_event ev then scan_rarity e rpc b lg sc
          else if collection_event ev then Inr (scan_collection bd lg sc)
          else Inr (pc_set_module (scan_module e lg ev) sc))"

text \<open>\<^verbatim>\<open>BigInt(block.header.timestamp / 1000)\<close> throws unless the quotient is integral.\<close>

definition poly_scan_block ::
  "env \<Rightarrow> poly_rpc \<Rightarrow> tx_index \<Rightarrow> (string, collection_data) jsmap \<Rightarrow> poly_scan \<Rightarrow> poly_block \<Rightarrow>
   poly_scan result" where
  "poly_scan_block e rpc ti prefetched sc bd =
     (if blk_timestamp (pb_header bd) mod 1000 \<noteq> 0 then Inl RangeError
      else foldR (poly_scan_log e rpc ti prefetched bd) sc (pb_logs bd))"

definition poly_scan_batch ::
  "env \<Rightarrow> poly_rpc \<Rightarrow> poly_block list \<Rightarrow> poly_scan \<Rightarrow> poly_scan result" where
  "poly_scan_batch e rpc blocks sc =
     (let ti = index_blocks e blocks;
          prefetched = fetchCollectionDataMulticall rpc (pb_header (last blocks)) (ti_created ti)
      in foldR (poly_scan_block e rpc ti prefetched) sc blocks)"

end
