(* ===== verification/Poly_Main.thy ===== *)
theory Poly_Main
  imports Poly_Scan
begin

text \<open>
  The second half of the batch loop of the Polygon processor (\<^verbatim>\<open>polygon/main.ts\<close>): the entities of the
  batch are loaded (\<^verbatim>\<open>polygon/store.ts\<close>), the new collections are created, every queued event is
  handled in log order, the cross-chain orders are derived, and after the batch is written the gift
  notifications are sent.

  \<open>poly_db\<close> is the parameter for the database reads: one query per table, as a function of the ids
  in the where-clause.
\<close>

section \<open>Loading\<close>

record poly_db =
  db_nfts :: "string list \<Rightarrow> NFT list"
  db_analytics :: "string list \<Rightarrow> AnalyticsDayData list"
  db_itemDayDatas :: "string list \<Rightarrow> ItemsDayData list"
  db_accountsDayDatas :: "string list \<Rightarrow> AccountsDayData list"
  db_counts :: "Count list"
  db_collections :: "string list \<Rightarrow> Collection list"
  db_bids :: "string list \<Rightarrow> Bid list"
  db_wearables :: "(string \<times> int list) list \<Rightarrow> Wearable list"
  db_emotes :: "(string \<times> int list) list \<Rightarrow> Emote list"
  db_metadatas :: "string list \<Rightarrow> Metadata list"
  db_orders :: "string list \<Rightarrow> Order list"
  db_items :: "string list \<Rightarrow> string list \<Rightarrow> string list \<Rightarrow> Item list"
  db_accounts :: "string list \<Rightarrow> Account list"

definition toMapById :: "('a \<Rightarrow> string) \<Rightarrow> 'a list \<Rightarrow> (string, 'a) jsmap" where
  "toMapById key entities = foldl (\<lambda>m x. mset m (key x) x) [] entities"

text \<open>\<^verbatim>\<open>Array.from(ids.entries()).map(([a, xs]) => xs.map(x => `${a}-${x}`)).flat()\<close>.\<close>

definition flat_ids :: "(string, int list) jsmap \<Rightarrow> string list" where
  "flat_ids m = concat (map (\<lambda>(a, ids). map (\<lambda>i. a @ dash @ toStr i) ids) m)"

text \<open>
  The queries for wearables and emotes pass \<^verbatim>\<open>[...itemIds]\<close>, the entries of the map (pairs of an
  address and an array of numbers), where the others pass ids.
\<close>

definition poly_getStoredData :: "poly_db \<Rightarrow> poly_scan \<Rightarrow> poly_state" where
  "poly_getStoredData db sc =
     (let nftIds = flat_ids (pc_tokenIds sc);
          itemIds = flat_ids (pc_itemIds sc);
          nfts = toMapById nft_id (db_nfts db nftIds);
          nftItemIds = List.map_filter (\<lambda>n. map_option item_ref_id (nft_item n)) (mvalues nfts);
          items = toMapById itm_id (db_items db (pc_collectionIds sc) itemIds nftItemIds);
          related = map itm_creator (mvalues items) @ map itm_beneficiary (mvalues items);
          accountIds = map (\<lambda>a. accountId a POLYGON) (pc_accountIds sc @ related)
      in \<lparr>ps_accounts = toMapById acc_id (db_accounts db accountIds),
          ps_counts = toMapById cnt_id (db_counts db),
          ps_collections = toMapById col_id (db_collections db (pc_collectionIds sc)),
          ps_orders = toMapById ord_id (db_orders db nftIds),
          ps_bids = toMapById bid_id (db_bids db (pc_bidIds sc)),
          ps_nfts = nfts,
          ps_analytics = toMapById add_id (db_analytics db (pc_analyticsIds sc)),
          ps_itemDayDatas = toMapById idd_id (db_itemDayDatas db (pc_itemDayDataIds sc)),
          ps_accountsDayDatas = toMapById acd_id (db_accountsDayDatas db (pc_analyticsIds sc)),
          ps_items = items,
          ps_wearables = toMapById wea_id (db_wearables db (pc_itemIds sc)),
          ps_emotes = toMapById emo_id (db_emotes db (pc_itemIds sc)),
          ps_metadatas = toMapById met_id (db_metadatas db itemIds),
          ps_sales = [], ps_curations = [], ps_mints = [], ps_gifts = [],
          ps_consumedIssueLogs = [], ps_module = pc_module sc\<rparr>)"

text \<open>
  The placeholders of secondary sales are replaced by the ids of the items of the loaded tokens, and
  the rows per day of these items are loaded as well.
\<close>

definition resolve_placeholder :: "nfts \<Rightarrow> string list \<Rightarrow> string \<Rightarrow> string list" where
  "resolve_placeholder nfts ids placeholder =
     (case js_split placeholder dash of
        day # mark # parts \<Rightarrow>
          (case mget nfts (js_join CHR ''-'' parts) of
             None \<Rightarrow> ids
           | Some nft \<Rightarrow>
               (case nft_item nft of
                  None \<Rightarrow> ids
                | Some r \<Rightarrow> sadd (filter (\<lambda>i. i \<noteq> placeholder) ids) (day @ dash @ item_ref_id r)))
      | _ \<Rightarrow> ids)"

definition resolve_placeholders :: "nfts \<Rightarrow> string list \<Rightarrow> string list" where
  "resolve_placeholders nfts ids =
     foldl (resolve_placeholder nfts) ids (filter (\<lambda>i. str_includes i ''-nft-'') ids)"

definition load_itemDayDatas :: "poly_db \<Rightarrow> string list \<Rightarrow> poly_state \<Rightarrow> poly_state" where
  "load_itemDayDatas db ids s =
     s\<lparr>ps_itemDayDatas := foldl (\<lambda>m (k, d). mset m k d) (ps_itemDayDatas s)
         (toMapById idd_id (db_itemDayDatas db (resolve_placeholders (ps_nfts s) ids)))\<rparr>"

section \<open>Handling the queues\<close>

definition create_collection ::
  "env \<Rightarrow> poly_rpc \<Rightarrow> (string, collection_data) jsmap \<Rightarrow> poly_state \<Rightarrow> factory_event \<Rightarrow> poly_state result" where
  "create_collection e rpc prefetched s fe =
     handleCollectionCreation e rpc (fe_block fe) (fe_address fe) (fe_usedCredits fe)
       (fe_creditValue fe) (Some (fe_txHash fe)) (mget prefetched (toLowerCase (fe_address fe))) s"

text \<open>
  Trades and issues. An \<^verbatim>\<open>Issue\<close> log whose caller is a marketplace of the third version is left to the
  \<^verbatim>\<open>Traded\<close> event. The contract data a queued event refers to is always present: it is an object.
\<close>

definition dispatch_issue :: "env \<Rightarrow> poly_rpc \<Rightarrow> poly_queued \<Rightarrow> issue_event \<Rightarrow> poly_state \<Rightarrow> poly_state result" where
  "dispatch_issue e rpc q event s =
     (if v3_minter e (ie_caller event) then Inr s
      else handleIssue e rpc (il_address (pq_log q)) event (pb_header (pq_block q))
             (map_option tx_hash (pq_transaction q)) (pm_store (ps_module s)) None s)"

definition with_transaction :: "poly_queued \<Rightarrow> (poly_tx \<Rightarrow> poly_state result) \<Rightarrow> poly_state \<Rightarrow> poly_state result" where
  "with_transaction q f s = (case pq_transaction q of None \<Rightarrow> Inr s | Some tx \<Rightarrow> f tx)"

definition dispatch_market :: "env \<Rightarrow> poly_rpc \<Rightarrow> poly_queued \<Rightarrow> poly_state \<Rightarrow> poly_state result" where
  "dispatch_market e rpc q s =
     (let b = pb_header (pq_block q); a = il_address (pq_log q); h = pl_txHash (pq_log q) in
      case pq_event q of
        Pe_OrderCreated ev \<Rightarrow> Inr (poly_handleOrderCreated ev b a h s)
      | Pe_OrderSuccessful ev \<Rightarrow> poly_handleOrderSuccessful e rpc ev b h s
      | Pe_OrderCancelled ev \<Rightarrow> Inr (poly_handleOrderCancelled ev b s)
      | Pe_BidCreated ev \<Rightarrow> poly_handleBidCreated ev b a s
      | Pe_BidAccepted ev \<Rightarrow> poly_handleBidAccepted rpc ev b h s
      | Pe_BidCancelled ev \<Rightarrow> Inr (poly_handleBidCancelled ev b s)
      | _ \<Rightarrow> Inr s)"

definition poly_dispatch :: "env \<Rightarrow> poly_rpc \<Rightarrow> poly_state \<Rightarrow> poly_queued \<Rightarrow> poly_state result" where
  "poly_dispatch e rpc s q =
     (let b = pb_header (pq_block q); a = il_address (pq_log q); h = pl_txHash (pq_log q) in
      case pq_event q of
        Pe_SetGlobalMinter minter value \<Rightarrow> Inr (handleSetGlobalMinter e a minter value b s)
      | Pe_SetGlobalManager manager value \<Rightarrow> Inr (handleSetGlobalManager a manager value s)
      | Pe_SetItemMinter itemId minter value \<Rightarrow> Inr (handleSetItemMinter e a itemId minter value b s)
      | Pe_SetItemManager itemId manager value \<Rightarrow> Inr (handleSetItemManager a itemId manager value s)
      | Pe_AddItem itemId ci \<Rightarrow>
          (case pq_rarities q of
             None \<Rightarrow> Inr s
           | Some rarities \<Rightarrow> handleAddItem e rpc b a itemId ci rarities s)
      | Pe_RescueItem ev \<Rightarrow>
          with_transaction q (\<lambda>tx. Inr (handleRescueItem e ev b a (il_logIndex (pq_log q)) tx s)) s
      | Pe_UpdateItemData ev \<Rightarrow> Inr (handleUpdateItemData a ev b s)
      | Pe_Traded ev \<Rightarrow> with_transaction q (\<lambda>tx. poly_handleTraded e rpc ev (pq_block q) tx s) s
      | Pe_Issue ev \<Rightarrow> dispatch_issue e rpc q ev s
      | Pe_SetApproved value \<Rightarrow> with_transaction q (\<lambda>tx. Inr (handleSetApproved e a value b tx s)) s
      | Pe_SetEditable value \<Rightarrow> Inr (handleSetEditable a value s)
      | Pe_Complete \<Rightarrow> Inr (handleCompleteCollection a s)
      | Pe_CreatorshipTransferred c \<Rightarrow> Inr (handleTransferCreatorship a c b s)
      | Pe_OwnershipTransferred c \<Rightarrow> Inr (handleTransferOwnership a c b s)
      | Pe_Transfer ev \<Rightarrow> Inr (poly_handleTransfer a ev b h s)
      | _ \<Rightarrow> dispatch_market e rpc q s)"

definition member_step :: "poly_state \<Rightarrow> string \<times> bool \<Rightarrow> poly_state" where
  "member_step s p = s\<lparr>ps_accounts := handleMemeberSet (ps_accounts s) (fst p) (snd p)\<rparr>"

definition poly_handle_queues ::
  "env \<Rightarrow> poly_rpc \<Rightarrow> (string, collection_data) jsmap \<Rightarrow> poly_scan \<Rightarrow> poly_state \<Rightarrow> poly_state result" where
  "poly_handle_queues e rpc prefetched sc s =
     bindR (foldR (create_collection e rpc prefetched) s (pc_factory sc)) (\<lambda>s1.
     bindR (foldR (poly_dispatch e rpc) s1 (pc_events sc)) (\<lambda>s2.
       Inr (foldl member_step s2 (pc_committee sc))))"

section \<open>Cross-chain orders\<close>

record SquidRouterOrder =
  sro_id :: string
  sro_orderHash :: string
  sro_creditIds :: "string list"
  sro_totalCreditsUsed :: int
  sro_txHash :: string
  sro_blockNumber :: int
  sro_timestamp :: int
  sro_network :: network

text \<open>
  One order per transaction with both a router order and a used credit. Block and transaction are
  read back from the key of the transaction.
\<close>

definition key_part :: "string \<Rightarrow> nat \<Rightarrow> int option" where
  "key_part k i = (case js_at (js_split k dash) i of None \<Rightarrow> None | Some x \<Rightarrow> parseInt x)"

definition router_order ::
  "poly_block list \<Rightarrow> tx_index \<Rightarrow> string \<times> string \<Rightarrow> SquidRouterOrder option" where
  "router_order blocks ti p =
     (case p of (k, orderHash) \<Rightarrow>
       (case mget (ti_credits ti) k of
          None \<Rightarrow> None
        | Some credits \<Rightarrow>
            if credits = [] then None
            else case key_part k 0 of
              None \<Rightarrow> None
            | Some height \<Rightarrow>
                (case List.find (\<lambda>bd. blk_height (pb_header bd) = height) blocks of
                   None \<Rightarrow> None
                 | Some bd \<Rightarrow>
                     Some \<lparr>sro_id = orderHash, sro_orderHash = orderHash,
                       sro_creditIds = map fst credits,
                       sro_totalCreditsUsed = sum_list (map snd credits),
                       sro_txHash =
                         (case List.find (\<lambda>l. Some (il_transactionIndex l) = key_part k 1) (pb_logs bd) of
                            None \<Rightarrow> ''unknown''
                          | Some l \<Rightarrow> if pl_txHash l = [] then ''unknown'' else pl_txHash l),
                       sro_blockNumber = height, sro_timestamp = seconds (pb_header bd),
                       sro_network = POLYGON\<rparr>)))"

definition router_orders :: "poly_block list \<Rightarrow> tx_index \<Rightarrow> (string, SquidRouterOrder) jsmap" where
  "router_orders blocks ti =
     foldl (\<lambda>m p. case router_order blocks ti p of None \<Rightarrow> m | Some r \<Rightarrow> mset m (sro_id r) r)
       [] (ti_orderHash ti)"

section \<open>Writing\<close>

text \<open>
  \<^verbatim>\<open>performUpserts\<close>: NFTs and orders refer to each other, so the NFTs are first written without their
  active orders, then the orders, then the NFTs that have an active order again. \<open>detach\<close> and
  \<open>restore\<close> are the two loops; the result lists the rows of the two upserts of NFTs and leaves the
  objects of the batch as they were.
\<close>

definition detach :: "nfts \<Rightarrow> (string, string) jsmap \<times> nfts" where
  "detach nfts =
     (foldl (\<lambda>m n. case nft_activeOrder n of None \<Rightarrow> m | Some i \<Rightarrow> mset m (nft_id n) i) [] (mvalues nfts),
      map (\<lambda>(k, n). (k, n\<lparr>nft_activeOrder := None\<rparr>)) nfts)"

definition restore :: "(string, string) jsmap \<Rightarrow> nfts \<Rightarrow> nfts \<times> NFT list" where
  "restore orderByNFT nfts =
     foldl (\<lambda>(m, out) (nftId, i).
       case mget m nftId of
         None \<Rightarrow> (m, out)
       | Some n \<Rightarrow> (let n' = n\<lparr>nft_activeOrder := Some i\<rparr> in (mset m nftId n', out @ [n'])))
       (nfts, []) orderByNFT"

definition upsert_nfts :: "nfts \<Rightarrow> NFT list \<times> NFT list \<times> nfts" where
  "upsert_nfts nfts =
     (case detach nfts of
        (orderByNFT, first) \<Rightarrow>
          (case restore orderByNFT first of (nfts', second) \<Rightarrow> (mvalues first, second, nfts')))"

section \<open>Gift notifications\<close>

text \<open>
  \<open>publish\<close> is the outcome of sending one notification: the event publisher is a service. The result is
  the list of the notifications sent and the new watermark, if it is written.
\<close>

definition sold_keys :: "sales \<Rightarrow> string list" where
  "sold_keys sales = map (\<lambda>sale. toLowerCase (sal_txHash sale) @ dash @ show_opt (sal_nft sale)) (mvalues sales)"

definition gift_floor :: "int option \<Rightarrow> int \<Rightarrow> int" where
  "gift_floor lastNotified minTimestamp =
     (case lastNotified of
        None \<Rightarrow> minTimestamp
      | Some t \<Rightarrow> if t \<noteq> 0 \<and> minTimestamp < t then t else minTimestamp)"

definition is_gift :: "sales \<Rightarrow> int \<Rightarrow> gift_candidate \<Rightarrow> bool" where
  "is_gift sales floor c \<longleftrightarrow>
     floor < gc_timestamp c \<and>
     toLowerCase (gc_txHash c) @ dash @ gc_nftId c \<notin> set (sold_keys sales)"

definition gift_step ::
  "(gift_candidate \<Rightarrow> bool) \<Rightarrow> sales \<Rightarrow> int \<Rightarrow> gift_candidate list \<times> int \<Rightarrow> gift_candidate \<Rightarrow>
   gift_candidate list \<times> int" where
  "gift_step publish sales floor acc c =
     (case acc of (sent, maxNotified) \<Rightarrow>
       if is_gift sales floor c \<and> publish c then (sent @ [c], max maxNotified (gc_timestamp c))
       else (sent, maxNotified))"

definition send_gifts ::
  "(gift_candidate \<Rightarrow> bool) \<Rightarrow> sales \<Rightarrow> int option \<Rightarrow> int \<Rightarrow> (string, gift_candidate) jsmap \<Rightarrow>
   gift_candidate list \<times> int option" where
  "send_gifts publish sales lastNotified minTimestamp gifts =
     (let floor = gift_floor lastNotified minTimestamp in
      case foldl (gift_step publish sales floor) ([], floor) (mvalues gifts) of
        (sent, maxNotified) \<Rightarrow>
          (sent, if sent \<noteq> [] \<and> (case lastNotified of None \<Rightarrow> 0 | Some t \<Rightarrow> t) < maxNotified
                 then Some maxNotified else None))"

end
