(* ===== verification/Poly_Book.thy ===== *)
theory Poly_Book
  imports Poly_Main
begin

text \<open>
  The order book of the Polygon processor: every queued event keeps the invariant \<open>order_book\<close> of its
  NFT and order maps. Order events are of the form the marketplace contract emits, as on Ethereum;
  in addition a minted token is new, or at least not on sale, which the collection contract
  guarantees since it never issues a token id twice.
\<close>

section \<open>What the events guarantee\<close>

definition off_sale :: "nfts \<Rightarrow> string \<Rightarrow> bool" where
  "off_sale nfts k = (case mget nfts k of None \<Rightarrow> True | Some n \<Rightarrow> order_view n = no_view)"

text \<open>The token a trade of an item mints: the one of the \<^verbatim>\<open>Issue\<close> log that is chosen for it.\<close>

definition trade_mints :: "env \<Rightarrow> poly_state \<Rightarrow> poly_block \<Rightarrow> poly_tx \<Rightarrow> traded_event \<Rightarrow> string option" where
  "trade_mints e s bd tx ev =
     (case getTradeEventData e ev POLYGON of
        None \<Rightarrow> None
      | Some td \<Rightarrow>
          (case td_itemId td of
             None \<Rightarrow> None
           | Some itemId \<Rightarrow>
               (case selectIssueLogForTrade (pb_logs bd) (tx_transactionIndex tx)
                       (td_collectionAddress td) itemId ISSUE_TOPIC (blk_height (pb_header bd))
                       (ps_consumedIssueLogs s) of
                  Inr (Some l, _) \<Rightarrow>
                    (case pl_event l of
                       Pe_Issue issued \<Rightarrow> Some (polyNFTId (td_collectionAddress td) (ie_tokenId issued))
                     | _ \<Rightarrow> None)
                | _ \<Rightarrow> None)))"

definition poly_event_ok :: "env \<Rightarrow> poly_state \<Rightarrow> poly_queued \<Rightarrow> bool" where
  "poly_event_ok e s q =
     (case pq_event q of
        Pe_OrderCreated ev \<Rightarrow>
          fresh_order (ps_orders s) (polyNFTId (oc_nftAddress ev) (oc_assetId ev)) (oc_id ev)
      | Pe_OrderSuccessful ev \<Rightarrow>
          closes_active (ps_nfts s) (ps_orders s) (polyNFTId (os_nftAddress ev) (os_assetId ev)) (os_id ev)
      | Pe_OrderCancelled ev \<Rightarrow>
          closes_active (ps_nfts s) (ps_orders s) (polyNFTId (ox_nftAddress ev) (ox_assetId ev)) (ox_id ev)
      | Pe_Issue ev \<Rightarrow> off_sale (ps_nfts s) (polyNFTId (il_address (pq_log q)) (ie_tokenId ev))
      | Pe_Traded ev \<Rightarrow>
          (case pq_transaction q of
             None \<Rightarrow> True
           | Some tx \<Rightarrow>
               (case trade_mints e s (pq_block q) tx ev of
                  None \<Rightarrow> True
                | Some k \<Rightarrow> off_sale (ps_nfts s) k))
      | _ \<Rightarrow> True)"

definition poly_book :: "poly_state \<Rightarrow> bool" where
  "poly_book s = order_book (ps_nfts s) (ps_orders s)"

lemma poly_book_same:
  "poly_book s \<Longrightarrow> ps_nfts s' = ps_nfts s \<Longrightarrow> ps_orders s' = ps_orders s \<Longrightarrow> poly_book s'"
  by (simp add: poly_book_def)

lemma poly_book_keep:
  assumes "poly_book s" and "mget (ps_nfts s) k = Some nft"
    and "nft_id nft' = nft_id nft" and "order_view nft' = order_view nft"
    and "ps_nfts s' = mset (ps_nfts s) k nft'" and "ps_orders s' = ps_orders s"
  shows "poly_book s'"
  using assms by (auto simp: poly_book_def intro: order_book_keep)

lemma poly_book_kept:
  assumes "poly_book s" and "mget (ps_nfts s) k = Some nft"
    and "nft_id nft' = nft_id nft" and "order_view nft' = order_view nft"
  shows "poly_book (s\<lparr>ps_nfts := mset (ps_nfts s) k nft'\<rparr>)"
    and "poly_book (s\<lparr>ps_bids := bids, ps_nfts := mset (ps_nfts s) k nft'\<rparr>)"
    and "poly_book (s\<lparr>ps_bids := bids, ps_nfts := mset (ps_nfts s) k nft', ps_counts := counts\<rparr>)"
  by (rule poly_book_keep [OF assms]; simp)+

section \<open>Sales\<close>

text \<open>
  The three outcomes of \<^verbatim>\<open>trackSale\<close>: nothing for a price of zero, a counted sale without rows where the
  item or the token is unknown, and a recorded sale.
\<close>

abbreviation counted :: "int \<Rightarrow> poly_state \<Rightarrow> poly_state" where
  "counted price s \<equiv> s\<lparr>ps_counts := set_count (with_count POLYGON (count_sold price) (ps_counts s))\<rparr>"

lemma poly_trackSale_cases:
  assumes "poly_trackSale rpc b ty buyer seller bn i k price fc col rc t tx s = Inr s'"
  obtains (free) "price = 0" "s' = s"
  | (unknown) "price \<noteq> 0" "s' = counted price s"
  | (sold) n n' j item owner where "price \<noteq> 0" "mget (ps_nfts s) k = Some n"
      "nft_sold price t n = Inr n'" "mget (ps_items s) j = Some item"
      "s' = record_sale ty buyer owner seller bn k price fc col rc t tx j item n n' (counted price s)"
proof (cases "price = 0")
  case True
  then show ?thesis using assms that(1) by (simp add: poly_trackSale_def)
next
  case False
  note run = assms [unfolded poly_trackSale_def Let_def if_not_P [OF False]]
  show ?thesis
  proof (cases "mget (ps_nfts s) k")
    case None
    then show ?thesis using run False that(2) by (auto split: option.splits)
  next
    case (Some n)
    note nft = this
    show ?thesis
    proof (cases "sold_item (ps_items s) i (Some n)")
      case None
      then show ?thesis using run Some False that(2) by auto
    next
      case (Some r)
      with run nft obtain owner n' where "nft_sold price t n = Inr n'" and
        "(case r of OwnItem _ \<Rightarrow> Inl TypeError
          | SharedItem j \<Rightarrow> bindR (throw_if_none TypeError (mget (ps_items s) j)) (\<lambda>item.
              Inr (record_sale ty buyer owner seller bn k price fc col rc t tx j item n n'
                     (counted price s)))) = Inr s'"
        by (auto simp: bindR_eq_Inr)
      then show ?thesis using that(3) [OF False nft]
        by (cases r) (auto simp: bindR_eq_Inr throw_if_none_eq_Inr)
    qed
  qed
qed

lemma record_sale_maps [simp]:
  "ps_nfts (record_sale ty buyer owner seller bn k price fc col rc t tx j item n n' s) =
     mset (ps_nfts s) k n'"
  "ps_orders (record_sale ty buyer owner seller bn k price fc col rc t tx j item n n' s) = ps_orders s"
  "ps_items (record_sale ty buyer owner seller bn k price fc col rc t tx j item n n' s) =
     mset (ps_items s) j (item_sold buyer price t item)"
  by (simp_all add: record_sale_def Let_def)

lemma poly_trackSale_book:
  assumes "poly_book s" and "poly_trackSale rpc b ty buyer seller bn i k price fc col rc t tx s = Inr s'"
  shows "poly_book s'"
  using assms(2)
proof (cases rule: poly_trackSale_cases)
  case (sold n n' j item owner)
  then show ?thesis
    using nft_sold_view [OF sold(3)] by (intro poly_book_keep [OF assms(1) sold(2), of n']) simp_all
qed (use assms(1) in \<open>auto intro: poly_book_same\<close>)

section \<open>Minting and transfers\<close>

lemma minted_nft_view:
  "nft_id (minted_nft k ev b a c j item owner) = k"
  "order_view (minted_nft k ev b a c j item owner) = no_view"
  by (simp_all add: minted_nft_def new_NFT_def order_view_def no_view_def)

lemma handleMintNFT_book:
  assumes book: "poly_book s" and fresh: "off_sale (ps_nfts s) (polyNFTId a (ie_tokenId ev))"
    and run: "handleMintNFT e rpc ev b h a j item sd traded s = Inr s'"
  shows "poly_book s'"
proof -
  let ?k = "polyNFTId a (ie_tokenId ev)"
  have touch: "order_book (mset (ps_nfts s) ?k n) (ps_orders s)"
    if "nft_id n = ?k" "order_view n = no_view" for n
    using book fresh that
    by (intro order_book_touch) (auto simp: poly_book_def off_sale_def split: option.splits)
  show ?thesis
    using run touch book
    by (auto simp: handleMintNFT_def Let_def polyNFTId_def [symmetric] poly_book_def minted_nft_view bindR_eq_Inr
        createOrLoadAccount_eq split: option.splits if_splits
        elim!: poly_trackSale_book [unfolded poly_book_def, rotated])
qed

lemma handleIssue_book:
  assumes "poly_book s" and "off_sale (ps_nfts s) (polyNFTId a (ie_tokenId ev))"
    and "handleIssue e rpc a ev b h sd traded s = Inr s'"
  shows "poly_book s'"
  using assms
  by (auto simp: handleIssue_def Let_def poly_book_def split: option.splits
      elim!: handleMintNFT_book [unfolded poly_book_def, rotated 2])

lemma handleTransferNFT_book:
  assumes "poly_book s"
  shows "poly_book (handleTransferNFT a ev b h s)"
proof (cases "mget (ps_nfts s) (getNFTId a (toStr (te_tokenId ev)) None)")
  case None
  then show ?thesis using assms by (simp add: handleTransferNFT_def Let_def)
next
  case (Some nft)
  have ob: "order_book (ps_nfts s) (ps_orders s)" using assms by (simp add: poly_book_def)
  let ?acc = "account_at (ps_accounts s) (te_to ev) POLYGON"
  define nft1 where "nft1 = nft\<lparr>nft_owner := Some (account_refer ?acc),
      nft_ownerAddress := Some (acc_address ?acc), nft_updatedAt := Some (seconds b),
      nft_transferredAt := Some (seconds b)\<rparr>"
  obtain nft2 orders' where move: "move_order (acc_address ?acc) nft1 (ps_orders s) = (nft2, orders')"
    by fastforce
  have "order_book (mset (ps_nfts s) (getNFTId a (toStr (te_tokenId ev)) None) nft2) orders'"
    using order_bookD_nft(1) [OF ob Some]
    by (intro move_order_book [OF ob _ _ move]) (simp_all add: nft1_def Some)
  then show ?thesis
    using Some move [unfolded nft1_def]
    by (simp add: handleTransferNFT_def Let_def createOrLoadAccount_eq poly_book_def)
qed

section \<open>Orders, bids and trades\<close>

lemma poly_own_by_buyer_view [simp]:
  "order_view (poly_own_by_buyer accounts buyer nft) = order_view nft"
  "nft_id (poly_own_by_buyer accounts buyer nft) = nft_id nft"
  "nft_activeOrder (poly_own_by_buyer accounts buyer nft) = nft_activeOrder nft"
  by (simp_all add: poly_own_by_buyer_def split: option.split)

lemma poly_handleOrderCreated_book:
  assumes "poly_book s"
    and "fresh_order (ps_orders s) (polyNFTId (oc_nftAddress ev) (oc_assetId ev)) (oc_id ev)"
  shows "poly_book (poly_handleOrderCreated ev b a h s)"
proof (cases "mget (ps_nfts s) (polyNFTId (oc_nftAddress ev) (oc_assetId ev))")
  case None
  then show ?thesis using assms(1) by (simp add: poly_handleOrderCreated_def Let_def)
next
  case (Some nft)
  let ?k = "polyNFTId (oc_nftAddress ev) (oc_assetId ev)"
  let ?order = "poly_order_of_event ev b a h nft"
  have ob: "order_book (ps_nfts s) (ps_orders s)" using assms(1) by (simp add: poly_book_def)
  have id: "nft_id nft = ?k" using order_bookD_nft(1) [OF ob Some] .
  have new: "ord_id ?order = oc_id ev" "ord_nft ?order = ?k" "live ?order" "ord_status ?order = Open"
    by (simp_all add: poly_order_of_event_def live_def id)
  have "order_book
      (mset (ps_nfts s) ?k
        (updateNFTOrderProperties (nft\<lparr>nft_updatedAt := Some (seconds b)\<rparr>) ?order))
      (mset (cancel_current nft (seconds b) (ps_orders s)) (oc_id ev) ?order)"
    using assms(2)
    by (intro order_book_replace [OF ob Some _ new(1,2,3)])
       (auto simp: order_view_update new(4) id fresh_order_def)
  then show ?thesis by (simp add: poly_handleOrderCreated_def Some Let_def poly_book_def)
qed

lemma poly_handleOrderSuccessful_book:
  assumes book: "poly_book s"
    and ok: "closes_active (ps_nfts s) (ps_orders s)
          (polyNFTId (os_nftAddress ev) (os_assetId ev)) (os_id ev)"
    and run: "poly_handleOrderSuccessful e rpc ev b h s = Inr s'"
  shows "poly_book s'"
proof (cases "mget (ps_orders s) (os_id ev)")
  case None
  then show ?thesis using book run by (simp add: poly_handleOrderSuccessful_def Let_def)
next
  case (Some old)
  let ?k = "polyNFTId (os_nftAddress ev) (os_assetId ev)"
  define order where "order = old\<lparr>ord_status := Sold, ord_buyer := Some (os_buyer ev),
      ord_price := os_totalPrice ev, ord_blockNumber := blk_height b, ord_updatedAt := seconds b\<rparr>"
  have ob: "order_book (ps_nfts s) (ps_orders s)" using book by (simp add: poly_book_def)
  have closed: "ord_id order = os_id ev" "\<not> live order" "ord_status order = Sold"
    using order_bookD_order [OF ob Some] by (simp_all add: order_def live_def)
  have k: "ord_nft old = ?k" using ok Some by (simp add: closes_active_def)
  show ?thesis
  proof (cases "mget (ps_nfts s) ?k")
    case None
    then have "order_book (ps_nfts s) (mset (ps_orders s) (os_id ev) order)"
      using order_book_close_missing [OF ob Some _ closed(1,2)] k by simp
    then show ?thesis
      using run Some None by (auto simp: poly_handleOrderSuccessful_def Let_def order_def poly_book_def)
  next
    case nft: (Some nft)
    define s1 where "s1 = s\<lparr>ps_orders := mset (ps_orders s) (os_id ev) order,
        ps_nfts := mset (ps_nfts s) ?k (updateNFTOrderProperties
          ((poly_own_by_buyer (ps_accounts s) (os_buyer ev) nft)\<lparr>nft_updatedAt := Some (seconds b)\<rparr>) order)\<rparr>"
    have "nft_activeOrder nft = None \<or> nft_activeOrder nft = Some (os_id ev)"
      using ok Some nft by (simp add: closes_active_def)
    then have "poly_book s1"
      unfolding poly_book_def s1_def using order_bookD_nft(1) [OF ob nft]
      by (auto intro!: order_book_close [OF ob nft Some k _ closed(1,2)]
          simp: order_view_update closed(3))
    with run Some nft show ?thesis
      by (auto simp: poly_handleOrderSuccessful_def Let_def order_def [symmetric] s1_def [symmetric]
          split: option.splits elim!: poly_trackSale_book [rotated])
  qed
qed

lemma poly_handleOrderCancelled_book:
  assumes book: "poly_book s"
    and ok: "closes_active (ps_nfts s) (ps_orders s)
          (polyNFTId (ox_nftAddress ev) (ox_assetId ev)) (ox_id ev)"
  shows "poly_book (poly_handleOrderCancelled ev b s)"
proof -
  let ?k = "polyNFTId (ox_nftAddress ev) (ox_assetId ev)"
  have ob: "order_book (ps_nfts s) (ps_orders s)" using book by (simp add: poly_book_def)
  show ?thesis
  proof (cases "mget (ps_nfts s) ?k = None \<or> mget (ps_orders s) (ox_id ev) = None")
    case True
    then show ?thesis using book
      by (auto simp: poly_handleOrderCancelled_def Let_def split: option.split)
  next
    case False
    then obtain nft old where nft: "mget (ps_nfts s) ?k = Some nft"
      and old: "mget (ps_orders s) (ox_id ev) = Some old" by auto
    have "ord_nft old = ?k" "nft_activeOrder nft = None \<or> nft_activeOrder nft = Some (ox_id ev)"
      using ok nft old by (simp_all add: closes_active_def)
    then show ?thesis
      using order_bookD_nft(1) [OF ob nft] order_bookD_order [OF ob old]
      by (auto simp: poly_handleOrderCancelled_def Let_def nft old poly_book_def order_view_update
          live_def intro!: order_book_close [OF ob nft old])
  qed
qed

lemma poly_handleBidCreated_book:
  assumes "poly_book s" and "poly_handleBidCreated ev b a s = Inr s'"
  shows "poly_book s'"
  using assms
  by (auto simp: poly_handleBidCreated_def Let_def bindR_eq_Inr split: option.splits
      intro!: poly_book_kept(3) intro: poly_book_same)

lemma poly_handleBidAccepted_book:
  assumes "poly_book s" and "poly_handleBidAccepted rpc ev b h s = Inr s'"
  shows "poly_book s'"
  using assms
  by (auto simp: poly_handleBidAccepted_def Let_def split: option.splits if_splits dest!: bid_with_nft_Some
      elim!: poly_trackSale_book [rotated] intro!: poly_book_kept)

lemma poly_handleBidCancelled_book: "poly_book s \<Longrightarrow> poly_book (poly_handleBidCancelled ev b s)"
  by (auto simp: poly_handleBidCancelled_def Let_def split: option.splits dest!: bid_with_nft_Some
      intro!: poly_book_kept)

lemma trade_erc721_book:
  assumes "poly_book s" and "trade_erc721 e rpc ev td b h fr fc rr s = Inr s'"
  shows "poly_book s'"
  using assms
  by (auto simp: trade_erc721_def Let_def split: option.splits
      elim!: poly_trackSale_book [rotated] intro!: poly_book_kept)

lemma trade_item_cases:
  assumes "trade_item e rpc ev td bd tx fr fc s = Inr s'"
  obtains (skip) "s' = s"
  | (issued) itemId l consumed issued event where "td_itemId td = Some itemId"
      "selectIssueLogForTrade (pb_logs bd) (tx_transactionIndex tx) (td_collectionAddress td) itemId
         ISSUE_TOPIC (blk_height (pb_header bd)) (ps_consumedIssueLogs s) = Inr (Some l, consumed)"
      "pl_event l = Pe_Issue issued" "ie_tokenId event = ie_tokenId issued" "ie_itemId event = itemId"
      "handleIssue e rpc (td_collectionAddress td) event (pb_header bd) (Some (tx_hash tx))
         \<lparr>sd_fee = Some fr, sd_feeOwner = Some fc\<rparr> (Some ev)
         (s\<lparr>ps_consumedIssueLogs := consumed\<rparr>) = Inr s'"
proof (cases "td_itemId td")
  case None
  then show ?thesis using assms that(1) by (simp add: trade_item_def)
next
  case (Some itemId)
  with assms obtain chosen consumed where
    select: "selectIssueLogForTrade (pb_logs bd) (tx_transactionIndex tx) (td_collectionAddress td) itemId
      ISSUE_TOPIC (blk_height (pb_header bd)) (ps_consumedIssueLogs s) = Inr (chosen, consumed)"
    by (auto simp: trade_item_def bindR_eq_Inr)
  show ?thesis
  proof (cases chosen)
    case None
    then show ?thesis using assms that(1) by (simp add: trade_item_def Some select)
  next
    case l: (Some l)
    show ?thesis
    proof (cases "pl_event l")
      case (Pe_Issue issued)
      with assms obtain beneficiary where
        "handleIssue e rpc (td_collectionAddress td)
           \<lparr>ie_beneficiary = beneficiary, ie_tokenId = ie_tokenId issued, ie_itemId = itemId,
            ie_issuedId = ie_issuedId issued,
            ie_caller = traded_address bd (tx_transactionIndex tx)\<rparr>
           (pb_header bd) (Some (tx_hash tx)) \<lparr>sd_fee = Some fr, sd_feeOwner = Some fc\<rparr> (Some ev)
           (s\<lparr>ps_consumedIssueLogs := consumed\<rparr>) = Inr s'"
        by (auto simp: trade_item_def Some select l bindR_eq_Inr)
      from that(2) [OF Some select [unfolded l] Pe_Issue _ _ this] show ?thesis by simp
    qed (use assms in \<open>simp_all add: trade_item_def Some select l\<close>)
  qed
qed

lemma trade_item_book:
  assumes "poly_book s" and "getTradeEventData e ev POLYGON = Some td"
    and "case trade_mints e s bd tx ev of None \<Rightarrow> True | Some k \<Rightarrow> off_sale (ps_nfts s) k"
    and "trade_item e rpc ev td bd tx fr fc s = Inr s'"
  shows "poly_book s'"
  using assms(4)
proof (cases rule: trade_item_cases)
  case skip
  then show ?thesis using assms(1) by simp
next
  case (issued itemId l consumed issued event)
  have "poly_book (s\<lparr>ps_consumedIssueLogs := consumed\<rparr>)" using assms(1) by (simp add: poly_book_def)
  moreover have "trade_mints e s bd tx ev = Some (polyNFTId (td_collectionAddress td) (ie_tokenId event))"
    using issued by (simp add: trade_mints_def assms(2))
  ultimately show ?thesis
    using handleIssue_book [OF _ _ issued(6)] assms(3) by simp
qed

lemma poly_handleTraded_book:
  assumes book: "poly_book s"
    and mint: "case trade_mints e s bd tx ev of None \<Rightarrow> True | Some k \<Rightarrow> off_sale (ps_nfts s) k"
    and run: "poly_handleTraded e rpc ev bd tx s = Inr s'"
  shows "poly_book s'"
proof (cases "getTradeEventData e ev POLYGON")
  case None
  then show ?thesis using run book unfolding poly_handleTraded_def None by simp
next
  case (Some td)
  have same: "poly_book (s\<lparr>ps_module := m\<rparr>)"
    "trade_mints e (s\<lparr>ps_module := m\<rparr>) bd tx ev = trade_mints e s bd tx ev" for m
    using book by (simp_all add: poly_book_def trade_mints_def cong: option.case_cong)
  show ?thesis
    using run Some mint same(1)
    by (auto simp: poly_handleTraded_def Let_def bindR_eq_Inr same(2) split: if_splits
        cong: option.case_cong elim!: trade_erc721_book [rotated] trade_item_book [OF _ Some _, rotated 2])
qed

section \<open>The whole queue\<close>

text \<open>The collection handlers touch neither tokens nor orders.\<close>

definition same_market :: "poly_state \<Rightarrow> poly_state \<Rightarrow> bool" where
  "same_market s s' \<longleftrightarrow> ps_nfts s' = ps_nfts s \<and> ps_orders s' = ps_orders s"

lemma collection_handlers_market:
  "same_market s (handleSetGlobalMinter e a minter value b s)"
  "same_market s (handleSetGlobalManager a manager value s)"
  "same_market s (handleSetItemMinter e a i minter n b s)"
  "same_market s (handleSetItemManager a i manager value s)"
  "same_market s (handleRescueItem e ri b a l tx s)"
  "same_market s (handleUpdateItemData a ui b s)"
  "same_market s (handleSetApproved e a value b tx s)"
  "same_market s (handleSetEditable a value s)"
  "same_market s (handleCompleteCollection a s)"
  "same_market s (handleTransferCreatorship a manager b s)"
  "same_market s (handleTransferOwnership a manager b s)"
  by (auto simp: same_market_def handleSetGlobalMinter_def handleSetGlobalManager_def
      handleSetItemMinter_def handleSetItemManager_def handleRescueItem_def handleUpdateItemData_def
      handleSetApproved_def handleSetEditable_def handleCompleteCollection_def
      handleTransferCreatorship_def handleTransferOwnership_def Let_def split: option.split prod.split)

lemma handleAddItem_cases:
  assumes "handleAddItem e rpc b a i ci rs s = Inr s'"
  obtains (skip) "s' = s"
  | (added) c fee item ms ws es where "mget (ps_collections s) a = Some c"
      "creation_fee e rpc b (mget rs (ci_rarity ci)) = Inr fee"
      "refresh_metadata (new_item e b a i ci (c\<lparr>col_itemsCount := col_itemsCount c + 1\<rparr>) fee)
         (ps_metadatas s) (ps_wearables s) (ps_emotes s) = (item, ms, ws, es)"
      "s' = s\<lparr>ps_collections := mset (ps_collections s) a (c\<lparr>col_itemsCount := col_itemsCount c + 1\<rparr>),
         ps_metadatas := ms, ps_wearables := ws, ps_emotes := es,
         ps_counts := snd (with_count POLYGON
           (\<lambda>n. n\<lparr>cnt_daoEarningsManaTotal := cnt_daoEarningsManaTotal n + fee\<rparr>)
           (snd (buildCountFromItem (ps_counts s) POLYGON))),
         ps_analytics := (let d = getOrCreateAnalyticsDayData (seconds b) (ps_analytics s) POLYGON in
           mset (ps_analytics s) (add_id d) (d\<lparr>add_daoEarnings := add_daoEarnings d + fee\<rparr>)),
         ps_items := mset (ps_items s) (getItemId a (toStr i)) item\<rparr>"
proof (cases "mget (ps_collections s) a")
  case None
  then show ?thesis using assms that(1) by (simp add: handleAddItem_def)
next
  case (Some c)
  with assms obtain fee where fee: "creation_fee e rpc b (mget rs (ci_rarity ci)) = Inr fee"
    by (auto simp: handleAddItem_def Let_def bindR_eq_Inr)
  obtain item ms ws es where
    meta: "refresh_metadata (new_item e b a i ci (c\<lparr>col_itemsCount := col_itemsCount c + 1\<rparr>) fee)
         (ps_metadatas s) (ps_wearables s) (ps_emotes s) = (item, ms, ws, es)"
    using prod_cases4 by blast
  show ?thesis using that(2) [OF Some fee meta] assms Some fee meta by (simp add: handleAddItem_def Let_def)
qed

lemma handleAddItem_market:
  assumes "handleAddItem e rpc b a i ci rs s = Inr s'"
  shows "same_market s s'"
  using assms by (cases rule: handleAddItem_cases) (simp_all add: same_market_def)

lemma same_market_book: "same_market s s' \<Longrightarrow> poly_book s \<Longrightarrow> poly_book s'"
  by (auto simp: same_market_def intro: poly_book_same)

lemmas collection_handlers_book = collection_handlers_market [THEN same_market_book]

lemmas poly_book_handlers =
  poly_handleOrderCreated_book poly_handleOrderSuccessful_book poly_handleOrderCancelled_book
  poly_handleBidCreated_book poly_handleBidAccepted_book poly_handleBidCancelled_book
  handleTransferNFT_book handleIssue_book

lemma poly_dispatch_book:
  assumes "poly_book s" and "poly_event_ok e s q" and "poly_dispatch e rpc s q = Inr s'"
  shows "poly_book s'"
proof (cases "\<exists>ev. pq_event q = Pe_Traded ev")
  case True
  then show ?thesis
    using assms poly_handleTraded_book [OF assms(1)]
    by (auto simp: poly_dispatch_def with_transaction_def poly_event_ok_def split: option.splits)
next
  case False
  with assms show ?thesis
  by (cases "pq_event q")
     (auto simp: poly_dispatch_def dispatch_market_def dispatch_issue_def with_transaction_def
       poly_handleTransfer_def poly_event_ok_def Let_def split: if_splits option.splits
       intro: poly_book_handlers collection_handlers_book
         same_market_book [OF handleAddItem_market])
qed

interpretation poly_orders: batch "poly_dispatch e rpc" poly_book "poly_event_ok e" for e rpc
  by unfold_locales (rule poly_dispatch_book)


text \<open>A node that answers every contract read, and a collection with one item.\<close>

definition sample_poly_rpc :: poly_rpc where
  "sample_poly_rpc =
     \<lparr>pr_ownerOf = (\<lambda>h a t. Inr ''0xowner''), pr_owner = (\<lambda>h a. Inr ''0xowner''),
      pr_collection = (\<lambda>h a. Inl TypeError), pr_totalSupply = (\<lambda>h a i. Inr 0),
      pr_raritiesCount = (\<lambda>h a. Inr 0), pr_rarities = (\<lambda>h a i. Inl RangeError),
      pr_rarityByName = (\<lambda>h a n. Inl RangeError), pr_fee = (\<lambda>h a. Inr 25000),
      pr_feeOwner = (\<lambda>h a. Inr ''0xdao''), pr_ownerCutPerMillion = (\<lambda>h a. Inr 25000),
      pr_feesCollectorCutPerMillion = (\<lambda>h a. Inr 25000), pr_feesCollector = (\<lambda>h a. Inr ''0xdao''),
      pr_royaltiesCutPerMillion = (\<lambda>h a. Inr 25000), pr_feeCollector = (\<lambda>h a. Inr ''0xdao''),
      pr_feeRate = (\<lambda>h a. Inr 25000), pr_royaltiesRate = (\<lambda>h a. Inr 25000),
      pr_tryAggregate = (\<lambda>h cs. Inr [])\<rparr>"

definition poly_sample_block :: "int \<Rightarrow> block" where
  "poly_sample_block h = \<lparr>blk_height = h, blk_timestamp = 1000 * h, blk_hash = ''0xb''\<rparr>"

definition sample_collection :: Collection where
  "sample_collection = new_collection sample_env (poly_sample_block 1) ''0xc'' False None None
     \<lparr>cd_name = ''c'', cd_symbol = ''C'', cd_owner = ''0xo'', cd_creator = ''0xo'',
      cd_isCompleted = True, cd_isApproved = True, cd_isEditable = False, cd_baseURI = ''u'',
      cd_chainId = 137\<rparr>"

definition sample_poly_state :: poly_state where
  "sample_poly_state = poly_empty
     \<lparr>ps_collections := [(''0xc'', sample_collection\<lparr>col_itemsCount := 1\<rparr>)],
      ps_items := [(''0xc-0'', (sample_item ''0xc-0'' ''m'' ''epic'')
        \<lparr>itm_totalSupply := 0, itm_maxSupply := 2, itm_available := 2\<rparr>)]\<rparr>"

definition poly_sample_queued :: "poly_event \<Rightarrow> string \<Rightarrow> int \<Rightarrow> poly_queued" where
  "poly_sample_queued ev a h =
     (let lg = \<lparr>il_transactionIndex = 0, il_address = a, il_topics = [], il_logIndex = h,
               pl_event = ev, pl_txHash = ''0xt'', pl_transaction = None\<rparr>
      in \<lparr>pq_event = ev, pq_block = \<lparr>pb_header = poly_sample_block h, pb_logs = [lg]\<rparr>, pq_log = lg,
          pq_transaction = None, pq_rarities = None\<rparr>)"

definition poly_sample_history :: "poly_queued list" where
  "poly_sample_history =
     [poly_sample_queued (Pe_Issue \<lparr>ie_beneficiary = ''0xa'', ie_tokenId = 5, ie_itemId = 0,
        ie_issuedId = 1, ie_caller = ''0xo''\<rparr>) ''0xc'' 1,
      poly_sample_queued (Pe_OrderCreated \<lparr>oc_id = ''o1'', oc_assetId = 5, oc_seller = ''0xa'',
        oc_nftAddress = ''0xc'', oc_priceInWei = 70, oc_expiresAt = 7\<rparr>) ''0xm'' 2,
      poly_sample_queued (Pe_OrderCreated \<lparr>oc_id = ''o2'', oc_assetId = 5, oc_seller = ''0xa'',
        oc_nftAddress = ''0xc'', oc_priceInWei = 90, oc_expiresAt = 7\<rparr>) ''0xm'' 3]"


end
