(* ===== verification/Poly_Ledger.thy ===== *)
theory Poly_Ledger
  imports Poly_Book
begin

text \<open>
  The bookkeeping of the Polygon processor. As on Ethereum a sale is recorded in the sale rows, the
  counters, the analytics of its day and the accounts of buyer and seller, here with the price split
  between seller, royalties and fees. One handler path counts a sale without recording it: when the
  item or the token is not known, \<^verbatim>\<open>trackSale\<close> returns after the counter has been increased. The
  counter is therefore only known not to lag behind.
\<close>

section \<open>The ledger of a Polygon state\<close>

definition poly_ledger_ok :: "poly_state \<Rightarrow> bool" where
  "poly_ledger_ok s = ledger_ok POLYGON (ps_counts s) (ps_sales s) (ps_analytics s) (ps_accounts s)"

definition poly_ledger :: "poly_state \<Rightarrow> ledger_view" where
  "poly_ledger s = ledger POLYGON (ps_counts s) (ps_sales s) (ps_analytics s) (ps_accounts s)"

text \<open>Royalties are unsigned in the contracts.\<close>

definition nonneg :: "int option \<Rightarrow> bool" where
  "nonneg v = (case v of None \<Rightarrow> True | Some r \<Rightarrow> 0 \<le> r)"

definition royalties_ok :: "poly_module \<Rightarrow> bool" where
  "royalties_ok m \<longleftrightarrow>
     nonneg (fd_royaltiesCutPerMillion (pm_marketplaceV2 m)) \<and>
     nonneg (fd_royaltiesCutPerMillion (pm_bidV2 m)) \<and>
     nonneg (vd_royaltiesRate (pm_marketplaceV3 m))"

text \<open>
  What a run adds to the ledger: nothing but sales that were counted and not recorded. \<open>L\<close> is the
  ledger before, \<open>M\<close> after.
\<close>

definition only_overcounts :: "ledger_view \<Rightarrow> ledger_view \<Rightarrow> bool" where
  "only_overcounts L M \<longleftrightarrow>
     lv_count_sales L \<le> lv_count_sales M \<and>
     (lv_count_sales L = lv_count_sales M \<longrightarrow> lv_count_mana L = lv_count_mana M) \<and>
     lv_day_sales M = lv_day_sales L \<and> lv_day_volume M = lv_day_volume L \<and>
     lv_purchases M = lv_purchases L \<and> lv_spent M = lv_spent L \<and>
     lv_sales M = lv_sales L \<and> lv_earned M = lv_earned L"

lemma only_overcounts_refl [simp]: "only_overcounts L L"
  by (simp add: only_overcounts_def)

definition poly_booked :: "ledger_view \<Rightarrow> poly_state \<Rightarrow> bool" where
  "poly_booked L s \<longleftrightarrow>
     poly_ledger_ok s \<and> royalties_ok (ps_module s) \<and> only_overcounts L (poly_ledger s)"

section \<open>Steps that record no sale\<close>

definition quiet :: "poly_state \<Rightarrow> poly_state \<Rightarrow> bool" where
  "quiet s s' \<longleftrightarrow>
     (poly_ledger_ok s \<longrightarrow> poly_ledger_ok s' \<and> poly_ledger s' = poly_ledger s) \<and>
     ps_module s' = ps_module s"

lemma quiet_refl [simp]: "quiet s s"
  by (simp add: quiet_def)

lemma quiet_trans [trans]: "quiet s t \<Longrightarrow> quiet t u \<Longrightarrow> quiet s u"
  by (auto simp: quiet_def)

lemma quiet_booked: "poly_booked L s \<Longrightarrow> quiet s s' \<Longrightarrow> poly_booked L s'"
  by (auto simp: quiet_def poly_booked_def)

text \<open>What a step may do to the three kinds of totals without recording a sale.\<close>

definition count_kept :: "counts \<Rightarrow> counts \<Rightarrow> bool" where
  "count_kept c c' \<longleftrightarrow> (counts_keyed c \<longrightarrow>
     counts_keyed c' \<and> cnt_salesTotal (buildCount c' POLYGON) = cnt_salesTotal (buildCount c POLYGON) \<and>
     cnt_salesManaTotal (buildCount c' POLYGON) = cnt_salesManaTotal (buildCount c POLYGON))"

definition accounts_kept :: "accounts \<Rightarrow> accounts \<Rightarrow> bool" where
  "accounts_kept m m' \<longleftrightarrow> (mwf m \<longrightarrow>
     mwf m' \<and> msum acc_purchases m' = msum acc_purchases m \<and> msum acc_spent m' = msum acc_spent m \<and>
     msum acc_sales m' = msum acc_sales m \<and> msum acc_earned m' = msum acc_earned m)"

definition days_kept :: "analytics \<Rightarrow> analytics \<Rightarrow> bool" where
  "days_kept m m' \<longleftrightarrow> (mwf m \<and> analytics_keyed m \<longrightarrow>
     mwf m' \<and> analytics_keyed m' \<and> msum add_sales m' = msum add_sales m \<and>
     msum add_volume m' = msum add_volume m)"

lemma kept_refl [simp]: "count_kept c c" "accounts_kept m m" "days_kept d d"
  by (simp_all add: count_kept_def accounts_kept_def days_kept_def)

lemma kept_trans:
  "count_kept c c' \<Longrightarrow> count_kept c' c'' \<Longrightarrow> count_kept c c''"
  "accounts_kept m m' \<Longrightarrow> accounts_kept m' m'' \<Longrightarrow> accounts_kept m m''"
  by (auto simp: count_kept_def accounts_kept_def)

lemma quietI:
  assumes "count_kept (ps_counts s) (ps_counts s')" and "accounts_kept (ps_accounts s) (ps_accounts s')"
    and "days_kept (ps_analytics s) (ps_analytics s')" and "ps_sales s' = ps_sales s"
    and "ps_module s' = ps_module s"
  shows "quiet s s'"
  using assms
  by (auto simp: quiet_def poly_ledger_ok_def poly_ledger_def ledger_ok_def ledger_def sales_numbered_def
      count_kept_def accounts_kept_def days_kept_def)

lemma count_kept_with:
  assumes "quiet_count f"
  shows "count_kept c (snd (with_count POLYGON f c))" and "count_kept c (set_count (with_count POLYGON f c))"
proof -
  note id = quiet_countD(1) [OF assms]
  show "count_kept c (snd (with_count POLYGON f c))"
    by (simp add: count_kept_def counts_keyed_with_count id buildCount_snd_with_count quiet_countD [OF assms])
  show "count_kept c (set_count (with_count POLYGON f c))"
    by (auto simp: count_kept_def counts_keyed_set_with_count id buildCount_set_with_count
        quiet_countD [OF assms])
qed

lemma accounts_kept_update:
  "quiet_account f \<Longrightarrow> accounts_kept m (update_account m a net f)"
  by (auto simp: accounts_kept_def msum_update_account quiet_account_def)

lemma days_kept_earnings:
  fixes m :: analytics and t fee :: int
  defines "d \<equiv> getOrCreateAnalyticsDayData t m POLYGON"
  shows "days_kept m (mset m (add_id d) (d\<lparr>add_daoEarnings := add_daoEarnings d + fee\<rparr>))"
proof -
  have "analytics_keyed m \<Longrightarrow> mget m (dayId t POLYGON) = Some u \<Longrightarrow> add_id u = dayId t POLYGON" for u
    by (simp add: analytics_keyed_def)
  then show ?thesis
    by (auto simp: days_kept_def msum_mset d_def getOrCreateAnalyticsDayData_def split: option.split)
qed

lemma quiet_counts [simp]:
  "quiet_count (count_split ty price f c)"
  "quiet_count (\<lambda>n. n\<lparr>cnt_daoEarningsManaTotal := cnt_daoEarningsManaTotal n + fee\<rparr>)"
  "quiet_count (\<lambda>c. c\<lparr>cnt_itemTotal := cnt_itemTotal c + 1\<rparr>)"
  "quiet_count (\<lambda>c. c\<lparr>cnt_bidTotal := cnt_bidTotal c + 1\<rparr>)"
  "quiet_count (\<lambda>c. c\<lparr>cnt_collectionTotal := cnt_collectionTotal c + 1\<rparr>)"
  "quiet_count (\<lambda>c. c\<lparr>cnt_primarySalesTotal := cnt_primarySalesTotal c + 1,
     cnt_primarySalesManaTotal := cnt_primarySalesManaTotal c + price\<rparr>)"
  "quiet_count (\<lambda>c. c\<lparr>cnt_secondarySalesTotal := cnt_secondarySalesTotal c + 1,
     cnt_secondarySalesManaTotal := cnt_secondarySalesManaTotal c + price\<rparr>)"
  "quiet_count (\<lambda>c. (count_nft_category cat c)\<lparr>cnt_nftTotal := cnt_nftTotal (count_nft_category cat c) + 1\<rparr>)"
  "quiet_count (\<lambda>c. count_order_category cat' (c\<lparr>cnt_orderTotal := cnt_orderTotal c + 1\<rparr>))"
  by (simp_all add: quiet_count_def count_split_def count_nft_category_def count_order_category_def)

lemma quiet_accounts [simp]:
  "quiet_account curate"
  "quiet_account (\<lambda>a. a\<lparr>acc_collections := acc_collections a + 1\<rparr>)"
  by (simp_all add: quiet_account_def curate_def)

lemmas count_kept_quiet [simp] = quiet_counts [THEN count_kept_with(1)] quiet_counts [THEN count_kept_with(2)]

lemmas accounts_kept_quiet [simp] =
  accounts_kept_update [OF quiet_account_id] quiet_accounts [THEN accounts_kept_update]

section \<open>Sales\<close>

lemma buildCount_sale_counts:
  fixes ty :: saleType and price f :: int and c :: cuts
  assumes "counts_keyed counts" and "mget counts (countId POLYGON) \<noteq> None"
  defines "counts' \<equiv> sale_counts ty price f c counts"
  shows "counts_keyed counts'"
    and "cnt_salesTotal (buildCount counts' POLYGON) = cnt_salesTotal (buildCount counts POLYGON)"
    and "cnt_salesManaTotal (buildCount counts' POLYGON) = cnt_salesManaTotal (buildCount counts POLYGON)"
proof -
  have keyed: "counts_keyed (snd (with_count POLYGON (count_split ty price f c) counts))" for ty
    using assms(1) quiet_countD(1) [OF quiet_counts(1)] by (rule counts_keyed_with_count)
  show "counts_keyed counts'"
    unfolding counts'_def sale_counts_def Let_def buildCountFromPrimarySale_def buildCountFromSecondarySale_def
    by (auto intro!: counts_keyed_with_count [OF keyed])
  show "cnt_salesTotal (buildCount counts' POLYGON) = cnt_salesTotal (buildCount counts POLYGON)"
    "cnt_salesManaTotal (buildCount counts' POLYGON) = cnt_salesManaTotal (buildCount counts POLYGON)"
    unfolding counts'_def sale_counts_def Let_def buildCountFromPrimarySale_def buildCountFromSecondarySale_def
    by (simp_all add: buildCount_snd_with_count count_split_def)
qed

lemma record_sale_booked:
  assumes ok: "poly_booked L s" and rate: "0 \<le> rc" and "price \<noteq> 0"
    and s': "s' = record_sale ty buyer owner seller bn k price fc col rc t tx j item n n' (counted price s)"
  shows "poly_booked L s'"
proof -
  let ?c = "split_price price fc rc item" and ?f = "total_fees price fc rc"
  define counts1 where "counts1 = set_count (with_count POLYGON (count_sold price) (ps_counts s))"
  define counts' where "counts' = sale_counts ty price ?f ?c counts1"
  define i where "i = saleId (cnt_salesTotal (buildCount counts1 POLYGON)) POLYGON"
  define sale where "sale = poly_sale i ty buyer owner seller bn price col ?c t tx item n"
  define accounts' where "accounts' = sale_accounts ty buyer seller col item price ?f ?c (ps_accounts s)"
  define d where "d = getOrCreateAnalyticsDayData t (ps_analytics s) POLYGON"
  define d' where "d' = poly_updateAnalyticsDayData (ps_analytics s) sale"
  have lok: "ledger_ok POLYGON (ps_counts s) (ps_sales s) (ps_analytics s) (ps_accounts s)"
    using ok by (simp add: poly_booked_def poly_ledger_ok_def)
  then have keyed: "counts_keyed (ps_counts s)" and wf: "mwf (ps_accounts s)"
    by (simp_all add: ledger_ok_def)
  have sold: "cnt_id (count_sold price c) = cnt_id c" for c by (simp add: count_sold_def)
  have c1: "counts_keyed counts1" "mget counts1 (countId POLYGON) \<noteq> None"
    "buildCount counts1 POLYGON = count_sold price (buildCount (ps_counts s) POLYGON)"
    unfolding counts1_def using counts_keyed_set_with_count [OF keyed sold]
    by (simp_all add: set_with_count [OF keyed sold] buildCount_set_with_count [OF keyed sold])
  note c' = buildCount_sale_counts [OF c1(1,2), of ty price ?f ?c, folded counts'_def]
  have accounts: "mwf accounts'"
    "msum acc_purchases accounts' = msum acc_purchases (ps_accounts s) + 1"
    "msum acc_spent accounts' = msum acc_spent (ps_accounts s) + price"
    "msum acc_sales accounts' = msum acc_sales (ps_accounts s) + 1"
    "msum acc_earned accounts' = msum acc_earned (ps_accounts s) + price"
    using cuts_total [OF rate, of price fc item] cut_royalties_unpaid [OF rate, of price fc item]
    unfolding accounts'_def msum_sale_accounts [OF wf] by (auto simp: wf)
  have day: "add_id d' = add_id d" "add_sales d' = add_sales d + 1" "add_volume d' = add_volume d + price"
    by (simp_all add: d'_def d_def poly_updateAnalyticsDayData_def sale_def poly_sale_def Let_def)
  have i: "i = saleId (cnt_salesTotal (buildCount counts' POLYGON)) POLYGON" by (simp add: i_def c'(2))
  have sale: "sal_price sale = price" by (simp add: sale_def poly_sale_def)
  have "ps_counts s' = counts'" "ps_sales s' = mset (ps_sales s) i sale"
    "ps_analytics s' = mset (ps_analytics s) (add_id d') d'" "ps_accounts s' = accounts'"
    "ps_module s' = ps_module s"
    unfolding s' record_sale_def Let_def
    by (simp_all add: counts1_def counts'_def i_def sale_def d'_def accounts'_def)
  moreover note ledger_sale [OF lok c'(1) _ _ i sale d_def day accounts]
  ultimately show ?thesis
    using ok c'(2,3) c1(3) by (simp add: poly_booked_def poly_ledger_ok_def poly_ledger_def count_sold_def)
qed

text \<open>The path on which a sale is counted and not recorded.\<close>

lemma counted_booked:
  assumes ok: "poly_booked L s"
  shows "poly_booked L (counted price s)"
proof -
  have lok: "ledger_ok POLYGON (ps_counts s) (ps_sales s) (ps_analytics s) (ps_accounts s)"
    using ok by (simp add: poly_booked_def poly_ledger_ok_def)
  then have keyed: "counts_keyed (ps_counts s)" by (simp add: ledger_ok_def)
  define counts1 where "counts1 = set_count (with_count POLYGON (count_sold price) (ps_counts s))"
  have sold: "cnt_id (count_sold price c) = cnt_id c" for c by (simp add: count_sold_def)
  have c1: "counts_keyed counts1"
    "buildCount counts1 POLYGON = count_sold price (buildCount (ps_counts s) POLYGON)"
    unfolding counts1_def using counts_keyed_set_with_count [OF keyed sold]
    by (simp_all add: buildCount_set_with_count [OF keyed sold])
  have "sales_numbered POLYGON counts1 (ps_sales s)"
    using lok unfolding ledger_ok_def sales_numbered_def c1(2) by (fastforce simp: count_sold_def)
  with lok c1 have "poly_ledger_ok (counted price s)"
    by (simp add: poly_ledger_ok_def counts1_def [symmetric] ledger_ok_def)
  moreover have "only_overcounts L (poly_ledger (counted price s))"
    using ok by (simp add: poly_booked_def poly_ledger_def ledger_def counts1_def [symmetric] c1(2)
        only_overcounts_def count_sold_def)
  ultimately show ?thesis using ok by (simp add: poly_booked_def)
qed

lemma poly_trackSale_booked:
  assumes ok: "poly_booked L s" and rate: "0 \<le> rc"
    and run: "poly_trackSale rpc b ty buyer seller bn i k price fc col rc t tx s = Inr s'"
  shows "poly_booked L s'"
  using run
proof (cases rule: poly_trackSale_cases)
  case free
  then show ?thesis using ok by simp
next
  case unknown
  then show ?thesis using counted_booked [OF ok] by simp
next
  case (sold n n' j item owner)
  then show ?thesis using record_sale_booked [OF ok rate] by blast
qed

section \<open>The handlers\<close>

lemma createOrLoad_kept [simp]: "accounts_kept m (snd (createOrLoadAccount m a net))"
  by (simp add: createOrLoadAccount_update)

text \<open>A step that is quiet up to a sale.\<close>

lemma quiet_trackSale_booked:
  assumes "poly_booked L s" and "quiet s s1" and "0 \<le> rc"
    and "poly_trackSale rpc b ty buyer seller bn i k price fc col rc t tx s1 = Inr s'"
  shows "poly_booked L s'"
  using poly_trackSale_booked [OF quiet_booked [OF assms(1,2)] assms(3,4)] .

text \<open>The state after the token and its owner are stored, and the four ways a mint can go on.\<close>

definition minted_state ::
  "issue_event \<Rightarrow> block \<Rightarrow> string \<Rightarrow> Collection \<Rightarrow> string \<Rightarrow> Item \<Rightarrow> poly_state \<Rightarrow> poly_state" where
  "minted_state ev b a c j item s =
     (let k = getNFTId a (toStr (ie_tokenId ev)) None;
          account = account_at (ps_accounts s) (ie_beneficiary ev) POLYGON;
          nft = setNFTSearchFields (minted_nft k ev b a c j item (account_refer account)) (ps_metadatas s)
      in s\<lparr>ps_accounts := mset (ps_accounts s) (accountId (ie_beneficiary ev) POLYGON) account,
           ps_counts := set_count (buildCountFromNFT nft (ps_counts s) POLYGON),
           ps_nfts := mset (ps_nfts s) k (nft\<lparr>nft_network := Some POLYGON\<rparr>)\<rparr>)"

lemma handleMintNFT_cases:
  assumes "handleMintNFT e rpc ev b h a j item sd traded s = Inr s'"
  obtains (unknown) "s' = s"
  | (unpriced) c where "s' = minted_state ev b a c j item s"
  | (free) c mints where "s' = (minted_state ev b a c j item s)\<lparr>ps_mints := mints\<rparr>"
  | (sold) c bn price fee feeOwner hh s2 mints where
      "poly_trackSale rpc b Sale_mint (ie_beneficiary ev) (itm_creator item) bn (itm_id item)
         (getNFTId a (toStr (ie_tokenId ev)) None) price fee feeOwner 0 (seconds b) hh
         (minted_state ev b a c j item s) = Inr s2"
      "s' = s2\<lparr>ps_mints := mints\<rparr>"
proof (cases "mget (ps_collections s) a")
  case None
  then show ?thesis using assms that(1) by (simp add: handleMintNFT_def Let_def)
next
  case (Some c)
  let ?s1 = "minted_state ev b a c j item s"
  show ?thesis
  proof (cases "sd_fee sd = None \<or> sd_feeOwner sd = None")
    case True
    then have "s' = ?s1" using assms Some
      by (auto simp: handleMintNFT_def minted_state_def Let_def createOrLoadAccount_eq split: option.splits)
    then show ?thesis by (rule that(2))
  next
    case False
    then obtain fee feeOwner where fee: "sd_fee sd = Some fee" "sd_feeOwner sd = Some feeOwner" by auto
    note run = assms [unfolded handleMintNFT_def Let_def Some createOrLoadAccount_eq, simplified,
        unfolded fee, simplified]
    then obtain price bn where terms: "mint_terms e (ie_caller ev) item traded = Inr (price, bn)"
      by (auto simp: bindR_eq_Inr)
    show ?thesis
    proof (cases "isStoreMinter e (ie_caller ev)")
      case True
      with run terms obtain hh s2 mints where
        "poly_trackSale rpc b Sale_mint (ie_beneficiary ev) (itm_creator item) bn (itm_id item)
           (getNFTId a (toStr (ie_tokenId ev)) None) price fee feeOwner 0 (seconds b) hh ?s1 = Inr s2"
        "s' = s2\<lparr>ps_mints := mints\<rparr>"
        by (auto simp: minted_state_def Let_def bindR_eq_Inr)
      then show ?thesis by (rule that(4))
    next
      case False
      with run terms obtain mints where "s' = ?s1\<lparr>ps_mints := mints\<rparr>"
        by (auto simp: minted_state_def Let_def)
      then show ?thesis by (rule that(3))
    qed
  qed
qed

lemma minted_state_quiet: "quiet s (minted_state ev b a c j item s)"
  by (rule quietI) (simp_all add: minted_state_def Let_def buildCountFromNFT_def mset_account_at)

lemma handleMintNFT_booked:
  assumes ok: "poly_booked L s" and run: "handleMintNFT e rpc ev b h a j item sd traded s = Inr s'"
  shows "poly_booked L s'"
  using run
proof (cases rule: handleMintNFT_cases)
  case (sold c bn price fee feeOwner hh s2 mints)
  have "poly_booked L s2" using quiet_trackSale_booked [OF ok minted_state_quiet _ sold(1)] by simp
  then show ?thesis unfolding sold(2) by (rule quiet_booked) (rule quietI; simp)
next
  case (free c mints)
  have "quiet (minted_state ev b a c j item s) s'" unfolding free by (rule quietI) simp_all
  then show ?thesis using quiet_booked [OF ok] quiet_trans [OF minted_state_quiet] by blast
qed (use ok quiet_booked [OF ok minted_state_quiet] in simp_all)

lemma handleIssue_booked:
  assumes "poly_booked L s" and "handleIssue e rpc a ev b h sd traded s = Inr s'"
  shows "poly_booked L s'"
proof (cases "mget (ps_items s) (getItemId a (toStr (ie_itemId ev)))")
  case None
  then show ?thesis using assms by (simp add: handleIssue_def Let_def)
next
  case (Some old)
  have "poly_booked L (s\<lparr>ps_items := items\<rparr>)" for items
    by (rule quiet_booked [OF assms(1)], rule quietI) simp_all
  then show ?thesis
    using assms(2) Some by (auto simp: handleIssue_def Let_def intro: handleMintNFT_booked)
qed

lemma handleTransferNFT_quiet: "quiet s (handleTransferNFT a ev b h s)"
proof (cases "mget (ps_nfts s) (getNFTId a (toStr (te_tokenId ev)) None)")
  case None
  then show ?thesis by (simp add: handleTransferNFT_def Let_def)
next
  case (Some nft)
  then show ?thesis
    by (intro quietI) (simp_all add: handleTransferNFT_def Let_def createOrLoadAccount_eq mset_account_at
        split: prod.split)
qed

lemma order_fees_royalties:
  "royalties_ok m \<Longrightarrow> order_fees e m order = Some (fc, col, rc) \<Longrightarrow> 0 \<le> rc"
  by (auto simp: order_fees_def royalties_ok_def nonneg_def split: if_splits option.splits)

lemma booked_royalties: "poly_booked L s \<Longrightarrow> royalties_ok (ps_module s)"
  by (simp add: poly_booked_def)

lemma poly_handleOrderSuccessful_booked:
  assumes ok: "poly_booked L s" and run: "poly_handleOrderSuccessful e rpc ev b h s = Inr s'"
  shows "poly_booked L s'"
proof -
  have q: "quiet s (s\<lparr>ps_orders := orders, ps_nfts := nfts\<rparr>)" "quiet s (s\<lparr>ps_orders := orders\<rparr>)"
    for orders nfts by (rule quietI; simp)+
  show ?thesis
    using run ok
    by (auto simp: poly_handleOrderSuccessful_def Let_def split: option.splits
        dest: order_fees_royalties [OF booked_royalties [OF ok]]
        intro: quiet_booked [OF ok q(1)] quiet_booked [OF ok q(2)]
        elim!: quiet_trackSale_booked [OF ok q(1), rotated])
qed

lemma poly_handleBidAccepted_booked:
  assumes ok: "poly_booked L s" and run: "poly_handleBidAccepted rpc ev b h s = Inr s'"
  shows "poly_booked L s'"
proof -
  have q: "quiet s (s\<lparr>ps_bids := bids, ps_nfts := nfts\<rparr>)" for bids nfts by (rule quietI; simp)
  have "nonneg (fd_royaltiesCutPerMillion (pm_bidV2 (ps_module s)))"
    using booked_royalties [OF ok] by (simp add: royalties_ok_def)
  then show ?thesis
    using run ok
    by (auto simp: poly_handleBidAccepted_def Let_def nonneg_def split: option.splits if_splits
        intro: quiet_booked [OF ok q(1)] elim!: quiet_trackSale_booked [OF ok q(1), rotated])
qed

lemma trade_erc721_booked:
  assumes ok: "poly_booked L s" and rate: "0 \<le> rr"
    and run: "trade_erc721 e rpc ev td b h fr fc rr s = Inr s'"
  shows "poly_booked L s'"
proof -
  have q: "quiet s (s\<lparr>ps_nfts := nfts\<rparr>)" for nfts by (rule quietI; simp)
  show ?thesis
    using run ok
    by (auto simp: trade_erc721_def Let_def split: option.splits
        intro: quiet_booked [OF ok q] elim!: quiet_trackSale_booked [OF ok q rate])
qed

lemma trade_item_booked:
  assumes ok: "poly_booked L s" and run: "trade_item e rpc ev td bd tx fr fc s = Inr s'"
  shows "poly_booked L s'"
  using run
proof (cases rule: trade_item_cases)
  case skip
  then show ?thesis using ok by simp
next
  case (issued itemId l consumed issued event)
  have "quiet s (s\<lparr>ps_consumedIssueLogs := consumed\<rparr>)" by (rule quietI) simp_all
  then show ?thesis using handleIssue_booked [OF quiet_booked [OF ok] issued(6)] by blast
qed

text \<open>The royalties rate of the third marketplace is read from the contract.\<close>

definition rates_unsigned :: "poly_rpc \<Rightarrow> bool" where
  "rates_unsigned rpc \<longleftrightarrow> (\<forall>h a r. pr_royaltiesRate rpc h a = Inr r \<longrightarrow> 0 \<le> r)"

lemma getMarketplaceV3ContractData_rate:
  assumes "rates_unsigned rpc" and "nonneg (vd_royaltiesRate d)"
    and "getMarketplaceV3ContractData e rpc b d = Inr (c, f, r, d')"
  shows "0 \<le> r" and "nonneg (vd_royaltiesRate d')"
  using assms
  by (auto simp: getMarketplaceV3ContractData_def nonneg_def rates_unsigned_def Let_def bindR_eq_Inr
      split: option.splits)

lemma poly_handleTraded_booked:
  assumes rpc: "rates_unsigned rpc" and ok: "poly_booked L s"
    and run: "poly_handleTraded e rpc ev bd tx s = Inr s'"
  shows "poly_booked L s'"
proof (cases "getTradeEventData e ev POLYGON")
  case None
  then show ?thesis using run ok unfolding poly_handleTraded_def None by simp
next
  case (Some td)
  with run obtain c f r d' where
    v3: "getMarketplaceV3ContractData e rpc (pb_header bd) (pm_marketplaceV3 (ps_module s)) = Inr (c, f, r, d')"
    by (auto simp: poly_handleTraded_def bindR_eq_Inr)
  have "nonneg (vd_royaltiesRate (pm_marketplaceV3 (ps_module s)))"
    using booked_royalties [OF ok] by (simp add: royalties_ok_def)
  note rate = getMarketplaceV3ContractData_rate [OF rpc this v3]
  have "poly_booked L (s\<lparr>ps_module := (ps_module s)\<lparr>pm_marketplaceV3 := d'\<rparr>\<rparr>)"
    using ok rate(2) by (simp add: poly_booked_def poly_ledger_ok_def poly_ledger_def royalties_ok_def)
  then show ?thesis
    using run rate(1) by (auto simp: poly_handleTraded_def Some v3 Let_def split: if_splits
        intro: trade_erc721_booked trade_item_booked)
qed

text \<open>The other market handlers.\<close>

lemma poly_handleOrderCreated_quiet: "quiet s (poly_handleOrderCreated ev b a h s)"
  by (rule quietI) (simp_all add: poly_handleOrderCreated_def buildCountFromOrder_def Let_def split: option.split)

lemma poly_handleOrderCancelled_quiet: "quiet s (poly_handleOrderCancelled ev b s)"
  by (rule quietI) (simp_all add: poly_handleOrderCancelled_def Let_def split: option.split)

lemma poly_handleBidCancelled_quiet: "quiet s (poly_handleBidCancelled ev b s)"
  by (rule quietI) (simp_all add: poly_handleBidCancelled_def Let_def split: option.split)

lemma poly_handleBidCreated_quiet:
  assumes "poly_handleBidCreated ev b a s = Inr s'"
  shows "quiet s s'"
  by (rule quietI; use assms in \<open>auto simp: poly_handleBidCreated_def buildCountFromBid_def Let_def
      bindR_eq_Inr split: option.splits\<close>)

text \<open>The collection handlers.\<close>

lemma collection_handlers_quiet:
  "quiet s (handleSetGlobalMinter e a minter value b s)"
  "quiet s (handleSetGlobalManager a manager value s)"
  "quiet s (handleSetItemMinter e a i minter n b s)"
  "quiet s (handleSetItemManager a i manager value s)"
  "quiet s (handleUpdateItemData a ui b s)"
  "quiet s (handleSetEditable a value s)"
  "quiet s (handleCompleteCollection a s)"
  "quiet s (handleTransferCreatorship a manager b s)"
  "quiet s (handleTransferOwnership a manager b s)"
  by (rule quietI; simp add: handleSetGlobalMinter_def handleSetGlobalManager_def
      handleSetItemMinter_def handleSetItemManager_def handleUpdateItemData_def
      handleSetEditable_def handleCompleteCollection_def
      handleTransferCreatorship_def handleTransferOwnership_def Let_def split: option.split prod.split)+

lemma handleSetApproved_quiet: "quiet s (handleSetApproved e a value b tx s)"
  by (rule quietI) (simp_all add: handleSetApproved_def Let_def split: option.split)

lemma handleRescueItem_quiet: "quiet s (handleRescueItem e ri b a l tx s)"
  by (rule quietI) (simp_all add: handleRescueItem_def Let_def split: option.split prod.split)

lemma handleAddItem_quiet:
  assumes "handleAddItem e rpc b a i ci rs s = Inr s'"
  shows "quiet s s'"
  using assms
proof (cases rule: handleAddItem_cases)
  case skip
  then show ?thesis by simp
next
  case (added c fee item ms ws es)
  show ?thesis
    unfolding added(4) by (rule quietI)
      (simp_all add: Let_def days_kept_earnings buildCountFromItem_def
        kept_trans(1) [OF count_kept_with(1) count_kept_with(1)])
qed

lemma create_collection_quiet:
  assumes "create_collection e rpc pre s fe = Inr s'"
  shows "quiet s s'"
  by (rule quietI; use assms in \<open>auto simp: create_collection_def handleCollectionCreation_def
      buildCountFromCollection_def bindR_eq_Inr\<close>)

lemmas poly_quiet_handlers =
  poly_handleOrderCreated_quiet poly_handleOrderCancelled_quiet poly_handleBidCancelled_quiet
  handleSetApproved_quiet handleRescueItem_quiet handleTransferNFT_quiet collection_handlers_quiet

lemma poly_dispatch_booked:
  assumes "rates_unsigned rpc" and ok: "poly_booked L s" and "poly_dispatch e rpc s q = Inr s'"
  shows "poly_booked L s'"
  using assms
  by (cases "pq_event q")
     (auto simp: poly_dispatch_def dispatch_market_def dispatch_issue_def with_transaction_def
       poly_handleTransfer_def Let_def split: if_splits option.splits
       intro: poly_quiet_handlers [THEN quiet_booked [OF ok]]
         quiet_booked [OF ok handleAddItem_quiet] quiet_booked [OF ok poly_handleBidCreated_quiet]
         handleIssue_booked poly_handleTraded_booked poly_handleOrderSuccessful_booked
         poly_handleBidAccepted_booked)

section \<open>The whole batch\<close>

interpretation poly_books: batch "poly_dispatch e rpc" "\<lambda>s. rates_unsigned rpc \<and> poly_booked L s" "\<lambda>_ _. True"
  for e rpc L
  by unfold_locales (blast intro: poly_dispatch_booked)

interpretation factory_books: batch "create_collection e rpc prefetched" "poly_booked L" "\<lambda>_ _. True"
  for e rpc prefetched L
  by unfold_locales (blast intro: quiet_booked create_collection_quiet)

lemma member_step_booked: "poly_booked L s \<Longrightarrow> poly_booked L (member_step s p)"
  by (erule quiet_booked, rule quietI)
     (simp_all add: member_step_def handleMemeberSet_def accounts_kept_update quiet_account_def)

lemma member_steps_booked: "poly_booked L s \<Longrightarrow> poly_booked L (foldl member_step s ps)"
  by (induction ps arbitrary: s) (simp_all add: member_step_booked)

text \<open>
  C3: the books of the Polygon processor. Handling the queues of a whole batch, whatever the events
  are, books every recorded sale exactly once: the analytics of the days and the purchases,
  expenses, sales and earnings of all accounts grow by exactly the number and the total price of the
  sale rows the batch adds, however each price was split between seller, creator and fees collector,
  and no sale row is overwritten. The global counter never lags behind the sale rows, and where its
  number of sales is exact its volume is exact too. The royalty rates the contracts report are
  unsigned.
\<close>

theorem poly_batch_books_every_sale:
  assumes "poly_ledger_ok s" and "royalties_ok (ps_module s)" and "rates_unsigned rpc"
    and "poly_handle_queues e rpc prefetched sc s = Inr s'"
  shows "poly_ledger_ok s' \<and> only_overcounts (poly_ledger s) (poly_ledger s')"
proof -
  from assms(4) obtain s1 s2 where
    run: "foldR (create_collection e rpc prefetched) s (pc_factory sc) = Inr s1"
      "foldR (poly_dispatch e rpc) s1 (pc_events sc) = Inr s2"
      "s' = foldl member_step s2 (pc_committee sc)"
    by (auto simp: poly_handle_queues_def bindR_eq_Inr)
  have "poly_booked (poly_ledger s) s" using assms(1,2) by (simp add: poly_booked_def)
  from factory_books.run_inv [OF this ok_run_True run(1)]
  have "poly_booked (poly_ledger s) s1" .
  with poly_books.run_inv [OF _ ok_run_True run(2)] assms(3)
  have "poly_booked (poly_ledger s) s2" by blast
  then have "poly_booked (poly_ledger s) s'" unfolding run(3) by (rule member_steps_booked)
  then show ?thesis by (simp add: poly_booked_def)
qed

definition poly_sale_queue :: poly_scan where
  "poly_sale_queue = (poly_getBatchInMemoryState [] [] poly_module_init)
     \<lparr>pc_events :=
       [poly_sample_queued (Pe_OrderSuccessful \<lparr>os_id = ''o1'', os_assetId = 5, os_seller = ''0xa'',
          os_nftAddress = ''0xc'', os_totalPrice = 90, os_buyer = ''0xb''\<rparr>) ''0xm'' 4]\<rparr>"

definition poly_sale_state :: poly_state where
  "poly_sale_state =
     sample_poly_state
       \<lparr>ps_nfts := [(''0xc-5'', (new_NFT ''0xc-5'' None)\<lparr>nft_item := Some (SharedItem ''0xc-0''),
          nft_sales := Some 0, nft_volume := Some 0\<rparr>)],
        ps_orders := [(''o1'', poly_order_of_event \<lparr>oc_id = ''o1'', oc_assetId = 5, oc_seller = ''0xa'',
          oc_nftAddress = ''0xc'', oc_priceInWei = 90, oc_expiresAt = 7\<rparr> (poly_sample_block 2) ''0xm''
          ''0xt'' (new_NFT ''0xc-5'' None))],
        ps_module := poly_module_init\<lparr>pm_marketplaceV2 := \<lparr>fd_feesCollectorCutPerMillion = Some 25000,
          fd_feesCollector = Some ''0xdao'', fd_royaltiesCutPerMillion = Some 25000\<rparr>\<rparr>\<rparr>"

theorem poly_batch_books_every_sale_witness:
  "\<exists>s'. poly_handle_queues sample_env sample_poly_rpc [] poly_sale_queue poly_sale_state = Inr s' \<and>
     map (\<lambda>(k, sale). (k, sal_price sale)) (ps_sales s') = [(''1-POLYGON'', 90)] \<and>
     msum acc_earned (ps_accounts s') = 90 \<and> poly_ledger_ok s' \<and>
     only_overcounts (poly_ledger poly_sale_state) (poly_ledger s')"
proof -
  let ?run = "poly_handle_queues sample_env sample_poly_rpc [] poly_sale_queue poly_sale_state"
  have "case ?run of Inl err \<Rightarrow> False
    | Inr s' \<Rightarrow> map (\<lambda>(k, sale). (k, sal_price sale)) (ps_sales s') = [(''1-POLYGON'', 90)] \<and>
                msum acc_earned (ps_accounts s') = 90"
    by code_simp
  then obtain s' where run: "?run = Inr s'"
    and sales: "map (\<lambda>(k, sale). (k, sal_price sale)) (ps_sales s') = [(''1-POLYGON'', 90)]"
      "msum acc_earned (ps_accounts s') = 90"
    by (auto split: sum.splits)
  have "poly_ledger_ok poly_sale_state"
    by (simp add: poly_ledger_ok_def ledger_ok_def poly_sale_state_def sample_poly_state_def poly_empty_def
        counts_keyed_def analytics_keyed_def sales_numbered_def)
  moreover have "royalties_ok (ps_module poly_sale_state)"
    by (simp add: royalties_ok_def nonneg_def poly_sale_state_def poly_module_init_def)
  moreover have "rates_unsigned sample_poly_rpc" by (simp add: rates_unsigned_def sample_poly_rpc_def)
  ultimately have "poly_ledger_ok s' \<and> only_overcounts (poly_ledger poly_sale_state) (poly_ledger s')"
    using poly_batch_books_every_sale run by blast
  then show ?thesis using run sales by (intro exI [of _ s'] conjI) auto
qed

text \<open>
  A sale whose item or token the processor does not know is counted and not recorded: the number
  of sales and the volume of the counter grow, and no sale row, account or daily row changes.
\<close>

lemma poly_trackSale_unknown_item:
  assumes "price \<noteq> 0" and "mget (ps_nfts s) nftId = None"
  shows "poly_trackSale rpc b ty buyer seller beneficiary itemId nftId price fee feeOwner royalties t tx s =
    Inr (s\<lparr>ps_counts := set_count (with_count POLYGON
      (\<lambda>c. c\<lparr>cnt_salesTotal := cnt_salesTotal c + 1, cnt_salesManaTotal := cnt_salesManaTotal c + price\<rparr>)
      (ps_counts s))\<rparr>)"
  using assms by (simp add: poly_trackSale_def count_sold_def [abs_def] Let_def split: option.split)

end
