(* ===== verification/Poly_Items.thy ===== *)
theory Poly_Items
  imports Poly_Ledger
begin

text \<open>
  The items of the Polygon collections: token ids pack item and issue number, the supply columns of
  every item stay consistent through all events, and the flags that collection-wide events copy to
  the items of the collection.
\<close>

unbundle bit_operations_syntax

section \<open>Token ids\<close>

lemma pack_disjoint:
  fixes i j :: int
  assumes "0 \<le> j" and "j < 2 ^ n"
  shows "push_bit n i OR j = i * 2 ^ n + j"
proof -
  have "take_bit n j = j" using assms by (simp add: take_bit_int_eq_self)
  then show ?thesis
    using concat_bit_eq [of n j i] by (simp add: concat_bit_def or.commute push_bit_eq_mult)
qed

text \<open>
  C32: token ids of issued items. For item ids of 40 bits and issue numbers of 216 bits the encoding
  succeeds, fits into 256 bits, and item id and issue number are read back from its upper 40 and
  lower 216 bits; in particular different pairs have different token ids.
\<close>

theorem encodeTokenId_roundtrip:
  assumes "0 \<le> itemId" and "itemId < 2 ^ 40" and "0 \<le> issuedId" and "issuedId < 2 ^ 216"
  shows "\<exists>t. poly_encodeTokenId itemId issuedId = Inr t \<and> 0 \<le> t \<and> t < 2 ^ 256 \<and>
    drop_bit 216 t = itemId \<and> take_bit 216 t = issuedId"
proof -
  let ?t = "itemId * 2 ^ 216 + issuedId"
  have "poly_encodeTokenId itemId issuedId = Inr ?t"
    using assms
    by (simp add: poly_encodeTokenId_def MAX_ITEM_ID_def MAX_ISSUED_ID_def pack_disjoint)
  moreover have "itemId * 2 ^ 216 \<le> (2 ^ 40 - 1) * 2 ^ 216"
    using assms(2) by (intro mult_right_mono) auto
  then have "0 \<le> ?t \<and> ?t < 2 ^ 256" using assms by simp
  moreover have "drop_bit 216 ?t = itemId" "take_bit 216 ?t = issuedId"
    using assms by (simp_all add: drop_bit_eq_div take_bit_eq_mod)
  ultimately show ?thesis by blast
qed

theorem encodeTokenId_roundtrip_witness:
  "\<exists>t. poly_encodeTokenId 3 7 = Inr t \<and> drop_bit 216 t = 3 \<and> take_bit 216 t = 7"
  using encodeTokenId_roundtrip [of 3 7] by auto

text \<open>
  The bound on the issue number does not protect the packing. It admits 240 bits where the field
  has 216: an accepted issue number of 217 bits changes the item id of the token, and the same token
  id is given to two pairs.
\<close>

lemma encodeTokenId_collision:
  assumes "0 \<le> itemId" and "even itemId" and "itemId < 2 ^ 40" and "0 \<le> n" and "n < 2 ^ 216"
  shows "\<exists>t. poly_encodeTokenId itemId (2 ^ 216 + n) = Inr t \<and> poly_encodeTokenId (itemId + 1) n = Inr t"
proof -
  have "2 ^ 216 + n = push_bit 216 1 OR n" using pack_disjoint [OF assms(4,5), of 1] by simp
  moreover have "itemId OR 1 = itemId + 1" using assms(2) by (simp add: or_one_eq)
  ultimately have "push_bit 216 itemId OR (2 ^ 216 + n) = push_bit 216 (itemId + 1) OR n"
    by (metis or.assoc push_bit_or)
  moreover have "itemId + 1 \<le> MAX_ITEM_ID" "2 ^ 216 + n \<le> MAX_ISSUED_ID"
    using assms by (auto simp: MAX_ITEM_ID_def MAX_ISSUED_ID_def elim!: evenE)
  ultimately show ?thesis using assms by (simp add: poly_encodeTokenId_def)
qed

section \<open>The supply of items\<close>

text \<open>
  The columns of an item the other components read: its id, the three supply columns and the
  collectors.
\<close>

definition item_view :: "Item \<Rightarrow> string \<times> int \<times> int \<times> int \<times> string list \<times> int" where
  "item_view item = (itm_id item, itm_available item, itm_totalSupply item, itm_maxSupply item,
     itm_uniqueCollectors item, itm_uniqueCollectorsTotal item)"

definition item_ok :: "string \<Rightarrow> Item \<Rightarrow> bool" where
  "item_ok k item \<longleftrightarrow>
     itm_id item = k \<and> itm_available item + itm_totalSupply item = itm_maxSupply item \<and>
     distinct (itm_uniqueCollectors item) \<and>
     itm_uniqueCollectorsTotal item = int (length (itm_uniqueCollectors item))"

definition items_ok :: "poly_state \<Rightarrow> bool" where
  "items_ok s \<longleftrightarrow> (\<forall>k item. mget (ps_items s) k = Some item \<longrightarrow> item_ok k item)"

lemma items_okD: "items_ok s \<Longrightarrow> mget (ps_items s) k = Some item \<Longrightarrow> item_ok k item"
  by (simp add: items_ok_def)

text \<open>Most steps leave these columns of every item alone.\<close>

definition items_kept :: "items \<Rightarrow> items \<Rightarrow> bool" where
  "items_kept m m' \<longleftrightarrow> (\<forall>k. map_option item_view (mget m' k) = map_option item_view (mget m k))"

lemma items_kept_refl [simp]: "items_kept m m"
  by (simp add: items_kept_def)

lemma items_kept_mset:
  "mget m k = Some item \<Longrightarrow> item_view item' = item_view item \<Longrightarrow> items_kept m (mset m k item')"
  by (simp add: items_kept_def)

lemma items_kept_mmodify: "(\<And>item. item_view (f item) = item_view item) \<Longrightarrow> items_kept m (mmodify m k f)"
  by (simp add: items_kept_def option.map_comp comp_def cong: option.map_cong)

lemma items_kept_trans: "items_kept m m' \<Longrightarrow> items_kept m' m'' \<Longrightarrow> items_kept m m''"
  by (simp add: items_kept_def)

lemma items_kept_each:
  assumes "\<And>i item. item_view (f i item) = item_view item"
  shows "items_kept m (each_item f a n m)"
proof -
  have "items_kept m (foldl (\<lambda>m i. mmodify m (getItemId a (toStr i)) (f i)) m is)" for "is" m
    by (induction "is" arbitrary: m)
       (simp, simp, rule items_kept_trans [OF items_kept_mmodify [OF assms]])
  then show ?thesis by (simp add: each_item_def)
qed

lemma item_ok_view: "item_view item' = item_view item \<Longrightarrow> item_ok k item' \<longleftrightarrow> item_ok k item"
  by (simp add: item_view_def item_ok_def)

lemma items_kept_ok: "items_ok s \<Longrightarrow> items_kept (ps_items s) (ps_items s') \<Longrightarrow> items_ok s'"
  unfolding items_ok_def items_kept_def
  by (metis item_ok_view map_option_eq_Some option.inject)

lemma items_ok_mset:
  "items_ok s \<Longrightarrow> item_ok k item \<Longrightarrow> ps_items s' = mset (ps_items s) k item \<Longrightarrow> items_ok s'"
  by (auto simp: items_ok_def split: if_splits)

text \<open>Updates of other columns.\<close>

lemma item_view_frame [simp]:
  "item_view (item\<lparr>itm_searchIsStoreMinter := v1\<rparr>) = item_view item"
  "item_view (item\<lparr>itm_searchIsMarketplaceV3Minter := v1\<rparr>) = item_view item"
  "item_view (item\<lparr>itm_firstListedAt := v2\<rparr>) = item_view item"
  "item_view (item\<lparr>itm_minters := v3\<rparr>) = item_view item"
  "item_view (item\<lparr>itm_managers := v3\<rparr>) = item_view item"
  "item_view (item\<lparr>itm_updatedAt := v4\<rparr>) = item_view item"
  "item_view (item\<lparr>itm_reviewedAt := v4\<rparr>) = item_view item"
  "item_view (item\<lparr>itm_creator := v5\<rparr>) = item_view item"
  "item_view (item\<lparr>itm_searchIsCollectionApproved := v6\<rparr>) = item_view item"
  "item_view (item\<lparr>itm_rawMetadata := v5\<rparr>) = item_view item"
  "item_view (item\<lparr>itm_contentHash := v7\<rparr>) = item_view item"
  "item_view (item\<lparr>itm_price := v4\<rparr>) = item_view item"
  "item_view (item\<lparr>itm_beneficiary := v5\<rparr>) = item_view item"
  "item_view (item\<lparr>itm_metadata := v7\<rparr>) = item_view item"
  "item_view (item\<lparr>itm_itemType := v8\<rparr>) = item_view item"
  "item_view (item\<lparr>itm_image := v7\<rparr>) = item_view item"
  by (simp_all add: item_view_def)

lemma item_view_setItemSearchFields [simp]: "item_view (setItemSearchFields item ms ws es) = item_view item"
  by (simp add: setItemSearchFields_def setItemWearableSearchFields_def setItemEmoteSearchFields_def
      item_view_def Let_def split: option.split)

lemma refresh_metadata_view:
  "refresh_metadata item ms ws es = (item', ms', ws', es') \<Longrightarrow> item_view item' = item_view item"
  by (auto simp: refresh_metadata_def split: prod.splits)

lemma list_item_view [simp]: "item_view (list_item e minter b item) = item_view item"
  "item_view (unlist_item e i item) = item_view item"
  by (simp_all add: list_item_def unlist_item_def Let_def)

text \<open>The collection handlers.\<close>

lemma collection_handlers_items:
  "items_kept (ps_items s) (ps_items (handleSetGlobalMinter e a minter value b s))"
  "items_kept (ps_items s) (ps_items (handleSetGlobalManager a manager value s))"
  "items_kept (ps_items s) (ps_items (handleSetItemMinter e a i minter n b s))"
  "items_kept (ps_items s) (ps_items (handleSetItemManager a i manager value s))"
  "items_kept (ps_items s) (ps_items (handleSetApproved e a value b tx s))"
  "items_kept (ps_items s) (ps_items (handleSetEditable a value s))"
  "items_kept (ps_items s) (ps_items (handleCompleteCollection a s))"
  "items_kept (ps_items s) (ps_items (handleTransferCreatorship a manager b s))"
  "items_kept (ps_items s) (ps_items (handleTransferOwnership a manager b s))"
  by (auto simp: handleSetGlobalMinter_def handleSetGlobalManager_def
      handleSetItemMinter_def handleSetItemManager_def handleSetApproved_def handleSetEditable_def
      handleCompleteCollection_def handleTransferCreatorship_def handleTransferOwnership_def Let_def
      split: option.split intro!: items_kept_each items_kept_mset items_kept_mmodify)

lemma metadata_handlers_items:
  "items_kept (ps_items s) (ps_items (handleRescueItem e ri b a l tx s))"
  "items_kept (ps_items s) (ps_items (handleUpdateItemData a ui b s))"
  by (auto simp: handleRescueItem_def handleUpdateItemData_def Let_def
      split: option.split prod.split dest!: refresh_metadata_view intro!: items_kept_mset)

lemma market_handlers_items:
  "ps_items (poly_handleOrderCreated ev b a h s) = ps_items s"
  "ps_items (poly_handleOrderCancelled xv b s) = ps_items s"
  "ps_items (poly_handleBidCancelled bv b s) = ps_items s"
  "ps_items (handleTransferNFT a tv b h s) = ps_items s"
  by (simp_all add: poly_handleOrderCreated_def poly_handleOrderCancelled_def poly_handleBidCancelled_def
      handleTransferNFT_def Let_def split: option.split prod.split)

lemma poly_handleBidCreated_items:
  "poly_handleBidCreated ev b a s = Inr s' \<Longrightarrow> ps_items s' = ps_items s"
  by (auto simp: poly_handleBidCreated_def Let_def bindR_eq_Inr split: option.splits)

text \<open>Sales change the collectors, issues the supply.\<close>

lemma item_sold_ok: "item_ok k item \<Longrightarrow> item_ok k (item_sold buyer price t item)"
  by (auto simp: item_ok_def item_sold_def updateUniqueCollectorsSet_def Let_def)

lemma poly_trackSale_items:
  assumes ok: "items_ok s"
    and run: "poly_trackSale rpc b ty buyer seller bn i k price fc col rc t tx s = Inr s'"
  shows "items_ok s'"
  using run
proof (cases rule: poly_trackSale_cases)
  case (sold n n' j item owner)
  then show ?thesis using items_okD [OF ok sold(4)] by (intro items_ok_mset [OF ok item_sold_ok]) simp_all
qed (use ok in \<open>simp_all add: items_ok_def\<close>)

lemma items_ok_same: "items_ok s \<Longrightarrow> ps_items s' = ps_items s \<Longrightarrow> items_ok s'"
  by (simp add: items_ok_def)

lemma handleMintNFT_items:
  assumes ok: "items_ok s" and run: "handleMintNFT e rpc ev b h a j item sd traded s = Inr s'"
  shows "items_ok s'"
proof -
  have m: "items_ok (minted_state ev b a c j item s)" for c
    by (rule items_ok_same [OF ok]) (simp add: minted_state_def Let_def)
  from run show ?thesis
  proof (cases rule: handleMintNFT_cases)
    case (sold c bn price fee feeOwner hh s2 mints)
    then show ?thesis using poly_trackSale_items [OF m sold(1)] by (auto intro: items_ok_same)
  qed (use ok m in \<open>simp_all add: items_ok_def\<close>)
qed

lemma handleIssue_items:
  assumes ok: "items_ok s" and run: "handleIssue e rpc a ev b h sd traded s = Inr s'"
  shows "items_ok s'"
proof (cases "mget (ps_items s) (getItemId a (toStr (ie_itemId ev)))")
  case None
  then show ?thesis using assms by (simp add: handleIssue_def Let_def)
next
  case (Some old)
  let ?item = "old\<lparr>itm_available := itm_available old - 1, itm_totalSupply := itm_totalSupply old + 1\<rparr>"
  have "items_ok (s\<lparr>ps_items := mset (ps_items s) (getItemId a (toStr (ie_itemId ev))) ?item\<rparr>)"
    using items_okD [OF ok Some] by (intro items_ok_mset [OF ok]) (auto simp: item_ok_def)
  then show ?thesis using run Some by (auto simp: handleIssue_def Let_def intro: handleMintNFT_items)
qed

lemma items_ok_updates:
  assumes "items_ok s"
  shows "items_ok (s\<lparr>ps_orders := orders\<rparr>)" and "items_ok (s\<lparr>ps_nfts := nfts\<rparr>)"
    and "items_ok (s\<lparr>ps_orders := orders, ps_nfts := nfts\<rparr>)"
    and "items_ok (s\<lparr>ps_bids := bids, ps_nfts := nfts\<rparr>)"
    and "items_ok (s\<lparr>ps_consumedIssueLogs := ls\<rparr>)" and "items_ok (s\<lparr>ps_module := m\<rparr>)"
  using assms by (simp_all add: items_ok_def)

lemma poly_handleOrderSuccessful_items:
  assumes "items_ok s" and "poly_handleOrderSuccessful e rpc ev b h s = Inr s'"
  shows "items_ok s'"
  using assms
  by (auto simp: poly_handleOrderSuccessful_def Let_def split: option.splits
      elim!: poly_trackSale_items [rotated] intro: items_ok_updates)

lemma poly_handleBidAccepted_items:
  assumes "items_ok s" and "poly_handleBidAccepted rpc ev b h s = Inr s'"
  shows "items_ok s'"
  using assms
  by (auto simp: poly_handleBidAccepted_def Let_def split: option.splits if_splits
      elim!: poly_trackSale_items [rotated] intro: items_ok_updates)

lemma trade_erc721_items:
  assumes "items_ok s" and "trade_erc721 e rpc ev td b h fr fc rr s = Inr s'"
  shows "items_ok s'"
  using assms
  by (auto simp: trade_erc721_def Let_def split: option.splits
      elim!: poly_trackSale_items [rotated] intro: items_ok_updates)

lemma trade_item_items:
  assumes "items_ok s" and "trade_item e rpc ev td bd tx fr fc s = Inr s'"
  shows "items_ok s'"
  using assms(2)
proof (cases rule: trade_item_cases)
  case (issued itemId l consumed issued event)
  show ?thesis using handleIssue_items [OF items_ok_updates(5) [OF assms(1)] issued(6)] .
qed (use assms(1) in simp)

lemma poly_handleTraded_items:
  assumes "items_ok s" and "poly_handleTraded e rpc ev bd tx s = Inr s'"
  shows "items_ok s'"
proof (cases "getTradeEventData e ev POLYGON")
  case None
  then show ?thesis using assms unfolding poly_handleTraded_def None by simp
next
  case (Some td)
  then show ?thesis
    using assms(2) items_ok_updates(6) [OF assms(1)]
    by (auto simp: poly_handleTraded_def Let_def bindR_eq_Inr split: if_splits
        intro: trade_erc721_items trade_item_items)
qed

lemma handleAddItem_items:
  assumes ok: "items_ok s" and fresh: "ci_totalSupply ci = 0"
    and run: "handleAddItem e rpc b a i ci rs s = Inr s'"
  shows "items_ok s'"
  using run
proof (cases rule: handleAddItem_cases)
  case (added c fee item ms ws es)
  have "item_ok (getItemId a (toStr i)) item"
    unfolding item_ok_view [OF refresh_metadata_view [OF added(3)]]
    using fresh by (simp add: item_ok_def new_item_def Let_def)
  then show ?thesis by (rule items_ok_mset [OF ok]) (simp add: added(4))
qed (use ok in simp)

text \<open>A collection contract adds items with no token issued.\<close>

definition item_event_ok :: "poly_state \<Rightarrow> poly_queued \<Rightarrow> bool" where
  "item_event_ok s q = (case pq_event q of Pe_AddItem i ci \<Rightarrow> ci_totalSupply ci = 0 | _ \<Rightarrow> True)"

lemma poly_dispatch_items:
  assumes ok: "items_ok s" and "item_event_ok s q" and "poly_dispatch e rpc s q = Inr s'"
  shows "items_ok s'"
  using assms
  by (cases "pq_event q")
     (auto simp: poly_dispatch_def dispatch_market_def dispatch_issue_def with_transaction_def
       poly_handleTransfer_def item_event_ok_def Let_def split: if_splits option.splits
       intro: collection_handlers_items [THEN items_kept_ok [OF ok]]
         metadata_handlers_items [THEN items_kept_ok [OF ok]]
         market_handlers_items [THEN items_ok_same [OF ok]]
         items_ok_same [OF ok poly_handleBidCreated_items]
         handleAddItem_items handleIssue_items poly_handleTraded_items poly_handleOrderSuccessful_items
         poly_handleBidAccepted_items)

interpretation poly_supply: batch "poly_dispatch e rpc" items_ok item_event_ok for e rpc
  by unfold_locales (rule poly_dispatch_items)

text \<open>
  C9: the item rows stay well formed. Handling any queue of events, where new items are announced
  with no token issued, keeps every item under its id, the available and the issued tokens of every
  item adding up to its maximal supply, and its collectors a list without duplicates whose length is
  the stored total.
\<close>

theorem poly_queue_keeps_items:
  assumes "items_ok s" and "ok_run (poly_dispatch e rpc) item_event_ok s qs"
    and "foldR (poly_dispatch e rpc) s qs = Inr s'" and "mget (ps_items s') k = Some item"
  shows "itm_id item = k \<and> itm_available item + itm_totalSupply item = itm_maxSupply item \<and>
    distinct (itm_uniqueCollectors item) \<and>
    itm_uniqueCollectorsTotal item = int (length (itm_uniqueCollectors item))"
  using items_okD [OF poly_supply.run_inv [OF assms(1-3)] assms(4)] by (simp add: item_ok_def)

theorem poly_queue_keeps_items_witness:
  "\<exists>s' item. foldR (poly_dispatch sample_env sample_poly_rpc) sample_poly_state (take 1 poly_sample_history) = Inr s' \<and>
     mget (ps_items s') ''0xc-0'' = Some item \<and> itm_totalSupply item = 1 \<and> itm_available item = 1 \<and>
     itm_available item + itm_totalSupply item = itm_maxSupply item"
proof -
  let ?run = "foldR (poly_dispatch sample_env sample_poly_rpc) sample_poly_state (take 1 poly_sample_history)"
  have "case ?run of Inl err \<Rightarrow> False
    | Inr s' \<Rightarrow> map_option (\<lambda>item. (itm_totalSupply item, itm_available item)) (mget (ps_items s') ''0xc-0'') =
                Some (1, 1)"
    by code_simp
  then obtain s' item where run: "?run = Inr s'" and item: "mget (ps_items s') ''0xc-0'' = Some item"
    "itm_totalSupply item = 1" "itm_available item = 1"
    by (auto split: sum.splits)
  have "items_ok sample_poly_state"
    by (auto simp: items_ok_def item_ok_def sample_poly_state_def poly_empty_def sample_item_def mget_Cons
        split: if_splits)
  moreover have "ok_run (poly_dispatch sample_env sample_poly_rpc) item_event_ok sample_poly_state
      (take 1 poly_sample_history)"
    by (simp add: poly_sample_history_def poly_sample_queued_def item_event_ok_def Let_def split: sum.split)
  ultimately show ?thesis using poly_queue_keeps_items [OF _ _ run item(1)] run item by blast
qed

section \<open>Flags of a whole collection\<close>

text \<open>What a loop over the items of a collection does to each item.\<close>

lemma mget_each_item:
  assumes "0 \<le> i"
  shows "mget (each_item f a n m) (getItemId a (toStr i)) =
    map_option (if i < n then f i else id) (mget m (getItemId a (toStr i)))"
proof -
  have "mget (foldl (\<lambda>m i. mmodify m (getItemId a (toStr i)) (f i)) m (map int [0..<l])) (getItemId a (toStr i)) =
    map_option (if i < int l then f i else id) (mget m (getItemId a (toStr i)))" for l
    using assms
    by (induction l) (auto simp: getItemId_def option.map_id)
  from this [of "nat n"] show ?thesis using assms by (auto simp: each_item_def)
qed

lemma mget_each_item_other:
  assumes "\<And>i. 0 \<le> i \<Longrightarrow> i < n \<Longrightarrow> k \<noteq> getItemId a (toStr i)"
  shows "mget (each_item f a n m) k = mget m k"
proof -
  have "mget (foldl (\<lambda>m i. mmodify m (getItemId a (toStr i)) (f i)) m (map int [0..<l])) k = mget m k"
    if "int l \<le> n" for l
    using that by (induction l) (auto simp: assms [symmetric])
  from this [of "nat n"] show ?thesis by (cases "0 \<le> n") (simp_all add: each_item_def)
qed

text \<open>
  Approving a collection. The collection row and the row of every item of the collection that is
  known get the new approval and the review time; everything else, including every item of any other
  collection, stays as it is. No curation row is added, whatever the transaction was.
\<close>

lemma handleSetApproved_effect:
  fixes e :: env and approved :: bool and b :: block and tx :: poly_tx
  assumes "mget (ps_collections s) a = Some c"
  defines "s' \<equiv> handleSetApproved e a approved b tx s"
  shows "mget (ps_collections s') a =
      Some (c\<lparr>col_isApproved := Some approved, col_updatedAt := seconds b, col_reviewedAt := seconds b\<rparr>) \<and>
    (\<forall>i\<in>{0..<col_itemsCount c}. mget (ps_items s') (getItemId a (toStr i)) =
       map_option (\<lambda>item. item\<lparr>itm_searchIsCollectionApproved := Some approved, itm_reviewedAt := seconds b\<rparr>)
         (mget (ps_items s) (getItemId a (toStr i)))) \<and>
    (\<forall>k. k \<notin> (\<lambda>i. getItemId a (toStr i)) ` {0..<col_itemsCount c} \<longrightarrow>
       mget (ps_items s') k = mget (ps_items s) k) \<and>
    ps_curations s' = ps_curations s"
proof -
  let ?f = "\<lambda>_ item. item\<lparr>itm_searchIsCollectionApproved := Some approved, itm_reviewedAt := seconds b\<rparr>"
  have items: "ps_items s' = each_item ?f a (col_itemsCount c) (ps_items s)"
    by (simp add: s'_def handleSetApproved_def assms(1) Let_def)
  have rows: "mget (ps_collections s') a =
      Some (c\<lparr>col_isApproved := Some approved, col_updatedAt := seconds b, col_reviewedAt := seconds b\<rparr>)"
    "ps_curations s' = ps_curations s"
    by (simp_all add: s'_def handleSetApproved_def assms(1) Let_def)
  have "\<forall>i\<in>{0..<col_itemsCount c}. mget (ps_items s') (getItemId a (toStr i)) =
       map_option (?f i) (mget (ps_items s) (getItemId a (toStr i)))"
    by (auto simp: items mget_each_item)
  moreover have "\<forall>k. k \<notin> (\<lambda>i. getItemId a (toStr i)) ` {0..<col_itemsCount c} \<longrightarrow>
       mget (ps_items s') k = mget (ps_items s) k"
    unfolding items by (intro allI impI mget_each_item_other) auto
  ultimately show ?thesis using rows by blast
qed

text \<open>
  Removing a global minter forgets the minters of single items. The item at position \<open>i\<close> of the
  collection is checked against its \<open>i\<close>th minter only, so an item that has the store among its own
  minters, but no minter at position \<open>i\<close>, is marked as not on sale in the store.
\<close>

lemma global_minter_removal_forgets_item_minters:
  fixes e :: env and b :: block
  assumes "mget (ps_collections s) a = Some c" and "isStoreMinter e minter"
    and "0 \<le> i" and "i < col_itemsCount c"
    and "mget (ps_items s) (getItemId a (toStr i)) = Some item"
    and "pa_CollectionStore (poly_getAddresses e) \<in> set (itm_minters item)"
    and "int (length (itm_minters item)) \<le> i"
  shows "mget (ps_items (handleSetGlobalMinter e a minter False b s)) (getItemId a (toStr i)) =
    Some (item\<lparr>itm_searchIsStoreMinter := False, itm_searchIsMarketplaceV3Minter := False\<rparr>)"
proof -
  have "\<not> nat i < length (itm_minters item)" using assms(3,7) by simp
  then have "unlist_item e i item = item\<lparr>itm_searchIsStoreMinter := False, itm_searchIsMarketplaceV3Minter := False\<rparr>"
    by (simp add: unlist_item_def js_at_def Let_def)
  moreover have "ps_items (handleSetGlobalMinter e a minter False b s) =
      each_item (unlist_item e) a (col_itemsCount c) (ps_items s)"
    by (simp add: handleSetGlobalMinter_def assms(1,2) Let_def)
  ultimately show ?thesis using assms(3-5) by (simp add: mget_each_item)
qed

end
