(* ===== verification/Poly_Batch.thy ===== *)
theory Poly_Batch
  imports Poly_Items
begin

text \<open>
  The ends of a Polygon batch: what is loaded before the handlers run, how the tokens are written in
  two passes, and which gift notifications are sent.
\<close>

section \<open>Writing tokens in two passes\<close>

lemma mset_fresh: "k \<notin> set (map fst m) \<Longrightarrow> mset m k v = m @ [(k, v)]"
  by (induction m) (auto simp: mset_def)

lemma mset_middle: "k \<notin> set (map fst pre) \<Longrightarrow> mset (pre @ (k, u) # post) k v = pre @ (k, v) # post"
  by (induction pre) (auto simp: mset_def)

lemma mget_middle: "k \<notin> set (map fst pre) \<Longrightarrow> mget (pre @ (k, u) # post) k = Some u"
  by (induction pre) (auto simp: mget_def)

definition active_orders :: "nfts \<Rightarrow> (string, string) jsmap" where
  "active_orders nfts = List.map_filter (\<lambda>(k, n). map_option (Pair k) (nft_activeOrder n)) nfts"

definition without_order :: "string \<times> NFT \<Rightarrow> string \<times> NFT" where
  "without_order p = (case p of (k, n) \<Rightarrow> (k, n\<lparr>nft_activeOrder := None\<rparr>))"

lemma detach_orders:
  assumes "mwf nfts" and "\<forall>(k, n)\<in>set nfts. nft_id n = k"
  shows "fst (detach nfts) = active_orders nfts"
proof -
  have "foldl (\<lambda>m n. case nft_activeOrder n of None \<Rightarrow> m | Some i \<Rightarrow> mset m (nft_id n) i) acc (map snd nfts) =
      acc @ active_orders nfts"
    if "set (map fst acc) \<inter> set (map fst nfts) = {}" for acc
    using assms that
  proof (induction nfts arbitrary: acc)
    case Nil
    then show ?case by (simp add: active_orders_def)
  next
    case (Cons p ps)
    then show ?case
      by (cases p; cases "nft_activeOrder (snd p)")
         (auto simp: active_orders_def mwf_def mkeys_def mset_fresh List.map_filter_simps)
  qed
  from this [of "[]"] show ?thesis by (simp add: detach_def mvalues_def)
qed

lemma restore_active:
  assumes "distinct (map fst (pre @ post))"
  shows "foldl (\<lambda>(m, out) (nftId, i).
       case mget m nftId of
         None \<Rightarrow> (m, out)
       | Some n \<Rightarrow> (let n' = n\<lparr>nft_activeOrder := Some i\<rparr> in (mset m nftId n', out @ [n'])))
       (pre @ map without_order post, out) (active_orders post) =
     (pre @ post, out @ filter (\<lambda>n. nft_activeOrder n \<noteq> None) (map snd post))"
  using assms
proof (induction post arbitrary: pre out)
  case Nil
  then show ?case by (simp add: active_orders_def)
next
  case (Cons p post)
  obtain k n where p: "p = (k, n)" by fastforce
  have fresh: "k \<notin> set (map fst pre)" and dist: "distinct (map fst ((pre @ [p]) @ post))"
    using Cons.prems by (auto simp: p)
  show ?case
  proof (cases "nft_activeOrder n")
    case None
    then have "without_order p = p" by (simp add: p without_order_def)
    then show ?thesis
      using Cons.IH [OF dist, of out] None by (simp add: p active_orders_def List.map_filter_simps)
  next
    case (Some i)
    then have same: "n\<lparr>nft_activeOrder := Some i\<rparr> = n" by (cases n) simp
    show ?thesis
      using Cons.IH [OF dist, of "out @ [n]"] Some fresh
      by (simp add: p active_orders_def List.map_filter_simps without_order_def mget_middle mset_middle Let_def same)
  qed
qed

lemma upsert_nfts_twice:
  assumes "mwf nfts" and "\<forall>(k, n)\<in>set nfts. nft_id n = k"
  shows "upsert_nfts nfts =
    (map (\<lambda>n. n\<lparr>nft_activeOrder := None\<rparr>) (mvalues nfts),
     filter (\<lambda>n. nft_activeOrder n \<noteq> None) (mvalues nfts), nfts)"
proof -
  have "snd (detach nfts) = map without_order nfts"
    by (simp add: detach_def without_order_def [abs_def])
  then have "detach nfts = (active_orders nfts, map without_order nfts)"
    using detach_orders [OF assms] by (metis prod.collapse)
  moreover have "restore (active_orders nfts) (map without_order nfts) =
      (nfts, filter (\<lambda>n. nft_activeOrder n \<noteq> None) (mvalues nfts))"
    using restore_active [of "[]" nfts "[]"] assms(1)
    by (simp add: restore_def mvalues_def mwf_def mkeys_def)
  ultimately show ?thesis
    by (simp add: upsert_nfts_def mvalues_def without_order_def comp_def case_prod_beta)
qed

text \<open>
  C14: the two passes that write the tokens. The first one writes every token without an active order,
  so it does not depend on the orders; the second one writes exactly the tokens that have an active
  order, with it; and afterwards the objects of the batch are what they were.
\<close>

theorem upsert_nfts_roundtrip:
  assumes "mwf nfts" and "\<forall>(k, n)\<in>set nfts. nft_id n = k"
  shows "upsert_nfts nfts =
    (map (\<lambda>n. n\<lparr>nft_activeOrder := None\<rparr>) (mvalues nfts),
     filter (\<lambda>n. nft_activeOrder n \<noteq> None) (mvalues nfts), nfts)"
  using assms by (rule upsert_nfts_twice)

theorem upsert_nfts_roundtrip_witness:
  "fst (snd (upsert_nfts [(''n'', (new_NFT ''n'' None)\<lparr>nft_activeOrder := Some ''o''\<rparr>), (''m'', new_NFT ''m'' None)])) =
   [(new_NFT ''n'' None)\<lparr>nft_activeOrder := Some ''o''\<rparr>]"
  using upsert_nfts_roundtrip [of "[(''n'', (new_NFT ''n'' None)\<lparr>nft_activeOrder := Some ''o''\<rparr>),
    (''m'', new_NFT ''m'' None)]"]
  by (simp add: mwf_def mkeys_def mvalues_def new_NFT_def)

section \<open>Gift notifications\<close>

text \<open>The loop over the candidates, from the back.\<close>

lemma gift_loop:
  assumes "foldl (gift_step publish sales floor) ([], floor) cs = (sent, m)"
  shows "set sent = {c \<in> set cs. is_gift sales floor c \<and> publish c} \<and>
    (\<forall>c\<in>set sent. gc_timestamp c \<le> m) \<and> (sent \<noteq> [] \<longrightarrow> floor < m) \<and> floor \<le> m"
  using assms
proof (induction cs arbitrary: sent m rule: rev_induct)
  case Nil
  then show ?case by simp
next
  case (snoc c cs)
  obtain sent0 m0 where before: "foldl (gift_step publish sales floor) ([], floor) cs = (sent0, m0)"
    by fastforce
  have step: "gift_step publish sales floor (sent0, m0) c = (sent, m)" using snoc.prems before by simp
  show ?case
  proof (cases "is_gift sales floor c \<and> publish c")
    case True
    then have "sent = sent0 @ [c]" "m = max m0 (gc_timestamp c)" using step by (auto simp: gift_step_def)
    then show ?thesis using True snoc.IH [OF before] by (fastforce simp: is_gift_def)
  next
    case False
    then have "sent = sent0" "m = m0" using step by (auto simp: gift_step_def)
    then show ?thesis using False snoc.IH [OF before] by auto
  qed
qed

lemmas gift_loopD = gift_loop [THEN conjunct1] gift_loop [THEN conjunct2, THEN conjunct1]
  gift_loop [THEN conjunct2, THEN conjunct2, THEN conjunct1, rule_format]

lemma send_gifts_cases:
  assumes "send_gifts publish sales prev start gifts = (sent, w)"
  obtains m where "foldl (gift_step publish sales (gift_floor prev start)) ([], gift_floor prev start)
      (mvalues gifts) = (sent, m)"
    "w = (if sent \<noteq> [] \<and> (case prev of None \<Rightarrow> 0 | Some t \<Rightarrow> t) < m then Some m else None)"
  using assms that by (auto simp: send_gifts_def Let_def split: prod.splits)


definition sample_gift :: gift_candidate where
  "sample_gift = \<lparr>gc_nftId = ''n'', gc_from = ''0xa'', gc_to = ''0xb'', gc_tokenURI = None,
     gc_timestamp = 9, gc_txHash = ''0xt''\<rparr>"


end
