(* ===== verification/Eth_Store.thy ===== *)
theory Eth_Store
  imports Eth_Ledger Poly_Batch
begin

text \<open>
  Loading and writing on Ethereum: \<^verbatim>\<open>eth/store.ts\<close> and the end of the batch in \<^verbatim>\<open>eth/main.ts\<close>. The
  database is given by its rows; a query returns the rows whose columns have one of the values asked
  for, in the order of the table. The main theorem connects the scan of a batch, the queries and the
  handlers: the row of a token that is traded in a batch is loaded before the handlers run.
\<close>

section \<open>Queries\<close>

text \<open>
  The rows of the tables, each with the relations its query loads. The rows of \<^verbatim>\<open>Data\<close> are selected by
  the relations to parcels and estates, which the entity itself does not carry here.
\<close>

record eth_db =
  ed_accounts :: "Account list"
  ed_parcels :: "Parcel list"
  ed_estates :: "Estate list"
  ed_nfts :: "NFT list"
  ed_orders :: "Order list"
  ed_datas :: "int list \<Rightarrow> int list \<Rightarrow> Data list"
  ed_wearables :: "Wearable list"
  ed_ens :: "ENS list"
  ed_analytics :: "AnalyticsDayData list"
  ed_counts :: "Count list"
  ed_bids :: "Bid list"
  ed_collections :: "Collection list"
  ed_metadatas :: "Metadata list"
  ed_items :: "Item list"

definition with_tokenId :: "('a \<Rightarrow> int option) \<Rightarrow> int list \<Rightarrow> 'a list \<Rightarrow> 'a list" where
  "with_tokenId tokenId ids rows =
     filter (\<lambda>r. case tokenId r of None \<Rightarrow> False | Some t \<Rightarrow> t \<in> set ids) rows"

text \<open>\<^verbatim>\<open>`${tokenId}`\<close> of a column that may be empty.\<close>

definition tokenIdStr :: "int option \<Rightarrow> string" where
  "tokenIdStr t = (case t of None \<Rightarrow> ''null'' | Some i \<Rightarrow> toStr i)"

definition eth_nftIds ::
  "env \<Rightarrow> (string, Estate) jsmap \<Rightarrow> (string, Parcel) jsmap \<Rightarrow> eth_scan \<Rightarrow> string list" where
  "eth_nftIds e estates parcels sc =
     (let addresses = eth_getAddresses e in
      map (\<lambda>r. ''estate-'' @ ea_EstateRegistry addresses @ dash @ tokenIdStr (est_tokenId r)) (mvalues estates) @
      map (\<lambda>r. ''parcel-'' @ ea_LANDRegistry addresses @ dash @ tokenIdStr (par_tokenId r)) (mvalues parcels) @
      flat_ids (sc_tokenIds sc) @
      map (\<lambda>t. ''ens-'' @ ea_DCLRegistrar addresses @ dash @ toStr t) (sc_ensTokenIds sc))"

definition wearablesIds :: "eth_scan \<Rightarrow> string list" where
  "wearablesIds sc = map (\<lambda>i. ''wearable-'' @ i) (flat_ids (sc_tokenIds sc))"

text \<open>\<^verbatim>\<open>id.split("-")[1]\<close>; where there is no second part the id asked for matches no row.\<close>

definition metadataIds :: "eth_scan \<Rightarrow> string list" where
  "metadataIds sc =
     List.map_filter (\<lambda>i. case js_split i dash of _ # x # _ \<Rightarrow> Some x | _ \<Rightarrow> None)
       (concat (mvalues (sc_itemIds sc)))"

definition eth_getStoredData :: "env \<Rightarrow> eth_db \<Rightarrow> eth_scan \<Rightarrow> eth_state" where
  "eth_getStoredData e db sc =
     (let accountIds = map (\<lambda>i. accountId i ETHEREUM) (sc_accountIds sc);
          parcels = toMapById par_id (with_tokenId par_tokenId (sc_landTokenIds sc) (ed_parcels db));
          estates = toMapById est_id (with_tokenId est_tokenId (sc_estateTokenIds sc) (ed_estates db));
          nftIds = eth_nftIds e estates parcels sc;
          itemIds = concat (mvalues (sc_itemIds sc))
      in eth_empty
        \<lparr>es_accounts := toMapById acc_id (filter (\<lambda>r. acc_id r \<in> set accountIds \<and> acc_network r = ETHEREUM) (ed_accounts db)),
         es_parcels := parcels,
         es_estates := estates,
         es_nfts := toMapById nft_id (filter (\<lambda>r. nft_id r \<in> set nftIds \<and> nft_network r = Some ETHEREUM) (ed_nfts db)),
         es_orders := toMapById ord_id (filter (\<lambda>r. ord_nft r \<in> set nftIds \<and> ord_network r = ETHEREUM) (ed_orders db)),
         es_datas := toMapById data_id (ed_datas db (sc_estateTokenIds sc) (sc_landTokenIds sc)),
         es_wearables := toMapById wea_id (filter (\<lambda>r. wea_id r \<in> set (wearablesIds sc) \<and> wea_network r = Some ETHEREUM) (ed_wearables db)),
         es_ens := toMapById ens_id (with_tokenId ens_tokenId (sc_ensTokenIds sc) (ed_ens db)),
         es_analytics := toMapById add_id (filter (\<lambda>r. add_id r \<in> set (sc_analyticsIds sc) \<and> add_network r = ETHEREUM) (ed_analytics db)),
         es_counts := toMapById cnt_id (filter (\<lambda>r. cnt_network r = ETHEREUM) (ed_counts db)),
         es_bids := toMapById bid_id (filter (\<lambda>r. bid_id r \<in> set (sc_bidIds sc) \<and> bid_network r = ETHEREUM) (ed_bids db)),
         es_collections := toMapById col_id (filter (\<lambda>r. col_id r \<in> set (sc_collectionIds sc) \<and> col_network r = ETHEREUM) (ed_collections db)),
         es_metadatas := toMapById met_id (filter (\<lambda>r. met_id r \<in> set (metadataIds sc) \<and> met_network r = ETHEREUM) (ed_metadatas db)),
         es_items := toMapById itm_id (filter (\<lambda>r. (itm_collection r \<in> set (sc_collectionIds sc) \<or> itm_id r \<in> set itemIds) \<and>
             itm_network r = ETHEREUM) (ed_items db))\<rparr>)"

section \<open>A batch\<close>

text \<open>
  The coordinates of the land tokens of the batch are decoded into a map that survives the batch,
  like the token URIs.
\<close>

definition eth_load ::
  "env \<Rightarrow> eth_db \<Rightarrow> (string, string) jsmap \<Rightarrow> coordinates \<Rightarrow> eth_scan \<Rightarrow> eth_state result" where
  "eth_load e db tokenURIs landCoordinates sc =
     (let s = (eth_getStoredData e db sc)\<lparr>es_tokenURIs := tokenURIs, es_coordinates := landCoordinates\<rparr> in
      if sc_landTokenIds sc = [] then Inr s
      else bindR (decodeTokenIdsToCoordinates (sc_landTokenIds sc)) (\<lambda>new.
        Inr (s\<lparr>es_coordinates := foldl (\<lambda>m (k, v). mset m k v) landCoordinates new\<rparr>)))"

definition eth_batch ::
  "env \<Rightarrow> eth_rpc \<Rightarrow> eth_db \<Rightarrow> (string, string) jsmap \<Rightarrow> coordinates \<Rightarrow> int option \<Rightarrow> int option \<Rightarrow>
   eth_block_data list \<Rightarrow> (eth_scan \<times> eth_state) result" where
  "eth_batch e rpc db tokenURIs landCoordinates marketCut bidCut blocks =
     bindR (foldR (scan_block e rpc tokenURIs) (getBatchInMemoryState marketCut bidCut) blocks) (\<lambda>sc.
     bindR (fetch_tokenURIs e rpc (blk_height (bd_header (last blocks))) tokenURIs sc) (\<lambda>(tokenURIs', sc').
     bindR (eth_load e db tokenURIs' landCoordinates sc') (\<lambda>s.
     bindR (handle_queues e rpc sc' s) (\<lambda>s'. Inr (sc', s')))))"

text \<open>
  Writing the tokens: as on Polygon their active orders are taken out for the first pass, but the
  second pass writes all of them again.
\<close>

definition eth_upsert_nfts :: "nfts \<Rightarrow> NFT list \<times> NFT list \<times> nfts" where
  "eth_upsert_nfts nfts =
     (case detach nfts of
        (orderByNFT, first) \<Rightarrow> (case restore orderByNFT first of (nfts', _) \<Rightarrow> (mvalues first, mvalues nfts', nfts')))"

section \<open>What the scan asks for\<close>

text \<open>The token a queued event is about, where its handler looks the token up by its key.\<close>

definition market_token :: "env \<Rightarrow> eth_event \<Rightarrow> (string \<times> int) option" where
  "market_token e ev =
     (case ev of
        Ev_OrderCreated event \<Rightarrow> Some (oc_nftAddress event, oc_assetId event)
      | Ev_OrderSuccessful event \<Rightarrow> Some (os_nftAddress event, os_assetId event)
      | Ev_OrderCancelled event \<Rightarrow> Some (ox_nftAddress event, ox_assetId event)
      | Ev_BidCreated event \<Rightarrow> Some (bc_tokenAddress event, bc_tokenId event)
      | Ev_Traded event \<Rightarrow>
          (case getTradeEventData e event ETHEREUM of
             None \<Rightarrow> None
           | Some td \<Rightarrow> map_option (Pair (td_collectionAddress td)) (td_tokenId td))
      | _ \<Rightarrow> None)"

definition asked :: "env \<Rightarrow> eth_scan \<Rightarrow> string \<times> int \<Rightarrow> bool" where
  "asked e sc p =
     (case p of (a, t) \<Rightarrow>
      let category = getCategory e a in
      if category = Category_parcel then t \<in> set (sc_landTokenIds sc)
      else if category = Category_estate then t \<in> set (sc_estateTokenIds sc)
      else if category = Category_ens then t \<in> set (sc_ensTokenIds sc)
      else (\<exists>ids. mget (sc_tokenIds sc) a = Some ids \<and> t \<in> set ids))"

definition scan_grows :: "eth_scan \<Rightarrow> eth_scan \<Rightarrow> bool" where
  "scan_grows sc sc' \<longleftrightarrow>
     set (sc_landTokenIds sc) \<subseteq> set (sc_landTokenIds sc') \<and>
     set (sc_estateTokenIds sc) \<subseteq> set (sc_estateTokenIds sc') \<and>
     set (sc_ensTokenIds sc) \<subseteq> set (sc_ensTokenIds sc') \<and>
     (\<forall>a ids. mget (sc_tokenIds sc) a = Some ids \<longrightarrow>
        (\<exists>ids'. mget (sc_tokenIds sc') a = Some ids' \<and> set ids \<subseteq> set ids')) \<and>
     sc_market sc' = sc_market sc"

lemma asked_grows: "asked e sc p \<Longrightarrow> scan_grows sc sc' \<Longrightarrow> asked e sc' p"
  by (cases p) (auto simp: asked_def scan_grows_def Let_def split: if_splits; fastforce)

lemma grows_add: "scan_grows sc (addEventToStateIdsBasedOnCategory e a t sc)"
  by (auto simp: scan_grows_def addEventToStateIdsBasedOnCategory_def push_values_def Let_def)

lemma asked_add: "asked e (addEventToStateIdsBasedOnCategory e a t sc) (a, t)"
  by (auto simp: asked_def addEventToStateIdsBasedOnCategory_def push_values_def Let_def)

lemma grows_frame [simp]:
  "scan_grows sc (add_account x sc') = scan_grows sc sc'"
  "scan_grows sc (add_analytics b sc') = scan_grows sc sc'"
  "scan_grows sc (add_bid i sc') = scan_grows sc sc'"
  by (simp_all add: scan_grows_def add_account_def add_analytics_def add_bid_def)

lemma asked_frame [simp]:
  "asked e (add_account x sc) p = asked e sc p"
  "asked e (add_analytics b sc) p = asked e sc p"
  "asked e (add_bid i sc) p = asked e sc p"
  "asked e (enqueue w b lg sc) p = asked e sc p"
  by (simp_all add: asked_def add_account_def add_analytics_def add_bid_def enqueue_def)

definition scan_covered :: "env \<Rightarrow> eth_scan \<Rightarrow> bool" where
  "scan_covered e sc \<longleftrightarrow>
     (\<forall>q \<in> set (sc_market sc). \<forall>p. market_token e (q_event q) = Some p \<longrightarrow> asked e sc p)"

lemma covered_grows: "scan_covered e sc \<Longrightarrow> scan_grows sc sc' \<Longrightarrow> scan_covered e sc'"
  unfolding scan_covered_def using asked_grows by (fastforce simp: scan_grows_def)

lemma covered_enqueue:
  "scan_covered e sc \<Longrightarrow> scan_grows sc sc' \<Longrightarrow>
   (\<And>p. market_token e (log_event lg) = Some p \<Longrightarrow> asked e sc' p) \<Longrightarrow> scan_covered e (enqueue w b lg sc')"
  using covered_grows [of e sc sc'] by (auto simp: scan_covered_def) (auto simp: enqueue_def)

lemma grows_refl [simp]: "scan_grows sc sc"
  by (auto simp: scan_grows_def)

lemma grows_trans: "scan_grows sc1 sc2 \<Longrightarrow> scan_grows sc2 sc3 \<Longrightarrow> scan_grows sc1 sc3"
  unfolding scan_grows_def by (fastforce intro: order_trans)

lemma grows_add_trans:
  "scan_grows sc sc' \<Longrightarrow> scan_grows sc (addEventToStateIdsBasedOnCategory e a t sc')"
  by (rule grows_trans [OF _ grows_add])

lemma grows_other_fields:
  "scan_grows sc (sc\<lparr>sc_collectionIds := cs\<rparr>)"
  "scan_grows sc (sc\<lparr>sc_estateTokenIds := sadd (sc_estateTokenIds sc) t\<rparr>)"
  "scan_grows sc (sc\<lparr>sc_landTokenIds := sadd (sc_landTokenIds sc) t, sc_parcelEvents := ps\<rparr>)"
  "scan_grows sc (sc\<lparr>sc_marketCut := c\<rparr>)" "scan_grows sc (sc\<lparr>sc_bidCut := c\<rparr>)"
  by (auto simp: scan_grows_def)

lemma scan_name_covered: "scan_covered e sc \<Longrightarrow> scan_covered e (scan_name bd lg sc)"
  by (erule covered_grows) (auto simp: scan_grows_def scan_name_def)

lemma scan_transfer_covered:
  assumes "scan_covered e sc" and "log_event lg = Ev_Transfer event"
  shows "scan_covered e (scan_transfer e tokenURIs b lg event sc)"
proof -
  have "scan_covered e (enqueue True b lg sc)"
    using assms by (intro covered_enqueue [OF assms(1)]) (simp_all add: market_token_def)
  moreover have "scan_grows (enqueue True b lg sc) (scan_transfer e tokenURIs b lg event sc)"
    by (auto simp: scan_transfer_def scan_transfer_ids_def scan_grows_def add_account_def enqueue_def
        push_values_def Let_def split: option.split)
  ultimately show ?thesis by (rule covered_grows)
qed

lemma scan_listed_covered:
  assumes "scan_covered e sc" and "market_token e (log_event lg) = Some (a, t)"
  shows "scan_covered e (scan_listed e b lg a t sc)"
  unfolding scan_listed_def using assms grows_add asked_add by (auto intro!: covered_enqueue [OF assms(1)])

lemma scan_traded_covered:
  assumes "scan_covered e sc" and "log_event lg = Ev_Traded event"
  shows "scan_covered e (scan_traded e b lg event sc)"
  using assms(2) grows_add asked_add
  by (auto simp: scan_traded_def market_token_def assms(1) split: option.split intro!: covered_enqueue [OF assms(1)])

lemma scan_log_covered:
  assumes "scan_covered e sc"
  shows "scan_covered e (scan_log e tokenURIs bd sc lg)"
proof (cases "log_event lg")
  case (Ev_Update event)
  then have "market_token e (log_event lg) = None" by (simp add: market_token_def)
  then have "scan_covered e (enqueue False b lg (sc\<lparr>sc_estateTokenIds := sadd (sc_estateTokenIds sc) t\<rparr>))" for b t
    by (intro covered_enqueue [OF assms grows_other_fields(2)]) simp
  with Ev_Update assms show ?thesis
    using covered_grows [OF assms grows_other_fields(3)] by (auto simp: scan_log_def scan_update_def Let_def)
next
  case (Ev_OrderSuccessful event)
  with assms show ?thesis
    using grows_add asked_add
    by (auto simp: scan_log_def scan_sold_def market_token_def Let_def intro!: covered_enqueue [OF assms])
next
  case (Ev_ChangedOwnerCut v)
  with assms show ?thesis
    using covered_grows [OF assms grows_other_fields(4)] covered_grows [OF assms grows_other_fields(5)]
    by (auto simp: scan_log_def scan_cut_def Let_def)
next
  case (Ev_NameBought price)
  have "scan_covered e (add_analytics b sc)" for b by (rule covered_grows [OF assms]) simp
  with Ev_NameBought show ?thesis by (simp add: scan_log_def scan_name_covered)
next
  case (Ev_BidAccepted event)
  with assms show ?thesis
    by (auto simp: scan_log_def scan_accepted_def market_token_def Let_def
        intro!: covered_enqueue [OF assms] grows_add_trans)
next
  case (Ev_BidCancelled event)
  with assms show ?thesis
    by (auto simp: scan_log_def scan_bid_cancelled_def market_token_def Let_def
        intro!: covered_enqueue [OF assms] grows_add_trans)
qed (insert assms, auto simp: scan_log_def scan_land_def market_token_def grows_other_fields Let_def
  intro!: covered_enqueue [OF assms] scan_name_covered scan_transfer_covered scan_listed_covered scan_traded_covered)

lemma read_cut:
  assumes "(if unknown then bindR (throw_if_none TypeError start)
      (\<lambda>(m, c). if P m c then bindR r (\<lambda>v. Inr (f v)) else Inr sc) else Inr sc) = Inr sc'"
  shows "sc' = sc \<or> (\<exists>v. sc' = f v)"
  using assms by (cases start; cases r) (auto split: if_splits)

lemma owner_cuts_grow:
  assumes "getOwnerCutsValues e rpc b sc = Inr sc'"
  shows "scan_grows sc sc'"
proof -
  have "\<exists>sc1. (sc1 = sc \<or> (\<exists>v. sc1 = sc\<lparr>sc_marketCut := Some v\<rparr>)) \<and>
      (sc' = sc1 \<or> (\<exists>v. sc' = sc1\<lparr>sc_bidCut := Some v\<rparr>))"
    using assms unfolding getOwnerCutsValues_def Let_def
    by (subst (asm) bindR_eq_Inr, elim exE conjE) (rule exI, rule conjI, erule read_cut, erule read_cut)
  then show ?thesis by (auto simp: scan_grows_def)
qed

interpretation logs: batch "scan_checked e tokenURIs bd" "scan_covered e" "\<lambda>_ _. True" for e tokenURIs bd
  by unfold_locales (auto simp: scan_checked_def scan_log_covered split: if_splits)

lemma scan_block_covered:
  "scan_covered e sc \<Longrightarrow> scan_block e rpc tokenURIs sc bd = Inr sc' \<Longrightarrow> scan_covered e sc'"
  unfolding scan_block_def bindR_eq_Inr
  by (elim exE conjE) (rule logs.run_inv [OF covered_grows [OF _ owner_cuts_grow] ok_run_True])

interpretation blocks: batch "scan_block e rpc tokenURIs" "scan_covered e" "\<lambda>_ _. True" for e rpc tokenURIs
  by unfold_locales (rule scan_block_covered)

lemma scan_batch_covered:
  "foldR (scan_block e rpc tokenURIs) (getBatchInMemoryState marketCut bidCut) bds = Inr sc \<Longrightarrow> scan_covered e sc"
  by (rule blocks.run_inv [of e "getBatchInMemoryState marketCut bidCut"])
     (simp_all add: scan_covered_def getBatchInMemoryState_def)

section \<open>What is loaded\<close>

lemma toMapById_append: "toMapById key (xs @ [x]) = mset (toMapById key xs) (key x) x"
  by (simp add: toMapById_def)

lemma toMapById_get:
  assumes "inj_on key (set rows)" and "r \<in> set rows"
  shows "mget (toMapById key rows) (key r) = Some r"
  using assms
proof (induction rows rule: rev_induct)
  case (snoc x xs)
  then show ?case by (cases "r \<in> set xs") (auto simp: toMapById_append inj_on_def)
qed simp

lemma inj_on_filter: "inj_on f (set xs) \<Longrightarrow> inj_on f (set (filter P xs))"
  by (auto simp: inj_on_def)

lemma toMapById_value:
  "inj_on key (set rows) \<Longrightarrow> r \<in> set rows \<Longrightarrow> r \<in> set (mvalues (toMapById key rows))"
  by (drule (1) toMapById_get) (force simp: mvalues_def dest: mget_in_set)

lemma with_tokenId_inj: "inj_on f (set xs) \<Longrightarrow> inj_on f (set (with_tokenId g ids xs))"
  unfolding with_tokenId_def by (rule inj_on_filter)

text \<open>
  The database is well formed: rows have different ids, and a token of a LAND or estate contract has
  the row of its parcel or estate.
\<close>

definition land_rows :: "eth_db \<Rightarrow> bool" where
  "land_rows db \<longleftrightarrow>
     inj_on nft_id (set (ed_nfts db)) \<and> inj_on par_id (set (ed_parcels db)) \<and> inj_on est_id (set (ed_estates db))"

definition has_land_row :: "env \<Rightarrow> eth_db \<Rightarrow> string \<Rightarrow> int \<Rightarrow> bool" where
  "has_land_row e db a t \<longleftrightarrow>
     (getCategory e a = Category_parcel \<longrightarrow> (\<exists>r \<in> set (ed_parcels db). par_tokenId r = Some t)) \<and>
     (getCategory e a = Category_estate \<longrightarrow> (\<exists>r \<in> set (ed_estates db). est_tokenId r = Some t))"

definition known_contract :: "env \<Rightarrow> string \<Rightarrow> bool" where
  "known_contract e a \<longleftrightarrow>
     (let addresses = eth_getAddresses e in
      a \<in> {ea_LANDRegistry addresses, ea_EstateRegistry addresses, ea_DCLRegistrar addresses} \<union>
        set (collection_addresses addresses))"

lemma parcel_loaded:
  assumes "land_rows db" and "r \<in> set (ed_parcels db)" and "par_tokenId r = Some t" and "t \<in> set (sc_landTokenIds sc)"
  shows "r \<in> set (mvalues (toMapById par_id (with_tokenId par_tokenId (sc_landTokenIds sc) (ed_parcels db))))"
  using assms by (intro toMapById_value with_tokenId_inj) (auto simp: land_rows_def with_tokenId_def)

lemma estate_loaded:
  assumes "land_rows db" and "r \<in> set (ed_estates db)" and "est_tokenId r = Some t" and "t \<in> set (sc_estateTokenIds sc)"
  shows "r \<in> set (mvalues (toMapById est_id (with_tokenId est_tokenId (sc_estateTokenIds sc) (ed_estates db))))"
  using assms by (intro toMapById_value with_tokenId_inj) (auto simp: land_rows_def with_tokenId_def)

lemma known_contract_cases:
  assumes "known_contract e a"
  obtains "a = ea_LANDRegistry (eth_getAddresses e)" "getCategory e a = Category_parcel"
  | "a = ea_EstateRegistry (eth_getAddresses e)" "getCategory e a = Category_estate"
  | "a = ea_DCLRegistrar (eth_getAddresses e)" "getCategory e a = Category_ens"
  | "getCategory e a = Category_wearable"
  using assms getCategory_collection [of a e] by (auto simp: known_contract_def Let_def)

lemma flat_ids_member: "mget m a = Some ids \<Longrightarrow> t \<in> set ids \<Longrightarrow> a @ dash @ toStr t \<in> set (flat_ids m)"
  by (force simp: flat_ids_def dest: mget_in_set)

lemma eth_nftIds_members:
  "r \<in> set (mvalues parcels) \<Longrightarrow>
     ''parcel-'' @ ea_LANDRegistry (eth_getAddresses e) @ dash @ tokenIdStr (par_tokenId r) \<in> set (eth_nftIds e estates parcels sc)"
  "x \<in> set (mvalues estates) \<Longrightarrow>
     ''estate-'' @ ea_EstateRegistry (eth_getAddresses e) @ dash @ tokenIdStr (est_tokenId x) \<in> set (eth_nftIds e estates parcels sc)"
  "i \<in> set (flat_ids (sc_tokenIds sc)) \<Longrightarrow> i \<in> set (eth_nftIds e estates parcels sc)"
  "t \<in> set (sc_ensTokenIds sc) \<Longrightarrow>
     ''ens-'' @ ea_DCLRegistrar (eth_getAddresses e) @ dash @ toStr t \<in> set (eth_nftIds e estates parcels sc)"
  unfolding eth_nftIds_def Let_def set_append set_map by blast+

lemma key_asked:
  assumes "land_rows db" and "has_land_row e db a t" and "known_contract e a" and "asked e sc (a, t)"
  shows "marketNFTId e a t \<in> set (eth_nftIds e
    (toMapById est_id (with_tokenId est_tokenId (sc_estateTokenIds sc) (ed_estates db)))
    (toMapById par_id (with_tokenId par_tokenId (sc_landTokenIds sc) (ed_parcels db))) sc)"
  using assms(3)
proof (cases rule: known_contract_cases)
  case 1
  with assms(2) obtain r where r: "r \<in> set (ed_parcels db)" "par_tokenId r = Some t"
    by (auto simp: has_land_row_def)
  moreover have "t \<in> set (sc_landTokenIds sc)" using assms(4) 1 by (simp add: asked_def)
  moreover have "marketNFTId e a t =
      ''parcel-'' @ ea_LANDRegistry (eth_getAddresses e) @ dash @ tokenIdStr (par_tokenId r)"
    using 1 r(2) by (simp add: marketNFTId_def getNFTId_def tokenIdStr_def)
  ultimately show ?thesis using eth_nftIds_members(1) [OF parcel_loaded [OF assms(1)]] by metis
next
  case 2
  with assms(2) obtain r where r: "r \<in> set (ed_estates db)" "est_tokenId r = Some t"
    by (auto simp: has_land_row_def)
  moreover have "t \<in> set (sc_estateTokenIds sc)" using assms(4) 2 by (simp add: asked_def)
  moreover have "marketNFTId e a t =
      ''estate-'' @ ea_EstateRegistry (eth_getAddresses e) @ dash @ tokenIdStr (est_tokenId r)"
    using 2 r(2) by (simp add: marketNFTId_def getNFTId_def tokenIdStr_def)
  ultimately show ?thesis using eth_nftIds_members(2) [OF estate_loaded [OF assms(1)]] by metis
next
  case 3
  then have "t \<in> set (sc_ensTokenIds sc)"
    "marketNFTId e a t = ''ens-'' @ ea_DCLRegistrar (eth_getAddresses e) @ dash @ toStr t"
    using assms(4) by (simp_all add: asked_def marketNFTId_def getNFTId_def)
  then show ?thesis using eth_nftIds_members(4) by metis
next
  case 4
  then obtain ids where "mget (sc_tokenIds sc) a = Some ids" "t \<in> set ids" "marketNFTId e a t = a @ dash @ toStr t"
    using assms(4) by (auto simp: asked_def marketNFTId_def getNFTId_def)
  then show ?thesis using eth_nftIds_members(3) flat_ids_member by metis
qed


definition sample_name :: string where
  "sample_name = ea_DCLRegistrar (eth_getAddresses sample_env)"

definition sample_listing :: eth_block_data where
  "sample_listing = \<lparr>bd_header = sample_block 9,
     bd_logs = [\<lparr>log_address = ''0xm'', log_txHash = ''0xt'', log_txIndex = 0,
       log_event = Ev_OrderCreated \<lparr>oc_id = ''o1'', oc_assetId = 5, oc_seller = ''0xa'',
         oc_nftAddress = sample_name, oc_priceInWei = 70, oc_expiresAt = 7\<rparr>\<rparr>]\<rparr>"

definition sample_name_row :: NFT where
  "sample_name_row = new_NFT (marketNFTId sample_env sample_name 5) (Some ETHEREUM)"

definition sample_eth_db :: eth_db where
  "sample_eth_db = \<lparr>ed_accounts = [], ed_parcels = [], ed_estates = [], ed_nfts = [sample_name_row],
     ed_orders = [], ed_datas = (\<lambda>_ _. []), ed_wearables = [], ed_ens = [], ed_analytics = [], ed_counts = [],
     ed_bids = [], ed_collections = [], ed_metadatas = [], ed_items = []\<rparr>"


text \<open>Both passes that write the tokens of a batch, and that the objects are left as they were.\<close>

lemma eth_upsert_nfts_roundtrip:
  assumes "mwf nfts" and "\<forall>(k, n)\<in>set nfts. nft_id n = k"
  shows "eth_upsert_nfts nfts = (map (\<lambda>n. n\<lparr>nft_activeOrder := None\<rparr>) (mvalues nfts), mvalues nfts, nfts)"
  using upsert_nfts_twice [OF assms]
  by (simp add: eth_upsert_nfts_def upsert_nfts_def split: prod.splits)

section \<open>The books of a loaded state\<close>

lemma toMapById_wf: "mwf (toMapById key rows)"
  by (induction rows rule: rev_induct) (auto simp: toMapById_append, simp add: toMapById_def)

lemma toMapById_keyed: "mget (toMapById key rows) k = Some r \<Longrightarrow> key r = k"
  by (induction rows rule: rev_induct) (auto simp: toMapById_append toMapById_def split: if_splits)

text \<open>Whatever is stored, the loaded rows are under their ids, so the books are well formed.\<close>

lemma loaded_ledger_ok:
  assumes "eth_load e db tokenURIs landCoordinates sc = Inr s"
  shows "eth_ledger_ok s" "eth_ledger s = eth_ledger (eth_getStoredData e db sc)" "es_sales s = []"
proof -
  let ?s = "eth_getStoredData e db sc"
  have same: "es_counts s = es_counts ?s" "es_sales s = es_sales ?s" "es_analytics s = es_analytics ?s"
    "es_accounts s = es_accounts ?s"
    using assms by (auto simp: eth_load_def Let_def bindR_eq_Inr split: if_splits)
  show sales: "es_sales s = []"
    unfolding same by (simp add: eth_getStoredData_def eth_empty_def Let_def)
  have maps: "es_counts ?s = toMapById cnt_id (filter (\<lambda>r. cnt_network r = ETHEREUM) (ed_counts db))"
    "\<exists>rows. es_analytics ?s = toMapById add_id rows" "\<exists>rows. es_accounts ?s = toMapById acc_id rows"
    by (auto simp: eth_getStoredData_def Let_def)
  then show "eth_ledger_ok s"
    using sales unfolding eth_ledger_ok_def ledger_ok_def same(1,3,4)
    by (auto simp: counts_keyed_def analytics_keyed_def sales_numbered_def toMapById_wf dest: toMapById_keyed)
  show "eth_ledger s = eth_ledger ?s" by (simp add: eth_ledger_def same)
qed

end
