(* ===== verification/Eth_Tokens.thy ===== *)
theory Eth_Tokens
  imports Eth_Book
begin

text \<open>
  What single events do to a token on Ethereum: a transfer makes the recipient the owner and clears
  the sale statistics of the token, and a trade of the token with id zero is not seen.
\<close>

section \<open>Transfers\<close>

definition owner_view :: "NFT \<Rightarrow> string option \<times> string option \<times> int option \<times> int option \<times> int option \<times> int option" where
  "owner_view n = (nft_ownerAddress n, nft_contractAddress n, nft_tokenId n, nft_sales n, nft_volume n, nft_soldAt n)"

lemma transfer_base_owner:
  "owner_view (transfer_base e a ev b owner uris n) =
     (Some (te_to ev), Some a, Some (te_tokenId ev), Some 0, Some 0, None)"
  by (simp add: transfer_base_def owner_view_def Let_def)

lemma owner_view_steps:
  "owner_view (mint_defaults b n) = owner_view n"
  "move_order owner n orders = (n', orders') \<Longrightarrow> owner_view n' = owner_view n"
  by (auto simp: mint_defaults_def move_order_def owner_view_def split: option.splits)

lemma transfer_category_owner:
  "transfer_category e minted c t i n s = Inr (n', s') \<Longrightarrow> owner_view n' = owner_view n"
  by (auto simp: transfer_category_def transfer_parcel_def transfer_estate_def transfer_wearable_def
      transfer_ens_def owner_view_def Let_def bindR_eq_Inr split: if_splits option.splits)

text \<open>
  A transfer on Ethereum. Whoever sent the token and whether it was known before, the row of the
  token names the recipient as owner afterwards, and the number and volume of its sales and the date
  of its last sale are cleared: the statistics of a token only cover the time since its last transfer.
\<close>

lemma handleTransfer_owner:
  assumes "handleTransfer e b a ev s = Inr s'"
  shows "\<exists>n. mget (es_nfts s') (getNFTId a (toStr (te_tokenId ev)) (Some (getCategory e a))) = Some n \<and>
    nft_ownerAddress n = Some (te_to ev) \<and> nft_contractAddress n = Some a \<and>
    nft_tokenId n = Some (te_tokenId ev) \<and> nft_sales n = Some 0 \<and> nft_volume n = Some 0 \<and> nft_soldAt n = None"
proof -
  let ?i = "getNFTId a (toStr (te_tokenId ev)) (Some (getCategory e a))"
  obtain n where n: "mget (es_nfts s') ?i = Some n"
    and "owner_view n = (Some (te_to ev), Some a, Some (te_tokenId ev), Some 0, Some 0, None)"
    using assms
    by (auto simp: handleTransfer_def Let_def createOrLoadAccount_eq bindR_eq_Inr transfer_base_owner
        owner_view_steps split: if_splits prod.splits dest!: transfer_category_owner)
  then show ?thesis by (simp add: owner_view_def)
qed

section \<open>Trades of token zero\<close>

text \<open>
  A trade of the token with id zero leaves no trace. Zero is taken for a missing token id, so the
  handler returns the state as it was: no sale is recorded and the owner of the token stays. The
  parcel at the origin has this token id.
\<close>

lemma eth_trade_of_token_zero_ignored:
  assumes "getTradeEventData e ev ETHEREUM = Some td" and "td_tokenId td = Some 0"
  shows "eth_handleTraded e rpc ev b tx s = Inr s"
  using assms by (simp add: eth_handleTraded_def)

end
