(* ===== verification/Poly_Listings.thy ===== *)
theory Poly_Listings
  imports Poly_Ledger Squid_Listings
begin

text \<open>
  The order book of the Polygon processor implements the abstract marketplace of \<open>Squid_Listings\<close>.
\<close>

definition poly_action :: "poly_queued \<Rightarrow> market_action" where
  "poly_action q =
     (case pq_event q of
        Pe_OrderCreated ev \<Rightarrow> Listed (polyNFTId (oc_nftAddress ev) (oc_assetId ev)) (oc_id ev)
      | Pe_OrderSuccessful ev \<Rightarrow> Closed (polyNFTId (os_nftAddress ev) (os_assetId ev)) (os_id ev)
      | Pe_OrderCancelled ev \<Rightarrow> Closed (polyNFTId (ox_nftAddress ev) (ox_assetId ev)) (ox_id ev)
      | _ \<Rightarrow> Elsewhere)"

definition poly_listings :: "poly_state \<Rightarrow> listings" where
  "poly_listings s = listings (ps_nfts s)"

lemma poly_listings_same:
  "poly_book s \<Longrightarrow> poly_book s' \<Longrightarrow> live_at (ps_orders s') = live_at (ps_orders s) \<Longrightarrow>
   poly_listings s' = poly_listings s"
  unfolding poly_book_def poly_listings_def by (rule listings_same)

section \<open>Order events\<close>

lemma poly_trackSale_market:
  assumes "poly_trackSale rpc b ty buyer seller bn i k price fc col rc t tx s = Inr s'"
  shows "ps_orders s' = ps_orders s \<and> poly_listings s' = poly_listings s"
  using assms
  by (cases rule: poly_trackSale_cases)
     (simp_all add: poly_listings_def listings_sold del: listings_mset)

lemma poly_handleOrderCreated_listings:
  "listing_step (Listed (polyNFTId (oc_nftAddress ev) (oc_assetId ev)) (oc_id ev))
     (poly_listings s) (poly_listings (poly_handleOrderCreated ev b a h s))"
  by (simp add: poly_handleOrderCreated_def poly_listings_def Let_def activeOrder_update
      poly_order_of_event_def listings_def [of "ps_nfts s"] split: option.split)

lemma poly_handleOrderCancelled_listings:
  assumes "poly_book s"
    and "closes_active (ps_nfts s) (ps_orders s) (polyNFTId (ox_nftAddress ev) (ox_assetId ev)) (ox_id ev)"
  shows "listing_step (Closed (polyNFTId (ox_nftAddress ev) (ox_assetId ev)) (ox_id ev))
     (poly_listings s) (poly_listings (poly_handleOrderCancelled ev b s))"
  using assms close_known [OF assms(2)] close_unknown_order [of "ps_nfts s" "ps_orders s"]
    close_unknown_token [of "ps_nfts s"]
  unfolding poly_book_def poly_listings_def
  by (auto simp: poly_handleOrderCancelled_def Let_def activeOrder_update simp del: listing_step_simps
      split: option.split)

lemma poly_handleOrderSuccessful_listings:
  assumes book: "poly_book s"
    and ok: "closes_active (ps_nfts s) (ps_orders s) (polyNFTId (os_nftAddress ev) (os_assetId ev)) (os_id ev)"
    and run: "poly_handleOrderSuccessful e rpc ev b h s = Inr s'"
  shows "listing_step (Closed (polyNFTId (os_nftAddress ev) (os_assetId ev)) (os_id ev))
     (poly_listings s) (poly_listings s')"
proof -
  let ?k = "polyNFTId (os_nftAddress ev) (os_assetId ev)"
  have ob: "order_book (ps_nfts s) (ps_orders s)" using book by (simp add: poly_book_def)
  show ?thesis
  proof (cases "mget (ps_orders s) (os_id ev)")
    case None
    then show ?thesis
      using run close_unknown_order [OF ob None]
      by (simp add: poly_handleOrderSuccessful_def Let_def poly_listings_def del: listing_step_simps)
  next
    case order: (Some old)
    show ?thesis
    proof (cases "mget (ps_nfts s) ?k")
      case None
      then show ?thesis
        using run order close_unknown_token [OF None]
        by (auto simp: poly_handleOrderSuccessful_def Let_def poly_listings_def simp del: listing_step_simps)
    next
      case (Some nft)
      have "poly_listings s' = (poly_listings s)(?k := None)"
        using run order Some
        by (auto simp: poly_handleOrderSuccessful_def Let_def poly_listings_def activeOrder_update
            split: option.splits dest!: poly_trackSale_market)
      then show ?thesis
        using close_known [OF ok order Some] by (simp add: poly_listings_def del: listing_step_simps)
    qed
  qed
qed

section \<open>The other events\<close>

lemma handleMintNFT_orders:
  assumes "handleMintNFT e rpc ev b h a j item sd traded s = Inr s'"
  shows "ps_orders s' = ps_orders s"
  using assms
  by (cases rule: handleMintNFT_cases) (auto simp: minted_state_def Let_def dest!: poly_trackSale_market)

lemma handleIssue_orders:
  "handleIssue e rpc a ev b h sd traded s = Inr s' \<Longrightarrow> ps_orders s' = ps_orders s"
  by (auto simp: handleIssue_def Let_def split: option.splits dest!: handleMintNFT_orders)

lemma handleTransferNFT_live:
  assumes "poly_book s"
  shows "live_at (ps_orders (handleTransferNFT a ev b h s)) = live_at (ps_orders s)"
proof (cases "mget (ps_nfts s) (getNFTId a (toStr (te_tokenId ev)) None)")
  case None
  then show ?thesis by (simp add: handleTransferNFT_def Let_def)
next
  case (Some nft)
  have ob: "order_book (ps_nfts s) (ps_orders s)" using assms by (simp add: poly_book_def)
  show ?thesis
    by (auto simp: handleTransferNFT_def Let_def Some createOrLoadAccount_eq split: prod.split
        elim!: move_order_live [OF ob Some _, rotated])
qed

lemma bid_handlers_poly_orders:
  "poly_handleBidCreated bc b a s = Inr s' \<Longrightarrow> ps_orders s' = ps_orders s"
  "ps_orders (poly_handleBidCancelled bx b s) = ps_orders s"
  "poly_handleBidAccepted rpc ba b h s = Inr s' \<Longrightarrow> ps_orders s' = ps_orders s"
  "trade_erc721 e rpc ev td b h fr fc rr s = Inr s' \<Longrightarrow> ps_orders s' = ps_orders s"
  by (auto simp: poly_handleBidCreated_def poly_handleBidCancelled_def poly_handleBidAccepted_def
      trade_erc721_def Let_def bindR_eq_Inr split: option.splits if_splits dest!: poly_trackSale_market)

lemma trade_item_orders:
  assumes "trade_item e rpc ev td bd tx fr fc s = Inr s'"
  shows "ps_orders s' = ps_orders s"
  using assms by (cases rule: trade_item_cases) (auto dest!: handleIssue_orders)

lemma poly_handleTraded_orders:
  assumes "poly_handleTraded e rpc ev bd tx s = Inr s'"
  shows "ps_orders s' = ps_orders s"
proof (cases "getTradeEventData e ev POLYGON")
  case None
  then show ?thesis using assms unfolding poly_handleTraded_def None by simp
next
  case (Some td)
  then show ?thesis
    using assms
    by (auto simp: poly_handleTraded_def Let_def bindR_eq_Inr split: if_splits
        dest!: bid_handlers_poly_orders(4) trade_item_orders)
qed

lemma same_market_orders: "same_market s s' \<Longrightarrow> ps_orders s' = ps_orders s"
  by (simp add: same_market_def)

lemmas collection_handlers_orders = collection_handlers_market [THEN same_market_orders]

lemma poly_dispatch_live:
  assumes "poly_book s" and "poly_dispatch e rpc s q = Inr s'" and "poly_action q = Elsewhere"
  shows "live_at (ps_orders s') = live_at (ps_orders s)"
  using assms
  by (cases "pq_event q")
     (auto simp: poly_dispatch_def poly_action_def dispatch_market_def dispatch_issue_def
       with_transaction_def poly_handleTransfer_def Let_def bid_handlers_poly_orders(2)
       collection_handlers_orders handleTransferNFT_live
       split: if_splits option.splits
       dest: bid_handlers_poly_orders(1,3) handleIssue_orders poly_handleTraded_orders
         same_market_orders [OF handleAddItem_market])

lemma poly_dispatch_listings:
  assumes "poly_book s" and "poly_event_ok e s q" and "poly_dispatch e rpc s q = Inr s'"
  shows "listing_step (poly_action q) (poly_listings s) (poly_listings s')"
proof (cases "poly_action q = Elsewhere")
  case True
  have "poly_book s'" using assms by (rule poly_dispatch_book)
  then have "poly_listings s' = poly_listings s"
    using poly_listings_same [OF assms(1)] poly_dispatch_live [OF assms(1,3) True] by blast
  then show ?thesis by (simp add: True)
next
  case False
  then show ?thesis
    using assms
    by (cases "pq_event q")
       (auto simp: poly_action_def poly_dispatch_def dispatch_market_def poly_event_ok_def Let_def
         simp del: listing_step_simps
         intro: poly_handleOrderCreated_listings poly_handleOrderSuccessful_listings
           poly_handleOrderCancelled_listings)
qed

interpretation poly_market:
  labelled "poly_dispatch e rpc" poly_book "poly_event_ok e" listing_step poly_action poly_listings
  for e rpc
  by unfold_locales (rule poly_dispatch_listings)



end
