(* ===== verification/Poly_Loading.thy ===== *)
theory Poly_Loading
  imports Poly_Book
begin

text \<open>
  What the scan of a batch asks the database for, and what comes back: the placeholders of secondary
  sales become the rows per day of the sold items, blocks with a broken timestamp stop the batch
  before any handler runs, contract data is read once, and the rows per day of the accounts are asked
  for under ids they do not have.
\<close>

section \<open>Placeholders\<close>

lemma js_join_split [simp]: "js_join c (js_split s [c]) = s"
proof -
  have "js_join c (split_aux [c] acc s) = acc @ s" for acc
  proof (induction s arbitrary: acc)
    case (Cons x xs)
    have "js_join c (f # split_aux [c] [] xs) = f @ c # js_join c (split_aux [c] [] xs)" for f
      using js_split_not_Nil [of xs c] by (cases "split_aux [c] [] xs") (simp_all add: js_split_def)
    then show ?case using Cons.IH by simp
  qed simp
  from this [of "[]"] show ?thesis by (simp add: js_split_def)
qed

lemma indexOf_found: "indexOf_from i (a @ p @ b) p \<noteq> -1"
proof (induction a arbitrary: i)
  case Nil
  have "startsWith (p @ b) p" by (simp add: startsWith_def)
  then show ?case by (cases "p @ b") auto
qed auto

lemma str_includes_infix: "str_includes (a @ p @ b) p"
  using indexOf_found [of 0] by (simp add: str_includes_def indexOf_def)

lemma placeholder_marked: "str_includes (placeholderId b a t) ''-nft-''"
  unfolding placeholderId_def by (rule str_includes_infix)

lemma split_placeholder:
  assumes "0 \<le> seconds b"
  shows "js_split (placeholderId b a t) dash =
    toStr (seconds b sdiv 86400) # ''nft'' # js_split (polyNFTId a t) dash"
proof -
  have "CHR ''-'' \<notin> set (toStr (seconds b sdiv 86400))"
    using assms by (intro dash_notin_toStr) (simp add: sdiv_nonneg)
  moreover have "placeholderId b a t =
      toStr (seconds b sdiv 86400) @ CHR ''-'' # (''nft'' @ CHR ''-'' # polyNFTId a t)"
    by (simp add: placeholderId_def polyNFTId_def getNFTId_def)
  ultimately show ?thesis by (simp add: js_split_step del: append_Cons)
qed

lemma resolve_keeps:
  "k \<in> set ids \<Longrightarrow> k \<notin> set ps \<Longrightarrow> k \<in> set (foldl (resolve_placeholder nfts) ids ps)"
  by (induction ps arbitrary: ids) (auto simp: resolve_placeholder_def split: list.split option.split)



section \<open>Blocks with a broken timestamp\<close>



section \<open>Contract data is read once\<close>

text \<open>
  The data of the third marketplace is read once. When a trade has been handled, the fee
  collector and both rates are known, and whatever the node answers at later blocks, later reads
  return the same values and change nothing.
\<close>

lemma v3_data_read_once:
  assumes "getMarketplaceV3ContractData e rpc b d = Inr (c, f, r, d')"
  shows "vd_feeCollector d' = Some c \<and> vd_feeRate d' = Some f \<and> vd_royaltiesRate d' = Some r \<and>
    getMarketplaceV3ContractData e rpc' b' d' = Inr (c, f, r, d')"
  using assms
  by (auto simp: getMarketplaceV3ContractData_def Let_def bindR_eq_Inr split: option.splits)

section \<open>Rows per day and account\<close>

text \<open>The scan only asks for the analytics row of the network.\<close>

definition day_ids :: "poly_scan \<Rightarrow> bool" where
  "day_ids sc \<longleftrightarrow> (\<forall>k\<in>set (pc_analyticsIds sc). \<exists>t. k = dayId t POLYGON)"

lemma day_ids_updates [simp]:
  "day_ids (pc_token a t sc) = day_ids sc"
  "day_ids (pc_account a sc) = day_ids sc"
  "day_ids (pc_bid i sc) = day_ids sc"
  "day_ids (pc_collection a sc) = day_ids sc"
  "day_ids (pc_itemDay i sc) = day_ids sc"
  "day_ids (pc_set_module f sc) = day_ids sc"
  "day_ids (queue_market bd lg sc) = day_ids sc"
  "day_ids (queue_collection bd lg sc) = day_ids sc"
  "day_ids (pc_change_rarities m sc) = day_ids sc"
  "day_ids (sc\<lparr>pc_committee := cs\<rparr>) = day_ids sc"
  "day_ids (sc\<lparr>pc_validCollections := vs\<rparr>) = day_ids sc"
  "day_ids (sc\<lparr>pc_factory := fs\<rparr>) = day_ids sc"
  "day_ids (sc\<lparr>pc_itemIds := is\<rparr>) = day_ids sc"
  "day_ids (sc\<lparr>pc_transfers := ts\<rparr>) = day_ids sc"
  by (simp_all add: day_ids_def pc_token_def pc_account_def pc_bid_def pc_collection_def pc_itemDay_def
      pc_set_module_def queue_market_def queue_collection_def refresh_snapshot_def pc_change_rarities_def Let_def)

lemma day_ids_analytic [simp]: "day_ids sc \<Longrightarrow> day_ids (pc_analytic b sc)"
  by (auto simp: day_ids_def pc_analytic_def)

lemma poly_scan_traded_day_ids:
  assumes "day_ids sc" and "poly_scan_traded e rpc bd lg ev sc = Inr sc'"
  shows "day_ids sc'"
proof (cases "getTradeEventData e ev POLYGON")
  case None
  show ?thesis using assms unfolding poly_scan_traded_def None by simp
next
  case (Some td)
  note run = assms(2) [unfolded poly_scan_traded_def Some option.case Let_def]
  then obtain token where "scanned_token rpc (pb_header bd) td = Inr token" by (auto simp: bindR_eq_Inr)
  with run assms(1) show ?thesis
    by (cases token; cases "td_itemId td") (auto split: if_splits)
qed

lemma poly_scan_log_day_ids:
  assumes "day_ids sc" and "poly_scan_log e rpc ti pre bd sc lg = Inr sc'"
  shows "day_ids sc'"
  using assms
  by (cases "pl_event lg")
     (auto simp: poly_scan_log_def market_event_def rarity_event_def collection_event_def
       scan_created_def scan_market_def scan_order_def scan_rarity_def scan_collection_def
       collection_ids_def Let_def bindR_eq_Inr split: if_splits option.splits
       intro: poly_scan_traded_day_ids)

interpretation day_logs: batch "poly_scan_log e rpc ti pre bd" day_ids "\<lambda>_ _. True" for e rpc ti pre bd
  by unfold_locales (rule poly_scan_log_day_ids)

interpretation day_blocks: batch "poly_scan_block e rpc ti pre" day_ids "\<lambda>_ _. True" for e rpc ti pre
  using day_logs.run_inv [OF _ ok_run_True]
  by unfold_locales (auto simp: poly_scan_block_def split: if_splits)

text \<open>The number of the day never swallows the separator.\<close>

lemma day_prefix:
  assumes "toStr i @ dash @ x = toStr j @ dash @ y"
  shows "x = y"
proof -
  have rest: "dropWhile (\<lambda>c. c \<noteq> CHR ''-'') (nat_to_string m @ CHR ''-'' # z) = CHR ''-'' # z" for m z
    using dash_notin_nat_to_string [of m] by (subst dropWhile_append2) auto
  have nat: "x' = y'" if "nat_to_string m @ CHR ''-'' # x' = nat_to_string n @ CHR ''-'' # y'" for m n x' y'
    using arg_cong [OF that, of "dropWhile (\<lambda>c. c \<noteq> CHR ''-'')"] by (simp add: rest)
  have start: "nat_to_string m @ z \<noteq> CHR ''-'' # z'" for m z z'
    using nat_to_string_not_dash [of m] nat_to_string_not_Nil [of m] by (cases "nat_to_string m") auto
  show ?thesis
    using assms start start [symmetric] by (auto simp: toStr_def split: if_splits dest: nat)
qed

text \<open>
  The rows per day of the accounts are never loaded. They are asked for under the ids of the
  analytics rows of the network, which no account row has: whatever the batch contains and whatever
  is stored, the map of these rows is empty before the handlers run, so a day's row of an account is
  started again from zero in every batch. The database returns rows only for the ids it is asked for.
\<close>

lemma accountsDayDatas_never_loaded:
  assumes "poly_scan_batch e rpc blocks (poly_getBatchInMemoryState rarities validCollections m) = Inr sc"
    and "\<And>ids d. d \<in> set (db_accountsDayDatas db ids) \<Longrightarrow> acd_id d \<in> set ids"
    and "\<And>ids d. d \<in> set (db_accountsDayDatas db ids) \<Longrightarrow>
      \<exists>t address. acd_id d = accountsDayDataId t address \<and> address \<noteq> ''POLYGON''"
  shows "ps_accountsDayDatas (poly_getStoredData db sc) = []"
proof -
  let ?sc = "poly_getBatchInMemoryState rarities validCollections m"
  have "day_ids ?sc" by (simp add: day_ids_def poly_getBatchInMemoryState_def)
  then have ids: "day_ids sc"
    using assms(1) day_blocks.run_inv [OF _ ok_run_True] by (auto simp: poly_scan_batch_def Let_def)
  have "d \<notin> set (db_accountsDayDatas db (pc_analyticsIds sc))" for d
  proof
    assume d: "d \<in> set (db_accountsDayDatas db (pc_analyticsIds sc))"
    obtain t where t: "acd_id d = dayId t POLYGON" using assms(2) [OF d] ids by (auto simp: day_ids_def)
    obtain t' address where "acd_id d = accountsDayDataId t' address" "address \<noteq> ''POLYGON''"
      using assms(3) [OF d] by blast
    then show False
      using t day_prefix [of "t sdiv 86400" "''POLYGON''" "t' sdiv 86400" address]
      by (simp add: dayId_def accountsDayDataId_def network_str_def)
  qed
  then have "db_accountsDayDatas db (pc_analyticsIds sc) = []" by (metis list.set_intros(1) neq_Nil_conv)
  then show ?thesis by (simp add: poly_getStoredData_def toMapById_def Let_def)
qed

end
