(* ===== verification/Poly_Multicall.thy ===== *)
theory Poly_Multicall
  imports Poly_Book
begin

text \<open>
  The multicall for new collections: nine calls per collection are sent as one flat list and the flat
  list of results is cut into pieces again. Each collection gets its own nine results, and a failing
  call only leaves out its own collection.
\<close>

text \<open>The results of the nine calls for one collection.\<close>

definition results_of :: "collection_data \<Rightarrow> (bool \<times> abi_value) list" where
  "results_of d =
     map (Pair True) [V_string (cd_name d), V_string (cd_symbol d), V_string (cd_owner d),
       V_string (cd_creator d), V_bool (cd_isCompleted d), V_bool (cd_isApproved d),
       V_bool (cd_isEditable d), V_string (cd_baseURI d), V_int (cd_chainId d)]"

text \<open>The data as it is stored: the two addresses in lower case.\<close>

definition lower_data :: "collection_data \<Rightarrow> collection_data" where
  "lower_data d = d\<lparr>cd_owner := toLowerCase (cd_owner d), cd_creator := toLowerCase (cd_creator d)\<rparr>"

lemma collection_of_results_of: "collection_of_results (results_of d) = Inr (Some (lower_data d))"
  by (simp add: collection_of_results_def results_of_def lower_data_def)

lemma collection_of_failed: "list_ex (\<lambda>r. \<not> fst r) rs \<Longrightarrow> collection_of_results rs = Inr None"
  by (auto simp: collection_of_results_def list_ex_iff list_all_iff)

lemma length_results_of [simp]: "length (results_of d) = CALLS_PER_COLLECTION"
  by (simp add: results_of_def CALLS_PER_COLLECTION_def)

text \<open>What the node answers for one collection: its data, or nine results with a failure.\<close>

definition answers :: "collection_data option \<Rightarrow> (bool \<times> abi_value) list \<Rightarrow> bool" where
  "answers d rs \<longleftrightarrow>
     (case d of
        Some d' \<Rightarrow> rs = results_of d'
      | None \<Rightarrow> length rs = CALLS_PER_COLLECTION \<and> list_ex (\<lambda>r. \<not> fst r) rs)"

lemma answers_length: "answers d rs \<Longrightarrow> length rs = CALLS_PER_COLLECTION"
  by (auto simp: answers_def split: option.splits)

lemma answers_decode: "answers d rs \<Longrightarrow> collection_of_results rs = Inr (map_option lower_data d)"
  by (auto simp: answers_def collection_of_results_of collection_of_failed split: option.splits)

definition store_answers ::
  "(string, collection_data) jsmap \<Rightarrow> string list \<Rightarrow> collection_data option list \<Rightarrow>
   (string, collection_data) jsmap" where
  "store_answers m addresses ds =
     foldl (\<lambda>m (a, d). case d of None \<Rightarrow> m | Some d' \<Rightarrow> mset m (toLowerCase a) (lower_data d')) m
       (zip addresses ds)"

lemma collect_loop:
  assumes "list_all2 answers ds parts" and "length addresses = length ds"
    and "drop (n * CALLS_PER_COLLECTION) raw = concat parts"
  shows "foldR (\<lambda>m (i, address).
       bindR (collection_of_results (take CALLS_PER_COLLECTION (drop (i * CALLS_PER_COLLECTION) raw)))
         (\<lambda>r. case r of None \<Rightarrow> Inr m | Some d \<Rightarrow> Inr (mset m (toLowerCase address) d)))
       m (List.enumerate n addresses) = Inr (store_answers m addresses ds)"
  using assms
proof (induction ds parts arbitrary: addresses n m rule: list_all2_induct)
  case Nil
  then show ?case by (simp add: store_answers_def)
next
  case (Cons d ds part parts)
  from Cons.prems(1) obtain a as where as: "addresses = a # as" "length as = length ds"
    by (cases addresses) auto
  have len: "length part = CALLS_PER_COLLECTION" using Cons.hyps(1) by (rule answers_length)
  have first: "take CALLS_PER_COLLECTION (drop (n * CALLS_PER_COLLECTION) raw) = part"
    using Cons.prems(2) len by simp
  have "drop (Suc n * CALLS_PER_COLLECTION) raw = drop CALLS_PER_COLLECTION (drop (n * CALLS_PER_COLLECTION) raw)"
    by simp
  also have "\<dots> = concat parts" using Cons.prems(2) len by simp
  finally have rest: "drop (Suc n * CALLS_PER_COLLECTION) raw = concat parts" .
  show ?case
    using Cons.IH [OF as(2) rest] answers_decode [OF Cons.hyps(1)]
    by (cases d) (simp_all add: as(1) first store_answers_def)
qed

lemma mget_store_answers:
  assumes "length addresses = length ds" and "distinct (map toLowerCase addresses)" and "i < length ds"
    and "mget m (toLowerCase (addresses ! i)) = None"
  shows "mget (store_answers m addresses ds) (toLowerCase (addresses ! i)) = map_option lower_data (ds ! i)"
  using assms
proof (induction addresses ds arbitrary: m i rule: list_induct2)
  case Nil
  then show ?case by simp
next
  case (Cons a as d ds)
  have other: "mget (store_answers m' as ds) k = mget m' k"
    if "k \<notin> set (map toLowerCase as)" for m' k
    using Cons.hyps that
    by (induction as ds arbitrary: m' rule: list_induct2) (auto simp: store_answers_def split: option.splits)
  show ?case
  proof (cases i)
    case 0
    then show ?thesis using Cons.prems other by (cases d) (simp_all add: store_answers_def)
  next
    case (Suc j)
    have "toLowerCase (as ! j) \<noteq> toLowerCase a"
      using Cons.prems(1,2) Cons.hyps Suc by (metis distinct.simps(2) length_Cons length_map list.simps(9) not_less_eq nth_map nth_mem)
    then show ?thesis
      using Cons.prems Suc Cons.IH [of j] by (cases d) (simp_all add: store_answers_def)
  qed
qed


definition sample_data :: collection_data where
  "sample_data = \<lparr>cd_name = ''n'', cd_symbol = ''S'', cd_owner = ''0xO'', cd_creator = ''0xC'',
     cd_isCompleted = True, cd_isApproved = False, cd_isEditable = True, cd_baseURI = ''u'',
     cd_chainId = 137\<rparr>"

definition multicall_rpc :: poly_rpc where
  "multicall_rpc = sample_poly_rpc
     \<lparr>pr_tryAggregate := \<lambda>h cs. Inr (replicate 9 (False, V_int 0) @ results_of sample_data)\<rparr>"


end
