(* ===== verification/Poly_Progress.thy ===== *)
theory Poly_Progress
  imports Poly_Ledger Squid_Simulation
begin

text \<open>
  No event stops the Polygon processor: where the node answers the contract reads and the events are
  of the form the contracts emit, every handler returns. An exception would abort the batch, which
  would then be tried again and fail again.
\<close>

section \<open>What the handlers rely on\<close>

text \<open>
  The columns of a token that are read without a check: the volume when it is sold, the owner when a
  bid is made, contract and token id when the owner is read; its item is a row of the item map.
\<close>

definition nft_ready :: "NFT \<Rightarrow> bool" where
  "nft_ready n \<longleftrightarrow>
     nft_volume n \<noteq> None \<and> nft_owner n \<noteq> None \<and> nft_contractAddress n \<noteq> None \<and> nft_tokenId n \<noteq> None \<and>
     (case nft_item n of Some (OwnItem _) \<Rightarrow> False | _ \<Rightarrow> True)"

definition ready :: "poly_state \<Rightarrow> bool" where
  "ready s \<longleftrightarrow> (\<forall>k n. mget (ps_nfts s) k = Some n \<longrightarrow> nft_ready n)"

text \<open>A node that answers.\<close>

definition answering :: "poly_rpc \<Rightarrow> bool" where
  "answering rpc \<longleftrightarrow>
     (\<forall>h a t. \<exists>v. pr_ownerOf rpc h a t = Inr v) \<and>
     (\<forall>h a n. \<exists>v. pr_rarityByName rpc h a n = Inr v) \<and>
     (\<forall>h a. \<exists>v. pr_feeCollector rpc h a = Inr v) \<and>
     (\<forall>h a. \<exists>v. pr_feeRate rpc h a = Inr v) \<and>
     (\<forall>h a. \<exists>v. pr_royaltiesRate rpc h a = Inr v)"

text \<open>
  The events: an \<^verbatim>\<open>Issue\<close> log belongs to a transaction, and the logs a trade of an item is matched
  against can be decoded.
\<close>

definition trade_decodable :: "env \<Rightarrow> poly_state \<Rightarrow> poly_block \<Rightarrow> poly_tx \<Rightarrow> traded_event \<Rightarrow> bool" where
  "trade_decodable e s bd tx ev =
     (case getTradeEventData e ev POLYGON of
        None \<Rightarrow> True
      | Some td \<Rightarrow>
          (case td_itemId td of
             None \<Rightarrow> True
           | Some itemId \<Rightarrow>
               (case selectIssueLogForTrade (pb_logs bd) (tx_transactionIndex tx)
                       (td_collectionAddress td) itemId ISSUE_TOPIC (blk_height (pb_header bd))
                       (ps_consumedIssueLogs s) of
                  Inl _ \<Rightarrow> False
                | Inr (None, _) \<Rightarrow> True
                | Inr (Some l, _) \<Rightarrow> (case pl_event l of Pe_Issue _ \<Rightarrow> True | _ \<Rightarrow> False))))"

definition event_ready :: "env \<Rightarrow> poly_state \<Rightarrow> poly_queued \<Rightarrow> bool" where
  "event_ready e s q =
     (case pq_event q of
        Pe_Issue _ \<Rightarrow> pq_transaction q \<noteq> None
      | Pe_Traded ev \<Rightarrow>
          (case pq_transaction q of None \<Rightarrow> True | Some tx \<Rightarrow> trade_decodable e s (pq_block q) tx ev)
      | _ \<Rightarrow> True)"

section \<open>The columns stay set\<close>

lemma readyD: "ready s \<Longrightarrow> mget (ps_nfts s) k = Some n \<Longrightarrow> nft_ready n"
  by (simp add: ready_def)

lemma ready_same: "ready s \<Longrightarrow> ps_nfts s' = ps_nfts s \<Longrightarrow> ready s'"
  by (simp add: ready_def)

lemma ready_mset: "ready s \<Longrightarrow> nft_ready n \<Longrightarrow> ps_nfts s' = mset (ps_nfts s) k n \<Longrightarrow> ready s'"
  by (auto simp: ready_def split: if_splits)

lemma nft_ready_frame [simp]:
  "nft_ready (n\<lparr>nft_updatedAt := v1\<rparr>) = nft_ready n"
  "nft_ready (n\<lparr>nft_ownerAddress := v2\<rparr>) = nft_ready n"
  "nft_ready (n\<lparr>nft_transferredAt := v1\<rparr>) = nft_ready n"
  "nft_ready (n\<lparr>nft_searchOrderStatus := v3\<rparr>) = nft_ready n"
  "nft_ready (n\<lparr>nft_network := v4\<rparr>) = nft_ready n"
  "nft_ready (updateNFTOrderProperties n order) = nft_ready n"
  by (simp_all add: nft_ready_def updateNFTOrderProperties_def addNFTOrderProperties_def
      clearNFTOrderProperties_def)

lemma nft_ready_owner: "nft_ready n \<Longrightarrow> nft_ready (n\<lparr>nft_owner := Some a\<rparr>)"
  by (simp add: nft_ready_def)

lemma nft_ready_buyer: "nft_ready n \<Longrightarrow> nft_ready (poly_own_by_buyer accounts buyer n)"
  by (simp add: poly_own_by_buyer_def nft_ready_owner split: option.split)

lemma nft_ready_sold: "nft_ready n \<Longrightarrow> nft_sold price t n = Inr n' \<Longrightarrow> nft_ready n'"
  by (auto simp: nft_sold_Inr nft_ready_def)

lemma nft_ready_minted:
  "nft_ready ((setNFTSearchFields (minted_nft k ev b a c j item owner) ms)\<lparr>nft_network := v\<rparr>)"
  by (simp add: nft_ready_def setNFTSearchFields_def setNFTWearableSearchFields_def
      setNFTEmoteSearchFields_def minted_nft_def split: option.split)

lemma move_order_ready: "nft_ready n \<Longrightarrow> move_order owner n orders = (n', orders') \<Longrightarrow> nft_ready n'"
  by (auto simp: move_order_def split: option.splits)

lemma poly_trackSale_ready:
  assumes "ready s" and "poly_trackSale rpc b ty buyer seller bn i k price fc col rc t tx s = Inr s'"
  shows "ready s'"
  using assms(2)
proof (cases rule: poly_trackSale_cases)
  case (sold n n' j item owner)
  have "nft_ready n'" using readyD [OF assms(1) sold(2)] sold(3) by (rule nft_ready_sold)
  then show ?thesis by (rule ready_mset [OF assms(1)]) (simp add: sold(5))
qed (use assms(1) in \<open>simp_all add: ready_def\<close>)

lemma minted_state_ready: "ready s \<Longrightarrow> ready (minted_state ev b a c j item s)"
  by (rule ready_mset [OF _ nft_ready_minted]) (simp_all add: minted_state_def Let_def)

lemma handleMintNFT_ready:
  assumes "ready s" and "handleMintNFT e rpc ev b h a j item sd traded s = Inr s'"
  shows "ready s'"
  using assms(2)
proof (cases rule: handleMintNFT_cases)
  case (sold c bn price fee feeOwner hh s2 mints)
  show ?thesis
    using poly_trackSale_ready [OF minted_state_ready [OF assms(1)] sold(1)] sold(2)
    by (auto intro: ready_same)
qed (use assms(1) minted_state_ready [OF assms(1)] in \<open>simp_all add: ready_def\<close>)

lemma handleIssue_ready:
  assumes "ready s" and "handleIssue e rpc a ev b h sd traded s = Inr s'"
  shows "ready s'"
  using assms
  by (auto simp: handleIssue_def Let_def split: option.splits
      elim!: handleMintNFT_ready [rotated] intro: ready_same)

lemma handleTransferNFT_ready:
  assumes "ready s"
  shows "ready (handleTransferNFT a ev b h s)"
proof (cases "mget (ps_nfts s) (getNFTId a (toStr (te_tokenId ev)) None)")
  case None
  then show ?thesis using assms by (simp add: handleTransferNFT_def Let_def)
next
  case (Some nft)
  let ?acc = "account_at (ps_accounts s) (te_to ev) POLYGON"
  obtain n' orders' where move: "move_order (acc_address ?acc)
      (nft\<lparr>nft_owner := Some (account_refer ?acc), nft_ownerAddress := Some (acc_address ?acc),
        nft_updatedAt := Some (seconds b), nft_transferredAt := Some (seconds b)\<rparr>) (ps_orders s) = (n', orders')"
    by fastforce
  have "nft_ready n'"
    by (rule move_order_ready [OF _ move]) (simp add: nft_ready_owner readyD [OF assms Some])
  then show ?thesis
    by (rule ready_mset [OF assms]) (simp add: handleTransferNFT_def Let_def Some createOrLoadAccount_eq move)
qed

lemma market_handlers_ready:
  "ready s \<Longrightarrow> ready (poly_handleOrderCreated oc b a h s)"
  "ready s \<Longrightarrow> ready (poly_handleOrderCancelled ox b s)"
  "ready s \<Longrightarrow> ready (poly_handleBidCancelled bx b s)"
  by (auto simp: poly_handleOrderCreated_def poly_handleOrderCancelled_def poly_handleBidCancelled_def
      Let_def ready_def split: option.split if_splits dest!: bid_with_nft_Some)

lemma poly_handleBidCreated_ready:
  "ready s \<Longrightarrow> poly_handleBidCreated ev b a s = Inr s' \<Longrightarrow> ready s'"
  by (auto simp: poly_handleBidCreated_def Let_def bindR_eq_Inr ready_def split: option.splits if_splits)

lemma ready_updates:
  assumes "ready s"
  shows "ready (s\<lparr>ps_orders := orders\<rparr>)" and "ready (s\<lparr>ps_consumedIssueLogs := ls\<rparr>)"
    and "ready (s\<lparr>ps_module := m\<rparr>)"
    and "nft_ready n \<Longrightarrow> ready (s\<lparr>ps_nfts := mset (ps_nfts s) k n\<rparr>)"
    and "nft_ready n \<Longrightarrow> ready (s\<lparr>ps_orders := orders, ps_nfts := mset (ps_nfts s) k n\<rparr>)"
    and "nft_ready n \<Longrightarrow> ready (s\<lparr>ps_bids := bids, ps_nfts := mset (ps_nfts s) k n\<rparr>)"
  using assms by (auto simp: ready_def split: if_splits)

lemma sale_handlers_ready:
  "ready s \<Longrightarrow> poly_handleOrderSuccessful e rpc os b h s = Inr s' \<Longrightarrow> ready s'"
  "ready s \<Longrightarrow> poly_handleBidAccepted rpc ba b h s = Inr s' \<Longrightarrow> ready s'"
  "ready s \<Longrightarrow> trade_erc721 e rpc ev td b h fr fc rr s = Inr s' \<Longrightarrow> ready s'"
  by (auto simp: poly_handleOrderSuccessful_def poly_handleBidAccepted_def trade_erc721_def Let_def
      split: option.splits if_splits dest!: bid_with_nft_Some
      elim!: poly_trackSale_ready [rotated] intro!: ready_updates nft_ready_buyer)
     (erule (1) readyD)+

lemma trade_item_ready:
  assumes "ready s" and "trade_item e rpc ev td bd tx fr fc s = Inr s'"
  shows "ready s'"
  using assms(2)
proof (cases rule: trade_item_cases)
  case (issued itemId l consumed issued event)
  show ?thesis using handleIssue_ready [OF ready_updates(2) [OF assms(1)] issued(6)] .
qed (use assms(1) in simp)

lemma poly_handleTraded_ready:
  assumes "ready s" and "poly_handleTraded e rpc ev bd tx s = Inr s'"
  shows "ready s'"
proof (cases "getTradeEventData e ev POLYGON")
  case None
  then show ?thesis using assms unfolding poly_handleTraded_def None by simp
next
  case (Some td)
  then show ?thesis
    using assms(2) ready_updates(3) [OF assms(1)]
    by (auto simp: poly_handleTraded_def Let_def bindR_eq_Inr split: if_splits
        intro: sale_handlers_ready(3) trade_item_ready)
qed

lemma same_market_ready: "same_market s s' \<Longrightarrow> ready s \<Longrightarrow> ready s'"
  by (auto simp: same_market_def intro: ready_same)

lemmas collection_handlers_ready = collection_handlers_market [THEN same_market_ready]

lemma poly_dispatch_ready:
  assumes "ready s" and "poly_dispatch e rpc s q = Inr s'"
  shows "ready s'"
  using assms
  by (cases "pq_event q")
     (auto simp: poly_dispatch_def dispatch_market_def dispatch_issue_def with_transaction_def
       poly_handleTransfer_def Let_def split: if_splits option.splits
       intro: collection_handlers_ready market_handlers_ready poly_handleBidCreated_ready
         sale_handlers_ready(1,2) handleTransferNFT_ready handleIssue_ready poly_handleTraded_ready
         same_market_ready [OF handleAddItem_market])

section \<open>Every handler returns\<close>

text \<open>Fallible results that are no exception.\<close>

definition returns :: "'a result \<Rightarrow> bool" where
  "returns r \<longleftrightarrow> (\<exists>x. r = Inr x)"

lemma returns_Inr [simp]: "returns (Inr x)"
  by (simp add: returns_def)

lemma returns_bind: "returns r \<Longrightarrow> (\<And>x. r = Inr x \<Longrightarrow> returns (f x)) \<Longrightarrow> returns (bindR r f)"
  by (auto simp: returns_def)

lemma returns_some: "v \<noteq> None \<Longrightarrow> returns (throw_if_none err v)"
  by (auto simp: returns_def)

lemma sold_item_known:
  assumes "nft_ready n" and "sold_item items i (Some n) = Some r"
  obtains j where "r = SharedItem j" "mget items j \<noteq> None"
  using assms
  by (auto simp: sold_item_def nft_ready_def resolve_item_def split: if_splits option.splits item_ref.splits)

lemma poly_trackSale_returns:
  assumes rpc: "answering rpc" and ok: "ready s"
  shows "returns (poly_trackSale rpc b ty buyer seller bn i k price fc col rc t tx s)"
proof (cases "mget (ps_nfts s) k")
  case None
  then show ?thesis by (simp add: poly_trackSale_def Let_def split: option.split)
next
  case (Some n)
  have n: "nft_ready n" using readyD [OF ok Some] .
  then have owner: "returns (poly_getOwner rpc b n)"
    using rpc by (auto simp: poly_getOwner_def nft_ready_def answering_def returns_def)
  have sale: "returns (nft_sold price t n)" using n by (auto simp: nft_sold_def nft_ready_def returns_def)
  show ?thesis
  proof (cases "sold_item (ps_items s) i (Some n)")
    case None
    then show ?thesis using Some by (simp add: poly_trackSale_def Let_def)
  next
    case (Some r)
    obtain j where "r = SharedItem j" "mget (ps_items s) j \<noteq> None" using n Some by (rule sold_item_known)
    then show ?thesis
      using \<open>mget (ps_nfts s) k = Some n\<close> Some owner sale
      by (auto simp: poly_trackSale_def Let_def returns_def)
  qed
qed

lemma mint_terms_returns:
  "(\<And>t. traded = Some t \<Longrightarrow> trd_received t \<noteq> []) \<Longrightarrow> returns (mint_terms e minter item traded)"
  by (auto simp: mint_terms_def returns_def throw_if_none_def js_at_def split: option.splits if_splits)

lemma handleMintNFT_returns:
  assumes "answering rpc" and "ready s" and "h \<noteq> None"
    and "\<And>t. traded = Some t \<Longrightarrow> trd_received t \<noteq> []"
  shows "returns (handleMintNFT e rpc ev b h a j item sd traded s)"
proof (cases "mget (ps_collections s) a")
  case None
  then show ?thesis by (simp add: handleMintNFT_def Let_def)
next
  case (Some c)
  obtain hh where h: "h = Some hh" using assms(3) by auto
  have sale: "returns (poly_trackSale rpc b Sale_mint buyer seller bn i k price fc col rc t tx
      (minted_state ev b a c j item s))" for buyer seller bn i k price fc col rc t tx
    by (rule poly_trackSale_returns [OF assms(1) minted_state_ready [OF assms(2)]])
  obtain price bn where terms: "mint_terms e (ie_caller ev) item traded = Inr (price, bn)"
    using mint_terms_returns [OF assms(4)] by (fastforce simp: returns_def)
  show ?thesis
    using sale unfolding minted_state_def Let_def
    by (auto simp: handleMintNFT_def Some Let_def createOrLoadAccount_eq terms h
        intro!: returns_bind split: option.split)
qed

lemma handleIssue_returns:
  assumes "answering rpc" and "ready s" and "h \<noteq> None"
    and "\<And>t. traded = Some t \<Longrightarrow> trd_received t \<noteq> []"
  shows "returns (handleIssue e rpc a ev b h sd traded s)"
  using assms
  by (auto simp: handleIssue_def Let_def split: option.split intro!: handleMintNFT_returns
      intro: ready_same)

lemma trade_received:
  assumes "getTradeEventData e ev POLYGON = Some td"
  shows "trd_received ev \<noteq> []" and "returns (trade_beneficiary e ev)"
proof -
  obtain ty where ty: "getTradeEventType e ev POLYGON = Some ty"
    using assms by (auto simp: getTradeEventData_def split: option.splits)
  obtain s ss r rs where "trd_sent ev = s # ss" "trd_received ev = r # rs"
    using ty by (rule getTradeEventType_legs)
  then show "trd_received ev \<noteq> []" "returns (trade_beneficiary e ev)"
    by (auto simp: trade_beneficiary_def)
qed

lemma trade_item_returns:
  assumes rpc: "answering rpc" and ok: "ready s" and td: "getTradeEventData e ev POLYGON = Some td"
    and decode: "trade_decodable e s bd tx ev"
  shows "returns (trade_item e rpc ev td bd tx fr fc s)"
proof (cases "td_itemId td")
  case None
  then show ?thesis by (simp add: trade_item_def)
next
  case (Some itemId)
  have issue: "returns (handleIssue e rpc a i b (Some h) sd (Some ev) (s\<lparr>ps_consumedIssueLogs := ls\<rparr>))"
    for a i b h sd ls
    using trade_received(1) [OF td] by (intro handleIssue_returns [OF rpc ready_updates(2) [OF ok]]) auto
  obtain chosen consumed where select:
    "selectIssueLogForTrade (pb_logs bd) (tx_transactionIndex tx) (td_collectionAddress td) itemId ISSUE_TOPIC
       (blk_height (pb_header bd)) (ps_consumedIssueLogs s) = Inr (chosen, consumed)"
    using decode by (auto simp: trade_decodable_def td Some split: sum.splits)
  show ?thesis
  proof (cases chosen)
    case None
    then show ?thesis by (simp add: trade_item_def Some select)
  next
    case l: (Some l)
    then obtain issued where "pl_event l = Pe_Issue issued"
      using decode by (auto simp: trade_decodable_def td Some select split: poly_event.splits)
    then show ?thesis
      using issue trade_received(2) [OF td] by (auto simp: trade_item_def Some select l intro!: returns_bind)
  qed
qed

lemma trade_decodable_module [simp]: "trade_decodable e (s\<lparr>ps_module := m\<rparr>) bd tx ev = trade_decodable e s bd tx ev"
  by (simp add: trade_decodable_def cong: option.case_cong)

lemma trade_erc721_returns:
  assumes "answering rpc" and "ready s"
  shows "returns (trade_erc721 e rpc ev td b h fr fc rr s)"
  using assms
  by (auto simp: trade_erc721_def Let_def split: option.split
      intro!: poly_trackSale_returns ready_updates nft_ready_buyer) (erule (1) readyD)+

lemma poly_handleTraded_returns:
  assumes rpc: "answering rpc" and ok: "ready s" and decode: "trade_decodable e s bd tx ev"
  shows "returns (poly_handleTraded e rpc ev bd tx s)"
proof (cases "getTradeEventData e ev POLYGON")
  case None
  show ?thesis unfolding poly_handleTraded_def None by simp
next
  case (Some td)
  have v3: "returns (getMarketplaceV3ContractData e rpc b d)" for b d
    using rpc unfolding answering_def
    by (auto simp: getMarketplaceV3ContractData_def Let_def intro!: returns_bind split: option.split)
       (auto simp: returns_def)
  show ?thesis
    unfolding poly_handleTraded_def Some option.case Let_def
    using decode
    by (intro returns_bind v3) (auto intro!: trade_erc721_returns [OF rpc] trade_item_returns [OF rpc _ Some]
        ready_updates(3) [OF ok])
qed

lemma poly_handleOrderSuccessful_returns:
  assumes "answering rpc" and "ready s"
  shows "returns (poly_handleOrderSuccessful e rpc ev b h s)"
  using assms
  by (auto simp: poly_handleOrderSuccessful_def Let_def split: option.split
      intro!: poly_trackSale_returns ready_updates nft_ready_buyer) (erule (1) readyD)+

lemma poly_handleBidAccepted_returns:
  assumes "answering rpc" and "ready s"
  shows "returns (poly_handleBidAccepted rpc ev b h s)"
  using assms
  by (auto simp: poly_handleBidAccepted_def Let_def split: option.split dest!: bid_with_nft_Some
      intro!: poly_trackSale_returns ready_updates) (erule (1) readyD)+

lemma poly_handleBidCreated_returns:
  assumes "ready s"
  shows "returns (poly_handleBidCreated ev b a s)"
proof -
  have "returns (throw_if_none TypeError (nft_owner n))" if "mget (ps_nfts s) k = Some n" for k n
    using readyD [OF assms that] by (intro returns_some) (simp add: nft_ready_def)
  then show ?thesis
    by (auto simp: poly_handleBidCreated_def Let_def split: option.split intro!: returns_bind)
qed

lemma handleAddItem_returns:
  assumes "answering rpc"
  shows "returns (handleAddItem e rpc b a i ci rs s)"
proof -
  have "returns (creation_fee e rpc b r)" for r
    using assms by (auto simp: creation_fee_def answering_def returns_def bindR_eq_Inr split: option.split)
  then show ?thesis
    by (auto simp: handleAddItem_def Let_def split: option.split prod.split intro!: returns_bind)
qed

lemma poly_dispatch_returns:
  assumes "answering rpc" and "ready s" and "event_ready e s q"
  shows "returns (poly_dispatch e rpc s q)"
  using assms
  by (cases "pq_event q")
     (auto simp: poly_dispatch_def dispatch_market_def dispatch_issue_def with_transaction_def
       event_ready_def Let_def split: option.splits
       intro!: handleIssue_returns poly_handleTraded_returns poly_handleOrderSuccessful_returns
         poly_handleBidAccepted_returns poly_handleBidCreated_returns handleAddItem_returns)

interpretation poly_progress:
  progress "poly_dispatch e rpc" "\<lambda>s. answering rpc \<and> ready s" "event_ready e" for e rpc
  using poly_dispatch_returns poly_dispatch_ready by unfold_locales (auto simp: returns_def)


definition answering_rpc :: poly_rpc where
  "answering_rpc = sample_poly_rpc
     \<lparr>pr_rarityByName := \<lambda>h a n. Inr \<lparr>cr_name = n, cr_price = 1, cr_maxSupply = 1\<rparr>\<rparr>"

definition progress_queue :: "poly_queued list" where
  "progress_queue =
     [(poly_sample_queued (Pe_Issue \<lparr>ie_beneficiary = ''0xa'', ie_tokenId = 5, ie_itemId = 0,
        ie_issuedId = 1, ie_caller = ''0xo''\<rparr>) ''0xc'' 1)
        \<lparr>pq_transaction := Some \<lparr>tx_hash = ''0xt'', tx_from = ''0xa'', tx_input = [], tx_transactionIndex = 0\<rparr>\<rparr>]"


end
