(* ===== verification/Poly_Snapshot.thy ===== *)
theory Poly_Snapshot
  imports Poly_Scan Squid_Simulation
begin

text \<open>
  The rarities a queued event carries. The scan does not copy the map of rarities for every event: it
  keeps one snapshot and refreshes it only when the map has changed since. This theory shows that the
  queue is the same as if the map were copied after every log.
\<close>

section \<open>The reference scan\<close>

text \<open>Taking a copy of the rarities.\<close>

definition copy_rarities :: "poly_scan \<Rightarrow> poly_scan" where
  "copy_rarities sc = sc\<lparr>pc_snapshot := pc_rarities sc, pc_dirty := False\<rparr>"

definition eager_log ::
  "env \<Rightarrow> poly_rpc \<Rightarrow> tx_index \<Rightarrow> (string, collection_data) jsmap \<Rightarrow> poly_block \<Rightarrow> poly_scan \<Rightarrow> poly_log \<Rightarrow>
   poly_scan result" where
  "eager_log e rpc ti prefetched bd sc lg =
     bindR (poly_scan_log e rpc ti prefetched bd sc lg) (\<lambda>sc'. Inr (copy_rarities sc'))"

definition eager_block ::
  "env \<Rightarrow> poly_rpc \<Rightarrow> tx_index \<Rightarrow> (string, collection_data) jsmap \<Rightarrow> poly_scan \<Rightarrow> poly_block \<Rightarrow>
   poly_scan result" where
  "eager_block e rpc ti prefetched sc bd =
     (if blk_timestamp (pb_header bd) mod 1000 \<noteq> 0 then Inl RangeError
      else foldR (eager_log e rpc ti prefetched bd) sc (pb_logs bd))"

section \<open>The scan with a shared snapshot agrees\<close>

definition snapshot_ok :: "poly_scan \<Rightarrow> bool" where
  "snapshot_ok sc \<longleftrightarrow> (\<not> pc_dirty sc \<longrightarrow> pc_snapshot sc = pc_rarities sc)"

text \<open>Updates of the other columns commute with copying.\<close>

lemma copy_rarities_ids [simp]:
  "copy_rarities (pc_token a t sc) = pc_token a t (copy_rarities sc)"
  "copy_rarities (pc_account a sc) = pc_account a (copy_rarities sc)"
  "copy_rarities (pc_bid i sc) = pc_bid i (copy_rarities sc)"
  "copy_rarities (pc_collection a sc) = pc_collection a (copy_rarities sc)"
  "copy_rarities (pc_analytic b sc) = pc_analytic b (copy_rarities sc)"
  "copy_rarities (pc_itemDay i sc) = pc_itemDay i (copy_rarities sc)"
  "copy_rarities (pc_set_module f sc) = pc_set_module f (copy_rarities sc)"
  "copy_rarities (queue_market bd lg sc) = queue_market bd lg (copy_rarities sc)"
  "copy_rarities (collection_ids b lg sc) = collection_ids b lg (copy_rarities sc)"
  "copy_rarities (copy_rarities sc) = copy_rarities sc"
  by (simp_all add: copy_rarities_def pc_token_def pc_account_def pc_bid_def pc_collection_def
      pc_analytic_def pc_itemDay_def pc_set_module_def queue_market_def collection_ids_def Let_def
      split: poly_event.split)

lemma snapshot_ok_ids [simp]:
  "snapshot_ok (pc_token a t sc) = snapshot_ok sc"
  "snapshot_ok (pc_account a sc) = snapshot_ok sc"
  "snapshot_ok (pc_bid i sc) = snapshot_ok sc"
  "snapshot_ok (pc_collection a sc) = snapshot_ok sc"
  "snapshot_ok (pc_analytic b sc) = snapshot_ok sc"
  "snapshot_ok (pc_itemDay i sc) = snapshot_ok sc"
  "snapshot_ok (pc_set_module f sc) = snapshot_ok sc"
  "snapshot_ok (queue_market bd lg sc) = snapshot_ok sc"
  "snapshot_ok (collection_ids b lg sc) = snapshot_ok sc"
  "snapshot_ok (copy_rarities sc)"
  "snapshot_ok (pc_change_rarities m sc)"
  by (simp_all add: snapshot_ok_def copy_rarities_def pc_token_def pc_account_def pc_bid_def pc_collection_def
      pc_analytic_def pc_itemDay_def pc_set_module_def queue_market_def collection_ids_def Let_def
      pc_change_rarities_def split: poly_event.split)

text \<open>The one place where the snapshot is read.\<close>

lemma queue_collection_copy:
  "snapshot_ok sc \<Longrightarrow> copy_rarities (queue_collection bd lg sc) = queue_collection bd lg (copy_rarities sc)"
  "snapshot_ok sc \<Longrightarrow> snapshot_ok (queue_collection bd lg sc)"
  by (auto simp: queue_collection_def refresh_snapshot_def copy_rarities_def snapshot_ok_def Let_def)

lemma copied_columns [simp]:
  "pc_rarities (copy_rarities sc) = pc_rarities sc"
  "pc_validCollections (copy_rarities sc) = pc_validCollections sc"
  "copy_rarities (sc\<lparr>pc_committee := cs\<rparr>) = (copy_rarities sc)\<lparr>pc_committee := cs\<rparr>"
  "copy_rarities (sc\<lparr>pc_validCollections := vs\<rparr>) = (copy_rarities sc)\<lparr>pc_validCollections := vs\<rparr>"
  "copy_rarities (sc\<lparr>pc_factory := fs\<rparr>) = (copy_rarities sc)\<lparr>pc_factory := fs\<rparr>"
  "pc_committee (copy_rarities sc) = pc_committee sc"
  "copy_rarities (pc_change_rarities m (copy_rarities sc)) = copy_rarities (pc_change_rarities m sc)"
  "snapshot_ok (sc\<lparr>pc_committee := cs\<rparr>) = snapshot_ok sc"
  "snapshot_ok (sc\<lparr>pc_validCollections := vs\<rparr>) = snapshot_ok sc"
  "snapshot_ok (sc\<lparr>pc_factory := fs\<rparr>) = snapshot_ok sc"
  by (simp_all add: copy_rarities_def pc_change_rarities_def snapshot_ok_def)

text \<open>Two fallible scans that agree up to copying, the first one leaving a usable snapshot.\<close>

definition agree :: "poly_scan result \<Rightarrow> poly_scan result \<Rightarrow> bool" where
  "agree r r' \<longleftrightarrow> map_sum id copy_rarities r' = map_sum id copy_rarities r \<and>
     (\<forall>sc. r = Inr sc \<longrightarrow> snapshot_ok sc)"

lemma agreeI [intro]:
  "copy_rarities sc' = copy_rarities sc \<Longrightarrow> snapshot_ok sc \<Longrightarrow> agree (Inr sc) (Inr sc')"
  by (simp add: agree_def)

lemma agree_bindR: "(\<And>x. agree (f x) (g x)) \<Longrightarrow> agree (bindR r f) (bindR r g)"
  by (cases r) (simp_all add: agree_def)

lemma scan_created_agree:
  "snapshot_ok sc \<Longrightarrow>
   agree (scan_created e rpc ti pre b lg a sc) (scan_created e rpc ti pre b lg a (copy_rarities sc))"
proof -
  assume ok: "snapshot_ok sc"
  have factory: "pc_factory (pc_collection x (pc_account y ((copy_rarities sc)\<lparr>pc_validCollections := vs\<rparr>))) =
      pc_factory (pc_collection x (pc_account y (sc\<lparr>pc_validCollections := vs\<rparr>)))" for x y vs
    by (simp add: pc_collection_def pc_account_def copy_rarities_def)
  show ?thesis
    unfolding scan_created_def Let_def using ok by (auto simp: factory intro!: agree_bindR)
qed

lemma scan_market_agree:
  "snapshot_ok sc \<Longrightarrow> agree (Inr (scan_market e bd lg sc)) (Inr (scan_market e bd lg (copy_rarities sc)))"
  by (rule agreeI) (simp_all add: scan_market_def scan_order_def Let_def split: poly_event.split)

lemma scan_rarity_agree:
  "snapshot_ok sc \<Longrightarrow> agree (scan_rarity e rpc b lg sc) (scan_rarity e rpc b lg (copy_rarities sc))"
  by (auto simp: scan_rarity_def split: poly_event.split intro!: agree_bindR)

lemma scan_collection_agree:
  "snapshot_ok sc \<Longrightarrow> agree (Inr (scan_collection bd lg sc)) (Inr (scan_collection bd lg (copy_rarities sc)))"
  by (rule agreeI) (simp_all add: scan_collection_def queue_collection_copy)

lemma poly_scan_traded_agree:
  assumes "snapshot_ok sc"
  shows "agree (poly_scan_traded e rpc bd lg ev sc) (poly_scan_traded e rpc bd lg ev (copy_rarities sc))"
proof (cases "getTradeEventData e ev POLYGON")
  case None
  show ?thesis unfolding poly_scan_traded_def None using assms by auto
next
  case (Some td)
  show ?thesis
    unfolding poly_scan_traded_def Some option.case Let_def using assms
    by (intro agree_bindR) (auto simp: queue_collection_copy split: option.split)
qed

lemma poly_scan_log_agree:
  assumes "snapshot_ok sc"
  shows "agree (poly_scan_log e rpc ti pre bd sc lg) (poly_scan_log e rpc ti pre bd (copy_rarities sc) lg)"
  using assms scan_created_agree scan_market_agree scan_rarity_agree scan_collection_agree
    poly_scan_traded_agree
  by (cases "pl_event lg")
     (auto simp: poly_scan_log_def market_event_def rarity_event_def collection_event_def Let_def)

lemma poly_scan_log_sim:
  assumes "snapshot_ok sc"
  shows "eager_log e rpc ti pre bd (copy_rarities sc) lg =
    map_sum id copy_rarities (poly_scan_log e rpc ti pre bd sc lg)"
  using poly_scan_log_agree [OF assms, of e rpc ti pre bd lg] unfolding eager_log_def agree_def
  by (cases "poly_scan_log e rpc ti pre bd (copy_rarities sc) lg"; cases "poly_scan_log e rpc ti pre bd sc lg")
     auto

interpretation snapshot_logs:
  simulation "poly_scan_log e rpc ti pre bd" snapshot_ok "\<lambda>_ _. True" "eager_log e rpc ti pre bd" copy_rarities
  for e rpc ti pre bd
  using poly_scan_log_agree poly_scan_log_sim by unfold_locales (auto simp: agree_def)

interpretation snapshot_blocks:
  simulation "poly_scan_block e rpc ti pre" snapshot_ok "\<lambda>_ _. True" "eager_block e rpc ti pre" copy_rarities
  for e rpc ti pre
  using snapshot_logs.run_inv [OF _ ok_run_True] snapshot_logs.run_sim [OF _ ok_run_True]
  by unfold_locales (auto simp: poly_scan_block_def eager_block_def split: if_splits)

text \<open>
  C5: the shared snapshot of the rarities is as good as a copy per log. Scanning a batch with the
  snapshot that is refreshed only when the rarities have changed fails exactly when the scan that
  copies the rarities after every log fails, with the same exception, and otherwise leaves the same
  queues, with the same rarities in every queued event, and the same rarities, up to a last copy.
\<close>

theorem snapshot_scan_equivalence:
  "map_sum id copy_rarities
     (poly_scan_batch e rpc blocks (poly_getBatchInMemoryState rarities validCollections m)) =
   foldR (eager_block e rpc (index_blocks e blocks)
       (fetchCollectionDataMulticall rpc (pb_header (last blocks)) (ti_created (index_blocks e blocks))))
     (poly_getBatchInMemoryState rarities validCollections m) blocks"
proof -
  let ?sc = "poly_getBatchInMemoryState rarities validCollections m"
  have "snapshot_ok ?sc" "copy_rarities ?sc = ?sc"
    by (simp_all add: snapshot_ok_def copy_rarities_def poly_getBatchInMemoryState_def)
  then show ?thesis
    using snapshot_blocks.run_sim [OF _ ok_run_True, of ?sc] by (simp add: poly_scan_batch_def Let_def)
qed

end
