(* ===== verification/Poly_Trades.thy ===== *)
theory Poly_Trades
  imports Poly_Book
begin

text \<open>
  Trades of items of the third marketplace on Polygon: the price and the beneficiary a minted item is
  recorded with.
\<close>

text \<open>
  The terms of an item that is minted by a trade. For an order they are the ones of the trade: its
  price, paid to the seller. For an accepted bid the legs are exchanged but the code reads the same
  one: the sale is recorded with the id of the item as its price and the buyer as beneficiary, whatever
  was paid.
\<close>

lemma mint_terms_of_trade:
  assumes "v3_minter e minter" and "getTradeEventData e ev POLYGON = Some td"
  shows "(getTradeEventType e ev POLYGON = Some Trade_Order \<longrightarrow>
      mint_terms e minter item (Some ev) = Inr (td_price td, td_seller td)) \<and>
    (getTradeEventType e ev POLYGON = Some Trade_Bid \<and> td_itemId td = Some itemId \<longrightarrow>
      mint_terms e minter item (Some ev) = Inr (itemId, td_buyer td))"
proof -
  obtain ty where ty: "getTradeEventType e ev POLYGON = Some ty"
    using assms(2) by (auto simp: getTradeEventData_def split: option.splits)
  obtain s ss r rs where "trd_sent ev = s # ss" "trd_received ev = r # rs"
    using ty by (rule getTradeEventType_legs)
  then show ?thesis
    using assms ty
    by (auto simp: mint_terms_def getTradeEventData_def trade_data_of_def split: if_splits)
qed

end
