(* ===== verification/Squid_Head.thy ===== *)
theory Squid_Head
  imports Squid_Strings Squid_Simulation
begin

text \<open>
  The notice that a processor has reached the head of its chain: \<^verbatim>\<open>common/utils/head-notification.ts\<close>
  and its calls at the start of every batch. The row of a chain in the status table remembers across
  restarts when indexing began and when the head was reached; two sets of the process avoid asking
  again. All queries run on a connection of their own, outside the transaction of the batch, so what
  they write stays when the batch is rolled back. Every query may fail.
\<close>

record head_row =
  hr_started_at :: int
  hr_head_reached_at :: "int option"

record head_alert =
  al_chain :: string
  al_headBlock :: int
  al_indexingTime :: string
  al_started :: int
  al_finished :: int

text \<open>
  \<open>hs_alerts\<close> is the history of the calls of \<^verbatim>\<open>sendMessage\<close>; the other columns are the status table and
  the module variables.
\<close>

record head_state =
  hs_table :: "(string, head_row) jsmap"
  hs_tableEnsured :: bool
  hs_started :: "string list"
  hs_handled :: "string list"
  hs_alerts :: "head_alert list"

record head_faults =
  hf_connect :: "js_error option"
  hf_ensure :: "js_error option"
  hf_query :: "js_error option"
  hf_release :: "js_error option"

definition withOwnConnection ::
  "head_faults \<Rightarrow> (head_state \<Rightarrow> 'a result \<times> head_state) \<Rightarrow> head_state \<Rightarrow> 'a result \<times> head_state" where
  "withOwnConnection f fn s =
     (case hf_connect f of
        Some e \<Rightarrow> (Inl e, s)
      | None \<Rightarrow>
          (case fn s of (r, s') \<Rightarrow>
            (case hf_release f of None \<Rightarrow> (r, s') | Some e \<Rightarrow> (Inl e, s'))))"

definition ensureTable :: "head_faults \<Rightarrow> head_state \<Rightarrow> unit result \<times> head_state" where
  "ensureTable f s =
     (if hs_tableEnsured s then (Inr (), s)
      else case hf_ensure f of
             Some e \<Rightarrow> (Inl e, s)
           | None \<Rightarrow> (Inr (), s\<lparr>hs_tableEnsured := True\<rparr>))"

text \<open>A query after \<open>ensureTable\<close>, on the status table.\<close>

definition status_query ::
  "head_faults \<Rightarrow> (head_state \<Rightarrow> 'a \<times> head_state) \<Rightarrow> head_state \<Rightarrow> 'a result \<times> head_state" where
  "status_query f q s =
     (case ensureTable f s of
        (Inl e, s1) \<Rightarrow> (Inl e, s1)
      | (Inr _, s1) \<Rightarrow>
          (case hf_query f of
             Some e \<Rightarrow> (Inl e, s1)
           | None \<Rightarrow> (case q s1 of (r, s2) \<Rightarrow> (Inr r, s2))))"

definition insert_start :: "string \<Rightarrow> int \<Rightarrow> head_state \<Rightarrow> unit \<times> head_state" where
  "insert_start chain now s =
     ((), if mhas (hs_table s) chain then s
          else s\<lparr>hs_table := mset (hs_table s) chain \<lparr>hr_started_at = now, hr_head_reached_at = None\<rparr>\<rparr>)"

definition recordIndexingStart :: "head_faults \<Rightarrow> string \<Rightarrow> int \<Rightarrow> head_state \<Rightarrow> head_state" where
  "recordIndexingStart f chain now s =
     (if chain \<in> set (hs_started s) then s
      else case withOwnConnection f (status_query f (insert_start chain now)) s of
             (Inl _, s') \<Rightarrow> s'
           | (Inr _, s') \<Rightarrow> s'\<lparr>hs_started := sadd (hs_started s') chain\<rparr>)"

text \<open>\<^verbatim>\<open>UPDATE ... WHERE chain = $1 AND head_reached_at IS NULL RETURNING started_at, head_reached_at\<close>.\<close>

definition update_reached :: "string \<Rightarrow> int \<Rightarrow> head_state \<Rightarrow> (int \<times> int) list \<times> head_state" where
  "update_reached chain now s =
     (case mget (hs_table s) chain of
        None \<Rightarrow> ([], s)
      | Some row \<Rightarrow>
          if hr_head_reached_at row = None
          then ([(hr_started_at row, now)],
                s\<lparr>hs_table := mset (hs_table s) chain (row\<lparr>hr_head_reached_at := Some now\<rparr>)\<rparr>)
          else ([], s))"

definition formatDuration :: "int \<Rightarrow> string" where
  "formatDuration ms =
     (let totalSeconds = max 0 (ms div 1000);
          h = totalSeconds div 3600; m = totalSeconds mod 3600 div 60; s = totalSeconds mod 60;
          parts = (if h \<noteq> 0 then [toStr h @ ''h''] else []) @
                  (if h \<noteq> 0 \<or> m \<noteq> 0 then [toStr m @ ''m''] else []) @ [toStr s @ ''s'']
      in js_join CHR '' '' parts)"

text \<open>
  \<open>slack\<close> says whether credentials are configured. What becomes of the message does not matter here:
  an exception of \<^verbatim>\<open>sendMessage\<close> is caught and nothing follows.
\<close>

definition notifyHeadReachedOnce ::
  "head_faults \<Rightarrow> bool \<Rightarrow> string \<Rightarrow> int \<Rightarrow> int \<Rightarrow> head_state \<Rightarrow> head_state" where
  "notifyHeadReachedOnce f slack chain headBlock now s =
     (if chain \<in> set (hs_handled s) then s
      else case withOwnConnection f (status_query f (update_reached chain now)) s of
             (Inl _, s') \<Rightarrow> s'
           | (Inr rows, s') \<Rightarrow>
               (let s1 = s'\<lparr>hs_handled := sadd (hs_handled s') chain\<rparr> in
                case rows of
                  [] \<Rightarrow> s1
                | (started, finished) # _ \<Rightarrow>
                    if slack
                    then s1\<lparr>hs_alerts := hs_alerts s1 @
                          [\<lparr>al_chain = chain, al_headBlock = headBlock,
                            al_indexingTime = formatDuration (finished - started),
                            al_started = started, al_finished = finished\<rparr>]\<rparr>
                    else s1))"

text \<open>The start of a batch; times are milliseconds.\<close>

record head_batch =
  hb_chain :: string
  hb_heights :: "int list"
  hb_isHead :: bool
  hb_now :: int
  hb_slack :: bool
  hb_start :: head_faults
  hb_notify :: head_faults

definition head_batch_step :: "head_state \<Rightarrow> head_batch \<Rightarrow> head_state" where
  "head_batch_step s b =
     (let s1 = recordIndexingStart (hb_start b) (hb_chain b) (hb_now b) s in
      if hb_isHead b \<and> hb_heights b \<noteq> []
      then notifyHeadReachedOnce (hb_notify b) (hb_slack b) (hb_chain b) (last (hb_heights b)) (hb_now b) s1
      else s1)"

datatype head_event = Process_restart | Head_batch head_batch

primrec head_step :: "head_state \<Rightarrow> head_event \<Rightarrow> head_state" where
  "head_step s Process_restart = s\<lparr>hs_tableEnsured := False, hs_started := [], hs_handled := []\<rparr>"
| "head_step s (Head_batch b) = head_batch_step s b"

section \<open>At most one notice\<close>

abbreviation alerts_of :: "string \<Rightarrow> head_state \<Rightarrow> head_alert list" where
  "alerts_of chain s \<equiv> filter (\<lambda>a. al_chain a = chain) (hs_alerts s)"

definition reached :: "head_state \<Rightarrow> string \<Rightarrow> bool" where
  "reached s chain \<longleftrightarrow> (\<exists>row. mget (hs_table s) chain = Some row \<and> hr_head_reached_at row \<noteq> None)"

definition head_inv :: "head_state \<Rightarrow> bool" where
  "head_inv s \<longleftrightarrow>
     (\<forall>chain. length (alerts_of chain s) \<le> 1 \<and> (alerts_of chain s \<noteq> [] \<longrightarrow> reached s chain))"

text \<open>What a query on the connection may do: the history stays, and a head once reached stays so.\<close>

definition head_extends :: "head_state \<Rightarrow> head_state \<Rightarrow> bool" where
  "head_extends s s' \<longleftrightarrow> hs_alerts s' = hs_alerts s \<and> (\<forall>chain. reached s chain \<longrightarrow> reached s' chain)"

lemma head_extends_refl [simp]: "head_extends s s"
  by (simp add: head_extends_def)

lemma head_extends_inv: "head_extends s s' \<Longrightarrow> head_inv s \<Longrightarrow> head_inv s'"
  by (simp add: head_extends_def head_inv_def)

lemma query_extends:
  assumes "\<And>s. head_extends s (snd (q s))"
  shows "head_extends s (snd (withOwnConnection f (status_query f q) s))"
  using assms [of "s\<lparr>hs_tableEnsured := True\<rparr>"] assms [of s]
  by (auto simp: withOwnConnection_def status_query_def ensureTable_def head_extends_def reached_def
      split: option.split prod.split sum.split)

lemma insert_start_extends: "head_extends s (snd (insert_start chain now s))"
  by (auto simp: insert_start_def head_extends_def reached_def mhas_def)

lemma update_reached_extends: "head_extends s (snd (update_reached chain now s))"
  by (auto simp: update_reached_def head_extends_def reached_def split: option.split)

text \<open>The gate: rows are only returned to the one call that sets the time.\<close>

lemma update_reached_gate:
  "withOwnConnection f (status_query f (update_reached chain now)) s = (Inr (x # xs), s') \<Longrightarrow>
   \<not> reached s chain \<and> reached s' chain"
  by (auto simp: withOwnConnection_def status_query_def ensureTable_def update_reached_def reached_def
      split: option.splits prod.splits sum.splits if_splits)

lemma recordIndexingStart_inv: "head_inv s \<Longrightarrow> head_inv (recordIndexingStart f chain now s)"
  using query_extends [of "insert_start chain now" s f, OF insert_start_extends]
  by (auto simp: recordIndexingStart_def head_inv_def head_extends_def reached_def
      split: prod.split sum.split)

lemma head_inv_handled [simp]: "head_inv (s\<lparr>hs_handled := hs\<rparr>) = head_inv s"
  by (simp add: head_inv_def reached_def)

lemma announce_inv:
  "head_inv s \<Longrightarrow> reached s (al_chain a) \<Longrightarrow> alerts_of (al_chain a) s = [] \<Longrightarrow>
   head_inv (s\<lparr>hs_handled := hs, hs_alerts := hs_alerts s @ [a]\<rparr>)"
  by (auto simp: head_inv_def reached_def)

lemma notify_inv:
  assumes "head_inv s"
  shows "head_inv (notifyHeadReachedOnce f slack chain headBlock now s)"
proof -
  obtain r s' where r: "withOwnConnection f (status_query f (update_reached chain now)) s = (r, s')"
    by fastforce
  then have ext: "head_extends s s'"
    using query_extends [of "update_reached chain now" s f, OF update_reached_extends] by simp
  have inv: "head_inv s'" using ext assms by (rule head_extends_inv)
  have gate: "reached s' chain \<and> alerts_of chain s' = []" if "r = Inr (x # xs)" for x xs
    using that r update_reached_gate [of f chain now s x xs s'] ext assms
    by (auto simp: head_extends_def head_inv_def)
  show ?thesis using assms r inv gate
    by (auto simp: notifyHeadReachedOnce_def Let_def split: sum.split list.split intro!: announce_inv)
qed

lemma head_step_inv: "head_inv s \<Longrightarrow> head_inv (head_step s ev)"
  by (cases ev)
     (auto simp: head_batch_step_def Let_def recordIndexingStart_inv notify_inv, simp add: head_inv_def reached_def)

interpretation head: batch "\<lambda>s ev. Inr (head_step s ev) :: unit + head_state" head_inv "\<lambda>_ _. True"
  by unfold_locales (auto intro: head_step_inv)

text \<open>
  C30: the notice is sent at most once. Over any history of batches and restarts, for any number of
  chains and whichever queries fail, no chain is announced twice, and a chain that was announced has
  the time it reached the head in the status table.
\<close>

theorem head_alert_once:
  assumes "hs_alerts s = []" and "s' = foldl head_step s evs"
  shows "length (filter (\<lambda>a. al_chain a = chain) (hs_alerts s')) \<le> 1 \<and>
    (\<forall>a \<in> set (hs_alerts s'). \<exists>row. mget (hs_table s') (al_chain a) = Some row \<and> hr_head_reached_at row \<noteq> None)"
proof -
  have "head_inv s" using assms(1) by (simp add: head_inv_def)
  then have "head_inv s'" using head.run_inv [of s evs s'] assms(2) by (simp add: foldR_total)
  then show ?thesis unfolding head_inv_def reached_def by (auto simp: filter_empty_conv)
qed

definition no_head_faults :: head_faults where
  "no_head_faults = \<lparr>hf_connect = None, hf_ensure = None, hf_query = None, hf_release = None\<rparr>"

definition sample_head_batch :: "int \<Rightarrow> head_faults \<Rightarrow> head_event" where
  "sample_head_batch now f =
     Head_batch \<lparr>hb_chain = ''eth'', hb_heights = [7, 8], hb_isHead = True, hb_now = now, hb_slack = True,
       hb_start = no_head_faults, hb_notify = f\<rparr>"

definition sample_head_start :: head_state where
  "sample_head_start = \<lparr>hs_table = [], hs_tableEnsured = False, hs_started = [], hs_handled = [], hs_alerts = []\<rparr>"

definition sample_head_events :: "head_event list" where
  "sample_head_events = [sample_head_batch 1000 no_head_faults, Process_restart, sample_head_batch 5000 no_head_faults]"

theorem head_alert_once_witness:
  "length (filter (\<lambda>a. al_chain a = ''eth'') (hs_alerts (foldl head_step sample_head_start sample_head_events))) \<le> 1"
  using head_alert_once [of sample_head_start _ sample_head_events "''eth''"]
  by (simp add: sample_head_start_def)

text \<open>
  The notice can be lost: when the connection fails after the row has been written, the exception
  leaves the chain unannounced, and no later batch or process announces it.
\<close>

lemma head_alert_lost:
  "hs_alerts (foldl head_step sample_head_start
     (sample_head_batch 1000 (no_head_faults\<lparr>hf_release := Some TypeError\<rparr>) # sample_head_events)) = []"
  by code_simp

end
