(* ===== verification/Squid_Indices.thy ===== *)
theory Squid_Indices
  imports Squid_Strings Squid_Simulation
begin

text \<open>
  Index management during the initial synchronisation: \<^verbatim>\<open>common/utils/indexManager.ts\<close> and the two
  blocks at the start of every batch of both \<^verbatim>\<open>main.ts\<close> files (\<^verbatim>\<open>BULK INDEX MODE\<close>). The secondary
  indices of the database are dropped when a fresh synchronisation starts and created again when the
  head of the chain is reached.

  The database is the list of the names of the indices of the schema. Every query may fail: a record
  of faults says for one pass over the indices which query throws which error. A statement that fails
  changes nothing (data definition is transactional in the database), and a statement that succeeds
  creates or drops the index it names. Log output and chat messages are left out; sending a message
  never throws.
\<close>

section \<open>The managed indices\<close>

record ManagedIndex =
  mi_name :: string
  mi_create :: string
  mi_keepDuringBulkLoad :: bool

type_synonym IndexGroup = "(string \<times> ManagedIndex list) list"

definition quoted :: "string \<Rightarrow> string" where
  "quoted s = ''\"'' @ s @ ''\"''"

fun comma_separated :: "string list \<Rightarrow> string" where
  "comma_separated [] = ''''"
| "comma_separated [s] = s"
| "comma_separated (s # t # ss) = s @ '', '' @ comma_separated (t # ss)"

text \<open>One row of the tables: all statements have the form \<^verbatim>\<open>CREATE INDEX "name" ON "table" ("column", ...)\<close>.\<close>

definition managed :: "string \<Rightarrow> string \<Rightarrow> string list \<Rightarrow> bool \<Rightarrow> ManagedIndex" where
  "managed nm tab columns keep =
     \<lparr>mi_name = nm,
      mi_create = ''CREATE INDEX '' @ quoted nm @ '' ON '' @ quoted tab @ '' ('' @
        comma_separated (map quoted columns) @ '')'',
      mi_keepDuringBulkLoad = keep\<rparr>"

definition POLYGON_INDICES :: IndexGroup where
  "POLYGON_INDICES =
    [(''nft'',
      [managed ''IDX_5f8cc4778564d0bd3c4ac3436d'' ''nft'' [''search_order_status'', ''search_order_expires_at'', ''category''] False,
       managed ''IDX_d5b8837a62eb6d9c95eb3d2ef2'' ''nft'' [''search_order_status'', ''search_order_expires_at'', ''network''] False,
       managed ''IDX_26e756121a20d1cc3e4d738279'' ''nft'' [''owner_address''] False,
       managed ''IDX_0fca1a8c5d9399d9a9a52e26f7'' ''nft'' [''contract_address'', ''token_id''] False,
       managed ''IDX_3baa214ec3db0ce29708750e3b'' ''nft'' [''category''] False,
       managed ''IDX_e0e405184c1c9253bbe95b6cc7'' ''nft'' [''search_order_expires_at_normalized''] False,
       managed ''IDX_b53fdf02d6f6047c1758ae885a'' ''nft'' [''search_is_land''] False,
       managed ''IDX_4c7d1118621f3ea97740a1d876'' ''nft'' [''item_id'', ''owner_id''] False,
       managed ''IDX_2c8ca873555fc156848199919f'' ''nft'' [''created_at''] False,
       managed ''IDX_645ec1a1710c449fa4e9d241e9'' ''nft'' [''search_order_expires_at''] False,
       managed ''IDX_4d213d73326e54427a5c9bdddf'' ''nft'' [''search_parcel_is_in_bounds''] False,
       managed ''IDX_7e215df412b248db3731737290'' ''nft'' [''token_id''] False,
       managed ''IDX_ffe58aa05707db77c2f20ecdbc'' ''nft'' [''collection_id''] False,
       managed ''IDX_c36d2ea36d7de5e265c30b8be8'' ''nft'' [''metadata_id''] False,
       managed ''IDX_83cfd3a290ed70c660f8c9dfe2'' ''nft'' [''owner_id''] False,
       managed ''IDX_b92ac830e4b3a630162a898203'' ''nft'' [''active_order_id''] False]),
     (''order'',
      [managed ''IDX_2485593ed8c9972197aeaf7da6'' ''order'' [''expires_at_normalized''] False,
       managed ''IDX_d01158fe15b1ead5c26fd7f4e9'' ''order'' [''item_id''] False,
       managed ''IDX_f5047ff046d513a3598c1a2931'' ''order'' [''nft_id''] True]),
     (''sale'',
      [managed ''IDX_8ac00a610840894296c6f32fd2'' ''sale'' [''timestamp''] False,
       managed ''IDX_a91d7a7aa55af7d57ef4d17912'' ''sale'' [''search_category'', ''network''] False,
       managed ''IDX_439a57a4a0d130329d3d2e671b'' ''sale'' [''item_id''] False,
       managed ''IDX_8524438f82167bcb795bcb8663'' ''sale'' [''nft_id''] False]),
     (''item'',
      [managed ''IDX_9ddbd0267ddb9c59621775f94e'' ''item'' [''collection_id'', ''blockchain_id''] True,
       managed ''IDX_6d5bb320c601281cd3a213979e'' ''item'' [''metadata_id''] False]),
     (''bid'',
      [managed ''IDX_3caf2d6b31d2fe45a2b85b8191'' ''bid'' [''nft_id''] False]),
     (''transfer'',
      [managed ''IDX_024eb30e5fd99a5bea7befe60e'' ''transfer'' [''network''] False,
       managed ''IDX_c116ab40c3b32ca2d9c1d17d8b'' ''transfer'' [''block''] False,
       managed ''IDX_be54ea276e0f665ffc38630fc0'' ''transfer'' [''from''] False,
       managed ''IDX_4cbc37e8c3b47ded161f44c24f'' ''transfer'' [''to''] False,
       managed ''IDX_f605a03972b4f28db27a0ee70d'' ''transfer'' [''tx_hash''] False]),
     (''mint'',
      [managed ''IDX_cd587534d4140377bb52337ae4'' ''mint'' [''item_id''] False,
       managed ''IDX_c46ca4e5f135d6dbdf10111660'' ''mint'' [''nft_id''] False]),
     (''curation'',
      [managed ''IDX_dff9f3d4753a2a4caecf74d066'' ''curation'' [''curator_id''] False,
       managed ''IDX_2cb014ad08eee6a3c64afa42f3'' ''curation'' [''collection_id''] False,
       managed ''IDX_ddf35815bd940a989480f79fec'' ''curation'' [''item_id''] False]),
     (''metadata'',
      [managed ''IDX_45072545bb44e246e0496110f9'' ''metadata'' [''wearable_id''] False,
       managed ''IDX_cee9cecc2205cd07a21813203d'' ''metadata'' [''emote_id''] False]),
     (''wearable'',
      [managed ''IDX_f011ccea27833b0628a7532834'' ''wearable'' [''owner_id''] False]),
     (''account'',
      [managed ''IDX_83603c168bc00b20544539fbea'' ''account'' [''address''] False]),
     (''squid_router_order'',
      [managed ''IDX_squid_router_order_order_hash'' ''squid_router_order'' [''order_hash''] False,
       managed ''IDX_squid_router_order_tx_hash'' ''squid_router_order'' [''tx_hash''] False])]"

definition ETH_INDICES :: IndexGroup where
  "ETH_INDICES =
    [(''estate'',
      [managed ''IDX_1f3ec6150afbb8a3fd75fae814'' ''estate'' [''size''] False,
       managed ''IDX_0b680d37990796da3232ad9d98'' ''estate'' [''owner_id''] False,
       managed ''IDX_c40a1b5f5b764ad6ab5fa749cd'' ''estate'' [''data_id''] False]),
     (''parcel'',
      [managed ''IDX_a7c5c87cd4ffc1e1129f0c5f43'' ''parcel'' [''owner_id''] False,
       managed ''IDX_da4912d77606dcfabe5da7eebc'' ''parcel'' [''estate_id''] False,
       managed ''IDX_04ab2b996d659d2f86dbcee860'' ''parcel'' [''data_id''] False]),
     (''data'',
      [managed ''IDX_8694618f20c7b364d4cb23c111'' ''data'' [''parcel_id''] False,
       managed ''IDX_ae7e5532f8406258419ed617b4'' ''data'' [''estate_id''] False]),
     (''ens'',
      [managed ''IDX_2ebf256442a48f5acbdf2ea77d'' ''ens'' [''owner_id''] False,
       managed ''IDX_ens_order_hash'' ''ens'' [''order_hash''] False])]"

definition flattenIndices :: "IndexGroup \<Rightarrow> ManagedIndex list" where
  "flattenIndices g = concat (map snd g)"

text \<open>The threshold is \<^verbatim>\<open>Math.floor(initialBlock * 1.1)\<close>.\<close>

definition isFreshSync :: "int \<Rightarrow> int \<Rightarrow> bool" where
  "isFreshSync currentBlock initialBlock \<longleftrightarrow> currentBlock < 11 * initialBlock div 10"

section \<open>Passes over the indices\<close>

record index_faults =
  fl_connect :: "js_error option"
  fl_before :: "string \<Rightarrow> js_error option"
  fl_loop :: "string \<Rightarrow> js_error option"
  fl_ddl :: "string \<Rightarrow> js_error option"
  fl_after :: "string \<Rightarrow> js_error option"
  fl_release :: "js_error option"

definition no_faults :: index_faults where
  "no_faults = \<lparr>fl_connect = None, fl_before = (\<lambda>_. None), fl_loop = (\<lambda>_. None), fl_ddl = (\<lambda>_. None),
     fl_after = (\<lambda>_. None), fl_release = None\<rparr>"

text \<open>
  The connection is released whatever the callback does; an exception of the release replaces its
  result. What was executed on the connection stays, it is not part of the transaction of the batch.
\<close>

definition withIndexConnection ::
  "index_faults \<Rightarrow> (string list \<Rightarrow> 'a result \<times> string list) \<Rightarrow> string list \<Rightarrow> 'a result \<times> string list" where
  "withIndexConnection f fn db =
     (case fl_connect f of
        Some e \<Rightarrow> (Inl e, db)
      | None \<Rightarrow>
          (case fn db of (r, db') \<Rightarrow>
            (case fl_release f of None \<Rightarrow> (r, db') | Some e \<Rightarrow> (Inl e, db'))))"

definition indexExists :: "(string \<Rightarrow> js_error option) \<Rightarrow> string list \<Rightarrow> string \<Rightarrow> bool result" where
  "indexExists fault db indexName =
     (case fault indexName of Some e \<Rightarrow> Inl e | None \<Rightarrow> Inr (indexName \<in> set db))"

definition status_step ::
  "(string \<Rightarrow> js_error option) \<Rightarrow> string list \<Rightarrow> string list \<times> string list \<Rightarrow> ManagedIndex \<Rightarrow>
   (string list \<times> string list) result" where
  "status_step fault db acc idx =
     bindR (indexExists fault db (mi_name idx)) (\<lambda>b.
       Inr (if b then (fst acc @ [mi_name idx], snd acc) else (fst acc, snd acc @ [mi_name idx])))"

definition getIndicesStatus ::
  "(string \<Rightarrow> js_error option) \<Rightarrow> string list \<Rightarrow> ManagedIndex list \<Rightarrow> (string list \<times> string list) result" where
  "getIndicesStatus fault db indices = foldR (status_step fault db) ([], []) indices"

definition drop_index :: "index_faults \<Rightarrow> string list \<Rightarrow> ManagedIndex \<Rightarrow> string list" where
  "drop_index f db idx =
     (case indexExists (fl_loop f) db (mi_name idx) of
        Inl _ \<Rightarrow> db
      | Inr False \<Rightarrow> db
      | Inr True \<Rightarrow> (case fl_ddl f (mi_name idx) of Some _ \<Rightarrow> db | None \<Rightarrow> removeAll (mi_name idx) db))"

definition dropIndicesForBulkLoad ::
  "index_faults \<Rightarrow> IndexGroup \<Rightarrow> string list \<Rightarrow> unit result \<times> string list" where
  "dropIndicesForBulkLoad f g =
     (let indices = filter (\<lambda>idx. \<not> mi_keepDuringBulkLoad idx) (flattenIndices g) in
      withIndexConnection f (\<lambda>db.
        case getIndicesStatus (fl_before f) db indices of
          Inl e \<Rightarrow> (Inl e, db)
        | Inr status \<Rightarrow>
            if fst status = [] then (Inr (), db) else (Inr (), foldl (drop_index f) db indices)))"

text \<open>\<^verbatim>\<open>String.prototype.replace\<close> with a string: the first occurrence.\<close>

definition js_replace :: "string \<Rightarrow> string \<Rightarrow> string \<Rightarrow> string" where
  "js_replace s pat rep =
     (if indexOf s pat < 0 then s
      else take (nat (indexOf s pat)) s @ rep @ drop (nat (indexOf s pat) + length pat) s)"

definition createStatement :: "ManagedIndex \<Rightarrow> string" where
  "createStatement idx =
     js_replace
       (js_replace (mi_create idx) ''CREATE UNIQUE INDEX'' ''CREATE UNIQUE INDEX IF NOT EXISTS'')
       ''CREATE INDEX'' ''CREATE INDEX IF NOT EXISTS''"

text \<open>The index a statement names: what stands between the first two quotation marks.\<close>

definition named_index :: "string \<Rightarrow> string" where
  "named_index statement = takeWhile (\<lambda>c. c \<noteq> CHR ''\"'') (tl (dropWhile (\<lambda>c. c \<noteq> CHR ''\"'') statement))"

definition create_index :: "index_faults \<Rightarrow> string list \<Rightarrow> ManagedIndex \<Rightarrow> string list" where
  "create_index f db idx =
     (case indexExists (fl_loop f) db (mi_name idx) of
        Inl _ \<Rightarrow> db
      | Inr True \<Rightarrow> db
      | Inr False \<Rightarrow>
          (case fl_ddl f (mi_name idx) of
             Some _ \<Rightarrow> db
           | None \<Rightarrow> sadd db (named_index (createStatement idx))))"

definition still_missing :: "string list \<Rightarrow> ManagedIndex list \<Rightarrow> js_error" where
  "still_missing missing indices =
     JsError (toStr (int (length missing)) @ '' of '' @ toStr (int (length indices)) @
       '' indices are still missing after the recreate pass'')"

definition recreateIndices ::
  "index_faults \<Rightarrow> IndexGroup \<Rightarrow> string list \<Rightarrow> unit result \<times> string list" where
  "recreateIndices f g =
     (let indices = flattenIndices g in
      withIndexConnection f (\<lambda>db.
        case getIndicesStatus (fl_before f) db indices of
          Inl e \<Rightarrow> (Inl e, db)
        | Inr before \<Rightarrow>
            if snd before = [] then (Inr (), db)
            else
              (let db' = foldl (create_index f) db indices in
               case getIndicesStatus (fl_after f) db' indices of
                 Inl e \<Rightarrow> (Inl e, db')
               | Inr after \<Rightarrow>
                   if snd after = [] then (Inr (), db') else (Inl (still_missing (snd after) indices), db'))))"

definition checkIndicesNeedRecreation :: "index_faults \<Rightarrow> IndexGroup \<Rightarrow> string list \<Rightarrow> bool result" where
  "checkIndicesNeedRecreation f g db =
     fst (withIndexConnection f (\<lambda>db.
       (bindR (getIndicesStatus (fl_before f) db (flattenIndices g)) (\<lambda>status. Inr (snd status \<noteq> [])), db)) db)"

section \<open>The mode of a processor\<close>

text \<open>
  The module variables of \<^verbatim>\<open>main.ts\<close> and the indices of the schema, where \<^verbatim>\<open>BULK_INDEX_MODE\<close> is
  switched on; otherwise both blocks are skipped. A restart forgets the variables and keeps the
  database.
\<close>

record bulk_mode =
  bm_initialized :: bool
  bm_recreated :: bool
  bm_needRecreation :: bool
  bm_attempts :: nat
  bm_db :: "string list"

definition bulk_start :: "string list \<Rightarrow> bulk_mode" where
  "bulk_start db = \<lparr>bm_initialized = False, bm_recreated = False, bm_needRecreation = False,
     bm_attempts = 0, bm_db = db\<rparr>"

definition MAX_INDEX_RECREATE_ATTEMPTS :: nat where
  "MAX_INDEX_RECREATE_ATTEMPTS = 5"

record bulk_batch =
  bb_heights :: "int list"
  bb_isHead :: bool
  bb_check :: index_faults
  bb_init :: index_faults
  bb_head :: index_faults

definition currentBlock :: "bulk_batch \<Rightarrow> int" where
  "currentBlock b = (case bb_heights b of [] \<Rightarrow> 0 | h # _ \<Rightarrow> h)"

definition recreate_pass :: "index_faults \<Rightarrow> IndexGroup \<Rightarrow> bulk_mode \<Rightarrow> bulk_mode" where
  "recreate_pass f g s =
     (case recreateIndices f g (bm_db s) of
        (Inl _, db) \<Rightarrow> s\<lparr>bm_db := db\<rparr>
      | (Inr _, db) \<Rightarrow> s\<lparr>bm_db := db, bm_recreated := True\<rparr>)"

text \<open>The first batch of a process: errors are caught and logged.\<close>

definition bulk_initialize :: "IndexGroup \<Rightarrow> int \<Rightarrow> bulk_batch \<Rightarrow> bulk_mode \<Rightarrow> bulk_mode" where
  "bulk_initialize g initialBlock b s =
     (let s1 = s\<lparr>bm_initialized := True\<rparr> in
      case checkIndicesNeedRecreation (bb_check b) g (bm_db s1) of
        Inl _ \<Rightarrow> s1
      | Inr need \<Rightarrow>
          (let s2 = s1\<lparr>bm_needRecreation := need\<rparr> in
           if isFreshSync (currentBlock b) initialBlock
           then (case dropIndicesForBulkLoad (bb_init b) g (bm_db s2) of
                   (Inl _, db) \<Rightarrow> s2\<lparr>bm_db := db\<rparr>
                 | (Inr _, db) \<Rightarrow> s2\<lparr>bm_db := db, bm_needRecreation := True\<rparr>)
           else if \<not> need then s2\<lparr>bm_recreated := True\<rparr>
           else if bb_isHead b then recreate_pass (bb_init b) g s2
           else s2))"

definition bulk_step :: "IndexGroup \<Rightarrow> int \<Rightarrow> bulk_mode \<Rightarrow> bulk_batch \<Rightarrow> bulk_mode" where
  "bulk_step g initialBlock s b =
     (let s1 = (if bm_initialized s then s else bulk_initialize g initialBlock b s) in
      if \<not> bm_recreated s1 \<and> bb_isHead b \<and> bm_attempts s1 < MAX_INDEX_RECREATE_ATTEMPTS
      then recreate_pass (bb_head b) g (s1\<lparr>bm_attempts := bm_attempts s1 + 1\<rparr>)
      else s1)"

datatype bulk_event = Restart | Batch bulk_batch

primrec bulk_event_step :: "IndexGroup \<Rightarrow> int \<Rightarrow> bulk_mode \<Rightarrow> bulk_event \<Rightarrow> bulk_mode" where
  "bulk_event_step g initialBlock s Restart = bulk_start (bm_db s)"
| "bulk_event_step g initialBlock s (Batch b) = bulk_step g initialBlock s b"

section \<open>What a pass does\<close>

abbreviation index_names :: "IndexGroup \<Rightarrow> string set" where
  "index_names g \<equiv> mi_name ` set (flattenIndices g)"

lemma status_fold:
  "foldR (status_step fault db) acc indices = Inr r \<Longrightarrow>
   r = (fst acc @ filter (\<lambda>n. n \<in> set db) (map mi_name indices),
        snd acc @ filter (\<lambda>n. n \<notin> set db) (map mi_name indices))"
proof (induction indices arbitrary: acc)
  case (Cons idx indices)
  from Cons.prems obtain a where
    "status_step fault db acc idx = Inr a" "foldR (status_step fault db) a indices = Inr r"
    by (auto simp: bindR_eq_Inr)
  then show ?case using Cons.IH [of a]
    by (cases "fault (mi_name idx)"; cases "mi_name idx \<in> set db")
       (auto simp: status_step_def [of fault db acc] indexExists_def)
qed simp

lemma status_missing:
  "getIndicesStatus fault db indices = Inr status \<Longrightarrow>
   snd status = [] \<longleftrightarrow> mi_name ` set indices \<subseteq> set db"
  unfolding getIndicesStatus_def by (drule status_fold) (auto simp: filter_empty_conv)

lemma status_no_faults: "\<exists>status. getIndicesStatus (\<lambda>_. None) db indices = Inr status"
proof -
  have "\<exists>r. foldR (status_step (\<lambda>_. None) db) acc indices = Inr r" for acc
    by (induction indices arbitrary: acc) (auto simp: status_step_def indexExists_def)
  then show ?thesis by (simp add: getIndicesStatus_def)
qed

lemma drop_index_keeps: "n \<in> set db \<Longrightarrow> n \<noteq> mi_name idx \<Longrightarrow> n \<in> set (drop_index f db idx)"
  by (auto simp: drop_index_def split: sum.split bool.split option.split)

lemma drop_indices_keep:
  "n \<in> set db \<Longrightarrow> n \<notin> mi_name ` set indices \<Longrightarrow> n \<in> set (foldl (drop_index f) db indices)"
  by (induction indices arbitrary: db) (simp_all add: drop_index_keeps)

lemma dropIndices_keeps:
  "n \<in> set db \<Longrightarrow> n \<notin> mi_name ` {idx \<in> set (flattenIndices g). \<not> mi_keepDuringBulkLoad idx} \<Longrightarrow>
   n \<in> set (snd (dropIndicesForBulkLoad f g db))"
  by (auto simp: dropIndicesForBulkLoad_def withIndexConnection_def Let_def
      split: option.split sum.split intro: drop_indices_keep)

lemma create_index_grows: "set db \<subseteq> set (create_index f db idx)"
  by (auto simp: create_index_def split: sum.split bool.split option.split)

lemma create_indices_grow: "set db \<subseteq> set (foldl (create_index f) db indices)"
proof (induction indices arbitrary: db)
  case (Cons idx indices)
  then show ?case using create_index_grows by fastforce
qed simp

lemma recreateIndices_grows: "set db \<subseteq> set (snd (recreateIndices f g db))"
  using create_indices_grow
  by (fastforce simp: recreateIndices_def withIndexConnection_def Let_def split: option.split sum.split)

lemma recreateIndices_complete:
  "recreateIndices f g db = (Inr u, db') \<Longrightarrow> index_names g \<subseteq> set db'"
  by (auto simp: recreateIndices_def withIndexConnection_def Let_def status_missing
      split: option.splits sum.splits if_splits prod.splits dest!: status_missing)

text \<open>Creating indices whose statements name them, where no query fails.\<close>

definition well_named :: "ManagedIndex list \<Rightarrow> bool" where
  "well_named indices \<longleftrightarrow> (\<forall>idx \<in> set indices. named_index (createStatement idx) = mi_name idx)"

lemma create_indices_complete:
  assumes "well_named indices"
  shows "mi_name ` set indices \<subseteq> set (foldl (create_index no_faults) db indices)"
  using assms
proof (induction indices arbitrary: db)
  case (Cons idx indices)
  then have "mi_name idx \<in> set (create_index no_faults db idx)"
    by (auto simp: create_index_def no_faults_def indexExists_def well_named_def split: bool.split)
  moreover have "well_named indices" using Cons.prems by (simp add: well_named_def)
  ultimately show ?case
    using Cons.IH create_indices_grow by (fastforce simp: image_subset_iff)
qed simp

lemma recreateIndices_no_faults:
  assumes "well_named (flattenIndices g)"
  shows "\<exists>db'. recreateIndices no_faults g db = (Inr (), db')"
proof -
  let ?is = "flattenIndices g" and ?db = "foldl (create_index no_faults) db (flattenIndices g)"
  obtain st st' where st: "getIndicesStatus (\<lambda>_. None) db ?is = Inr st"
    "getIndicesStatus (\<lambda>_. None) ?db ?is = Inr st'"
    using status_no_faults by meson
  then have "snd st' = []" using create_indices_complete [OF assms] by (simp add: status_missing)
  then show ?thesis using st
    by (simp add: recreateIndices_def withIndexConnection_def no_faults_def Let_def)
qed

lemma startsWith_set: "startsWith s p \<Longrightarrow> set p \<subseteq> set s"
  unfolding startsWith_def by (metis set_take_subset)

lemma indexOf_from_absent: "c \<in> set pat \<Longrightarrow> c \<notin> set s \<Longrightarrow> indexOf_from i s pat < 0"
  by (induction i s pat rule: indexOf_from.induct) (fastforce dest: startsWith_set)+

lemma indexOf_absent: "c \<in> set pat \<Longrightarrow> c \<notin> set s \<Longrightarrow> indexOf s pat < 0"
  by (simp add: indexOf_def indexOf_from_absent)

lemma indexOf_prefix: "indexOf (pat @ s) pat = 0"
proof -
  have "startsWith (pat @ s) pat" by (simp add: startsWith_def)
  then show ?thesis by (cases "pat @ s") (auto simp: indexOf_def startsWith_def)
qed

lemma comma_separated_chars: "c \<in> set (comma_separated ss) \<Longrightarrow> c \<in> set '', '' \<union> \<Union> (set ` set ss)"
  by (induction ss rule: comma_separated.induct) auto

text \<open>No row of the tables contains the letter Q, so the pattern with \<^verbatim>\<open>UNIQUE\<close> never matches.\<close>

lemma managed_well_named:
  assumes "CHR ''Q'' \<notin> set nm" "CHR ''\"'' \<notin> set nm" "CHR ''Q'' \<notin> set tab"
    and "\<forall>col \<in> set columns. CHR ''Q'' \<notin> set col"
  shows "named_index (createStatement (managed nm tab columns keep)) = nm"
proof -
  let ?s = "mi_create (managed nm tab columns keep)"
  have "CHR ''Q'' \<notin> set ?s"
    using assms(1,3,4) comma_separated_chars [of "CHR ''Q''" "map quoted columns"]
    by (auto simp: managed_def quoted_def split: if_splits)
  then have "indexOf ?s ''CREATE UNIQUE INDEX'' < 0" by (rule indexOf_absent [rotated]) simp
  then have 1: "js_replace ?s ''CREATE UNIQUE INDEX'' ''CREATE UNIQUE INDEX IF NOT EXISTS'' = ?s"
    by (simp add: js_replace_def)
  obtain t where t: "?s = ''CREATE INDEX'' @ '' \"'' @ nm @ ''\"'' @ t"
    by (simp add: managed_def quoted_def)
  have "js_replace ?s ''CREATE INDEX'' ''CREATE INDEX IF NOT EXISTS'' =
      ''CREATE INDEX IF NOT EXISTS'' @ '' \"'' @ nm @ ''\"'' @ t"
    unfolding t js_replace_def indexOf_prefix by simp
  moreover have "takeWhile (\<lambda>c. c \<noteq> CHR ''\"'') (nm @ CHR ''\"'' # t) = nm"
    using assms(2) by (induction nm) auto
  ultimately show ?thesis using 1
    by (simp add: createStatement_def named_index_def)
qed

lemma managed_sel:
  "mi_name (managed nm tab columns keep) = nm" "mi_keepDuringBulkLoad (managed nm tab columns keep) = keep"
  by (simp_all add: managed_def)

lemma polygon_well_named: "well_named (flattenIndices POLYGON_INDICES)"
  by (simp add: well_named_def flattenIndices_def POLYGON_INDICES_def managed_well_named managed_sel)

lemma eth_well_named: "well_named (flattenIndices ETH_INDICES)"
  by (simp add: well_named_def flattenIndices_def ETH_INDICES_def managed_well_named managed_sel)

section \<open>The mode over time\<close>

text \<open>
  What every process keeps, whichever queries fail: the flag that stops all further work is only set
  when every managed index exists, the number of attempts is bounded, and the indices \<open>K\<close> stay.
\<close>

definition bulk_inv :: "IndexGroup \<Rightarrow> string set \<Rightarrow> bulk_mode \<Rightarrow> bool" where
  "bulk_inv g K s \<longleftrightarrow>
     (bm_recreated s \<longrightarrow> bm_initialized s \<and> index_names g \<subseteq> set (bm_db s)) \<and>
     bm_attempts s \<le> MAX_INDEX_RECREATE_ATTEMPTS \<and> K \<subseteq> set (bm_db s)"

lemma recreate_pass_inv:
  assumes "bulk_inv g K s" and "bm_initialized s"
  shows "bulk_inv g K (recreate_pass f g s)"
proof -
  obtain r db where r: "recreateIndices f g (bm_db s) = (r, db)" by fastforce
  then have "set (bm_db s) \<subseteq> set db" using recreateIndices_grows [of "bm_db s" f g] by simp
  then show ?thesis using assms r
    by (cases r) (auto simp: recreate_pass_def bulk_inv_def dest: recreateIndices_complete)
qed

lemma recreate_pass_initialized: "bm_initialized s \<Longrightarrow> bm_initialized (recreate_pass f g s)"
  by (simp add: recreate_pass_def split: prod.split sum.split)

lemma check_complete:
  "checkIndicesNeedRecreation f g db = Inr False \<Longrightarrow> index_names g \<subseteq> set db"
  by (auto simp: checkIndicesNeedRecreation_def withIndexConnection_def bindR_eq_Inr
      split: option.splits dest!: status_missing)

text \<open>No index that is kept has the name of one that is dropped.\<close>

definition separate_names :: "ManagedIndex list \<Rightarrow> bool" where
  "separate_names indices \<longleftrightarrow>
     (let kept = map mi_name (filter mi_keepDuringBulkLoad indices) in
      list_all (\<lambda>idx. mi_keepDuringBulkLoad idx \<or> mi_name idx \<notin> set kept) indices)"

abbreviation kept_of :: "IndexGroup \<Rightarrow> string set" where
  "kept_of g \<equiv> mi_name ` {idx \<in> set (flattenIndices g). mi_keepDuringBulkLoad idx}"

definition kept_names :: "IndexGroup \<Rightarrow> string set \<Rightarrow> bool" where
  "kept_names g K \<longleftrightarrow> K \<inter> mi_name ` {idx \<in> set (flattenIndices g). \<not> mi_keepDuringBulkLoad idx} = {}"

lemma separate_kept: "separate_names (flattenIndices g) \<Longrightarrow> kept_names g (K \<inter> kept_of g)"
  by (auto simp: separate_names_def kept_names_def list_all_iff Let_def image_iff)

lemma bulk_initialize_inv:
  assumes "bulk_inv g K s" and "kept_names g K" and "\<not> bm_recreated s"
  shows "bulk_inv g K (bulk_initialize g initialBlock b s) \<and> bm_initialized (bulk_initialize g initialBlock b s)"
proof (cases "checkIndicesNeedRecreation (bb_check b) g (bm_db s)")
  case (Inl e)
  with assms show ?thesis by (simp add: bulk_initialize_def bulk_inv_def)
next
  case (Inr need)
  let ?s = "s\<lparr>bm_initialized := True, bm_needRecreation := need\<rparr>"
  have inv: "bulk_inv g K ?s" using assms(1,3) by (simp add: bulk_inv_def)
  have kept: "K \<subseteq> set (snd (dropIndicesForBulkLoad f g (bm_db s)))" for f
    using assms(1,2) by (auto simp: bulk_inv_def kept_names_def intro!: dropIndices_keeps)
  have 1: "isFreshSync (currentBlock b) initialBlock \<Longrightarrow> ?thesis"
    using Inr inv kept [of "bb_init b"] assms(3)
    by (auto simp: bulk_initialize_def bulk_inv_def Let_def split: prod.splits sum.splits)
  have 2: "\<not> isFreshSync (currentBlock b) initialBlock \<Longrightarrow> need \<Longrightarrow> ?thesis"
    using Inr inv recreate_pass_inv [OF inv, of "bb_init b"] recreate_pass_initialized [of ?s "bb_init b" g]
    by (simp add: bulk_initialize_def Let_def)
  have 3: "\<not> isFreshSync (currentBlock b) initialBlock \<Longrightarrow> \<not> need \<Longrightarrow> ?thesis"
    using Inr inv check_complete [of "bb_check b" g "bm_db s"] by (simp add: bulk_initialize_def bulk_inv_def)
  from 1 2 3 show ?thesis by blast
qed

lemma bulk_event_step_inv:
  assumes "bulk_inv g K s" and "kept_names g K"
  shows "bulk_inv g K (bulk_event_step g initialBlock s ev)"
proof (cases ev)
  case Restart
  with assms show ?thesis by (simp add: bulk_inv_def bulk_start_def)
next
  case (Batch b)
  let ?s = "if bm_initialized s then s else bulk_initialize g initialBlock b s"
  have s: "bulk_inv g K ?s" "bm_initialized ?s"
    using assms bulk_initialize_inv [OF assms] by (cases "bm_initialized s"; auto simp: bulk_inv_def)+
  then have "bm_attempts ?s < MAX_INDEX_RECREATE_ATTEMPTS \<Longrightarrow>
      bulk_inv g K (recreate_pass (bb_head b) g (?s\<lparr>bm_attempts := bm_attempts ?s + 1\<rparr>))"
    by (intro recreate_pass_inv) (auto simp: bulk_inv_def)
  with s Batch show ?thesis by (simp add: bulk_step_def Let_def)
qed

interpretation bulk: batch "\<lambda>s ev. Inr (bulk_event_step g initialBlock s ev) :: unit + bulk_mode"
    "\<lambda>s. kept_names g K \<and> bulk_inv g K s" "\<lambda>_ _. True" for g initialBlock K
  by unfold_locales (auto intro: bulk_event_step_inv)

lemma bulk_run_inv:
  "kept_names g K \<Longrightarrow> bulk_inv g K s \<Longrightarrow> bulk_inv g K (foldl (bulk_event_step g initialBlock) s evs)"
  using bulk.run_inv [of g K s initialBlock evs] by (simp add: foldR_total)

lemma polygon_kept: "separate_names (flattenIndices POLYGON_INDICES)"
  by (simp add: separate_names_def flattenIndices_def POLYGON_INDICES_def managed_sel)

lemma eth_kept: "separate_names (flattenIndices ETH_INDICES)"
  by (simp add: separate_names_def flattenIndices_def ETH_INDICES_def managed_sel)

lemma managed_groups:
  assumes "g \<in> {POLYGON_INDICES, ETH_INDICES}"
  shows "well_named (flattenIndices g)" "kept_names g (K \<inter> kept_of g)"
  using assms polygon_well_named eth_well_named separate_kept [OF polygon_kept] separate_kept [OF eth_kept]
  by auto

lemma bulk_history_inv:
  assumes "g \<in> {POLYGON_INDICES, ETH_INDICES}"
  shows "bulk_inv g (set db \<inter> kept_of g) (foldl (bulk_event_step g initialBlock) (bulk_start db) evs)"
  using managed_groups(2) [OF assms]
  by (rule bulk_run_inv) (simp add: bulk_inv_def bulk_start_def)


definition sample_batch :: "int \<Rightarrow> bool \<Rightarrow> bulk_batch" where
  "sample_batch h isHead =
     \<lparr>bb_heights = [h], bb_isHead = isHead, bb_check = no_faults, bb_init = no_faults, bb_head = no_faults\<rparr>"


lemma recreate_pass_no_faults:
  "well_named (flattenIndices g) \<Longrightarrow> bm_recreated (recreate_pass no_faults g s)"
  using recreateIndices_no_faults [of g "bm_db s"] by (auto simp: recreate_pass_def)

lemma recreate_pass_attempts: "bm_attempts (recreate_pass f g s) = bm_attempts s"
  by (simp add: recreate_pass_def split: prod.split sum.split)

lemma bulk_initialize_attempts: "bm_attempts (bulk_initialize g initialBlock b s) = bm_attempts s"
  by (simp add: bulk_initialize_def recreate_pass_attempts Let_def split: prod.split sum.split)



section \<open>The work of a process\<close>

text \<open>
  The number of batches of a process that do index work. Every pass over the indices changes the
  variables: the first batch sets \<open>bm_initialized\<close>, and a pass at the head counts as an attempt.
\<close>

primrec index_work :: "IndexGroup \<Rightarrow> int \<Rightarrow> bulk_mode \<Rightarrow> bulk_batch list \<Rightarrow> nat" where
  "index_work g initialBlock s [] = 0"
| "index_work g initialBlock s (b # bs) =
     (if bulk_step g initialBlock s b = s then 0 else 1) +
     index_work g initialBlock (bulk_step g initialBlock s b) bs"

definition work_left :: "bulk_mode \<Rightarrow> nat" where
  "work_left s = (if bm_initialized s then 0 else 1) + (MAX_INDEX_RECREATE_ATTEMPTS - bm_attempts s)"

lemma bulk_initialize_initialized: "bm_initialized (bulk_initialize g initialBlock b s)"
  by (simp add: bulk_initialize_def recreate_pass_initialized Let_def split: prod.split sum.split)

lemma bulk_step_work:
  "(if bulk_step g initialBlock s b = s then 0 else 1) + work_left (bulk_step g initialBlock s b) \<le> work_left s"
  by (auto simp: bulk_step_def Let_def work_left_def recreate_pass_attempts recreate_pass_initialized
      bulk_initialize_attempts bulk_initialize_initialized)

text \<open>
  C29: the index work of a process ends. However many batches a process handles and whatever fails, at
  most six of them touch the indices: the first one, and five attempts at the head of the chain.
\<close>

theorem bulk_mode_settles:
  "index_work g initialBlock (bulk_start db) bs \<le> 1 + MAX_INDEX_RECREATE_ATTEMPTS"
proof -
  have "index_work g initialBlock s bs \<le> work_left s" for s
  proof (induction bs arbitrary: s)
    case (Cons b bs)
    from Cons.IH [of "bulk_step g initialBlock s b"] show ?case
      using bulk_step_work [of g initialBlock s b] by (auto split: if_splits)
  qed simp
  from this [of "bulk_start db"] show ?thesis by (simp add: work_left_def bulk_start_def)
qed

end
