(* ===== verification/Pb_Events.thy ===== *)
theory Pb_Events
  imports Squid_Prelude
begin

text \<open>
  The class \<^verbatim>\<open>EventEmitter\<close> of the codec, the class \<^verbatim>\<open>Service\<close> for remote calls built on it, and the helpers \<^verbatim>\<open>merge\<close>,
  \<^verbatim>\<open>oneOfGetter\<close> and \<^verbatim>\<open>oneOfSetter\<close>.

  The arrays of listeners are objects: \<^verbatim>\<open>emit\<close> walks through the array it found at the start, while a listener may
  extend or shorten that array or replace it by another one. So an emitter has a store of arrays, and the table of
  events holds addresses. Code outside the class, the listeners, the implementation of the remote calls, their
  callbacks and the encoding of requests, is a parameter. It works on a world \<open>'w\<close> that contains the emitter
  and may call it again; every action may throw or, being the value \<open>None\<close>, not return. Event names are other than
  the names every object inherits (\<^verbatim>\<open>toString\<close> and the like).
\<close>

section \<open>Actions\<close>

type_synonym 'w act = "'w \<Rightarrow> (unit result \<times> 'w) option"

definition skip_act :: "'w act" where
  "skip_act w = Some (Inr (), w)"

definition seq :: "'w act \<Rightarrow> 'w act \<Rightarrow> 'w act" where
  "seq m n w =
     (case m w of
        None \<Rightarrow> None
      | Some (Inl e, w') \<Rightarrow> Some (Inl e, w')
      | Some (Inr u, w') \<Rightarrow> n w')"

definition catch :: "'w act \<Rightarrow> (js_error \<Rightarrow> 'w act) \<Rightarrow> 'w act" where
  "catch m h w =
     (case m w of
        None \<Rightarrow> None
      | Some (Inl e, w') \<Rightarrow> h e w'
      | Some (Inr u, w') \<Rightarrow> Some (Inr u, w'))"

section \<open>The emitter\<close>

type_synonym ('f, 'c) listener = "'f \<times> 'c option"

text \<open>A context of \<open>None\<close> stands for the emitter itself.\<close>

record ('f, 'c) emitter =
  em_arrays :: "('f, 'c) listener list list"
  em_listeners :: "(string, nat) jsmap"

definition new_emitter :: "('f, 'c) emitter" where
  "new_emitter = \<lparr>em_arrays = [], em_listeners = []\<rparr>"

definition em_on :: "string \<Rightarrow> 'f \<Rightarrow> 'c option \<Rightarrow> ('f, 'c) emitter \<Rightarrow> ('f, 'c) emitter" where
  "em_on evt fn ctx em =
     (case mget (em_listeners em) evt of
        Some a \<Rightarrow> em\<lparr>em_arrays := (em_arrays em)[a := em_arrays em ! a @ [(fn, ctx)]]\<rparr>
      | None \<Rightarrow> em\<lparr>em_arrays := em_arrays em @ [[(fn, ctx)]],
                   em_listeners := mset (em_listeners em) evt (length (em_arrays em))\<rparr>)"

text \<open>The loop that removes the entries of a function in place.\<close>

function off_loop :: "'f \<Rightarrow> nat \<Rightarrow> ('f, 'c) listener list \<Rightarrow> ('f, 'c) listener list" where
  "off_loop fn i ls =
     (if i < length ls
      then if fst (ls ! i) = fn then off_loop fn i (take i ls @ drop (Suc i) ls) else off_loop fn (Suc i) ls
      else ls)"
  by pat_completeness auto
termination by (relation "measure (\<lambda>(fn, i, ls). length ls - i)") auto

declare off_loop.simps [simp del]

definition em_off :: "string option \<Rightarrow> 'f option \<Rightarrow> ('f, 'c) emitter \<Rightarrow> ('f, 'c) emitter result" where
  "em_off evt fn em =
     (case evt of
        None \<Rightarrow> Inr (em\<lparr>em_listeners := []\<rparr>)
      | Some e \<Rightarrow>
          (case fn of
             None \<Rightarrow> Inr (em\<lparr>em_arrays := em_arrays em @ [[]],
                             em_listeners := mset (em_listeners em) e (length (em_arrays em))\<rparr>)
           | Some f \<Rightarrow>
               (case mget (em_listeners em) e of
                  None \<Rightarrow> Inl TypeError
                | Some a \<Rightarrow> Inr (em\<lparr>em_arrays := (em_arrays em)[a := off_loop f 0 (em_arrays em ! a)]\<rparr>))))"

text \<open>
  \<open>em\<close> finds the emitter in the world, \<open>app\<close> runs a listener. The array is looked up again in every turn, so changes
  by listeners are seen.
\<close>

partial_function (option) emit_loop ::
  "('w \<Rightarrow> ('f, 'c) emitter) \<Rightarrow> (('f, 'c) listener \<Rightarrow> 'w act) \<Rightarrow> nat \<Rightarrow> nat \<Rightarrow> 'w \<Rightarrow> (unit result \<times> 'w) option" where
  "emit_loop em app a i w =
     (if i < length (em_arrays (em w) ! a)
      then case app (em_arrays (em w) ! a ! i) w of
             None \<Rightarrow> None
           | Some (r, w') \<Rightarrow> (case r of Inl e \<Rightarrow> Some (Inl e, w') | Inr u \<Rightarrow> emit_loop em app a (Suc i) w')
      else Some (Inr (), w))"

definition em_emit ::
  "('w \<Rightarrow> ('f, 'c) emitter) \<Rightarrow> (('f, 'c) listener \<Rightarrow> 'v list \<Rightarrow> 'w act) \<Rightarrow> string \<Rightarrow> 'v list \<Rightarrow> 'w act" where
  "em_emit em app evt args w =
     (case mget (em_listeners (em w)) evt of
        None \<Rightarrow> Some (Inr (), w)
      | Some a \<Rightarrow> emit_loop em (\<lambda>l. app l args) a 0 w)"

section \<open>Listeners\<close>

definition listeners_of :: "('f, 'c) emitter \<Rightarrow> string \<Rightarrow> ('f, 'c) listener list" where
  "listeners_of em evt = (case mget (em_listeners em) evt of None \<Rightarrow> [] | Some a \<Rightarrow> em_arrays em ! a)"

text \<open>The events of the table have arrays of their own.\<close>

definition em_ok :: "('f, 'c) emitter \<Rightarrow> bool" where
  "em_ok em \<longleftrightarrow> mwf (em_listeners em) \<and>
     (\<forall>evt a. mget (em_listeners em) evt = Some a \<longrightarrow> a < length (em_arrays em)) \<and>
     (\<forall>evt evt' a. mget (em_listeners em) evt = Some a \<longrightarrow> mget (em_listeners em) evt' = Some a \<longrightarrow> evt = evt')"

lemma off_loop_eq: "off_loop fn i ls = take i ls @ filter (\<lambda>l. fst l \<noteq> fn) (drop i ls)"
proof (induction fn i ls rule: off_loop.induct)
  case (1 fn i ls)
  show ?case
  proof (cases "i < length ls")
    case True
    then have ls: "drop i ls = ls ! i # drop (Suc i) ls" by (simp add: Cons_nth_drop_Suc)
    show ?thesis
    proof (cases "fst (ls ! i) = fn")
      case True
      then show ?thesis using 1(1) \<open>i < length ls\<close> ls by (subst off_loop.simps) simp
    next
      case False
      then show ?thesis using 1(2) \<open>i < length ls\<close> ls by (subst off_loop.simps) (simp add: take_Suc_conv_app_nth)
    qed
  qed (simp add: off_loop.simps)
qed

lemma new_emitter_ok: "em_ok new_emitter"
  by (simp add: em_ok_def new_emitter_def)

lemma em_on_ok: "em_ok em \<Longrightarrow> em_ok (em_on evt fn ctx em)"
  by (auto simp: em_ok_def em_on_def split: option.splits) (metis less_irrefl less_SucI)+

lemma listeners_on:
  "em_ok em \<Longrightarrow> listeners_of (em_on evt fn ctx em) e = listeners_of em e @ (if e = evt then [(fn, ctx)] else [])"
  by (auto simp: em_ok_def em_on_def listeners_of_def nth_append nth_list_update split: option.splits)

lemma em_off_ok: "em_ok em \<Longrightarrow> em_off evt fn em = Inr em' \<Longrightarrow> em_ok em'"
  by (auto simp: em_ok_def em_off_def split: option.splits if_splits) (metis less_irrefl less_SucI)+

lemma em_off_error: "em_off evt fn em = Inl err \<longleftrightarrow>
  err = TypeError \<and> (\<exists>e. evt = Some e \<and> fn \<noteq> None \<and> mget (em_listeners em) e = None)"
  by (auto simp: em_off_def split: option.splits)

lemma listeners_off:
  "em_ok em \<Longrightarrow> em_off evt fn em = Inr em' \<Longrightarrow> listeners_of em' e =
     (if evt = None \<or> evt = Some e \<and> fn = None then []
      else filter (\<lambda>l. evt = Some e \<longrightarrow> Some (fst l) \<noteq> fn) (listeners_of em e))"
  by (cases "evt = Some e") (auto simp: em_ok_def em_off_def listeners_of_def off_loop_eq nth_append nth_list_update
      split: option.splits if_splits)

text \<open>What a user of the table of listeners may rely on.\<close>

locale listener_table =
  fixes ok :: "'e \<Rightarrow> bool"
    and on :: "string \<Rightarrow> 'f \<Rightarrow> 'c option \<Rightarrow> 'e \<Rightarrow> 'e"
    and off :: "string option \<Rightarrow> 'f option \<Rightarrow> 'e \<Rightarrow> 'e result"
    and listeners :: "'e \<Rightarrow> string \<Rightarrow> ('f, 'c) listener list"
  assumes on_ok: "ok t \<Longrightarrow> ok (on evt f ctx t)"
    and off_ok: "ok t \<Longrightarrow> off ev g t = Inr t' \<Longrightarrow> ok t'"
    and on: "ok t \<Longrightarrow> listeners (on evt f ctx t) e = listeners t e @ (if e = evt then [(f, ctx)] else [])"
    and off: "ok t \<Longrightarrow> off ev g t = Inr t' \<Longrightarrow> listeners t' e =
      (if ev = None \<or> ev = Some e \<and> g = None then []
       else filter (\<lambda>l. ev = Some e \<longrightarrow> Some (fst l) \<noteq> g) (listeners t e))"
begin

text \<open>Taking a function off undoes putting it on, if it was not on before; other events are not affected.\<close>

lemma off_on:
  assumes "ok t" "off (Some evt) (Some f) (on evt f ctx t) = Inr t'" "\<forall>l\<in>set (listeners t evt). fst l \<noteq> f"
  shows "ok t' \<and> listeners t' = listeners t"
proof
  have ok: "ok (on evt f ctx t)" using assms(1) by (rule on_ok)
  then show "ok t'" using assms(2) by (rule off_ok)
  show "listeners t' = listeners t"
    using assms(3) by (auto simp: off [OF ok assms(2)] on [OF assms(1)] fun_eq_iff filter_id_conv)
qed

end

interpretation emitter_table: listener_table em_ok em_on em_off listeners_of
  by unfold_locales (simp_all add: em_on_ok em_off_ok listeners_on listeners_off)

section \<open>Emitting\<close>

text \<open>Listeners that return and leave the array as it is are called in their order, each once.\<close>

lemma emit_loop_all:
  assumes "\<And>l w. app l w = Some (Inr (), run l w) \<and> em_arrays (em (run l w)) ! a = em_arrays (em w) ! a"
  shows "emit_loop em app a i w = Some (Inr (), fold run (drop i (em_arrays (em w) ! a)) w)"
proof (induction "length (em_arrays (em w) ! a) - i" arbitrary: i w)
  case 0
  then show ?case by (simp add: emit_loop.simps)
next
  case (Suc n)
  let ?ls = "em_arrays (em w) ! a"
  have "i < length ?ls" using Suc(2) by simp
  moreover from this have "drop i ?ls = ?ls ! i # drop (Suc i) ?ls" by (simp add: Cons_nth_drop_Suc)
  moreover have "n = length (em_arrays (em (run (?ls ! i) w)) ! a) - Suc i" using assms Suc(2) by simp
  from Suc(1) [OF this] have "emit_loop em app a (Suc i) (run (?ls ! i) w) =
      Some (Inr (), fold run (drop (Suc i) ?ls) (run (?ls ! i) w))" using assms by simp
  ultimately show ?case using assms by (subst emit_loop.simps) simp
qed

lemma emit_calls_all:
  assumes "\<And>l w. app l args w = Some (Inr (), run l w) \<and> em_arrays (em (run l w)) = em_arrays (em w)"
  shows "em_emit em app evt args w = Some (Inr (), fold run (listeners_of (em w) evt) w)"
  using assms by (simp add: em_emit_def listeners_of_def emit_loop_all [where run = run] split: option.splits)

text \<open>Emitting ends if no listener makes the array longer.\<close>

lemma emit_loop_returns:
  assumes "\<And>l w. \<exists>r w'. app l w = Some (r, w') \<and> length (em_arrays (em w') ! a) \<le> length (em_arrays (em w) ! a)"
  shows "emit_loop em app a i w \<noteq> None"
proof (induction "length (em_arrays (em w) ! a) - i" arbitrary: i w rule: less_induct)
  case less
  let ?l = "em_arrays (em w) ! a ! i"
  obtain r w' where "app ?l w = Some (r, w')" "length (em_arrays (em w') ! a) \<le> length (em_arrays (em w) ! a)"
    using assms by blast
  moreover from this have "i < length (em_arrays (em w) ! a) \<Longrightarrow> emit_loop em app a (Suc i) w' \<noteq> None"
    by (intro less) simp
  ultimately show ?case by (subst emit_loop.simps) (auto split: sum.splits)
qed

text \<open>What every listener keeps, emitting keeps.\<close>

lemma emit_loop_keeps:
  assumes run: "emit_loop em app a i w = Some y"
    and step: "\<And>l w r w'. app l w = Some (r, w') \<Longrightarrow> P w \<Longrightarrow> P w'" and "P w"
  shows "P (snd y)"
proof -
  let ?keeps = "\<lambda>app. \<forall>l w r w'. app l w = Some (r, w') \<longrightarrow> P w \<longrightarrow> P w'"
  have "?keeps app \<longrightarrow> P w \<longrightarrow> P (snd y)"
  proof (rule emit_loop.raw_induct [where P = "\<lambda>em app a i w y. ?keeps app \<longrightarrow> P w \<longrightarrow> P (snd y)", OF _ run], intro impI)
    fix loop :: "('a \<Rightarrow> ('b, 'c) emitter) \<Rightarrow> (('b, 'c) listener \<Rightarrow> 'a act) \<Rightarrow> nat \<Rightarrow> nat \<Rightarrow> 'a act" and em app a i w y
    assume IH: "\<And>em app a i w y. loop em app a i w = Some y \<Longrightarrow> ?keeps app \<longrightarrow> P w \<longrightarrow> P (snd y)"
      and body: "(if i < length (em_arrays (em w) ! a)
        then case app (em_arrays (em w) ! a ! i) w of None \<Rightarrow> None
             | Some (r, w') \<Rightarrow> (case r of Inl e \<Rightarrow> Some (Inl e, w') | Inr u \<Rightarrow> loop em app a (Suc i) w')
        else Some (Inr (), w)) = Some y"
      and keeps: "?keeps app" "P w"
    show "P (snd y)"
    proof (cases "i < length (em_arrays (em w) ! a)")
      case True
      then obtain r w' where run: "app (em_arrays (em w) ! a ! i) w = Some (r, w')" using body by (auto split: option.splits)
      then have "P w'" using keeps by blast
      then show ?thesis using body True run IH [of em app a "Suc i" w' y] keeps(1) by (cases r) auto
    qed (use body keeps(2) in auto)
  qed
  with assms(2,3) show ?thesis by blast
qed

lemma em_emit_keeps:
  assumes "em_emit em app evt args w = Some (r, w')"
    and "\<And>l w r w'. app l args w = Some (r, w') \<Longrightarrow> P w \<Longrightarrow> P w'" and "P w"
  shows "P w'"
  using assms emit_loop_keeps [of em "\<lambda>l. app l args" _ 0 w "(r, w')" P] by (auto simp: em_emit_def split: option.splits)

text \<open>
  A listener that takes itself off shortens the array before the index moves on: the listener behind it is not
  called. The world is the emitter with the list of the listeners that have run.
\<close>

definition once_listener :: "(nat, nat) listener \<Rightarrow> nat list \<Rightarrow> (nat, nat) emitter \<times> nat list \<Rightarrow>
    (unit result \<times> (nat, nat) emitter \<times> nat list) option" where
  "once_listener l args w =
     (case em_off (Some ''data'') (Some (fst l)) (fst w) of
        Inl e \<Rightarrow> Some (Inl e, w)
      | Inr em \<Rightarrow> Some (Inr (), em, snd w @ [fst l]))"

lemma emit_skips_behind_removed:
  "map_option (snd \<circ> snd) (em_emit fst once_listener ''data'' []
     (em_on ''data'' 2 None (em_on ''data'' 1 None new_emitter), [])) = Some [1]"
  by (simp add: em_on_def new_emitter_def em_emit_def mget_Cons emit_loop.simps once_listener_def em_off_def off_loop_eq)

section \<open>Remote calls\<close>

record ('i, 'f, 'c) service =
  sv_emitter :: "('f, 'c) emitter"
  sv_rpcImpl :: "'i option"
  sv_requestDelimited :: bool
  sv_responseDelimited :: bool

datatype ('m, 'r) event_arg = Arg_error js_error | Arg_response 'r | Arg_method 'm

text \<open>What a remote call is answered with: nothing, bytes, or a message that is decoded already.\<close>

datatype ('b, 'r) answer = No_answer | Raw 'b | Message 'r

text \<open>
  The code outside: listeners, the implementation (called with nothing when the service ends), the encoder and decoder
  that are generated for the messages, the callback of the caller and its call from a timer.
\<close>

record ('i, 'f, 'c, 'm, 'q, 'b, 'r, 's) rpc_env =
  env_listener :: "('f, 'c) listener \<Rightarrow> ('m, 'r) event_arg list \<Rightarrow> (('i, 'f, 'c) service \<times> 's) act"
  env_impl :: "'i \<Rightarrow> ('m \<times> 'b) option \<Rightarrow> (('i, 'f, 'c) service \<times> 's) act"
  env_encode :: "bool \<Rightarrow> 'q \<Rightarrow> 'b result"
  env_decode :: "bool \<Rightarrow> 'b \<Rightarrow> 'r result"
  env_callback :: "'r result \<Rightarrow> (('i, 'f, 'c) service \<times> 's) act"
  env_later :: "js_error \<Rightarrow> ('i, 'f, 'c) service \<times> 's \<Rightarrow> ('i, 'f, 'c) service \<times> 's"

definition sv_emit :: "('i, 'f, 'c, 'm, 'q, 'b, 'r, 's) rpc_env \<Rightarrow> string \<Rightarrow> ('m, 'r) event_arg list \<Rightarrow>
    (('i, 'f, 'c) service \<times> 's) act" where
  "sv_emit env = em_emit (\<lambda>w. sv_emitter (fst w)) (env_listener env)"

definition sv_end :: "('i, 'f, 'c, 'm, 'q, 'b, 'r, 's) rpc_env \<Rightarrow> bool \<Rightarrow> (('i, 'f, 'c) service \<times> 's) act" where
  "sv_end env endedByRPC w =
     (case sv_rpcImpl (fst w) of
        None \<Rightarrow> Some (Inr (), w)
      | Some impl \<Rightarrow>
          seq (if endedByRPC then skip_act else env_impl env impl None)
            (\<lambda>w. seq (sv_emit env ''end'' [])
              (\<lambda>w. Some (Inr (), apfst (\<lambda>sv. sv\<lparr>sv_emitter := (sv_emitter sv)\<lparr>em_listeners := []\<rparr>\<rparr>) w))
              (apfst (\<lambda>sv. sv\<lparr>sv_rpcImpl := None\<rparr>) w)) w)"

definition rpcCallback :: "('i, 'f, 'c, 'm, 'q, 'b, 'r, 's) rpc_env \<Rightarrow> 'm \<Rightarrow> js_error option \<Rightarrow> ('b, 'r) answer \<Rightarrow>
    (('i, 'f, 'c) service \<times> 's) act" where
  "rpcCallback env m err response w =
     (let failed = (\<lambda>e. seq (sv_emit env ''error'' [Arg_error e, Arg_method m]) (env_callback env (Inl e)) w);
          done = (\<lambda>r. seq (sv_emit env ''data'' [Arg_response r, Arg_method m]) (env_callback env (Inr r)) w)
      in case err of
           Some e \<Rightarrow> failed e
         | None \<Rightarrow>
             (case response of
                No_answer \<Rightarrow> sv_end env True w
              | Message r \<Rightarrow> done r
              | Raw b \<Rightarrow>
                  (case env_decode env (sv_responseDelimited (fst w)) b of Inl e \<Rightarrow> failed e | Inr r \<Rightarrow> done r)))"

text \<open>\<^verbatim>\<open>rpcCall\<close> with a callback; without one, the same call is wrapped into a promise.\<close>

definition rpcCall :: "('i, 'f, 'c, 'm, 'q, 'b, 'r, 's) rpc_env \<Rightarrow> 'm \<Rightarrow> 'q option \<Rightarrow> (('i, 'f, 'c) service \<times> 's) act" where
  "rpcCall env m request w =
     (case request of
        None \<Rightarrow> Some (Inl TypeError, w)
      | Some q \<Rightarrow>
          (case sv_rpcImpl (fst w) of
             None \<Rightarrow> Some (Inr (), env_later env (JsError ''already ended'') w)
           | Some impl \<Rightarrow>
               catch
                 (\<lambda>w. case env_encode env (sv_requestDelimited (fst w)) q of
                        Inl e \<Rightarrow> Some (Inl e, w)
                      | Inr b \<Rightarrow> env_impl env impl (Some (m, b)) w)
                 (\<lambda>e. seq (sv_emit env ''error'' [Arg_error e, Arg_method m]) (\<lambda>w. Some (Inr (), env_later env e w)))
                 w))"

lemma seq_eq_Inr: "seq m n w = Some (Inr u, w') \<longleftrightarrow> (\<exists>v w1. m w = Some (Inr v, w1) \<and> n w1 = Some (Inr u, w'))"
  by (auto simp: seq_def split: option.splits prod.splits sum.splits)

lemma sv_emit_keeps:
  assumes "sv_emit env evt args w = Some (r, w')"
    and "\<And>l args w r w'. env_listener env l args w = Some (r, w') \<Longrightarrow> P w \<Longrightarrow> P w'" and "P w"
  shows "P w'"
  using em_emit_keeps [OF assms(1) [unfolded sv_emit_def], of P] assms(2,3) by blast

lemma sv_end_ended: "sv_rpcImpl (fst w) = None \<Longrightarrow> sv_end env b w = Some (Inr (), w)"
  by (simp add: sv_end_def)

text \<open>
  C22: a service ends once. Provided that no listener gives an ended service an implementation again, a service on
  which \<^verbatim>\<open>end\<close> has returned has no implementation and, unless it had ended before, no listeners; ending it again, by
  the caller or by the other side, does nothing, and a further call is answered by a timer with an error and reaches
  neither encoder nor implementation.
\<close>

theorem service_ends_once:
  assumes "\<And>l args w r w'. env_listener env l args w = Some (r, w') \<Longrightarrow> sv_rpcImpl (fst w) = None \<Longrightarrow> sv_rpcImpl (fst w') = None"
    and "sv_end env byRPC w = Some (Inr (), w')"
  shows "sv_rpcImpl (fst w') = None \<and>
    (sv_rpcImpl (fst w) \<noteq> None \<longrightarrow> em_listeners (sv_emitter (fst w')) = []) \<and>
    sv_end env byRPC' w' = Some (Inr (), w') \<and>
    rpcCall env m (Some q) w' = Some (Inr (), env_later env (JsError ''already ended'') w')"
proof -
  have "sv_rpcImpl (fst w') = None \<and> (sv_rpcImpl (fst w) \<noteq> None \<longrightarrow> em_listeners (sv_emitter (fst w')) = [])"
  proof (cases "sv_rpcImpl (fst w)")
    case None
    then show ?thesis using assms(2) by (simp add: sv_end_def)
  next
    case (Some impl)
    then obtain w1 w2 where emit: "sv_emit env ''end'' [] (apfst (\<lambda>sv. sv\<lparr>sv_rpcImpl := None\<rparr>) w1) = Some (Inr (), w2)"
      and w': "w' = apfst (\<lambda>sv. sv\<lparr>sv_emitter := (sv_emitter sv)\<lparr>em_listeners := []\<rparr>\<rparr>) w2"
      using assms(2) by (auto simp: sv_end_def seq_eq_Inr)
    have "sv_rpcImpl (fst w2) = None" using sv_emit_keeps [OF emit, of "\<lambda>w. sv_rpcImpl (fst w) = None"] assms(1) by simp
    then show ?thesis by (simp add: w')
  qed
  then show ?thesis by (simp add: sv_end_ended rpcCall_def)
qed

text \<open>A world that keeps a protocol of what the code outside was asked to do.\<close>

datatype sample_action = Did_impl | Did_listener nat | Did_callback "nat result" | Did_later js_error

definition sample_rpc_env :: "(unit, nat, unit, unit, nat, nat, nat, sample_action list) rpc_env" where
  "sample_rpc_env =
     \<lparr>env_listener = (\<lambda>l args w. Some (Inr (), fst w, snd w @ [Did_listener (fst l)])),
      env_impl = (\<lambda>i call w. Some (Inr (), fst w, snd w @ [Did_impl])),
      env_encode = (\<lambda>d q. Inr q),
      env_decode = (\<lambda>d b. if b = 0 then Inl RangeError else Inr (b + 1)),
      env_callback = (\<lambda>r w. Some (Inr (), fst w, snd w @ [Did_callback r])),
      env_later = (\<lambda>e w. (fst w, snd w @ [Did_later e]))\<rparr>"

definition sample_service :: "(unit, nat, unit) service" where
  "sample_service =
     \<lparr>sv_emitter = em_on ''data'' 7 None (em_on ''error'' 8 None (em_on ''end'' 9 None new_emitter)), sv_rpcImpl = Some (),
      sv_requestDelimited = False, sv_responseDelimited = False\<rparr>"

lemmas sample_rpc_simps = sample_rpc_env_def sample_service_def sv_emit_def em_emit_def em_on_def new_emitter_def mget_Cons mset_Cons
  emit_loop.simps seq_def skip_act_def

theorem service_ends_once_witness:
  "\<exists>w'. sv_end sample_rpc_env False (sample_service, []) = Some (Inr (), w') \<and> snd w' = [Did_impl, Did_listener 9] \<and>
     em_listeners (sv_emitter (fst w')) = [] \<and> sv_end sample_rpc_env True w' = Some (Inr (), w')"
proof -
  let ?w = "(sample_service, [])"
  obtain w' where run: "sv_end sample_rpc_env False ?w = Some (Inr (), w')" and did: "snd w' = [Did_impl, Did_listener 9]"
    by (simp add: sv_end_def sample_rpc_simps)
  have "sv_rpcImpl (fst v') = None"
    if "env_listener sample_rpc_env l args v = Some (r, v')" "sv_rpcImpl (fst v) = None" for l args v r v'
    using that by (auto simp: sample_rpc_env_def)
  from service_ends_once [OF this run, where byRPC' = True and m = "()" and q = 0] have "em_listeners (sv_emitter (fst w')) = []"
    "sv_end sample_rpc_env True w' = Some (Inr (), w')" by (simp_all add: sample_service_def)
  with run did show ?thesis by blast
qed

text \<open>
  C21: every reply reaches the caller once. Let \<open>answers\<close> count the calls of the callback, which listeners do not
  touch. When a reply has been handled without exception, the callback was called exactly once, also when the other
  side failed or its bytes could not be decoded; only the reply \<^verbatim>\<open>null\<close>, which ends the service, calls it not at all.
\<close>

theorem rpc_answers_once:
  assumes listener: "\<And>l args w r w'. env_listener env l args w = Some (r, w') \<Longrightarrow> answers (snd w') = answers (snd w)"
    and callback: "\<And>x w r w'. env_callback env x w = Some (r, w') \<Longrightarrow> answers (snd w') = answers (snd w) + (1 :: nat)"
    and run: "rpcCallback env m err response w = Some (Inr (), w')"
  shows "answers (snd w') = answers (snd w) + (if err = None \<and> response = No_answer then 0 else 1)"
proof -
  have emit: "answers (snd w2) = answers (snd w1)" if "sv_emit env evt args w1 = Some (r, w2)" for evt args w1 r w2
    using sv_emit_keeps [OF that, of "\<lambda>w. answers (snd w) = answers (snd w1)"] listener by simp
  have answer: "answers (snd w') = answers (snd w) + 1"
    if "seq (sv_emit env evt args) (env_callback env x) w = Some (Inr (), w')" for evt args x
    using that by (auto simp: seq_eq_Inr dest!: emit callback)
  show ?thesis
  proof (cases "err = None \<and> response = No_answer")
    case True
    then have "sv_end env True w = Some (Inr (), w')" using run by (simp add: rpcCallback_def)
    then show ?thesis using True
      by (auto simp: sv_end_def seq_eq_Inr skip_act_def split: option.splits dest!: emit)
  next
    case False
    then show ?thesis using run
      by (auto simp: rpcCallback_def Let_def dest!: answer split: option.splits answer.splits sum.splits)
  qed
qed

definition answers_in :: "sample_action list \<Rightarrow> nat" where
  "answers_in log = length (filter (\<lambda>x. case x of Did_callback r \<Rightarrow> True | _ \<Rightarrow> False) log)"

theorem rpc_answers_once_witness:
  "\<exists>w'. rpcCallback sample_rpc_env () None (Raw 0) (sample_service, []) = Some (Inr (), w') \<and>
     snd w' = [Did_listener 8, Did_callback (Inl RangeError)] \<and> answers_in (snd w') = 1"
proof -
  obtain w' where run: "rpcCallback sample_rpc_env () None (Raw 0) (sample_service, []) = Some (Inr (), w')"
    and did: "snd w' = [Did_listener 8, Did_callback (Inl RangeError)]"
    by (simp add: rpcCallback_def sample_rpc_simps)
  have "answers_in (snd v') = answers_in (snd v)"
    if "env_listener sample_rpc_env l args v = Some (r, v')" for l args v r v'
    using that by (auto simp: sample_rpc_env_def answers_in_def)
  moreover have "answers_in (snd v') = answers_in (snd v) + 1"
    if "env_callback sample_rpc_env x v = Some (r, v')" for x v r v'
    using that by (auto simp: sample_rpc_env_def answers_in_def)
  ultimately have "answers_in (snd w') = 1"
    using rpc_answers_once [where env = sample_rpc_env and answers = answers_in, OF _ _ run] by (simp add: answers_in_def)
  with run did show ?thesis by blast
qed

section \<open>Objects\<close>

text \<open>An object is a table of its own properties, in the order they were added; a property may hold \<^verbatim>\<open>undefined\<close> or \<^verbatim>\<open>null\<close>.\<close>

datatype 'v js_value = Undefined | Null | Value 'v

type_synonym 'v js_object = "(string, 'v js_value) jsmap"

definition prop_of :: "'v js_object \<Rightarrow> string \<Rightarrow> 'v js_value" where
  "prop_of obj k = (case mget obj k of None \<Rightarrow> Undefined | Some v \<Rightarrow> v)"

definition merge :: "'v js_object \<Rightarrow> 'v js_object \<Rightarrow> bool \<Rightarrow> 'v js_object" where
  "merge dst src ifNotSet =
     fold (\<lambda>k dst. if prop_of dst k = Undefined \<or> \<not> ifNotSet then mset dst k (prop_of src k) else dst) (mkeys src) dst"

definition is_set :: "'v js_value \<Rightarrow> bool" where
  "is_set v \<longleftrightarrow> v \<noteq> Undefined \<and> v \<noteq> Null"

definition getOneOf :: "string list \<Rightarrow> 'v js_object \<Rightarrow> string option" where
  "getOneOf fieldNames obj = find (\<lambda>k. k \<in> set fieldNames \<and> is_set (prop_of obj k)) (rev (mkeys obj))"

definition setOneOf :: "string list \<Rightarrow> string \<Rightarrow> 'v js_object \<Rightarrow> 'v js_object" where
  "setOneOf fieldNames name obj = fold (\<lambda>f obj. if f \<noteq> name then filter (\<lambda>p. fst p \<noteq> f) obj else obj) fieldNames obj"

lemma prop_of_mset [simp]: "prop_of (mset obj k v) k' = (if k = k' then v else prop_of obj k')"
  by (simp add: prop_of_def)

text \<open>Merging takes over every property of the source, or those the destination lacks; the others stay.\<close>

lemma prop_of_merge:
  "prop_of (merge dst src ifNotSet) k =
     (if k \<in> set (mkeys src) \<and> (prop_of dst k = Undefined \<or> \<not> ifNotSet) then prop_of src k else prop_of dst k)"
proof -
  have "prop_of (fold (\<lambda>k dst. if prop_of dst k = Undefined \<or> \<not> ifNotSet then mset dst k (prop_of src k) else dst) ks dst) k =
      (if k \<in> set ks \<and> (prop_of dst k = Undefined \<or> \<not> ifNotSet) then prop_of src k else prop_of dst k)" for ks
    by (induction ks arbitrary: dst) auto
  then show ?thesis by (simp add: merge_def)
qed

lemma setOneOf_eq: "setOneOf fieldNames name obj = filter (\<lambda>p. fst p = name \<or> fst p \<notin> set fieldNames) obj"
proof (induction fieldNames arbitrary: obj)
  case (Cons f fs)
  then show ?case by (auto simp: setOneOf_def intro!: filter_cong)
qed (simp add: setOneOf_def)

lemma mget_filter: "mget (filter (\<lambda>p. Q (fst p)) obj) k = (if Q k then mget obj k else None)"
  by (induction obj) (auto simp: mget_Cons)

text \<open>After a member of a group was chosen, it is the one that is found, if it is set, and no other one is.\<close>

lemma getOneOf_setOneOf:
  "getOneOf fieldNames (setOneOf fieldNames name obj) =
     (if name \<in> set fieldNames \<and> is_set (prop_of obj name) then Some name else None)"
proof -
  let ?obj = "setOneOf fieldNames name obj" and ?Q = "\<lambda>k. k = name \<or> k \<notin> set fieldNames"
  have get: "mget ?obj k = (if ?Q k then mget obj k else None)" for k
    using mget_filter [of ?Q obj k] by (simp add: setOneOf_eq)
  then have found: "k \<in> set fieldNames \<and> is_set (prop_of ?obj k) \<longleftrightarrow> k = name \<and> name \<in> set fieldNames \<and> is_set (prop_of obj name)" for k
    by (auto simp: prop_of_def is_set_def)
  have "is_set (prop_of obj name) \<Longrightarrow> name \<in> set (mkeys ?obj)"
    using get by (auto simp: set_mkeys prop_of_def is_set_def split: option.splits)
  moreover have "find (\<lambda>k. k = name) ks = (if name \<in> set ks then Some name else None)" for ks by (induction ks) auto
  ultimately show ?thesis unfolding getOneOf_def found
    by (cases "name \<in> set fieldNames \<and> is_set (prop_of obj name)") (auto simp: find_None_iff)
qed

end
