(* ===== verification/Pb_Bytes.thy ===== *)
theory Pb_Bytes
  imports Main "HOL-Library.Word" Squid_Prelude
begin

text \<open>
  Vocabulary of the wire codec \<^verbatim>\<open>crates/dcl-one-sdk/experiments/protobufjs-minimal-replacement/index.js\<close>,
  the protocol buffer runtime every scene ships.

  \<^item> A buffer (\<^verbatim>\<open>Uint8Array\<close>) is a list of bytes. Storing at an index beyond the end is ignored, as it is for
    typed arrays; \<open>list_update\<close> behaves alike. Reading there yields \<^verbatim>\<open>undefined\<close>, whose bitwise operations
    give 0 and whose comparisons are false: \<open>byte_at\<close> and \<open>byte_below\<close>.
  \<^item> The results of \<^verbatim>\<open>>>> 0\<close> and of the bitwise operators are words of 32 bits; \<^verbatim>\<open>>>>\<close> is \<open>drop_bit\<close>, \<^verbatim>\<open><<\<close> is
    \<open>push_bit\<close>, \<^verbatim>\<open>|0\<close> is \<open>sint\<close>. Storing into a buffer keeps the low 8 bits, which is \<open>ucast\<close>.
  \<^item> Integral numbers are \<open>int\<close>. They are exact up to \<open>2 ^ 53\<close>, which theorems on numbers assume where it matters.

  \<open>leb128\<close> is the specification of variable-length integers: seven bits per byte, lowest first, the highest
  bit of a byte set where another one follows. \<open>put\<close> is the effect on a buffer of writing bytes from an index on.
\<close>

unbundle bit_operations_syntax

named_theorems wire_simps "effects of the writing and reading routines"

type_synonym byte = "8 word"
type_synonym u32 = "32 word"
type_synonym u64 = "64 word"
type_synonym code_unit = "16 word"

section \<open>Words as numbers\<close>

lemma or_push_bit_nat: "push_bit n b OR a = b * 2 ^ n + a" if "a < 2 ^ n" for a b :: nat
proof -
  have "take_bit n a = a" using that by (rule take_bit_nat_eq_self)
  then have "push_bit n b AND a = 0"
    by (intro bit_eqI) (metis bit_and_iff bit_push_bit_iff bit_take_bit_iff bit_0_eq bot_apply not_le bot_bool_def)
  then show ?thesis using disjunctive_add_eq_or [of "push_bit n b" a] by (simp add: push_bit_eq_mult)
qed

lemma unat_push_bit_or: "unat (push_bit n v OR w) = unat v mod 2 ^ (LENGTH('a) - n) * 2 ^ n + unat w"
  if "unat w < 2 ^ n" "n \<le> LENGTH('a)" for v w :: "'a::len word"
proof -
  have "unat (push_bit n v OR w) = push_bit n (take_bit (LENGTH('a) - n) (unat v)) OR unat w"
    using that(2) by (simp only: unsigned_or_eq unsigned_push_bit_eq) (simp add: take_bit_push_bit)
  then show ?thesis by (simp only: or_push_bit_nat [OF that(1)] take_bit_eq_mod)
qed

lemma unat_push_bit: "unat (push_bit n w) = unat w mod 2 ^ (LENGTH('a) - n) * 2 ^ n"
  if "n \<le> LENGTH('a)" for w :: "'a::len word"
  using unat_push_bit_or [of 0 n w] that by simp

lemma unat_drop_bit: "unat (drop_bit n w) = unat w div 2 ^ n" for w :: "'a::len word"
  by (metis unat_drop_bit_eq drop_bit_eq_div)

lemma unat_and_mask: "unat (w AND mask n) = unat w mod 2 ^ n" for w :: "'a::len word"
  by (metis take_bit_eq_mask take_bit_eq_mod unsigned_take_bit_eq)

lemma unat_ucast_up: "unat (ucast w :: 'b::len word) = unat w" if "LENGTH('a) \<le> LENGTH('b)" for w :: "'a::len word"
  using that by (metis nat_uint_eq uint_up_ucast is_up)

lemma ucast_eq_of_nat: "ucast w = of_nat (unat w)"
  by simp

lemma unat_u32: "unat w < 4294967296" for w :: u32
  using unsigned_less [of w] by simp

lemma unat_u64: "unat w < 18446744073709551616" for w :: u64
  using unsigned_less [of w] by simp

lemma unat_byte: "unat w < 256" for w :: byte
  using unsigned_less [of w] by simp

lemma unat_or_push_bit: "unat (w OR push_bit n v) = unat v mod 2 ^ (LENGTH('a) - n) * 2 ^ n + unat w"
  if "unat w < 2 ^ n" "n \<le> LENGTH('a)" for v w :: "'a::len word"
  using unat_push_bit_or [OF that, of v] by (simp add: or.commute)

lemma unat_and_low [simp]:
  "unat (w AND 127) = unat w mod 128" "unat (w AND 63) = unat w mod 64" "unat (w AND 31) = unat w mod 32"
  "unat (w AND 15) = unat w mod 16" "unat (w AND 7) = unat w mod 8" "unat (w AND 1023) = unat w mod 1024" 
  "unat (w AND 255) = unat w mod 256" "unat (w AND 3) = unat w mod 4" for w :: u32
  using unat_and_mask [of w 7] unat_and_mask [of w 6] unat_and_mask [of w 5] unat_and_mask [of w 4]
    unat_and_mask [of w 3] unat_and_mask [of w 10] unat_and_mask [of w 8] unat_and_mask [of w 2]
  by (simp_all add: mask_numeral)

lemma unat_or_high [simp]:
  "unat w < 128 \<Longrightarrow> unat (w OR 128) = unat w + 128" "unat w < 64 \<Longrightarrow> unat (w OR 192) = unat w + 192"
  "unat w < 32 \<Longrightarrow> unat (w OR 224) = unat w + 224" "unat w < 16 \<Longrightarrow> unat (w OR 240) = unat w + 240" for w :: u32
  using unat_or_push_bit [of w 7 1] unat_or_push_bit [of w 6 3] unat_or_push_bit [of w 5 7] unat_or_push_bit [of w 4 15]
  by (simp_all add: push_bit_eq_mult)

lemma unat_ucast_unit [simp]: "unat (ucast (c :: code_unit) :: u32) = unat c"
  by (simp add: unat_ucast_up)

lemma unat_ucast_byte [simp]: "unat (ucast (c :: byte) :: u32) = unat c"
  by (simp add: unat_ucast_up)

lemma unat_of_nat_u32 [simp]: "n < 4294967296 \<Longrightarrow> unat (of_nat n :: u32) = n"
  by (simp add: unat_of_nat take_bit_nat_eq_self)

lemma unat_down_byte: "unat (ucast (w :: u32) :: byte) = unat w mod 256"
  using unat_of_nat [of "unat w", where 'a=8] by (simp add: take_bit_eq_mod)

lemma unat_down_unit: "unat (ucast (w :: u32) :: code_unit) = unat w mod 65536"
  using unat_of_nat [of "unat w", where 'a=16] by (simp add: take_bit_eq_mod)

lemma unat_unit: "unat c < 65536" for c :: code_unit
  using unsigned_less [of c] by simp

text \<open>Bits of a word that is doubled, and of the mask taken from the lowest bit.\<close>

lemma bit_word_double: "bit (w * 2) n \<longleftrightarrow> 0 < n \<and> n < LENGTH('a) \<and> bit w (n - 1)" for w :: "'a::len word"
proof -
  have "w * 2 = push_bit 1 w" by (simp add: push_bit_eq_mult)
  then show ?thesis by (simp only: bit_push_bit_iff) (auto dest: bit_imp_le_length)
qed

lemma bit_minus_lowest: "bit (- (w AND 1)) n \<longleftrightarrow> n < LENGTH('a) \<and> bit w 0" for w :: "'a::len word"
  by (cases "bit w 0") (simp_all add: and_one_eq mod_2_eq_odd bit_0 bit_simps)

lemma bit_word_sign: "bit (signed_drop_bit (LENGTH('a) - 1) w) n \<longleftrightarrow> bit w (LENGTH('a) - 1)"
  if "n < LENGTH('a)" for w :: "'a::len word"
  using that by (cases n) (auto simp: bit_simps min_def)

lemmas word_number_simps = unat_push_bit_or unat_push_bit unat_drop_bit unat_ucast_up

section \<open>Access to a buffer\<close>

definition byte_at :: "byte list \<Rightarrow> nat \<Rightarrow> u32" where
  "byte_at buf i = (if i < length buf then ucast (buf ! i) else 0)"

definition byte_below :: "byte list \<Rightarrow> nat \<Rightarrow> nat \<Rightarrow> bool" where
  "byte_below buf i n = (i < length buf \<and> unat (buf ! i) < n)"

primrec put :: "byte list \<Rightarrow> nat \<Rightarrow> byte list \<Rightarrow> byte list" where
  "put buf i [] = buf"
| "put buf i (b # bs) = put (buf[i := b]) (Suc i) bs"

lemma length_put [simp]: "length (put buf i bs) = length buf"
  by (induction bs arbitrary: buf i) simp_all

lemma put_append: "put buf i (bs @ cs) = put (put buf i bs) (i + length bs) cs"
  by (induction bs arbitrary: buf i) simp_all

lemma put_at_end_of_prefix:
  "put (pre @ gap @ post) (length pre) bs = pre @ bs @ post" if "length gap = length bs"
  using that
proof (induction bs arbitrary: pre gap)
  case (Cons b bs)
  then obtain g gap' where gap: "gap = g # gap'" "length gap' = length bs" by (cases gap) auto
  have "put (pre @ gap @ post) (length pre) (b # bs) = put ((pre @ [b]) @ gap' @ post) (length (pre @ [b])) bs"
    by (simp add: gap)
  also have "\<dots> = (pre @ [b]) @ bs @ post" by (rule Cons.IH [OF gap(2)])
  finally show ?case by simp
qed simp

lemma put_whole: "put buf 0 bs = bs" if "length bs = length buf"
  using put_at_end_of_prefix [of buf bs "[]" "[]"] that by simp

lemma byte_at_offsets [simp]:
  "byte_at (pre @ a # post) (length pre) = ucast a"
  "byte_at (pre @ a # b # post) (Suc (length pre)) = ucast b"
  "byte_at (pre @ a # b # post) (length pre + 1) = ucast b"
  "byte_at (pre @ a # b # c # post) (length pre + 2) = ucast c"
  "byte_at (pre @ a # b # c # post) (Suc (Suc (length pre))) = ucast c"
  "byte_at (pre @ a # b # c # d # post) (length pre + 3) = ucast d"
  by (simp_all add: byte_at_def nth_append)

lemma byte_below_nth [simp]: "byte_below (pre @ b # post) (length pre) n \<longleftrightarrow> unat b < n"
  by (simp add: byte_below_def nth_append)

lemma byte_at_append [simp]:
  "byte_at (pre @ bs @ post) (length pre + i) = ucast (bs ! i)" if "i < length bs"
  using that by (simp add: byte_at_def nth_append)

lemma byte_below_append [simp]:
  "byte_below (pre @ bs @ post) (length pre + i) n \<longleftrightarrow> unat (bs ! i) < n" if "i < length bs"
  using that by (simp add: byte_below_def nth_append)

section \<open>Variable-length integers\<close>

fun leb128 :: "nat \<Rightarrow> byte list" where
  "leb128 n = (if n < 128 then [of_nat n] else of_nat (n mod 128 + 128) # leb128 (n div 128))"

declare leb128.simps [simp del]

fun leb128_value :: "byte list \<Rightarrow> nat" where
  "leb128_value [] = 0"
| "leb128_value (b # bs) = unat b mod 128 + 128 * leb128_value bs"

lemma leb128_not_Nil [simp]: "leb128 n \<noteq> []"
  by (subst leb128.simps) simp

lemma unat_of_nat_byte [simp]: "unat (of_nat n :: byte) = n" if "n < 256"
  using that by (simp add: unat_of_nat take_bit_nat_eq_self_iff)

lemma leb128_small: "n < 128 \<Longrightarrow> leb128 n = [of_nat n]"
  and leb128_step: "\<not> n < 128 \<Longrightarrow> leb128 n = of_nat (n mod 128 + 128) # leb128 (n div 128)"
  by (subst leb128.simps, simp)+

lemma unat_more_byte [simp]: "unat (of_nat (n mod 128) + 128 :: byte) = n mod 128 + 128"
  using unat_of_nat_byte [of "n mod 128 + 128"] by simp

lemma leb128_value_leb128 [simp]: "leb128_value (leb128 n) = n"
proof (induction n rule: leb128.induct)
  case (1 n)
  then show ?case by (cases "n < 128") (simp_all add: leb128_small leb128_step)
qed

lemma leb128_length_bound: "n < 128 ^ k \<Longrightarrow> 0 < k \<Longrightarrow> length (leb128 n) \<le> k"
proof (induction n arbitrary: k rule: leb128.induct)
  case (1 n)
  show ?case
  proof (cases "n < 128")
    case True
    then show ?thesis using 1(3) by (simp add: leb128_small)
  next
    case False
    with 1(2,3) obtain j where k: "k = Suc j" "0 < j"
      by (cases k; cases "k = 1") auto
    have "n div 128 < 128 ^ j" using 1(2) k by (simp add: less_mult_imp_div_less mult.commute)
    then have "length (leb128 (n div 128)) \<le> j" using 1(1) False k by simp
    then show ?thesis by (simp add: leb128_step [OF False] k)
  qed
qed

text \<open>All bytes but the last one announce a successor.\<close>

lemma leb128_continues:
  "i < length (leb128 n) \<Longrightarrow> unat (leb128 n ! i) < 128 \<longleftrightarrow> Suc i = length (leb128 n)"
proof (induction n arbitrary: i rule: leb128.induct)
  case (1 n)
  show ?case
  proof (cases "n < 128")
    case True
    then show ?thesis using 1(2) by (simp add: leb128_small)
  next
    case False
    then show ?thesis using 1 by (cases i) (simp_all add: leb128_step)
  qed
qed

lemma leb128_length_iff: "length (leb128 n) = Suc k \<longleftrightarrow> n < 128 ^ Suc k \<and> (k = 0 \<or> 128 ^ k \<le> n)"
proof (induction n arbitrary: k rule: leb128.induct)
  case (1 n)
  show ?case
  proof (cases "n < 128")
    case True
    then have "\<not> 128 ^ k \<le> n" if "0 < k" using that self_le_power [of "128 :: nat" k] by simp
    with True show ?thesis by (cases k) (auto simp: leb128_small)
  next
    case False
    note IH = 1 [OF False]
    show ?thesis
    proof (cases k)
      case 0
      then show ?thesis using False by (simp add: leb128_step)
    next
      case (Suc j)
      have "n div 128 < 128 ^ Suc j \<longleftrightarrow> n < 128 ^ Suc k" "128 ^ j \<le> n div 128 \<longleftrightarrow> 128 ^ k \<le> n"
        by (simp_all add: Suc div_less_iff_less_mult less_eq_div_iff_mult_less_eq mult.commute)
      then show ?thesis using IH [of j] False Suc by (cases j) (auto simp: leb128_step)
    qed
  qed
qed

lemma leb128_lengths:
  "length (leb128 n) =
     (if n < 128 then 1 else if n < 16384 then 2 else if n < 2097152 then 3 else if n < 268435456 then 4
      else if n < 34359738368 then 5 else if n < 4398046511104 then 6 else if n < 562949953421312 then 7
      else if n < 72057594037927936 then 8 else if n < 9223372036854775808 then 9 else 10)" if "n < 18446744073709551616"
proof -
  have "length (leb128 n) = 2 \<longleftrightarrow> n < 16384 \<and> 128 \<le> n"
    using leb128_length_iff [of n 1] by (simp add: numeral_2_eq_2)
  then show ?thesis
    using that leb128_length_iff [of n 0] leb128_length_iff [of n 2] leb128_length_iff [of n 3] leb128_length_iff [of n 4]
      leb128_length_iff [of n 5] leb128_length_iff [of n 6] leb128_length_iff [of n 7] leb128_length_iff [of n 8]
      leb128_length_iff [of n 9]
    by simp
qed

end
