(* ===== verification/Pb_Long.thy ===== *)
theory Pb_Long
  imports Pb_Bytes
begin

text \<open>
  The class \<^verbatim>\<open>LongBits\<close> of the codec: integers of 64 bits as two words of 32, with conversions from and to numbers
  and \<^verbatim>\<open>Long\<close> objects, the zig-zag transformation and the length of the variable-length encoding.
  The abstraction \<open>to64\<close> reads the two halves as one word of 64 bits; the lemmas show that every operation is the
  plain operation on that word.
\<close>

section \<open>The class\<close>

record long_bits =
  lo :: u32
  hi :: u32

definition LongBits :: "u32 \<Rightarrow> u32 \<Rightarrow> long_bits" where
  "LongBits l h = \<lparr>lo = l, hi = h\<rparr>"

definition zero_bits :: long_bits where
  "zero_bits = LongBits 0 0"

text \<open>\<^verbatim>\<open>(value - lo) / 4294967296\<close> is a division without remainder.\<close>

definition fromNumber :: "int \<Rightarrow> long_bits" where
  "fromNumber value =
     (if value = 0 then zero_bits
      else let sign = value < 0; v = (if sign then - value else value);
               l = (word_of_int v :: u32);
               h = (word_of_int ((v - uint l) div 4294967296) :: u32)
           in if sign
              then let h = NOT h; l = NOT l
                   in if uint l + 1 > 4294967295
                      then LongBits 0 (if uint h + 1 > 4294967295 then 0 else h + 1)
                      else LongBits (l + 1) h
              else LongBits l h)"

definition toNumber :: "bool \<Rightarrow> long_bits \<Rightarrow> int" where
  "toNumber u b =
     (if \<not> u \<and> drop_bit 31 (hi b) \<noteq> 0
      then let l = NOT (lo b) + 1; h = NOT (hi b); h = (if l = 0 then h + 1 else h)
           in - (uint l + uint h * 4294967296)
      else uint (lo b) + uint (hi b) * 4294967296)"

record js_long =
  lng_low :: int
  lng_high :: int
  lng_unsigned :: bool

definition toLong :: "bool \<Rightarrow> long_bits \<Rightarrow> js_long" where
  "toLong u b = \<lparr>lng_low = sint (lo b), lng_high = sint (hi b), lng_unsigned = u\<rparr>"

text \<open>The argument of the 64 bit writers: a number or an object with two halves.\<close>

datatype js_num64 = Num int | Obj js_long

definition LongBits_from :: "js_num64 \<Rightarrow> long_bits" where
  "LongBits_from v =
     (case v of Num n \<Rightarrow> fromNumber n
      | Obj l \<Rightarrow> if lng_low l \<noteq> 0 \<or> lng_high l \<noteq> 0 then LongBits (word_of_int (lng_low l)) (word_of_int (lng_high l)) else zero_bits)"

definition zzEncode :: "long_bits \<Rightarrow> long_bits" where
  "zzEncode b =
     (let m = signed_drop_bit 31 (hi b)
      in LongBits (push_bit 1 (lo b) XOR m) ((push_bit 1 (hi b) OR drop_bit 31 (lo b)) XOR m))"

definition zzDecode :: "long_bits \<Rightarrow> long_bits" where
  "zzDecode b =
     (let m = - (lo b AND 1)
      in LongBits ((drop_bit 1 (lo b) OR push_bit 31 (hi b)) XOR m) (drop_bit 1 (hi b) XOR m))"

definition bits_length :: "long_bits \<Rightarrow> nat" where
  "bits_length b =
     (let part0 = lo b; part1 = drop_bit 28 (lo b) OR push_bit 4 (hi b); part2 = drop_bit 24 (hi b)
      in if part2 = 0
         then if part1 = 0
              then if part0 < 16384 then if part0 < 128 then 1 else 2
                   else if part0 < 2097152 then 3 else 4
              else if part1 < 16384 then if part1 < 128 then 5 else 6
                   else if part1 < 2097152 then 7 else 8
         else if part2 < 128 then 9 else 10)"

text \<open>Hashes are strings of eight units, one for each byte; \<^verbatim>\<open>charCodeAt\<close> beyond the end is \<^verbatim>\<open>NaN\<close>, whose bits are 0.\<close>

definition hash_unit :: "code_unit list \<Rightarrow> nat \<Rightarrow> u32" where
  "hash_unit hash n = (if n < length hash then ucast (hash ! n) else 0)"

definition zeroHash :: "code_unit list" where
  "zeroHash = replicate 8 0"

definition fromHash :: "code_unit list \<Rightarrow> long_bits" where
  "fromHash hash =
     (if hash = zeroHash then zero_bits
      else LongBits
        (hash_unit hash 0 OR push_bit 8 (hash_unit hash 1) OR push_bit 16 (hash_unit hash 2) OR push_bit 24 (hash_unit hash 3))
        (hash_unit hash 4 OR push_bit 8 (hash_unit hash 5) OR push_bit 16 (hash_unit hash 6) OR push_bit 24 (hash_unit hash 7)))"

definition toHash :: "long_bits \<Rightarrow> code_unit list" where
  "toHash b =
     [ucast (lo b AND 255), ucast (drop_bit 8 (lo b) AND 255), ucast (drop_bit 16 (lo b) AND 255), ucast (drop_bit 24 (lo b)),
      ucast (hi b AND 255), ucast (drop_bit 8 (hi b) AND 255), ucast (drop_bit 16 (hi b) AND 255), ucast (drop_bit 24 (hi b))]"

section \<open>Reading the halves as one word\<close>

definition to64 :: "long_bits \<Rightarrow> u64" where
  "to64 b = push_bit 32 (ucast (hi b)) OR ucast (lo b)"

lemma unat_to64: "unat (to64 b) = unat (hi b) * 4294967296 + unat (lo b)"
  using unat_u32 [of "lo b"] unat_u32 [of "hi b"] by (simp add: to64_def unat_push_bit_or unat_ucast_up)

lemma uint_to64: "uint (to64 b) = uint (hi b) * 4294967296 + uint (lo b)"
  using unat_to64 [of b, THEN arg_cong [of _ _ int]] by simp

lemma to64_inject [simp]: "to64 a = to64 b \<longleftrightarrow> a = b" for a b :: long_bits
proof
  assume eq: "to64 a = to64 b"
  have sum: "unat (hi a) * 4294967296 + unat (lo a) = unat (hi b) * 4294967296 + unat (lo b)"
    by (simp flip: unat_to64 add: eq)
  then have h: "unat (hi a) = unat (hi b)"
    using unat_u32 [of "lo a"] unat_u32 [of "lo b"] by linarith
  with sum have "unat (lo a) = unat (lo b)" by linarith
  with h show "a = b" by (simp add: word_unat_eq_iff)
qed simp

lemma bit_to64: "bit (to64 b) n \<longleftrightarrow> (if n < 32 then bit (lo b) n else n < 64 \<and> bit (hi b) (n - 32))"
  by (auto simp: to64_def bit_simps dest: bit_imp_le_length)

lemma to64_LongBits_iff: "to64 (LongBits l h) = x \<longleftrightarrow> l = ucast x \<and> h = ucast (drop_bit 32 x)"
proof
  assume "to64 (LongBits l h) = x"
  then show "l = ucast x \<and> h = ucast (drop_bit 32 x)"
    by (auto intro!: bit_word_eqI simp: bit_simps bit_to64 LongBits_def)
next
  assume "l = ucast x \<and> h = ucast (drop_bit 32 x)"
  then show "to64 (LongBits l h) = x"
    by (auto intro!: bit_word_eqI simp: bit_simps bit_to64 LongBits_def split: if_splits)
qed

section \<open>Conversion of numbers\<close>

lemma LongBits_simps [simp]: "lo (LongBits l h) = l" "hi (LongBits l h) = h"
  by (simp_all add: LongBits_def)

lemma uint_u32: "0 \<le> uint w" "uint w < 4294967296" for w :: u32
  using uint_lt2p [of w] by simp_all

lemma to64_eq_of_int: "to64 b = word_of_int (uint (hi b) * 4294967296 + uint (lo b))"
  by (metis uint_to64 word_of_int_uint)

lemma to64_successor:
  "to64 (if uint l + 1 > 4294967295 then LongBits 0 (if uint h + 1 > 4294967295 then 0 else h + 1)
     else LongBits (l + 1) h) = to64 (LongBits l h) + 1"
proof (cases "uint l + 1 > 4294967295")
  case True
  then have l: "uint l = 4294967295" using uint_u32 [of l] by linarith
  show ?thesis
  proof (cases "uint h + 1 > 4294967295")
    case True
    then have "uint h = 4294967295" using uint_u32 [of h] by linarith
    with l show ?thesis by (simp add: to64_eq_of_int)
  next
    case False
    then have "uint (h + 1) = uint h + 1" using uint_u32 [of h] by (simp add: uint_word_ariths)
    with False l show ?thesis by (simp add: to64_eq_of_int)
  qed
next
  case False
  then have "uint (l + 1) = uint l + 1" using uint_u32 [of l] by (simp add: uint_word_ariths)
  with False show ?thesis by (simp add: to64_eq_of_int)
qed

lemma to64_NOT: "to64 (LongBits (NOT l) (NOT h)) = NOT (to64 (LongBits l h))"
  by (rule bit_word_eqI) (auto simp: bit_to64 bit_simps)

lemma to64_halves: "to64 (LongBits (word_of_int v) (word_of_int ((v - uint (word_of_int v :: u32)) div 4294967296))) = word_of_int v"
proof -
  have "(v - v mod 4294967296) div 4294967296 = v div 4294967296" by (simp add: minus_mod_eq_mult_div)
  then have "uint (to64 (LongBits (word_of_int v) (word_of_int ((v - uint (word_of_int v :: u32)) div 4294967296)))) 
    = v div 4294967296 mod 4294967296 * 4294967296 + v mod 4294967296"
    by (simp add: uint_to64 uint_word_of_int)
  also have "\<dots> = v mod (4294967296 * 4294967296)" using zmod_zmult2_eq [of 4294967296 v 4294967296] by simp
  finally show ?thesis by (simp add: word_uint_eq_iff uint_word_of_int)
qed

lemma to64_fromNumber: "to64 (fromNumber v) = word_of_int v"
proof (cases v "0 :: int" rule: linorder_cases)
  case less
  define l h where "l = (word_of_int (- v) :: u32)" and "h = (word_of_int ((- v - uint l) div 4294967296) :: u32)"
  have "fromNumber v = (if uint (NOT l) + 1 > 4294967295
      then LongBits 0 (if uint (NOT h) + 1 > 4294967295 then 0 else NOT h + 1) else LongBits (NOT l + 1) (NOT h))"
    using less by (simp only: fromNumber_def Let_def l_def h_def) simp
  then have "to64 (fromNumber v) = NOT (to64 (LongBits l h)) + 1"
    by (simp only: to64_successor to64_NOT)
  also have "to64 (LongBits l h) = word_of_int (- v)" by (simp only: l_def h_def to64_halves)
  finally show ?thesis by (simp flip: minus_eq_not_plus_1)
next
  case equal
  then show ?thesis by (simp add: fromNumber_def zero_bits_def to64_def)
next
  case greater
  then show ?thesis by (simp add: fromNumber_def Let_def to64_halves)
qed

lemma uint_NOT_u32: "uint (NOT w) = 4294967295 - uint w" for w :: u32
proof -
  have "(- uint w - 1) mod 4294967296 = (- uint w - 1 + 4294967296) mod 4294967296"
    by (simp only: mod_add_self2)
  also have "\<dots> = 4294967295 - uint w" 
    using uint_u32 [of w] by (intro trans [OF mod_pos_pos_trivial]) linarith+
  finally show ?thesis by (simp add: not_eq_complement uint_word_ariths mod_diff_left_eq)
qed

lemma sint_to64: "sint (to64 b) = uint (to64 b) - (if bit (hi b) 31 then 18446744073709551616 else 0)"
proof -
  have "bit (uint (to64 b)) 63 = bit (hi b) 31" by (simp add: bit_uint_iff bit_to64)
  moreover have "take_bit 64 (uint (to64 b)) = uint (to64 b)"
    by (rule bintr_uint) simp
  ultimately show ?thesis
    by (simp add: sint_uint signed_take_bit_eq_take_bit_minus)
qed

lemma sign_bit: "drop_bit 31 w = 0 \<longleftrightarrow> \<not> bit w 31" for w :: u32
proof -
  have "bit (drop_bit 31 w) n \<longleftrightarrow> n = 0 \<and> bit w 31" for n
    by (cases "n = 0") (auto simp: bit_drop_bit_eq dest: bit_imp_le_length)
  then show ?thesis by (metis bit_0_eq bit_eqI bot_apply bot_bool_def)
qed

lemma toNumber_unsigned: "toNumber True b = uint (to64 b)"
  by (simp add: toNumber_def uint_to64)

lemma toNumber_signed: "toNumber False b = sint (to64 b)"
proof (cases "bit (hi b) 31")
  case False
  then show ?thesis by (simp add: toNumber_def sign_bit uint_to64 sint_to64) 
next
  case True
  then have h: "uint (hi b) \<noteq> 0" by (metis bit_0_eq bot_apply bot_bool_def uint_0_iff)
  have plus1: "uint (w + 1) = uint w + 1" if "uint w \<noteq> 4294967295" for w :: u32
    using that uint_u32 [of w] by (simp add: uint_word_ariths)
  have lo0: "NOT (lo b) + 1 = 0 \<longleftrightarrow> lo b = 0"
    by (metis minus_eq_not_plus_1 neg_equal_0_iff_equal)
  show ?thesis
  proof (cases "lo b = 0")
    case True
    then have "toNumber False b = - (uint (NOT (hi b) + 1) * 4294967296)"
      using \<open>bit (hi b) 31\<close> by (simp only: toNumber_def Let_def sign_bit) simp
    then show ?thesis using True h \<open>bit (hi b) 31\<close>
      by (simp add: plus1 uint_NOT_u32 sint_to64 uint_to64)
  next
    case False
    then have "toNumber False b = - (uint (NOT (lo b) + 1) + uint (NOT (hi b)) * 4294967296)"
      using \<open>bit (hi b) 31\<close> lo0 by (simp only: toNumber_def Let_def sign_bit) simp
    moreover have "uint (lo b) \<noteq> 0" using False uint_0_iff by blast
    ultimately show ?thesis using \<open>bit (hi b) 31\<close>
      by (simp add: plus1 uint_NOT_u32 sint_to64 uint_to64)
  qed
qed

lemma to64_toLong: "to64 (LongBits_from (Obj (toLong u b))) = to64 b"
proof -
  have "LongBits_from (Obj (toLong u b)) = b"
    by (cases b) (auto simp: LongBits_from_def toLong_def zero_bits_def LongBits_def signed_eq_0_iff)
  then show ?thesis by simp
qed

section \<open>Zig-zag\<close>

definition zigzag64 :: "u64 \<Rightarrow> u64" where
  "zigzag64 x = push_bit 1 x XOR signed_drop_bit 63 x"

lemma bit_zzEncode:
  "bit (to64 (zzEncode b)) n \<longleftrightarrow> n < 64 \<and> (0 < n \<and> bit (to64 b) (n - 1)) \<noteq> bit (to64 b) 63"
proof -
  define m where "m = signed_drop_bit 31 (hi b)"
  have m: "bit m k = bit (hi b) 31" if "k < 32" for k
    using bit_word_sign [of k "hi b"] that by (simp add: m_def)
  have "zzEncode b = LongBits (push_bit 1 (lo b) XOR m) ((push_bit 1 (hi b) OR drop_bit 31 (lo b)) XOR m)"
    by (simp only: zzEncode_def Let_def m_def)
  moreover have "n - 32 - 1 = n - 1 - 32" by simp
  ultimately show ?thesis
    by (cases "n < 32"; cases "n = 32")
      (auto simp: LongBits_def bit_to64 bit_word_double bit_simps m dest: bit_imp_le_length)
qed

lemma bit_zzDecode:
  "bit (to64 (zzDecode b)) n \<longleftrightarrow> n < 64 \<and> (bit (to64 b) (Suc n) \<noteq> bit (to64 b) 0)"
proof -
  define m where "m = - (lo b AND 1)"
  have m: "bit m k = bit (lo b) 0" if "k < 32" for k
    using that by (simp only: m_def bit_minus_lowest) simp
  have "to64 (zzDecode b) =
      to64 (LongBits ((drop_bit 1 (lo b) OR push_bit 31 (hi b)) XOR m) (drop_bit 1 (hi b) XOR m))"
    by (simp only: zzDecode_def Let_def m_def)
  moreover have "\<not> n < 32 \<Longrightarrow> Suc n - 32 = Suc (n - 32)" by simp
  ultimately show ?thesis
    by (cases "n < 31"; cases "n = 31")
      (auto simp: LongBits_def bit_to64 bit_simps m simp del: bit_0 dest: bit_imp_le_length)
qed

lemma to64_zzEncode: "to64 (zzEncode b) = zigzag64 (to64 b)"
  using bit_word_sign [of _ "to64 b"]
  by (intro bit_word_eqI) (simp add: bit_zzEncode zigzag64_def bit_word_double bit_xor_iff)

lemma zzDecode_zzEncode [simp]: "zzDecode (zzEncode b) = b"
proof -
  have "to64 (zzDecode (zzEncode b)) = to64 b"
  proof (rule bit_word_eqI)
    fix n assume "n < LENGTH(64)"
    then have "n = 63 \<or> n < 63" by auto
    then show "bit (to64 (zzDecode (zzEncode b))) n = bit (to64 b) n"
      by (auto simp: bit_zzDecode bit_zzEncode)
  qed
  then show ?thesis by simp
qed

section \<open>Length of the variable-length encoding\<close>

lemma bits_length_eq: "bits_length b = length (leb128 (unat (to64 b)))"
proof -
  let ?l = "unat (lo b)" and ?h = "unat (hi b)" and ?x = "unat (to64 b)"
  have x: "?x = ?h * 4294967296 + ?l" by (rule unat_to64)
  have bound: "?l < 4294967296" "?h < 4294967296" by (rule unat_u32)+
  have "drop_bit 28 (lo b) OR push_bit 4 (hi b) = push_bit 4 (hi b) OR drop_bit 28 (lo b)" by (simp add: or.commute)
  moreover have "?l div 268435456 < 16" using bound by linarith
  ultimately have p1: "unat (drop_bit 28 (lo b) OR push_bit 4 (hi b)) = ?h mod 268435456 * 16 + ?l div 268435456"
    by (simp add: unat_push_bit_or unat_drop_bit)
  have p2: "unat (drop_bit 24 (hi b)) = ?h div 16777216" by (simp add: unat_drop_bit)
  have z: "(w = 0) = (unat w = 0)" for w :: u32 by (simp add: unat_eq_0)
  have "?x < 18446744073709551616" using x bound by linarith
  then show ?thesis using bound x
    by (simp only: leb128_lengths bits_length_def Let_def z word_less_nat_alt p1 p2) auto
qed

section \<open>Hashes\<close>

lemma bit_hash_byte: "bit (ucast (ucast (w AND 255) :: code_unit) :: u32) n \<longleftrightarrow> n < 8 \<and> bit w n" for w :: u32
  using bit_mask_iff [of 8 n, where 'a = "32 word"] by (auto simp: mask_numeral bit_ucast_iff bit_and_iff)

lemma bit_hash_high: "bit (ucast (ucast (drop_bit 24 w) :: code_unit) :: u32) n \<longleftrightarrow> bit w (24 + n)" for w :: u32
  by (auto simp: bit_ucast_iff bit_drop_bit_eq dest: bit_imp_le_length)

lemma bytes_of_half:
  "(ucast (ucast (w AND 255) :: code_unit) :: u32) OR push_bit 8 (ucast (ucast (drop_bit 8 w AND 255) :: code_unit)) OR
   push_bit 16 (ucast (ucast (drop_bit 16 w AND 255) :: code_unit)) OR push_bit 24 (ucast (ucast (drop_bit 24 w) :: code_unit)) = w"
  for w :: u32
proof (rule bit_word_eqI)
  fix n assume "n < LENGTH(32)"
  then consider "n < 8" | "8 \<le> n" "n < 16" | "16 \<le> n" "n < 24" | "24 \<le> n" "n < 32" by fastforce
  then show "bit ((ucast (ucast (w AND 255) :: code_unit) :: u32) OR
      push_bit 8 (ucast (ucast (drop_bit 8 w AND 255) :: code_unit)) OR
      push_bit 16 (ucast (ucast (drop_bit 16 w AND 255) :: code_unit)) OR
      push_bit 24 (ucast (ucast (drop_bit 24 w) :: code_unit))) n = bit w n"
    by cases (simp_all only: bit_or_iff bit_push_bit_iff bit_hash_byte bit_hash_high bit_drop_bit_eq, auto)
qed

lemma fromHash_toHash [simp]: "fromHash (toHash b) = b"
proof (cases "toHash b = zeroHash")
  case True
  have "lo b = 0" using bytes_of_half [of "lo b"] True by (simp add: toHash_def zeroHash_def eval_nat_numeral)
  moreover have "hi b = 0" using bytes_of_half [of "hi b"] True by (simp add: toHash_def zeroHash_def eval_nat_numeral)
  ultimately show ?thesis using True by (simp add: fromHash_def zero_bits_def LongBits_def)
next
  case False
  then show ?thesis
    by (simp only: fromHash_def if_False) (simp add: toHash_def hash_unit_def bytes_of_half LongBits_def del: push_bit_and)
qed


end
