(* ===== verification/Pb_Utf8.thy ===== *)
theory Pb_Utf8
  imports Pb_Bytes
begin

text \<open>
  The routines \<^verbatim>\<open>utf8.length\<close>, \<^verbatim>\<open>utf8.write\<close> and \<^verbatim>\<open>utf8.read\<close> of the codec. A string is the list of its UTF-16
  code units, as JavaScript sees it. Surrogates without a partner are encoded like other units in three bytes.
  The main result is that reading gives back every string that was written, lone surrogates included, although
  such bytes are no valid UTF-8, and that the announced length is the number of bytes written.
\<close>

type_synonym js_string = "code_unit list"

definition is_high :: "code_unit \<Rightarrow> bool" where
  "is_high c \<longleftrightarrow> c AND 0xFC00 = 0xD800"

definition is_low :: "code_unit \<Rightarrow> bool" where
  "is_low c \<longleftrightarrow> c AND 0xFC00 = 0xDC00"

text \<open>\<^verbatim>\<open>charCodeAt\<close> beyond the end is \<^verbatim>\<open>NaN\<close>, whose bits are 0.\<close>

definition next_low :: "js_string \<Rightarrow> bool" where
  "next_low cs \<longleftrightarrow> (case cs of [] \<Rightarrow> False | c # _ \<Rightarrow> is_low c)"

function utf8_length :: "js_string \<Rightarrow> nat" where
  "utf8_length [] = 0"
| "utf8_length (c # cs) =
     (if c < 128 then 1 + utf8_length cs
      else if c < 2048 then 2 + utf8_length cs
      else if is_high c \<and> next_low cs then 4 + utf8_length (tl cs)
      else 3 + utf8_length cs)"
  by pat_completeness auto
termination by (relation "measure length") auto

section \<open>Writing\<close>

definition pair_point :: "code_unit \<Rightarrow> code_unit \<Rightarrow> u32" where
  "pair_point c1 c2 = 0x10000 + push_bit 10 (ucast c1 AND 0x3FF) + (ucast c2 AND 0x3FF)"

definition store :: "u32 \<Rightarrow> byte list \<times> nat \<Rightarrow> byte list \<times> nat" where
  "store v bo = ((fst bo)[snd bo := ucast v], Suc (snd bo))"

function utf8_write :: "js_string \<Rightarrow> byte list \<times> nat \<Rightarrow> byte list \<times> nat" where
  "utf8_write [] bo = bo"
| "utf8_write (c # cs) bo =
     (let c1 = (ucast c :: u32)
      in if c < 128 then utf8_write cs (store c1 bo)
         else if c < 2048
         then utf8_write cs (store (c1 AND 63 OR 128) (store (drop_bit 6 c1 OR 192) bo))
         else if is_high c \<and> next_low cs
         then let p = pair_point c (hd cs)
              in utf8_write (tl cs)
                   (store (p AND 63 OR 128) (store (drop_bit 6 p AND 63 OR 128)
                     (store (drop_bit 12 p AND 63 OR 128) (store (drop_bit 18 p OR 240) bo))))
         else utf8_write cs
                (store (c1 AND 63 OR 128) (store (drop_bit 6 c1 AND 63 OR 128) (store (drop_bit 12 c1 OR 224) bo))))"
  by pat_completeness auto
termination by (relation "measure (\<lambda>(cs, _). length cs)") auto

section \<open>Reading\<close>

text \<open>One turn of the loop: the units for the bytes from an index on, and the next index.\<close>

definition REPLACEMENT :: code_unit where
  "REPLACEMENT = 0xFFFD"

definition utf8_step :: "byte list \<Rightarrow> nat \<Rightarrow> js_string \<times> nat" where
  "utf8_step buf i =
     (if i < length buf
      then let t = byte_at buf i; b1 = byte_at buf (i + 1) AND 0x3F;
               b2 = byte_at buf (i + 2) AND 0x3F; b3 = byte_at buf (i + 3) AND 0x3F
           in if t \<le> 0x7F then ([ucast t], i + 1)
              else if 0xC0 \<le> t \<and> t < 0xE0
              then let c2 = push_bit 6 (t AND 0x1F) OR b1
                   in ([if 0x80 \<le> c2 then ucast c2 else REPLACEMENT], i + 2)
              else if 0xE0 \<le> t \<and> t < 0xF0
              then let c3 = push_bit 12 (t AND 0xF) OR push_bit 6 b1 OR b2
                   in ([if 0x800 \<le> c3 then ucast c3 else REPLACEMENT], i + 3)
              else if 0xF0 \<le> t
              then let t2 = push_bit 18 (t AND 7) OR push_bit 12 b1 OR push_bit 6 b2 OR b3
                   in (if t2 < 0x10000 \<or> t2 > 0x10FFFF then [REPLACEMENT]
                       else [ucast (0xD800 + drop_bit 10 (t2 - 0x10000)),
                             ucast (0xDC00 + (t2 - 0x10000 AND 0x3FF))], i + 4)
              else ([], i + 1)
      else ([], i + 1))"

lemma utf8_step_advances [simp]: "i < snd (utf8_step buf i)"
  by (simp add: utf8_step_def Let_def)

function utf8_loop :: "byte list \<Rightarrow> nat \<Rightarrow> nat \<Rightarrow> js_string list option \<Rightarrow> js_string \<Rightarrow> js_string" where
  "utf8_loop buf e i parts chunk =
     (if i < e
      then let (units, j) = utf8_step buf i; chunk = chunk @ units
           in if length chunk > 8191
              then utf8_loop buf e j (Some ((case parts of None \<Rightarrow> [] | Some ps \<Rightarrow> ps) @ [chunk])) []
              else utf8_loop buf e j parts chunk
      else (case parts of
              None \<Rightarrow> chunk
            | Some ps \<Rightarrow> concat (if chunk = [] then ps else ps @ [chunk])))"
  by pat_completeness auto
termination
proof (relation "measure (\<lambda>(buf, e, i, parts, chunk). e - i)")
qed (auto dest: arg_cong [of _ _ snd] intro!: diff_less_mono2 simp: prod_eq_iff)

definition utf8_read :: "byte list \<Rightarrow> nat \<Rightarrow> nat \<Rightarrow> js_string" where
  "utf8_read buf start e = (if e - start < 1 then [] else utf8_loop buf e start None [])"

declare utf8_loop.simps [simp del]

section \<open>What a turn of the loop reads\<close>

lemma strip_marker [simp]:
  "y < 64 \<Longrightarrow> (128 + y) mod 64 = y" "x < 32 \<Longrightarrow> (192 + x) mod 32 = x" "x < 16 \<Longrightarrow> (224 + x) mod 16 = x"
  "x < 8 \<Longrightarrow> (240 + x) mod 8 = x" for x y :: nat
  using mod_mult_self2 [of y 64 2] mod_mult_self2 [of x 32 6] mod_mult_self2 [of x 16 14] mod_mult_self2 [of x 8 30]
  by (simp_all add: add.commute)

lemma utf8_step1: "utf8_step (pre @ b0 # post) (length pre) = ([of_nat (unat b0)], length pre + 1)" if "unat b0 < 128"
proof -
  have "(ucast (ucast b0 :: u32) :: code_unit) = of_nat (unat b0)"
    by (metis ucast_eq_of_nat unat_ucast_byte)
  with that show ?thesis by (simp add: utf8_step_def Let_def word_le_nat_alt)
qed

lemma utf8_step2:
  assumes "unat b0 = 192 + x" "x < 32" "unat b1 = 128 + y" "y < 64" "128 \<le> 64 * x + y"
  shows "utf8_step (pre @ b0 # b1 # post) (length pre) = ([of_nat (64 * x + y)], length pre + 2)"
proof -
  let ?c = "push_bit 6 (ucast b0 AND 31) OR (ucast b1 AND 63) :: u32"
  have c: "unat ?c = 64 * x + y" using assms by (subst unat_push_bit_or) simp_all
  then have "ucast ?c = (of_nat (64 * x + y) :: code_unit)" by (metis ucast_eq_of_nat)
  with c show ?thesis using assms by (simp add: utf8_step_def Let_def word_le_nat_alt word_less_nat_alt) 
qed

lemma utf8_step3:
  assumes "unat b0 = 224 + x" "x < 16" "unat b1 = 128 + y" "y < 64" "unat b2 = 128 + z" "z < 64"
    "2048 \<le> 4096 * x + 64 * y + z"
  shows "utf8_step (pre @ b0 # b1 # b2 # post) (length pre) = ([of_nat (4096 * x + 64 * y + z)], length pre + 3)"
proof -
  let ?c = "push_bit 12 (ucast b0 AND 15) OR push_bit 6 (ucast b1 AND 63) OR (ucast b2 AND 63) :: u32"
  have l: "unat (push_bit 6 (ucast b1 AND 63) OR (ucast b2 AND 63) :: u32) = 64 * y + z" 
    using assms by (subst unat_push_bit_or) simp_all
  have "unat (push_bit 12 (ucast b0 AND 15) OR (push_bit 6 (ucast b1 AND 63) OR (ucast b2 AND 63)) :: u32) = 4096 * x + 64 * y + z" using assms 
    by (subst unat_push_bit_or) (simp_all add: l del: push_bit_and)
  then have c: "unat ?c = 4096 * x + 64 * y + z" by (simp only: or.assoc)
  then have "ucast ?c = (of_nat (4096 * x + 64 * y + z) :: code_unit)" by (metis ucast_eq_of_nat)
  with c show ?thesis using assms by (simp add: utf8_step_def Let_def word_le_nat_alt word_less_nat_alt) 
qed


lemma utf8_step4:
  assumes "unat b0 = 240 + u" "u < 8" "unat b1 = 128 + x" "x < 64" "unat b2 = 128 + y" "y < 64"
    "unat b3 = 128 + z" "z < 64" "262144 * u + 4096 * x + 64 * y + z = 65536 + 1024 * h + l" "h < 1024" "l < 1024"
  shows "utf8_step (pre @ b0 # b1 # b2 # b3 # post) (length pre) =
    ([of_nat (0xD800 + h), of_nat (0xDC00 + l)], length pre + 4)"
proof -
  define c where "c = (push_bit 18 (ucast b0 AND 7) OR push_bit 12 (ucast b1 AND 63) OR push_bit 6 (ucast b2 AND 63) OR
    (ucast b3 AND 63) :: u32)"
  have l1: "unat (push_bit 6 (ucast b2 AND 63) OR (ucast b3 AND 63) :: u32) = 64 * y + z"
    using assms by (subst unat_push_bit_or) simp_all
  have l2: "unat (push_bit 12 (ucast b1 AND 63) OR (push_bit 6 (ucast b2 AND 63) OR (ucast b3 AND 63)) :: u32) =
      4096 * x + 64 * y + z"
    using assms by (subst unat_push_bit_or) (simp_all add: l1 del: push_bit_and)
  have "unat (push_bit 18 (ucast b0 AND 7) OR
      (push_bit 12 (ucast b1 AND 63) OR (push_bit 6 (ucast b2 AND 63) OR (ucast b3 AND 63))) :: u32) =
      262144 * u + 4096 * x + 64 * y + z"
    using assms by (subst unat_push_bit_or) (simp_all add: l2 del: push_bit_and)
  then have c: "unat c = 65536 + 1024 * h + l" by (simp only: c_def or.assoc assms)
  have d: "unat (c - 0x10000) = 1024 * h + l"
    using c by (subst unat_sub) (simp_all add: word_le_nat_alt)
  have hl: "(1024 * h + l) div 1024 = h" "(1024 * h + l) mod 1024 = l" using assms by simp_all
  have "unat (0xD800 + drop_bit 10 (c - 0x10000)) = 0xD800 + h"
    using assms by (simp only: unat_word_ariths unat_drop_bit d) (simp add: hl)
  then have e1: "ucast (0xD800 + drop_bit 10 (c - 0x10000)) = (of_nat (0xD800 + h) :: code_unit)"
    by (metis ucast_eq_of_nat)
  have "unat (0xDC00 + (c - 0x10000 AND 0x3FF)) = 0xDC00 + l"
    using assms by (simp only: unat_word_ariths unat_and_low d) (simp add: hl)
  then have e2: "ucast (0xDC00 + (c - 0x10000 AND 0x3FF)) = (of_nat (0xDC00 + l) :: code_unit)"
    by (metis ucast_eq_of_nat)
  have r: "\<not> (c < 0x10000 \<or> c > 0x10FFFF)" using c assms by (simp only: word_less_nat_alt) simp
  show ?thesis unfolding utf8_step_def Let_def byte_at_offsets c_def [symmetric]
    using assms(1) e1 e2 r by (simp add: word_le_nat_alt word_less_nat_alt)
qed

section \<open>Round trip\<close>

text \<open>The bytes of a string, and the plain loop without intermediate parts.\<close>

function utf8_bytes :: "js_string \<Rightarrow> byte list" where
  "utf8_bytes [] = []"
| "utf8_bytes (c # cs) =
     (if c < 128 then of_nat (unat c) # utf8_bytes cs
      else if c < 2048 then of_nat (192 + unat c div 64) # of_nat (128 + unat c mod 64) # utf8_bytes cs
      else if is_high c \<and> next_low cs
      then let p = 65536 + unat c mod 1024 * 1024 + unat (hd cs) mod 1024
           in of_nat (240 + p div 262144) # of_nat (128 + p div 4096 mod 64) # of_nat (128 + p div 64 mod 64) #
              of_nat (128 + p mod 64) # utf8_bytes (tl cs)
      else of_nat (224 + unat c div 4096) # of_nat (128 + unat c div 64 mod 64) # of_nat (128 + unat c mod 64) #
           utf8_bytes cs)"
  by pat_completeness auto
termination by (relation "measure length") auto

lemma length_utf8_bytes: "length (utf8_bytes cs) = utf8_length cs"
  by (induction cs rule: utf8_length.induct) (simp_all add: Let_def)

lemma unat_pair_point: "unat (pair_point c1 c2) = 65536 + unat c1 mod 1024 * 1024 + unat c2 mod 1024"
proof -
  have "unat (push_bit 10 (ucast c1 AND 0x3FF) :: u32) = unat c1 mod 1024 * 1024"
    by (subst unat_push_bit) simp_all
  then show ?thesis
    by (simp only: pair_point_def unat_word_ariths unat_and_low unat_ucast_unit) simp
qed

lemma byteI: "unat v = n \<Longrightarrow> ucast v = (of_nat n :: byte)" for v :: u32
  by (metis ucast_eq_of_nat)

lemma utf8_write_eq: "utf8_write cs (buf, i) = (put buf i (utf8_bytes cs), i + utf8_length cs)"
proof (induction cs arbitrary: buf i rule: utf8_length.induct)
  case (2 c cs)
  let ?c = "ucast c :: u32" and ?p = "pair_point c (hd cs)"
  have c: "unat c < 65536" by (rule unat_unit)
  have p: "unat ?p < 2097152"
  proof -
    have "unat c mod 1024 < 1024" "unat (hd cs) mod 1024 < 1024" by simp_all
    then show ?thesis by (simp only: unat_pair_point)
  qed
  have low: "ucast (w AND 63 OR 128) = (of_nat (128 + unat w mod 64) :: byte)" for w :: u32
    by (rule byteI) simp
  consider "c < 128" | "\<not> c < 128" "c < 2048" | "\<not> c < 128" "\<not> c < 2048" "is_high c \<and> next_low cs"
    | "\<not> c < 128" "\<not> c < 2048" "\<not> (is_high c \<and> next_low cs)" by blast
  then show ?case
  proof cases
    case 1
    have "ucast ?c = (of_nat (unat c) :: byte)" by (rule byteI) simp
    with 1 "2.IH"(1) show ?thesis by (simp only: store_def utf8_write.simps utf8_bytes.simps) simp
  next
    case 2
    then have "ucast (drop_bit 6 ?c OR 192) = (of_nat (192 + unat c div 64) :: byte)"
      by (intro byteI) (simp add: unat_drop_bit word_less_nat_alt)
    with 2 "2.IH"(2) show ?thesis
      by (simp only: store_def utf8_write.simps utf8_bytes.simps low unat_ucast_unit Let_def) simp
  next
    case 3
    have "ucast (drop_bit 18 ?p OR 240) = (of_nat (240 + unat ?p div 262144) :: byte)"
      using p by (intro byteI) (simp add: unat_drop_bit)
    with 3 "2.IH"(3) show ?thesis
      by (simp only: store_def utf8_write.simps utf8_bytes.simps low unat_drop_bit Let_def unat_pair_point) simp
  next
    case 4
    have "ucast (drop_bit 12 ?c OR 224) = (of_nat (224 + unat c div 4096) :: byte)"
      using c by (intro byteI) (simp add: unat_drop_bit)
    with 4 "2.IH"(4) show ?thesis
      by (simp only: store_def utf8_write.simps utf8_bytes.simps low unat_ucast_unit unat_drop_bit Let_def) auto
  qed
qed simp

function utf8_units :: "byte list \<Rightarrow> nat \<Rightarrow> nat \<Rightarrow> js_string" where
  "utf8_units buf e i = (if i < e then fst (utf8_step buf i) @ utf8_units buf e (snd (utf8_step buf i)) else [])"
  by pat_completeness auto
termination by (relation "measure (\<lambda>(buf, e, i). e - i)") (auto intro: diff_less_mono2)

declare utf8_units.simps [simp del]

lemma utf8_loop_eq:
  "utf8_loop buf e i parts chunk = concat (case parts of None \<Rightarrow> [] | Some ps \<Rightarrow> ps) @ chunk @ utf8_units buf e i"
proof (induction buf e i parts chunk rule: utf8_loop.induct)
  case (1 buf e i parts chunk)
  show ?case
  proof (cases "i < e")
    case True
    obtain units j where step: "utf8_step buf i = (units, j)" by fastforce
    note IH = 1 [OF True, of "(units, j)" units j "chunk @ units", unfolded step]
    from IH True step show ?thesis
      by (simp add: utf8_loop.simps [of buf e i] utf8_units.simps [of buf e i] Let_def split: option.splits)
  next
    case False
    then show ?thesis
      by (auto simp: utf8_loop.simps [of buf e i] utf8_units.simps [of buf e i] split: option.splits)
  qed
qed

lemma utf8_read_eq: "utf8_read buf i e = utf8_units buf e i"
  by (simp add: utf8_read_def utf8_loop_eq utf8_units.simps [of buf e i])

lemma surrogate_bits: "unat c div 1024 = n" if "c AND 0xFC00 = of_nat (1024 * n)" "n < 64" for c :: code_unit
proof -
  have "drop_bit 10 c = drop_bit 10 (c AND 0xFC00)"
  proof (rule bit_word_eqI)
    fix k assume k: "k < LENGTH(16)"
    have "\<forall>k\<in>set [0..<16]. bit (0xFC00 :: code_unit) (10 + k) \<longleftrightarrow> k < 6" by code_simp
    then have "bit (0xFC00 :: code_unit) (10 + k) \<longleftrightarrow> k < 6" using k by simp
    then show "bit (drop_bit 10 c) k = bit (drop_bit 10 (c AND 0xFC00)) k"
      by (simp only: bit_drop_bit_eq bit_and_iff comp_apply) (auto dest: bit_imp_le_length)
  qed
  then have "unat c div 1024 = unat (of_nat (1024 * n) :: code_unit) div 1024"
    using unat_drop_bit [of 10 c] unat_drop_bit [of 10 "c AND 0xFC00"] that(1) by simp
  then show ?thesis using that(2) by (simp add: unat_of_nat take_bit_nat_eq_self del: of_nat_mult)
qed


lemma is_high_bits: "is_high c \<Longrightarrow> unat c = 55296 + unat c mod 1024"
  and is_low_bits: "is_low c \<Longrightarrow> unat c = 56320 + unat c mod 1024"
proof -
  assume "is_high c"
  then have "unat c div 1024 = 54" by (intro surrogate_bits) (simp_all add: is_high_def)
  then show "unat c = 55296 + unat c mod 1024" using div_mult_mod_eq [of "unat c" 1024] by linarith
next
  assume "is_low c"
  then have "unat c div 1024 = 55" by (intro surrogate_bits) (simp_all add: is_low_def)
  then show "unat c = 56320 + unat c mod 1024" using div_mult_mod_eq [of "unat c" 1024] by linarith
qed

lemma of_nat_unit: "of_nat n = c" if "unat c = n" for c :: code_unit
  using that by auto

lemma utf8_units_step:
  assumes "utf8_step (pre @ bs @ post) (length pre) = (units, length pre + k)"
    and "k = length bs" "0 < k"
    and "utf8_units ((pre @ bs) @ post) (length (pre @ bs) + n) (length (pre @ bs)) = cs"
  shows "utf8_units (pre @ bs @ post) (length pre + (k + n)) (length pre) = units @ cs"
  using assms by (subst utf8_units.simps) (simp add: add.assoc)

lemma digits64: "n = 4096 * (n div 4096) + 64 * (n div 64 mod 64) + n mod 64"
  "n = 262144 * (n div 262144) + 4096 * (n div 4096 mod 64) + 64 * (n div 64 mod 64) + n mod 64" for n :: nat
proof -
  have "n = 64 * (n div 64) + n mod 64" "n div 64 = 64 * (n div 4096) + n div 64 mod 64"
    "n div 4096 = 64 * (n div 262144) + n div 4096 mod 64"
    using div_mult2_eq [of n 64 64] div_mult2_eq [of n 4096 64] by simp_all
  then show "n = 4096 * (n div 4096) + 64 * (n div 64 mod 64) + n mod 64"
    "n = 262144 * (n div 262144) + 4096 * (n div 4096 mod 64) + 64 * (n div 64 mod 64) + n mod 64"
    by linarith+
qed

lemma utf8_unit1:
  assumes "c < 128"
  shows "utf8_step (pre @ [of_nat (unat c)] @ post) (length pre) = ([c], length pre + 1)"
proof -
  have b: "unat c < 128" using assms by (simp add: word_less_nat_alt)
  then have "unat (of_nat (unat c) :: byte) = unat c" by (intro unat_of_nat_byte) simp
  then show ?thesis
    using utf8_step1 [of "of_nat (unat c)" pre post] b of_nat_unit [of c "unat c"] by simp
qed

lemma utf8_unit2:
  assumes "\<not> c < 128" "c < 2048"
  shows "utf8_step (pre @ [of_nat (192 + unat c div 64), of_nat (128 + unat c mod 64)] @ post) (length pre) =
    ([c], length pre + 2)"
proof -
  have b: "128 \<le> unat c" "unat c < 2048" using assms by (simp_all add: word_less_nat_alt)
  then have "unat (of_nat (192 + unat c div 64) :: byte) = 192 + unat c div 64"
    "unat (of_nat (128 + unat c mod 64) :: byte) = 128 + unat c mod 64"
    by (intro unat_of_nat_byte; simp)+
  from utf8_step2 [OF this(1) _ this(2), of pre post] b show ?thesis
    using of_nat_unit [of c "64 * (unat c div 64) + unat c mod 64"] by simp
qed

lemma utf8_unit3:
  assumes "\<not> c < 2048"
  shows "utf8_step (pre @ [of_nat (224 + unat c div 4096), of_nat (128 + unat c div 64 mod 64),
    of_nat (128 + unat c mod 64)] @ post) (length pre) = ([c], length pre + 3)"
proof -
  have b: "2048 \<le> unat c" "unat c < 65536" using assms unat_unit [of c] by (simp_all add: word_less_nat_alt)
  then have "unat (of_nat (224 + unat c div 4096) :: byte) = 224 + unat c div 4096"
    "unat (of_nat (128 + unat c div 64 mod 64) :: byte) = 128 + unat c div 64 mod 64"
    "unat (of_nat (128 + unat c mod 64) :: byte) = 128 + unat c mod 64"
    by (intro unat_of_nat_byte; simp)+
  from utf8_step3 [OF this(1) _ this(2) _ this(3), of pre post] b show ?thesis
    using digits64(1) [of "unat c"] of_nat_unit [of c "4096 * (unat c div 4096) + 64 * (unat c div 64 mod 64) + unat c mod 64"]
    by simp
qed

lemma utf8_unit4:
  assumes "is_high c" "is_low d" and p: "p = 65536 + unat c mod 1024 * 1024 + unat d mod 1024"
  shows "utf8_step (pre @ [of_nat (240 + p div 262144), of_nat (128 + p div 4096 mod 64),
    of_nat (128 + p div 64 mod 64), of_nat (128 + p mod 64)] @ post) (length pre) = ([c, d], length pre + 4)"
proof -
  have "unat c mod 1024 < 1024" "unat d mod 1024 < 1024" by simp_all
  then have b: "p < 1114112" "65536 \<le> p" unfolding p by linarith+
  then have bs: "unat (of_nat (240 + p div 262144) :: byte) = 240 + p div 262144"
    "unat (of_nat (128 + p div 4096 mod 64) :: byte) = 128 + p div 4096 mod 64"
    "unat (of_nat (128 + p div 64 mod 64) :: byte) = 128 + p div 64 mod 64"
    "unat (of_nat (128 + p mod 64) :: byte) = 128 + p mod 64"
    by (intro unat_of_nat_byte; simp)+
  have sum: "262144 * (p div 262144) + 4096 * (p div 4096 mod 64) + 64 * (p div 64 mod 64) + p mod 64 =
      65536 + 1024 * (unat c mod 1024) + unat d mod 1024"
    unfolding digits64(2) [of p, symmetric] by (simp add: p)
  have "of_nat (55296 + unat c mod 1024) = c" "of_nat (56320 + unat d mod 1024) = d"
    using assms is_high_bits is_low_bits by (auto intro!: of_nat_unit)
  with utf8_step4 [OF bs(1) _ bs(2) _ bs(3) _ bs(4) _ sum, of pre post] b show ?thesis by simp
qed

lemma utf8_units_bytes:
  "utf8_units (pre @ utf8_bytes cs @ post) (length pre + utf8_length cs) (length pre) = cs"
proof (induction cs arbitrary: pre rule: utf8_length.induct)
  case 1
  then show ?case by (simp add: utf8_units.simps)
next
  case (2 c cs)
  consider "c < 128" | "\<not> c < 128" "c < 2048" | "\<not> c < 128" "\<not> c < 2048" "is_high c \<and> next_low cs"
    | "\<not> c < 128" "\<not> c < 2048" "\<not> (is_high c \<and> next_low cs)" by blast
  then show ?case
  proof cases
    case 1
    show ?thesis using utf8_units_step [OF utf8_unit1 [OF 1] _ _ "2.IH"(1) [OF 1]] 1 by simp
  next
    case 2
    show ?thesis using utf8_units_step [OF utf8_unit2 [OF 2] _ _ "2.IH"(2) [OF 2]] 2 by simp
  next
    case 3
    then obtain d ds where cs: "cs = d # ds" "is_low d" by (auto simp: next_low_def split: list.splits)
    show ?thesis
      using utf8_units_step [OF utf8_unit4 [OF conjunct1 [OF 3(3)] cs(2) refl] _ _ "2.IH"(3) [OF 3]] 3 cs(1)
      by (simp add: Let_def)
  next
    case 4
    show ?thesis using utf8_units_step [OF utf8_unit3 [OF 4(2)] _ _ "2.IH"(4) [OF 4]] 4 by auto
  qed
qed

text \<open>
  C18: text survives the codec. Writing a string into a buffer of the announced length fills the buffer exactly and
  returns that length, and reading those bytes gives the string back, lone surrogates included.
\<close>

theorem utf8_roundtrip:
  assumes "length buf = utf8_length s"
  shows "length (fst (utf8_write s (buf, 0))) = utf8_length s \<and> snd (utf8_write s (buf, 0)) = utf8_length s \<and>
    utf8_read (fst (utf8_write s (buf, 0))) 0 (utf8_length s) = s"
  using assms utf8_units_bytes [of "[]" s "[]"]
  by (simp add: utf8_write_eq utf8_read_eq put_whole length_utf8_bytes)

theorem utf8_roundtrip_witness:
  "utf8_length [0x68, 0xE9, 0xD83D, 0xDE00, 0xD800] = 10 \<and>
   utf8_read (fst (utf8_write [0x68, 0xE9, 0xD83D, 0xDE00, 0xD800] (replicate 10 0, 0))) 0 10 =
     [0x68, 0xE9, 0xD83D, 0xDE00, 0xD800]"
proof -
  have len: "utf8_length [0x68, 0xE9, 0xD83D, 0xDE00, 0xD800] = 10"
    by (simp add: is_high_def is_low_def next_low_def)
  with utf8_roundtrip [of "replicate 10 0" "[0x68, 0xE9, 0xD83D, 0xDE00, 0xD800]"] show ?thesis by simp
qed

end
