(* ===== verification/Pb_Base64.thy ===== *)
theory Pb_Base64
  imports Complex_Main Pb_Utf8
begin

text \<open>
  The routines \<^verbatim>\<open>base64.length\<close>, \<^verbatim>\<open>base64.encode\<close>, \<^verbatim>\<open>base64.decode\<close> and \<^verbatim>\<open>base64.test\<close> of the codec. The encoder keeps its
  working array \<^verbatim>\<open>chunk\<close> across parts without clearing it and takes the whole array as a part, so stale entries
  would appear in the text if a part ever was shorter than the array; the invariant \<open>b64_state_ok\<close> shows that
  every part is full. Decoding inverts encoding, and the announced length is the number of decoded bytes.
\<close>

section \<open>The alphabet\<close>

definition b64 :: "nat \<Rightarrow> code_unit" where
  "b64 i = of_nat (if i < 26 then i + 65 else if i < 52 then i + 71 else if i < 62 then i - 4 else (i - 59) OR 43)"

text \<open>The inverse table is filled by the same loop, later entries overwrite.\<close>

definition s64 :: "code_unit \<Rightarrow> nat option" where
  "s64 c = map_of (rev (map (\<lambda>i. (b64 i, i)) [0..<64])) c"

section \<open>Length\<close>

fun b64_padding :: "js_string \<Rightarrow> nat \<Rightarrow> nat" where
  "b64_padding s 0 = 0"
| "b64_padding s (Suc p) = (if p mod 4 > 1 \<and> s ! p = 61 then Suc (b64_padding s p) else 0)"

definition base64_length :: "js_string \<Rightarrow> rat" where
  "base64_length s =
     (if length s = 0 then 0 else of_nat (length s * 3) / 4 - of_nat (b64_padding s (length s)))"

section \<open>Encoding\<close>

text \<open>The variables of the loop: finished parts, working array, number of valid entries, phase and pending bits.\<close>

record b64_state =
  b_parts :: "js_string list option"
  b_chunk :: js_string
  b_i :: nat
  b_j :: nat
  b_t :: u32

definition chunk_put :: "code_unit \<Rightarrow> b64_state \<Rightarrow> b64_state" where
  "chunk_put v st = st\<lparr>b_chunk := (if b_i st < length (b_chunk st) then (b_chunk st)[b_i st := v]
     else b_chunk st @ [v]), b_i := Suc (b_i st)\<rparr>"

definition b64_of :: "u32 \<Rightarrow> code_unit" where
  "b64_of w = b64 (unat w)"

definition b64_phase :: "byte \<Rightarrow> b64_state \<Rightarrow> b64_state" where
  "b64_phase x st =
     (let b = (ucast x :: u32)
      in if b_j st = 0
         then (chunk_put (b64_of (drop_bit 2 b)) st)\<lparr>b_t := push_bit 4 (b AND 3), b_j := 1\<rparr>
         else if b_j st = 1
         then (chunk_put (b64_of (b_t st OR drop_bit 4 b)) st)\<lparr>b_t := push_bit 2 (b AND 15), b_j := 2\<rparr>
         else (chunk_put (b64_of (b AND 63)) (chunk_put (b64_of (b_t st OR drop_bit 6 b)) st))\<lparr>b_j := 0\<rparr>)"

definition b64_flush :: "b64_state \<Rightarrow> b64_state" where
  "b64_flush st =
     (if b_i st > 8191
      then st\<lparr>b_parts := Some ((case b_parts st of None \<Rightarrow> [] | Some ps \<Rightarrow> ps) @ [b_chunk st]), b_i := 0\<rparr>
      else st)"

definition b64_finish :: "b64_state \<Rightarrow> js_string" where
  "b64_finish st =
     (let st = (if b_j st \<noteq> 0
                then let st = chunk_put 61 (chunk_put (b64_of (b_t st)) st)
                     in if b_j st = 1 then chunk_put 61 st else st
                else st)
      in case b_parts st of
           None \<Rightarrow> take (b_i st) (b_chunk st)
         | Some ps \<Rightarrow> concat (if b_i st \<noteq> 0 then ps @ [take (b_i st) (b_chunk st)] else ps))"

definition b64_start :: b64_state where
  "b64_start = \<lparr>b_parts = None, b_chunk = [], b_i = 0, b_j = 0, b_t = 0\<rparr>"

definition base64_encode :: "byte list \<Rightarrow> nat \<Rightarrow> nat \<Rightarrow> js_string" where
  "base64_encode buf start e =
     b64_finish (fold (\<lambda>x st. b64_flush (b64_phase x st)) (take (e - start) (drop start buf)) b64_start)"

section \<open>Decoding\<close>

fun b64_decode_loop :: "js_string \<Rightarrow> nat \<Rightarrow> u32 \<Rightarrow> byte list \<times> nat \<Rightarrow> (byte list \<times> nat) result" where
  "b64_decode_loop [] j t bo = (if j = 1 then Inl (JsError ''invalid encoding'') else Inr bo)"
| "b64_decode_loop (u # us) j t bo =
     (if u = 61 \<and> j > 1 then Inr bo
      else case s64 u of
             None \<Rightarrow> Inl (JsError ''invalid encoding'')
           | Some n \<Rightarrow>
               let c = (of_nat n :: u32)
               in if j = 0 then b64_decode_loop us 1 c bo
                  else if j = 1 then b64_decode_loop us 2 c (store (push_bit 2 t OR drop_bit 4 (c AND 48)) bo)
                  else if j = 2 then b64_decode_loop us 3 c (store (push_bit 4 (t AND 15) OR drop_bit 2 (c AND 60)) bo)
                  else b64_decode_loop us 0 t (store (push_bit 6 (t AND 3) OR c) bo))"

definition base64_decode :: "js_string \<Rightarrow> byte list \<Rightarrow> nat \<Rightarrow> (byte list \<times> nat) result" where
  "base64_decode s buf offset =
     bindR (b64_decode_loop s 0 0 (buf, offset)) (\<lambda>(buf', e). Inr (buf', e - offset))"

text \<open>The regular expression of \<^verbatim>\<open>base64.test\<close>, by groups of four.\<close>

definition is_b64 :: "code_unit \<Rightarrow> bool" where
  "is_b64 c \<longleftrightarrow> 65 \<le> c \<and> c \<le> 90 \<or> 97 \<le> c \<and> c \<le> 122 \<or> 48 \<le> c \<and> c \<le> 57 \<or> c = 43 \<or> c = 47"

fun base64_test :: "js_string \<Rightarrow> bool" where
  "base64_test [] = True"
| "base64_test (a # b # c # d # s) =
     (is_b64 a \<and> is_b64 b \<and>
       (if is_b64 c \<and> is_b64 d then base64_test s
        else s = [] \<and> d = 61 \<and> (c = 61 \<or> is_b64 c)))"
| "base64_test _ = False"

section \<open>Round trip\<close>

fun b64_text :: "byte list \<Rightarrow> js_string" where
  "b64_text [] = []"
| "b64_text [x] = [b64 (unat x div 4), b64 (unat x mod 4 * 16), 61, 61]"
| "b64_text [x, y] = [b64 (unat x div 4), b64 (unat x mod 4 * 16 + unat y div 16), b64 (unat y mod 16 * 4), 61]"
| "b64_text (x # y # z # bs) =
     [b64 (unat x div 4), b64 (unat x mod 4 * 16 + unat y div 16), b64 (unat y mod 16 * 4 + unat z div 64),
      b64 (unat z mod 64)] @ b64_text bs"

definition b64_out :: "b64_state \<Rightarrow> js_string" where
  "b64_out st = concat (case b_parts st of None \<Rightarrow> [] | Some ps \<Rightarrow> ps) @ take (b_i st) (b_chunk st)"

definition b64_state_ok :: "b64_state \<Rightarrow> bool" where
  "b64_state_ok st \<longleftrightarrow> b_i st \<le> length (b_chunk st) \<and> b_i st < 8192 \<and> b_i st mod 4 = b_j st \<and> b_j st < 3 \<and>
     (length (b_chunk st) = b_i st \<or> length (b_chunk st) = 8192)"

lemma chunk_put_out:
  "b_i st \<le> length (b_chunk st) \<Longrightarrow> b64_out (chunk_put v st) = b64_out st @ [v]"
  by (auto simp: b64_out_def chunk_put_def take_Suc_conv_app_nth take_update_cancel not_less nth_append)

lemma chunk_put_simps [simp]:
  "b_i (chunk_put v st) = Suc (b_i st)" "b_j (chunk_put v st) = b_j st" "b_t (chunk_put v st) = b_t st"
  "b_parts (chunk_put v st) = b_parts st"
  "length (b_chunk (chunk_put v st)) = (if b_i st < length (b_chunk st) then length (b_chunk st) else Suc (length (b_chunk st)))"
  by (simp_all add: chunk_put_def)

lemma b64_out_update [simp]: "b64_out (st\<lparr>b_t := t\<rparr>) = b64_out st" "b64_out (st\<lparr>b_j := j\<rparr>) = b64_out st"
  by (simp_all add: b64_out_def)

lemma flush_out: "b_i st \<le> 8191 \<or> b_i st = length (b_chunk st) \<Longrightarrow> b64_out (b64_flush st) = b64_out st"
  by (auto simp: b64_flush_def b64_out_def split: option.splits)

lemma flush_simps [simp]: "b_j (b64_flush st) = b_j st" "b_t (b64_flush st) = b_t st"
   "b_chunk (b64_flush st) = b_chunk st" "b_i (b64_flush st) = (if b_i st > 8191 then 0 else b_i st)"
  by (simp_all add: b64_flush_def)

lemma mod4: "n mod 4 = (2 :: nat) \<Longrightarrow> Suc (Suc n) mod 4 = 0" "n mod 4 = 1 \<Longrightarrow> Suc n mod 4 = 2" "n mod 4 = 0 \<Longrightarrow> Suc n mod 4 = 1"
  by (simp_all add: mod_Suc)

lemma full: "n mod 4 = 2 \<Longrightarrow> n < 8192 \<Longrightarrow> n < 8190 \<or> n = (8190 :: nat)"
  "n mod 4 = 1 \<Longrightarrow> n < 8192 \<Longrightarrow> n < 8190" "n mod 4 = 0 \<Longrightarrow> n < 8192 \<Longrightarrow> n < 8190"
  by presburger+

lemma byte_first:
  assumes "b64_state_ok st" "b_j st = 0" and st': "st' = b64_flush (b64_phase x st)"
  shows "b64_state_ok st'" "b_j st' = 1" "b64_out st' = b64_out st @ [b64 (unat x div 4)]"
    "b_t st' = push_bit 4 (ucast x AND 3)"
  using assms full [of "b_i st"] mod4 [of "b_i st"]
  by (auto simp: b64_phase_def Let_def b64_state_ok_def flush_out chunk_put_out b64_of_def unat_drop_bit)

lemma byte_second:
  fixes x y :: byte
  assumes "b64_state_ok st" "b_j st = 1" "b_t st = push_bit 4 (ucast x AND 3)" and st': "st' = b64_flush (b64_phase y st)"
  shows "b64_state_ok st'" "b_j st' = 2" "b64_out st' = b64_out st @ [b64 (unat x mod 4 * 16 + unat y div 16)]"
    "b_t st' = push_bit 2 (ucast y AND 15)"
proof -
  have "unat (push_bit 4 (ucast x AND 3) OR drop_bit 4 (ucast y) :: u32) = unat x mod 4 * 16 + unat y div 16"
    using unat_byte [of y] by (subst unat_push_bit_or) (simp_all add: unat_drop_bit)
  then show "b64_state_ok st'" "b_j st' = 2" "b64_out st' = b64_out st @ [b64 (unat x mod 4 * 16 + unat y div 16)]"
      "b_t st' = push_bit 2 (ucast y AND 15)"
    using assms full [of "b_i st"] mod4 [of "b_i st"]
    by (auto simp: b64_phase_def Let_def b64_state_ok_def flush_out chunk_put_out b64_of_def simp del: push_bit_and)
qed

lemma byte_third:
  fixes y z :: byte
  assumes "b64_state_ok st" "b_j st = 2" "b_t st = push_bit 2 (ucast y AND 15)" and st': "st' = b64_flush (b64_phase z st)"
  shows "b64_state_ok st'" "b_j st' = 0"
    "b64_out st' = b64_out st @ [b64 (unat y mod 16 * 4 + unat z div 64), b64 (unat z mod 64)]"
proof -
  have "unat (push_bit 2 (ucast y AND 15) OR drop_bit 6 (ucast z) :: u32) = unat y mod 16 * 4 + unat z div 64"
    using unat_byte [of z] by (subst unat_push_bit_or) (simp_all add: unat_drop_bit)
  moreover have "Suc (b_i st) < length (b_chunk st) \<or> length (b_chunk st) = b_i st" "b_i st < 8190 \<or> b_i st = 8190"
    using assms full [of "b_i st"] by (auto simp: b64_state_ok_def)
  ultimately show "b64_state_ok st'" "b_j st' = 0"
      "b64_out st' = b64_out st @ [b64 (unat y mod 16 * 4 + unat z div 64), b64 (unat z mod 64)]"
    using assms mod4 [of "b_i st"]
    by (auto simp: b64_phase_def Let_def b64_state_ok_def flush_out chunk_put_out b64_of_def simp del: push_bit_and)
qed

lemma finish_out: "b64_state_ok st \<Longrightarrow> b64_finish st = b64_out st @
    (if b_j st = 0 then [] else if b_j st = 1 then [b64_of (b_t st), 61, 61] else [b64_of (b_t st), 61])"
proof -
  assume ok: "b64_state_ok st"
  have fin: "(case b_parts s of None \<Rightarrow> take (b_i s) (b_chunk s)
      | Some ps \<Rightarrow> concat (if b_i s \<noteq> 0 then ps @ [take (b_i s) (b_chunk s)] else ps)) = b64_out s" for s
    by (auto simp: b64_out_def split: option.splits)
  show ?thesis unfolding b64_finish_def Let_def fin
    using ok by (auto simp: chunk_put_out b64_state_ok_def)
qed

lemma encode_text:
  "b64_state_ok st \<Longrightarrow> b_j st = 0 \<Longrightarrow>
   b64_finish (fold (\<lambda>x st. b64_flush (b64_phase x st)) bs st) = b64_out st @ b64_text bs"
proof (induction bs arbitrary: st rule: b64_text.induct)
  case 1
  then show ?case by (simp add: finish_out)
next
  case (2 x)
  note x = byte_first [OF 2 refl, of x]
  have "b64_of (push_bit 4 (ucast x AND 3)) = b64 (unat x mod 4 * 16)"
    unfolding b64_of_def by (subst unat_push_bit) simp_all
  with x show ?case by (simp add: finish_out)
next
  case (3 x y)
  note x = byte_first [OF 3 refl, of x]
  note y = byte_second [OF x(1,2,4) refl, of y]
  have "b64_of (push_bit 2 (ucast y AND 15)) = b64 (unat y mod 16 * 4)"
    unfolding b64_of_def by (subst unat_push_bit) simp_all
  with x y show ?case by (simp add: finish_out)
next
  case (4 x y z bs)
  note x = byte_first [OF 4(2,3) refl, of x]
  note y = byte_second [OF x(1,2,4) refl, of y]
  note z = byte_third [OF y(1,2,4) refl, of z]
  show ?case using 4(1) [OF z(1,2)] x(3) y(3) z(3) by simp
qed

lemma base64_encode_eq: "base64_encode buf start e = b64_text (take (e - start) (drop start buf))"
proof -
  have "b64_state_ok b64_start" "b_j b64_start = 0" "b64_out b64_start = []"
    by (simp_all add: b64_state_ok_def b64_start_def b64_out_def)
  then show ?thesis by (simp add: base64_encode_def encode_text)
qed


lemma b64_table: "\<forall>n\<in>set [0..<64]. s64 (b64 n) = Some n \<and> b64 n \<noteq> 61"
  by code_simp

lemma s64_b64 [simp]: "n < 64 \<Longrightarrow> s64 (b64 n) = Some n" "n < 64 \<Longrightarrow> b64 n \<noteq> 61"
  using b64_table by auto

lemma ucast_byteI: "unat v mod 256 = unat b \<Longrightarrow> ucast v = b" for v :: u32 and b :: byte
  by (simp add: word_unat_eq_iff unat_down_byte)

lemma decoded_first: "ucast (push_bit 2 (of_nat m) OR drop_bit 4 (of_nat n AND 48) :: u32) = x"
  if "m < 64" "n < 64" "unat x = m * 4 + n div 16" for x :: byte
proof (rule ucast_byteI)
  have "unat (drop_bit 4 (of_nat n AND 48) :: u32) = n div 16 mod 4"
    using that(2) by (simp only: drop_bit_and) (simp add: unat_drop_bit)
  then show "unat (push_bit 2 (of_nat m) OR drop_bit 4 (of_nat n AND 48) :: u32) mod 256 = unat x"
    using that unat_byte [of x] by (subst unat_push_bit_or) simp_all
qed

lemma decoded_second: "ucast (push_bit 4 (of_nat m AND 15) OR drop_bit 2 (of_nat n AND 60) :: u32) = x"
  if "m < 64" "n < 64" "unat x = m mod 16 * 16 + n div 4" for x :: byte
proof (rule ucast_byteI)
  have "unat (drop_bit 2 (of_nat n AND 60) :: u32) = n div 4 mod 16"
    using that(2) by (simp only: drop_bit_and) (simp add: unat_drop_bit)
  then show "unat (push_bit 4 (of_nat m AND 15) OR drop_bit 2 (of_nat n AND 60) :: u32) mod 256 = unat x"
    using that unat_byte [of x] by (subst unat_push_bit_or) simp_all
qed

lemma decoded_third: "ucast (push_bit 6 (of_nat m AND 3) OR of_nat n :: u32) = x"
  if "m < 64" "n < 64" "unat x = m mod 4 * 64 + n" for x :: byte
proof (rule ucast_byteI)
  show "unat (push_bit 6 (of_nat m AND 3) OR of_nat n :: u32) mod 256 = unat x"
    using that unat_byte [of x] by (subst unat_push_bit_or) simp_all
qed

lemma b64_digit_bounds [simp]:
  "unat x div 4 < 64" "unat x mod 4 * 16 < 64" "unat x mod 4 * 16 + unat y div 16 < 64" "unat y mod 16 * 4 < 64"
  "unat y mod 16 * 4 + unat z div 64 < 64" for x y z :: byte
proof -
  have "unat x < 256" "unat y < 256" "unat z < 256" by (rule unat_byte)+
  moreover have "unat x mod 4 < 4" "unat y mod 16 < 16" by simp_all
  ultimately show "unat x div 4 < 64" "unat x mod 4 * 16 < 64" "unat x mod 4 * 16 + unat y div 16 < 64" "unat y mod 16 * 4 < 64"
  "unat y mod 16 * 4 + unat z div 64 < 64" by linarith+
qed

lemma decode_text: "b64_decode_loop (b64_text bs) 0 t (buf, i) = Inr (put buf i bs, i + length bs)"
proof (induction bs arbitrary: t buf i rule: b64_text.induct)
  case 1
  then show ?case by simp
next
  case (2 x)
  have "ucast (push_bit 2 (of_nat (unat x div 4)) OR drop_bit 4 (of_nat (unat x mod 4 * 16) AND 48) :: u32) = x"
    by (intro decoded_first) simp_all
  then show ?case by (simp add: store_def Let_def del: drop_bit_and push_bit_and)
next
  case (3 x y)
  have "ucast (push_bit 2 (of_nat (unat x div 4)) OR drop_bit 4 (of_nat (unat x mod 4 * 16 + unat y div 16) AND 48) :: u32) = x"
    using unat_byte [of y] by (intro decoded_first) simp_all
  moreover have "ucast (push_bit 4 (of_nat (unat x mod 4 * 16 + unat y div 16) AND 15) OR drop_bit 2 (of_nat (unat y mod 16 * 4) AND 60) :: u32) = y"
    using unat_byte [of y] unat_byte [of z] by (intro decoded_second) simp_all
  ultimately show ?case by (simp add: store_def Let_def del: drop_bit_and push_bit_and of_nat_add)
next
  case (4 x y z bs)
  have "ucast (push_bit 2 (of_nat (unat x div 4)) OR drop_bit 4 (of_nat (unat x mod 4 * 16 + unat y div 16) AND 48) :: u32) = x"
    using unat_byte [of y] by (intro decoded_first) simp_all
  moreover have "ucast (push_bit 4 (of_nat (unat x mod 4 * 16 + unat y div 16) AND 15) OR drop_bit 2 (of_nat (unat y mod 16 * 4 + unat z div 64) AND 60) :: u32) = y"
    using unat_byte [of y] unat_byte [of z] by (intro decoded_second) simp_all
  moreover have "ucast (push_bit 6 (of_nat (unat y mod 16 * 4 + unat z div 64) AND 3) OR of_nat (unat z mod 64) :: u32) = z"
    using unat_byte [of z] by (intro decoded_third) simp_all
  ultimately show ?case using 4 by (simp add: store_def Let_def del: drop_bit_and push_bit_and of_nat_add)
qed

lemma length_b64_text: "length (b64_text bs) = 4 * ((length bs + 2) div 3)"
proof (induction bs rule: b64_text.induct)
  case (4 x y z bs)
  have "(length bs + 3 + 2) div 3 = Suc ((length bs + 2) div 3)" by (simp add: div_add_self1 [of 3 "length bs + 2", symmetric])
  with 4 show ?case by simp
qed simp_all

lemma b64_padding_block:
  "b64_padding s (Suc (Suc (Suc (Suc k)))) =
    (if s ! Suc (Suc (Suc k)) = 61 then if s ! Suc (Suc k) = 61 then 2 else 1 else 0)" if "k mod 4 = 0"
  using that by (simp add: mod_Suc)

lemma nth_from_end: "k \<le> length ys \<Longrightarrow> (xs @ ys) ! (length (xs @ ys) - k) = ys ! (length ys - k)"
  by (auto simp: nth_append)

lemma b64_text_last:
  "bs \<noteq> [] \<Longrightarrow> (b64_text bs ! (length (b64_text bs) - 1) = 61 \<longleftrightarrow> length bs mod 3 \<noteq> 0) \<and>
    (b64_text bs ! (length (b64_text bs) - 2) = 61 \<longleftrightarrow> length bs mod 3 = 1)"
proof (induction bs rule: b64_text.induct)
  case (4 x y z bs)
  show ?case
  proof (cases "bs = []")
    case True
    then show ?thesis by simp
  next
    case False
    then have "0 < (length bs + 2) div 3" by (cases bs) simp_all
    then have "4 \<le> length (b64_text bs)" by (simp only: length_b64_text)
    then have "1 \<le> length (b64_text bs)" "2 \<le> length (b64_text bs)" by linarith+
    from this [THEN nth_from_end] have "b64_text (x # y # z # bs) ! (length (b64_text (x # y # z # bs)) - 1) =
        b64_text bs ! (length (b64_text bs) - 1)"
        "b64_text (x # y # z # bs) ! (length (b64_text (x # y # z # bs)) - 2) =
        b64_text bs ! (length (b64_text bs) - 2)" by (simp_all only: b64_text.simps)
    with 4 False show ?thesis by simp
  qed
qed simp_all

lemma base64_lengthI: "base64_length s = of_nat n"
  if "length s \<noteq> 0" "length s * 3 = 4 * (n + b64_padding s (length s))"
  unfolding base64_length_def that(2) using that(1) by (simp add: add_divide_distrib del: b64_padding.simps)

lemma base64_length_text: "base64_length (b64_text bs) = of_nat (length bs)"
proof (cases "bs = []")
  case False
  define k where "k = 4 * ((length bs - 1) div 3)"
  have len: "length (b64_text bs) = Suc (Suc (Suc (Suc k)))"
    using False by (cases bs) (simp_all add: length_b64_text k_def del: b64_text.simps)
  have "k mod 4 = 0" by (simp add: k_def)
  then have pad: "b64_padding (b64_text bs) (length (b64_text bs)) =
      (if length bs mod 3 = 0 then 0 else if length bs mod 3 = 1 then 2 else 1)"
    using b64_text_last [OF False] len b64_padding_block [of k "b64_text bs"] by simp
  have "length (b64_text bs) * 3 = 4 * (length bs + b64_padding (b64_text bs) (length (b64_text bs)))"
    unfolding pad unfolding length_b64_text by presburger
  with len show ?thesis by (intro base64_lengthI) (simp_all del: b64_padding.simps)
qed (simp add: base64_length_def)

lemma b64_test_text: "base64_test (b64_text bs)"
proof -
  have "\<forall>n\<in>set [0..<64]. is_b64 (b64 n)" by code_simp
  then have "is_b64 (b64 n)" if "n < 64" for n using that by auto
  then show ?thesis by (induction bs rule: b64_text.induct) simp_all
qed

text \<open>
  C19: base64. For every list of bytes the text of the encoder passes the codec's own test, its announced length is the
  number of bytes, and decoding it into a buffer of that length gives back exactly the bytes; this holds across the
  parts of 8192 characters the encoder works in, whose array is reused without being cleared.
\<close>

theorem base64_roundtrip:
  assumes "length buf = length bs"
  shows "base64_test (base64_encode bs 0 (length bs)) \<and>
    base64_length (base64_encode bs 0 (length bs)) = of_nat (length bs) \<and>
    base64_decode (base64_encode bs 0 (length bs)) buf 0 = Inr (bs, length bs)"
  using assms
  by (simp add: base64_encode_eq base64_length_text base64_decode_def decode_text put_whole b64_test_text)

theorem base64_roundtrip_witness:
  "base64_encode [72, 105, 33, 255] 0 4 = map (\<lambda>c. of_nat (of_char c)) ''SGkh/w=='' \<and>
   base64_decode (base64_encode [72, 105, 33, 255] 0 4) [0, 0, 0, 0] 0 = Inr ([72, 105, 33, 255], 4)"
proof
  show "base64_encode [72, 105, 33, 255] 0 4 = map (\<lambda>c. of_nat (of_char c)) ''SGkh/w==''" by code_simp
  show "base64_decode (base64_encode [72, 105, 33, 255] 0 4) [0, 0, 0, 0] 0 = Inr ([72, 105, 33, 255], 4)"
    using base64_roundtrip [of "[0, 0, 0, 0]" "[72, 105, 33, 255]"] by (simp add: eval_nat_numeral)
qed

text \<open>
  The length of a text whose number of characters is not a multiple of four, such as unpadded base64, is not a whole
  number; the writer would advance by a fraction of a byte.
\<close>

lemma base64_length_fraction: "base64_length s \<in> \<int> \<longleftrightarrow> length s mod 4 = 0"
proof
  assume "base64_length s \<in> \<int>"
  then obtain z where z: "base64_length s = of_int z" by (auto elim: Ints_cases)
  have "4 * base64_length s = of_int (3 * int (length s) - 4 * int (b64_padding s (length s)))"
    by (simp add: base64_length_def algebra_simps)
  then have "(of_int (4 * z) :: rat) = of_int (3 * int (length s) - 4 * int (b64_padding s (length s)))"
    by (simp add: z)
  then have "4 * z = 3 * int (length s) - 4 * int (b64_padding s (length s))" by (simp only: of_int_eq_iff)
  then have "int (length s) mod 4 = 0" by presburger
  then show "length s mod 4 = 0" by presburger
next
  assume "length s mod 4 = 0"
  then obtain k where "length s = 4 * k" by auto
  then have "base64_length s = (if k = 0 then 0 else of_nat (k * 3) - of_nat (b64_padding s (length s)))"
    by (simp add: base64_length_def)
  then show "base64_length s \<in> \<int>" by (simp add: Ints_diff Ints_of_nat del: of_nat_mult)
qed

end
