(* ===== verification/Pb_Writer.thy ===== *)
theory Pb_Writer
  imports Pb_Long Pb_Base64
begin

text \<open>
  The class \<^verbatim>\<open>Writer\<close> of the codec. A writer does not write: it keeps a list of operations, each a routine with its
  value and the number of bytes it will need, and the sum of these numbers; \<^verbatim>\<open>finish\<close> allocates a buffer of that size
  and runs the operations, each in its own window. \<^verbatim>\<open>fork\<close>, \<^verbatim>\<open>ldelim\<close> and \<^verbatim>\<open>reset\<close> nest messages. Here the list is an
  Isabelle list without the dummy head; \<open>Pb_Heap\<close> has the linked nodes of the source and shows that they implement
  this model.

  Operations are values of \<open>op_fn\<close>, the constructor for the routine and the argument for its value. Running one
  returns the operation again because \<^verbatim>\<open>writeVarint64\<close> shifts the halves of its value in place. Numbers of
  floating point are represented by their bits in the typed array of the source.

  The invariant \<open>writer_ok\<close> says that every operation announces the number of bytes it writes; \<open>written\<close> is the
  content of a writer, and \<open>finish_written\<close> shows that the buffer holds exactly this content, whatever the
  allocated memory contained before.
\<close>

section \<open>Routines that fill a buffer\<close>

definition writeByte :: "u32 \<Rightarrow> byte list \<Rightarrow> nat \<Rightarrow> byte list" where
  "writeByte val buf pos = buf[pos := ucast (val AND 255)]"

function writeVarint32 :: "u32 \<Rightarrow> byte list \<Rightarrow> nat \<Rightarrow> byte list" where
  "writeVarint32 val buf pos =
     (if val > 127 then writeVarint32 (drop_bit 7 val) (buf[pos := ucast (val AND 127 OR 128)]) (Suc pos)
      else buf[pos := ucast val])"
  by pat_completeness auto
termination
  by (relation "measure (\<lambda>(val, buf, pos). unat val)") (auto simp: unat_drop_bit word_less_nat_alt)

declare writeVarint32.simps [simp del]

text \<open>The two loops of \<^verbatim>\<open>writeVarint64\<close>. The result also has what is left in the halves of the value.\<close>

function writeVarint64_lo :: "long_bits \<Rightarrow> byte list \<Rightarrow> nat \<Rightarrow> long_bits \<times> byte list" where
  "writeVarint64_lo val buf pos =
     (if lo val > 127
      then writeVarint64_lo (val\<lparr>lo := drop_bit 7 (lo val)\<rparr>) (buf[pos := ucast (lo val AND 127 OR 128)]) (Suc pos)
      else (val, buf[pos := ucast (lo val)]))"
  by pat_completeness auto
termination
  by (relation "measure (\<lambda>(val, buf, pos). unat (lo val))") (auto simp: unat_drop_bit word_less_nat_alt)

function writeVarint64 :: "long_bits \<Rightarrow> byte list \<Rightarrow> nat \<Rightarrow> long_bits \<times> byte list" where
  "writeVarint64 val buf pos =
     (if hi val \<noteq> 0
      then writeVarint64 (val\<lparr>lo := drop_bit 7 (lo val) OR push_bit 25 (hi val), hi := drop_bit 7 (hi val)\<rparr>)
             (buf[pos := ucast (lo val AND 127 OR 128)]) (Suc pos)
      else writeVarint64_lo val buf pos)"
  by pat_completeness auto
termination
  by (relation "measure (\<lambda>(val, buf, pos). unat (hi val))") (auto simp: unat_drop_bit unat_gt_0)

declare writeVarint64_lo.simps [simp del] writeVarint64.simps [simp del]

definition writeFixed32 :: "u32 \<Rightarrow> byte list \<Rightarrow> nat \<Rightarrow> byte list" where
  "writeFixed32 val buf pos =
     buf[pos := ucast (val AND 255), pos + 1 := ucast (drop_bit 8 val AND 255),
         pos + 2 := ucast (drop_bit 16 val AND 255), pos + 3 := ucast (drop_bit 24 val)]"

definition writeBytes :: "byte list \<Rightarrow> byte list \<Rightarrow> nat \<Rightarrow> byte list" where
  "writeBytes val buf pos = put buf pos val"

section \<open>Floating point\<close>

text \<open>
  The bytes of a typed array as the platform orders them (\<open>le\<close> is true on little-endian ones), and the routines that
  copy them in this or in reverse order. The value is the pattern of bits in \<^verbatim>\<open>f32\<close> and \<^verbatim>\<open>f64\<close>.
\<close>

definition bytes4 :: "u32 \<Rightarrow> byte list" where
  "bytes4 v = [ucast v, ucast (drop_bit 8 v), ucast (drop_bit 16 v), ucast (drop_bit 24 v)]"

definition bytes8 :: "u64 \<Rightarrow> byte list" where
  "bytes8 v = bytes4 (ucast v) @ bytes4 (ucast (drop_bit 32 v))"

definition view4 :: "bool \<Rightarrow> u32 \<Rightarrow> byte list" where
  "view4 le v = (if le then bytes4 v else rev (bytes4 v))"

definition view8 :: "bool \<Rightarrow> u64 \<Rightarrow> byte list" where
  "view8 le v = (if le then bytes8 v else rev (bytes8 v))"

definition writeFloat_f32_cpy :: "bool \<Rightarrow> u32 \<Rightarrow> byte list \<Rightarrow> nat \<Rightarrow> byte list" where
  "writeFloat_f32_cpy le v buf pos =
     (let f8b = view4 le v in buf[pos := f8b ! 0, pos + 1 := f8b ! 1, pos + 2 := f8b ! 2, pos + 3 := f8b ! 3])"

definition writeFloat_f32_rev :: "bool \<Rightarrow> u32 \<Rightarrow> byte list \<Rightarrow> nat \<Rightarrow> byte list" where
  "writeFloat_f32_rev le v buf pos =
     (let f8b = view4 le v in buf[pos := f8b ! 3, pos + 1 := f8b ! 2, pos + 2 := f8b ! 1, pos + 3 := f8b ! 0])"

definition writeFloatLE :: "bool \<Rightarrow> u32 \<Rightarrow> byte list \<Rightarrow> nat \<Rightarrow> byte list" where
  "writeFloatLE le = (if le then writeFloat_f32_cpy le else writeFloat_f32_rev le)"

definition writeDouble_f64_cpy :: "bool \<Rightarrow> u64 \<Rightarrow> byte list \<Rightarrow> nat \<Rightarrow> byte list" where
  "writeDouble_f64_cpy le v buf pos =
     (let d8b = view8 le v
      in buf[pos := d8b ! 0, pos + 1 := d8b ! 1, pos + 2 := d8b ! 2, pos + 3 := d8b ! 3,
             pos + 4 := d8b ! 4, pos + 5 := d8b ! 5, pos + 6 := d8b ! 6, pos + 7 := d8b ! 7])"

definition writeDouble_f64_rev :: "bool \<Rightarrow> u64 \<Rightarrow> byte list \<Rightarrow> nat \<Rightarrow> byte list" where
  "writeDouble_f64_rev le v buf pos =
     (let d8b = view8 le v
      in buf[pos := d8b ! 7, pos + 1 := d8b ! 6, pos + 2 := d8b ! 5, pos + 3 := d8b ! 4,
             pos + 4 := d8b ! 3, pos + 5 := d8b ! 2, pos + 6 := d8b ! 1, pos + 7 := d8b ! 0])"

definition writeDoubleLE :: "bool \<Rightarrow> u64 \<Rightarrow> byte list \<Rightarrow> nat \<Rightarrow> byte list" where
  "writeDoubleLE le = (if le then writeDouble_f64_cpy le else writeDouble_f64_rev le)"

section \<open>Operations and the writer\<close>

datatype op_fn =
    Op_byte u32
  | Op_varint32 u32
  | Op_varint64 long_bits
  | Op_fixed32 u32
  | Op_float u32
  | Op_double u64
  | Op_bytes "byte list"
  | Op_utf8 js_string

record op =
  op_fn :: op_fn
  op_len :: nat

record writer =
  w_len :: nat
  w_ops :: "op list"
  w_states :: "(op list \<times> nat) list"

definition new_writer :: writer where
  "new_writer = \<lparr>w_len = 0, w_ops = [], w_states = []\<rparr>"

definition push :: "op_fn \<Rightarrow> nat \<Rightarrow> writer \<Rightarrow> writer" where
  "push f len w = w\<lparr>w_ops := w_ops w @ [\<lparr>op_fn = f, op_len = len\<rparr>], w_len := w_len w + len\<rparr>"

definition varint32_len :: "u32 \<Rightarrow> nat" where
  "varint32_len v =
     (if v < 128 then 1 else if v < 16384 then 2 else if v < 2097152 then 3 else if v < 268435456 then 4 else 5)"

definition write_uint32 :: "int \<Rightarrow> writer \<Rightarrow> writer" where
  "write_uint32 value w = (let v = word_of_int value in push (Op_varint32 v) (varint32_len v) w)"

definition write_int32 :: "int \<Rightarrow> writer \<Rightarrow> writer" where
  "write_int32 value w = (if value < 0 then push (Op_varint64 (fromNumber value)) 10 w else write_uint32 value w)"

definition write_sint32 :: "int \<Rightarrow> writer \<Rightarrow> writer" where
  "write_sint32 value w =
     (let v = (word_of_int value :: u32) in write_uint32 (uint (push_bit 1 v XOR signed_drop_bit 31 v)) w)"

definition write_uint64 :: "js_num64 \<Rightarrow> writer \<Rightarrow> writer" where
  "write_uint64 value w = (let bits = LongBits_from value in push (Op_varint64 bits) (bits_length bits) w)"

definition write_sint64 :: "js_num64 \<Rightarrow> writer \<Rightarrow> writer" where
  "write_sint64 value w = (let bits = zzEncode (LongBits_from value) in push (Op_varint64 bits) (bits_length bits) w)"

definition write_bool :: "bool \<Rightarrow> writer \<Rightarrow> writer" where
  "write_bool value = push (Op_byte (if value then 1 else 0)) 1"

definition write_fixed32 :: "int \<Rightarrow> writer \<Rightarrow> writer" where
  "write_fixed32 value = push (Op_fixed32 (word_of_int value)) 4"

definition write_fixed64 :: "js_num64 \<Rightarrow> writer \<Rightarrow> writer" where
  "write_fixed64 value w =
     (let bits = LongBits_from value in push (Op_fixed32 (hi bits)) 4 (push (Op_fixed32 (lo bits)) 4 w))"

definition write_float :: "u32 \<Rightarrow> writer \<Rightarrow> writer" where
  "write_float value = push (Op_float value) 4"

definition write_double :: "u64 \<Rightarrow> writer \<Rightarrow> writer" where
  "write_double value = push (Op_double value) 8"

definition write_bytes :: "byte list \<Rightarrow> writer \<Rightarrow> writer" where
  "write_bytes value w =
     (let len = unat (of_nat (length value) :: u32)
      in if len = 0 then push (Op_byte 0) 1 w else push (Op_bytes value) len (write_uint32 (int len) w))"

definition write_string :: "js_string \<Rightarrow> writer \<Rightarrow> writer" where
  "write_string value w =
     (let len = utf8_length value
      in if len \<noteq> 0 then push (Op_utf8 value) len (write_uint32 (int len) w) else push (Op_byte 0) 1 w)"

definition fork :: "writer \<Rightarrow> writer" where
  "fork w = w\<lparr>w_states := (w_ops w, w_len w) # w_states w, w_ops := [], w_len := 0\<rparr>"

definition writer_reset :: "writer \<Rightarrow> writer" where
  "writer_reset w =
     (case w_states w of
        (ops, len) # states \<Rightarrow> w\<lparr>w_ops := ops, w_len := len, w_states := states\<rparr>
      | [] \<Rightarrow> w\<lparr>w_ops := [], w_len := 0\<rparr>)"

definition ldelim :: "writer \<Rightarrow> writer" where
  "ldelim w =
     (let w' = write_uint32 (int (w_len w)) (writer_reset w)
      in if w_len w \<noteq> 0 then w'\<lparr>w_ops := w_ops w' @ w_ops w, w_len := w_len w' + w_len w\<rparr> else w')"

fun run_op :: "bool \<Rightarrow> op_fn \<Rightarrow> byte list \<Rightarrow> nat \<Rightarrow> op_fn \<times> byte list" where
  "run_op le (Op_byte v) buf pos = (Op_byte v, writeByte v buf pos)"
| "run_op le (Op_varint32 v) buf pos = (Op_varint32 v, writeVarint32 v buf pos)"
| "run_op le (Op_varint64 v) buf pos = (let (v', buf') = writeVarint64 v buf pos in (Op_varint64 v', buf'))"
| "run_op le (Op_fixed32 v) buf pos = (Op_fixed32 v, writeFixed32 v buf pos)"
| "run_op le (Op_float v) buf pos = (Op_float v, writeFloatLE le v buf pos)"
| "run_op le (Op_double v) buf pos = (Op_double v, writeDoubleLE le v buf pos)"
| "run_op le (Op_bytes v) buf pos = (Op_bytes v, writeBytes v buf pos)"
| "run_op le (Op_utf8 v) buf pos = (Op_utf8 v, fst (utf8_write v (buf, pos)))"

fun run_ops :: "bool \<Rightarrow> op list \<Rightarrow> byte list \<Rightarrow> nat \<Rightarrow> op list \<times> byte list" where
  "run_ops le [] buf pos = ([], buf)"
| "run_ops le (p # ps) buf pos =
     (let (f, buf1) = run_op le (op_fn p) buf pos;
          (ps', buf2) = run_ops le ps buf1 (pos + op_len p)
      in (p\<lparr>op_fn := f\<rparr> # ps', buf2))"

text \<open>\<open>mem\<close> is the allocated memory before it is written.\<close>

definition finish :: "bool \<Rightarrow> byte list \<Rightarrow> writer \<Rightarrow> byte list \<times> writer" where
  "finish le mem w = (let (ops, buf) = run_ops le (w_ops w) mem 0 in (buf, w\<lparr>w_ops := ops\<rparr>))"

section \<open>Bytes of an operation and consistency of a writer\<close>

fun op_bytes :: "op_fn \<Rightarrow> byte list" where
  "op_bytes (Op_byte v) = [ucast v]"
| "op_bytes (Op_varint32 v) = leb128 (unat v)"
| "op_bytes (Op_varint64 v) = leb128 (unat (to64 v))"
| "op_bytes (Op_fixed32 v) = bytes4 v"
| "op_bytes (Op_float v) = bytes4 v"
| "op_bytes (Op_double v) = bytes8 v"
| "op_bytes (Op_bytes v) = v"
| "op_bytes (Op_utf8 v) = utf8_bytes v"

lemma more_byte: "ucast (v AND 127 OR 128) = (of_nat (unat v mod 128 + 128) :: byte)" for v :: u32
  by (rule byteI) simp

lemma writeVarint32_eq: "writeVarint32 v buf pos = put buf pos (leb128 (unat v))"
proof (induction v buf pos rule: writeVarint32.induct)
  case (1 v buf pos)
  show ?case
  proof (cases "v > 127")
    case True
    then have "\<not> unat v < 128" by (simp add: word_less_nat_alt)
    with 1 True show ?thesis
      by (subst writeVarint32.simps) (simp add: leb128_step more_byte unat_drop_bit)
  next
    case False
    then have "unat v < 128" by (simp add: word_less_nat_alt)
    with False show ?thesis by (subst writeVarint32.simps) (simp add: leb128_small)
  qed
qed

lemma writeVarint64_lo_eq:
  "hi v = 0 \<Longrightarrow> snd (writeVarint64_lo v buf pos) = put buf pos (leb128 (unat (to64 v)))"
proof (induction v buf pos rule: writeVarint64_lo.induct)
  case (1 v buf pos)
  have v: "unat (to64 v) = unat (lo v)" using 1(2) by (simp add: unat_to64)
  show ?case
  proof (cases "lo v > 127")
    case True
    then have "\<not> unat (lo v) < 128" by (simp add: word_less_nat_alt)
    with 1 True v show ?thesis
      by (subst writeVarint64_lo.simps) (simp add: leb128_step more_byte unat_drop_bit unat_to64)
  next
    case False
    then have "unat (lo v) < 128" by (simp add: word_less_nat_alt)
    with False v show ?thesis by (subst writeVarint64_lo.simps) (simp add: leb128_small)
  qed
qed

lemma to64_shift: "unat (to64 (v\<lparr>lo := drop_bit 7 (lo v) OR push_bit 25 (hi v), hi := drop_bit 7 (hi v)\<rparr>)) =
  unat (to64 v) div 128"
proof -
  have hi: "unat (hi v) = 128 * (unat (hi v) div 128) + unat (hi v) mod 128" by simp
  have "unat (push_bit 25 (hi v) OR drop_bit 7 (lo v)) = unat (hi v) mod 128 * 33554432 + unat (lo v) div 128"
    using unat_u32 [of "lo v"] by (subst unat_push_bit_or) (simp_all add: unat_drop_bit)
  then have "unat (to64 (v\<lparr>lo := drop_bit 7 (lo v) OR push_bit 25 (hi v), hi := drop_bit 7 (hi v)\<rparr>)) =
      unat (hi v) div 128 * 4294967296 + (unat (hi v) mod 128 * 33554432 + unat (lo v) div 128)"
    by (simp add: unat_to64 unat_drop_bit or.commute)
  also have "\<dots> = unat (hi v) * 33554432 + unat (lo v) div 128" using hi by linarith
  also have "\<dots> = (unat (hi v) * 4294967296 + unat (lo v)) div 128"
    using div_mult_self1 [of 128 "unat (lo v)" "unat (hi v) * 33554432"] by (simp add: ac_simps)
  finally show ?thesis by (simp add: unat_to64)
qed

lemma writeVarint64_eq: "snd (writeVarint64 v buf pos) = put buf pos (leb128 (unat (to64 v)))"
proof (induction v buf pos rule: writeVarint64.induct)
  case (1 v buf pos)
  show ?case
  proof (cases "hi v = 0")
    case True
    then show ?thesis by (subst writeVarint64.simps) (simp add: writeVarint64_lo_eq)
  next
    case False
    then have "0 < unat (hi v)" by (simp add: unat_gt_0)
    then have "\<not> unat (to64 v) < 128" by (simp add: unat_to64)
    moreover have "unat (to64 v) mod 128 = unat (lo v) mod 128"
      using mod_mult_self2 [of "unat (lo v)" 128 "unat (hi v) * 33554432"] by (simp add: unat_to64 ac_simps)
    ultimately show ?thesis using 1 False
      by (subst writeVarint64.simps) (simp add: leb128_step more_byte to64_shift)
  qed
qed


lemma writeFixed32_eq: "writeFixed32 v buf pos = put buf pos (bytes4 v)"
proof -
  have "ucast (w AND 255) = (ucast w :: byte)" for w :: u32
    by (rule ucast_byteI) (simp add: unat_down_byte)
  then show ?thesis by (simp add: writeFixed32_def bytes4_def numeral_eq_Suc)
qed

lemma writeFloatLE_eq: "writeFloatLE le v buf pos = put buf pos (bytes4 v)"
  by (simp add: writeFloatLE_def writeFloat_f32_cpy_def writeFloat_f32_rev_def Let_def view4_def bytes4_def numeral_eq_Suc)

lemma offsets_Suc: "n + 3 = Suc (Suc (Suc n))" "n + 4 = Suc (Suc (Suc (Suc n)))"
  "n + 5 = Suc (Suc (Suc (Suc (Suc n))))" "n + 6 = Suc (Suc (Suc (Suc (Suc (Suc n)))))"
  "n + 7 = Suc (Suc (Suc (Suc (Suc (Suc (Suc n))))))" for n :: nat
  by simp_all

lemma writeDoubleLE_eq: "writeDoubleLE le v buf pos = put buf pos (bytes8 v)"
  by (simp add: writeDoubleLE_def writeDouble_f64_cpy_def writeDouble_f64_rev_def Let_def view8_def bytes8_def bytes4_def
      offsets_Suc)

lemma run_op_eq: "snd (run_op le f buf pos) = put buf pos (op_bytes f)"
proof (cases f)
  case (Op_byte v)
  have "ucast (v AND 255) = (ucast v :: byte)" by (rule ucast_byteI) (simp add: unat_down_byte)
  then show ?thesis by (simp add: Op_byte writeByte_def)
qed (simp_all add: writeVarint32_eq writeVarint64_eq writeFixed32_eq writeFloatLE_eq writeDoubleLE_eq writeBytes_def
    utf8_write_eq split_beta)

definition op_ok :: "op \<Rightarrow> bool" where
  "op_ok p \<longleftrightarrow> op_len p = length (op_bytes (op_fn p))"

definition ops_bytes :: "op list \<Rightarrow> byte list" where
  "ops_bytes ps = concat (map (\<lambda>p. op_bytes (op_fn p)) ps)"

definition ops_ok :: "op list \<Rightarrow> nat \<Rightarrow> bool" where
  "ops_ok ps len \<longleftrightarrow> (\<forall>p\<in>set ps. op_ok p) \<and> len = length (ops_bytes ps)"

definition writer_ok :: "writer \<Rightarrow> bool" where
  "writer_ok w \<longleftrightarrow> ops_ok (w_ops w) (w_len w) \<and> (\<forall>(ps, len)\<in>set (w_states w). ops_ok ps len)"

definition written :: "writer \<Rightarrow> byte list" where
  "written w = ops_bytes (w_ops w)"

lemma ops_bytes_simps [simp]: "ops_bytes [] = []" "ops_bytes (p # ps) = op_bytes (op_fn p) @ ops_bytes ps"
  "ops_bytes (ps @ qs) = ops_bytes ps @ ops_bytes qs"
  by (simp_all add: ops_bytes_def)

lemma run_ops_eq: "\<forall>p\<in>set ps. op_ok p \<Longrightarrow> snd (run_ops le ps buf pos) = put buf pos (ops_bytes ps)"
proof (induction ps arbitrary: buf pos)
  case (Cons p ps)
  then show ?case using run_op_eq [of le "op_fn p" buf pos]
    by (auto simp: put_append op_ok_def split_beta)
qed simp

lemma push_ok: "writer_ok w \<Longrightarrow> len = length (op_bytes f) \<Longrightarrow> writer_ok (push f len w)"
  by (simp add: writer_ok_def push_def ops_ok_def op_ok_def)

lemma push_written [simp]: "written (push f len w) = written w @ op_bytes f"
  by (simp add: written_def push_def)

lemma push_states [simp]: "w_states (push f len w) = w_states w" by (simp add: push_def)

lemma varint32_len_eq: "varint32_len v = length (leb128 (unat v))"
  using unat_u32 [of v] by (simp add: varint32_len_def leb128_lengths word_less_nat_alt)

lemma finish_written:
  assumes "writer_ok w" "length mem = w_len w"
  shows "fst (finish le mem w) = written w"
  using assms run_ops_eq [of "w_ops w" le mem 0]
  by (simp add: finish_def writer_ok_def ops_ok_def written_def put_whole split_beta)

section \<open>What the operations append\<close>

text \<open>An operation \<open>f\<close> appends \<open>bs\<close> to the content of every consistent writer and keeps it consistent.\<close>

definition appends :: "(writer \<Rightarrow> writer) \<Rightarrow> byte list \<Rightarrow> bool" where
  "appends f bs \<longleftrightarrow> (\<forall>w. writer_ok w \<longrightarrow>
     writer_ok (f w) \<and> written (f w) = written w @ bs \<and> w_states (f w) = w_states w)"

lemma appends_push: "len = length (op_bytes f) \<Longrightarrow> appends (push f len) (op_bytes f)"
  by (simp add: appends_def push_ok)

lemma appends_comp: "appends f as \<Longrightarrow> appends g bs \<Longrightarrow> appends (\<lambda>w. g (f w)) (as @ bs)"
  by (simp add: appends_def)

lemma appends_uint32: "appends (write_uint32 value) (leb128 (unat (word_of_int value :: u32)))"
  using appends_push [of _ "Op_varint32 (word_of_int value)"] by (simp add: write_uint32_def [abs_def] Let_def varint32_len_eq)

lemma appends_uint32_nat: "n < 4294967296 \<Longrightarrow> appends (write_uint32 (int n)) (leb128 n)"
  using appends_uint32 [of "int n"] by (simp add: unat_of_nat take_bit_nat_eq_self)

lemma appends_varint64: "appends (push (Op_varint64 b) (bits_length b)) (leb128 (unat (to64 b)))"
  using appends_push [of _ "Op_varint64 b"] by (simp add: bits_length_eq)

lemma appends_uint64: "appends (write_uint64 v) (leb128 (unat (to64 (LongBits_from v))))"
  using appends_varint64 [of "LongBits_from v"] by (simp add: write_uint64_def [abs_def] Let_def)

lemma appends_sint64: "appends (write_sint64 v) (leb128 (unat (to64 (zzEncode (LongBits_from v)))))"
  using appends_varint64 [of "zzEncode (LongBits_from v)"] by (simp add: write_sint64_def [abs_def] Let_def)

lemma appends_bool: "appends (write_bool v) [if v then 1 else 0]"
  using appends_push [of 1 "Op_byte (if v then 1 else 0)"] by (cases v) (simp_all add: write_bool_def)

lemma length_bytes4 [simp]: "length (bytes4 v) = 4" and length_bytes8 [simp]: "length (bytes8 d) = 8"
  by (simp_all add: bytes4_def bytes8_def)

lemma appends_fixed32: "appends (write_fixed32 value) (bytes4 (word_of_int value))"
  using appends_push [of 4 "Op_fixed32 (word_of_int value)"] by (simp add: write_fixed32_def)

lemma appends_float: "appends (write_float v) (bytes4 v)"
  using appends_push [of 4 "Op_float v"] by (simp add: write_float_def)

lemma appends_double: "appends (write_double v) (bytes8 v)"
  using appends_push [of 8 "Op_double v"] by (simp add: write_double_def)

lemma appends_fixed64:
  "appends (write_fixed64 v) (bytes4 (lo (LongBits_from v)) @ bytes4 (hi (LongBits_from v)))"
proof -
  let ?b = "LongBits_from v"
  have "appends (push (Op_fixed32 (lo ?b)) 4) (bytes4 (lo ?b))" "appends (push (Op_fixed32 (hi ?b)) 4) (bytes4 (hi ?b))"
    using appends_push [of 4 "Op_fixed32 (lo ?b)"] appends_push [of 4 "Op_fixed32 (hi ?b)"] by simp_all
  from appends_comp [OF this] show ?thesis by (simp only: write_fixed64_def [abs_def] Let_def)
qed

lemma appends_int32:
  assumes "- 9223372036854775808 \<le> value" "value < 4294967296"
  shows "appends (write_int32 value) (leb128 (unat (word_of_int value :: u64)))"
proof (cases "value < 0")
  case True
  have "uint (word_of_int value :: u64) = value mod 18446744073709551616" by (simp add: uint_word_of_int)
  also have "\<dots> = value + 18446744073709551616"
    using assms True mod_pos_pos_trivial [of "value + 18446744073709551616" 18446744073709551616] by simp
  finally have "9223372036854775808 \<le> unat (word_of_int value :: u64)" using assms
    by (simp add: unat_eq_nat_uint)
  moreover have "unat (word_of_int value :: u64) < 18446744073709551616"
    using unsigned_less [of "word_of_int value :: u64"] by simp
  ultimately have "length (leb128 (unat (word_of_int value :: u64))) = 10" by (simp add: leb128_lengths)
  with True appends_push [of 10 "Op_varint64 (fromNumber value)"] show ?thesis
    by (simp add: write_int32_def [abs_def] Let_def to64_fromNumber)
next
  case False
  then have "unat (word_of_int value :: u64) = unat (word_of_int value :: u32)"
    using assms by (simp add: unat_eq_nat_uint uint_word_of_int)
  with False appends_uint32 [of "value"] show ?thesis by (simp add: write_int32_def [abs_def] Let_def)
qed

lemma appends_bytes:
  assumes "length value < 4294967296"
  shows "appends (write_bytes value) (leb128 (length value) @ value)"
proof -
  have len: "unat (of_nat (length value) :: u32) = length value" using assms by (rule unat_of_nat_u32)
  show ?thesis
  proof (cases "value = []")
    case True
    then show ?thesis using appends_push [of 1 "Op_byte 0"]
      by (simp add: write_bytes_def [abs_def] Let_def leb128_small)
  next
    case False
    then show ?thesis
      using appends_comp [OF appends_uint32_nat [OF assms] appends_push [of "length value" "Op_bytes value"]]
      by (simp only: write_bytes_def [abs_def] len Let_def) simp
  qed
qed

lemma appends_string:
  assumes "utf8_length value < 4294967296"
  shows "appends (write_string value) (leb128 (utf8_length value) @ utf8_bytes value)"
proof (cases "utf8_length value = 0")
  case True
  then have "utf8_bytes value = []" by (simp flip: length_utf8_bytes)
  then show ?thesis using True appends_push [of 1 "Op_byte 0"]
    by (simp add: write_string_def [abs_def] Let_def leb128_small)
next
  case False
  then show ?thesis
    using appends_comp [OF appends_uint32_nat [OF assms] appends_push [of "utf8_length value" "Op_utf8 value"]]
    by (simp add: write_string_def [abs_def] Let_def length_utf8_bytes)
qed

text \<open>A nested message: what was written since the fork is appended behind its length.\<close>

lemma fork_ok: "writer_ok w \<Longrightarrow> writer_ok (fork w) \<and> written (fork w) = [] \<and> w_states (fork w) = (w_ops w, w_len w) # w_states w"
  by (auto simp: writer_ok_def fork_def written_def ops_ok_def)

lemma w_len_written: "writer_ok w \<Longrightarrow> w_len w = length (written w)"
  by (simp add: writer_ok_def ops_ok_def written_def)

lemma appends_ldelim:
  assumes "appends f bs" "length bs < 4294967296"
  shows "appends (\<lambda>w. ldelim (f (fork w))) (leb128 (length bs) @ bs)"
  unfolding appends_def
proof (intro allI impI)
  fix w assume "writer_ok w"
  define v where "v = f (fork w)"
  have v: "writer_ok v" "written v = bs" "w_states v = (w_ops w, w_len w) # w_states w"
    using assms(1) fork_ok [OF \<open>writer_ok w\<close>] by (auto simp: appends_def v_def)
  have len: "w_len v = length bs" using w_len_written [OF v(1)] v(2) by simp
  define u where "u = writer_reset v"
  have u: "w_ops u = w_ops w" "w_len u = w_len w" "w_states u = w_states w" using v by (simp_all add: u_def writer_reset_def)
  then have "writer_ok u" "written u = written w" using \<open>writer_ok w\<close> by (simp_all add: writer_ok_def written_def)
  then have hdr: "writer_ok (write_uint32 (int (length bs)) u)"
      "written (write_uint32 (int (length bs)) u) = written w @ leb128 (length bs)"
      "w_states (write_uint32 (int (length bs)) u) = w_states w"
    using appends_uint32_nat [OF assms(2)] u by (simp_all add: appends_def)
  have "ldelim v = (let w' = write_uint32 (int (length bs)) u
      in if length bs \<noteq> 0 then w'\<lparr>w_ops := w_ops w' @ w_ops v, w_len := w_len w' + length bs\<rparr> else w')"
    by (simp add: ldelim_def len u_def Let_def)
  with hdr v(1,2) show "writer_ok (ldelim (f (fork w))) \<and>
      written (ldelim (f (fork w))) = written w @ leb128 (length bs) @ bs \<and> w_states (ldelim (f (fork w))) = w_states w"
    unfolding v_def [symmetric]
    by (cases "bs = []") (simp_all add: Let_def writer_ok_def written_def ops_ok_def ball_Un)
qed

end
