(* ===== verification/Pb_Heap.thy ===== *)
theory Pb_Heap
  imports Pb_Writer
begin

text \<open>
  The writer as the source has it: operations are nodes of a linked list with a dummy node at the head, the writer
  holds pointers to head and tail, and \<^verbatim>\<open>ldelim\<close> splices the list of a nested message behind the one that was saved by
  \<^verbatim>\<open>fork\<close>. The heap is a list of nodes, an address is an index, allocation appends. \<^verbatim>\<open>finish\<close> follows the pointers until
  there is no next node, so the model is a partial function.

  \<open>linked\<close> relates a list of addresses with the operations found there, \<open>writer_rel\<close> a writer with one of
  \<open>Pb_Writer\<close>: the lists of the saved states and the current one occupy different addresses. Every operation
  keeps the relation, so \<^verbatim>\<open>finish\<close> ends and fills the buffer as the list model does.
\<close>

section \<open>Nodes and writers\<close>

record node =
  nd_op :: "op option"
  nd_next :: "nat option"

definition noop_node :: node where
  "noop_node = \<lparr>nd_op = None, nd_next = None\<rparr>"

definition op_node :: "op \<Rightarrow> node" where
  "op_node p = \<lparr>nd_op = Some p, nd_next = None\<rparr>"

definition set_next :: "node list \<Rightarrow> nat \<Rightarrow> nat option \<Rightarrow> node list" where
  "set_next h a n = h[a := (h ! a)\<lparr>nd_next := n\<rparr>]"

record hwriter =
  hw_heap :: "node list"
  hw_head :: nat
  hw_tail :: nat
  hw_len :: nat
  hw_states :: "(nat \<times> nat \<times> nat) list"

definition h_new :: hwriter where
  "h_new = \<lparr>hw_heap = [noop_node], hw_head = 0, hw_tail = 0, hw_len = 0, hw_states = []\<rparr>"

definition h_push :: "op_fn \<Rightarrow> nat \<Rightarrow> hwriter \<Rightarrow> hwriter" where
  "h_push f len w =
     (let a = length (hw_heap w)
      in w\<lparr>hw_heap := set_next (hw_heap w) (hw_tail w) (Some a) @ [op_node \<lparr>op_fn = f, op_len = len\<rparr>],
           hw_tail := a, hw_len := hw_len w + len\<rparr>)"

definition h_restart :: "hwriter \<Rightarrow> hwriter" where
  "h_restart w =
     (let a = length (hw_heap w) in w\<lparr>hw_heap := hw_heap w @ [noop_node], hw_head := a, hw_tail := a, hw_len := 0\<rparr>)"

definition h_uint32 :: "int \<Rightarrow> hwriter \<Rightarrow> hwriter" where
  "h_uint32 value w = (let v = word_of_int value in h_push (Op_varint32 v) (varint32_len v) w)"

definition h_fork :: "hwriter \<Rightarrow> hwriter" where
  "h_fork w = h_restart (w\<lparr>hw_states := (hw_head w, hw_tail w, hw_len w) # hw_states w\<rparr>)"

definition h_reset :: "hwriter \<Rightarrow> hwriter" where
  "h_reset w =
     (case hw_states w of
        (head, tail, len) # states \<Rightarrow> w\<lparr>hw_head := head, hw_tail := tail, hw_len := len, hw_states := states\<rparr>
      | [] \<Rightarrow> h_restart w)"

definition h_ldelim :: "hwriter \<Rightarrow> hwriter" where
  "h_ldelim w =
     (let head = hw_head w; tail = hw_tail w; len = hw_len w; w' = h_uint32 (int len) (h_reset w)
      in if len \<noteq> 0
         then w'\<lparr>hw_heap := set_next (hw_heap w') (hw_tail w') (nd_next (hw_heap w' ! head)),
                 hw_tail := tail, hw_len := hw_len w' + len\<rparr>
         else w')"

partial_function (option) h_run ::
  "bool \<Rightarrow> nat option \<Rightarrow> node list \<Rightarrow> byte list \<Rightarrow> nat \<Rightarrow> (node list \<times> byte list) option" where
  "h_run le head h buf pos =
     (case head of
        None \<Rightarrow> Some (h, buf)
      | Some a \<Rightarrow>
          (case nd_op (h ! a) of
             None \<Rightarrow> h_run le (nd_next (h ! a)) h buf pos
           | Some p \<Rightarrow>
               (case run_op le (op_fn p) buf pos of
                  (f, buf') \<Rightarrow>
                    h_run le (nd_next (h ! a)) (h[a := (h ! a)\<lparr>nd_op := Some (p\<lparr>op_fn := f\<rparr>)\<rparr>]) buf' (pos + op_len p))))"

definition h_finish :: "bool \<Rightarrow> byte list \<Rightarrow> hwriter \<Rightarrow> (byte list \<times> hwriter) option" where
  "h_finish le mem w =
     (case h_run le (nd_next (hw_heap w ! hw_head w)) (hw_heap w) mem 0 of
        None \<Rightarrow> None
      | Some (h, buf) \<Rightarrow> Some (buf, w\<lparr>hw_heap := h\<rparr>))"

section \<open>The other methods\<close>

definition h_int32 :: "int \<Rightarrow> hwriter \<Rightarrow> hwriter" where
  "h_int32 value w = (if value < 0 then h_push (Op_varint64 (fromNumber value)) 10 w else h_uint32 value w)"

definition h_sint32 :: "int \<Rightarrow> hwriter \<Rightarrow> hwriter" where
  "h_sint32 value w =
     (let v = (word_of_int value :: u32) in h_uint32 (uint (push_bit 1 v XOR signed_drop_bit 31 v)) w)"

definition h_uint64 :: "js_num64 \<Rightarrow> hwriter \<Rightarrow> hwriter" where
  "h_uint64 value w = (let bits = LongBits_from value in h_push (Op_varint64 bits) (bits_length bits) w)"

definition h_sint64 :: "js_num64 \<Rightarrow> hwriter \<Rightarrow> hwriter" where
  "h_sint64 value w = (let bits = zzEncode (LongBits_from value) in h_push (Op_varint64 bits) (bits_length bits) w)"

definition h_bool :: "bool \<Rightarrow> hwriter \<Rightarrow> hwriter" where
  "h_bool value = h_push (Op_byte (if value then 1 else 0)) 1"

definition h_fixed32 :: "int \<Rightarrow> hwriter \<Rightarrow> hwriter" where
  "h_fixed32 value = h_push (Op_fixed32 (word_of_int value)) 4"

definition h_fixed64 :: "js_num64 \<Rightarrow> hwriter \<Rightarrow> hwriter" where
  "h_fixed64 value w =
     (let bits = LongBits_from value in h_push (Op_fixed32 (hi bits)) 4 (h_push (Op_fixed32 (lo bits)) 4 w))"

definition h_float :: "u32 \<Rightarrow> hwriter \<Rightarrow> hwriter" where
  "h_float value = h_push (Op_float value) 4"

definition h_double :: "u64 \<Rightarrow> hwriter \<Rightarrow> hwriter" where
  "h_double value = h_push (Op_double value) 8"

definition h_bytes :: "byte list \<Rightarrow> hwriter \<Rightarrow> hwriter" where
  "h_bytes value w =
     (let len = unat (of_nat (length value) :: u32)
      in if len = 0 then h_push (Op_byte 0) 1 w else h_push (Op_bytes value) len (h_uint32 (int len) w))"

definition h_string :: "js_string \<Rightarrow> hwriter \<Rightarrow> hwriter" where
  "h_string value w =
     (let len = utf8_length value
      in if len \<noteq> 0 then h_push (Op_utf8 value) len (h_uint32 (int len) w) else h_push (Op_byte 0) 1 w)"

text \<open>A call of a method, on both writers.\<close>

datatype call =
    Call_uint32 int | Call_int32 int | Call_sint32 int
  | Call_uint64 js_num64 | Call_sint64 js_num64
  | Call_bool bool | Call_fixed32 int | Call_fixed64 js_num64
  | Call_float u32 | Call_double u64
  | Call_bytes "byte list" | Call_string js_string
  | Call_fork | Call_reset | Call_ldelim

fun list_call :: "call \<Rightarrow> writer \<Rightarrow> writer" where
  "list_call (Call_uint32 v) = write_uint32 v"
| "list_call (Call_int32 v) = write_int32 v"
| "list_call (Call_sint32 v) = write_sint32 v"
| "list_call (Call_uint64 v) = write_uint64 v"
| "list_call (Call_sint64 v) = write_sint64 v"
| "list_call (Call_bool v) = write_bool v"
| "list_call (Call_fixed32 v) = write_fixed32 v"
| "list_call (Call_fixed64 v) = write_fixed64 v"
| "list_call (Call_float v) = write_float v"
| "list_call (Call_double v) = write_double v"
| "list_call (Call_bytes v) = write_bytes v"
| "list_call (Call_string v) = write_string v"
| "list_call Call_fork = fork"
| "list_call Call_reset = writer_reset"
| "list_call Call_ldelim = ldelim"

fun heap_call :: "call \<Rightarrow> hwriter \<Rightarrow> hwriter" where
  "heap_call (Call_uint32 v) = h_uint32 v"
| "heap_call (Call_int32 v) = h_int32 v"
| "heap_call (Call_sint32 v) = h_sint32 v"
| "heap_call (Call_uint64 v) = h_uint64 v"
| "heap_call (Call_sint64 v) = h_sint64 v"
| "heap_call (Call_bool v) = h_bool v"
| "heap_call (Call_fixed32 v) = h_fixed32 v"
| "heap_call (Call_fixed64 v) = h_fixed64 v"
| "heap_call (Call_float v) = h_float v"
| "heap_call (Call_double v) = h_double v"
| "heap_call (Call_bytes v) = h_bytes v"
| "heap_call (Call_string v) = h_string v"
| "heap_call Call_fork = h_fork"
| "heap_call Call_reset = h_reset"
| "heap_call Call_ldelim = h_ldelim"

section \<open>Linked lists\<close>

text \<open>The node at the first address is the dummy one; the operations are found behind it.\<close>

fun linked :: "node list \<Rightarrow> nat list \<Rightarrow> op list \<Rightarrow> bool" where
  "linked h [a] [] \<longleftrightarrow> a < length h \<and> nd_next (h ! a) = None"
| "linked h (a # b # as) (p # ps) \<longleftrightarrow>
     a < length h \<and> nd_next (h ! a) = Some b \<and> nd_op (h ! b) = Some p \<and> linked h (b # as) ps"
| "linked h _ _ \<longleftrightarrow> False"

lemma linked_less: "linked h as ps \<Longrightarrow> a \<in> set as \<Longrightarrow> a < length h"
  by (induction h as ps rule: linked.induct) auto

lemma linked_not_Nil: "linked h as ps \<Longrightarrow> as \<noteq> []"
  by auto

lemma linked_cong:
  assumes "linked h as ps"
    and "\<And>a. a \<in> set as \<Longrightarrow> a < length h \<Longrightarrow> a < length h' \<and> nd_next (h' ! a) = nd_next (h ! a)"
    and "\<And>a. a \<in> set (tl as) \<Longrightarrow> a < length h \<Longrightarrow> nd_op (h' ! a) = nd_op (h ! a)"
  shows "linked h' as ps"
  using assms
proof (induction h as ps rule: linked.induct)
  case (2 h a b as p ps)
  have "linked h' (b # as) ps" using 2 by (cases as) auto
  moreover have "b < length h" using 2(2) linked_less [of h "b # as" ps b] by simp
  ultimately show ?case using 2 by auto
qed auto

lemma nth_update: "xs[i := x] ! j = (if i = j \<and> j < length xs then x else xs ! j)"
  by (cases "i < length xs") (auto simp: list_update_beyond)

lemma set_next_simps [simp]:
  "length (set_next h a n) = length h"
  "b \<noteq> a \<Longrightarrow> set_next h a n ! b = h ! b"
  "nd_op (set_next h a n ! b) = nd_op (h ! b)"
  "a < length h \<Longrightarrow> nd_next (set_next h a n ! a) = n"
  by (auto simp: set_next_def nth_update)

lemma linked_frame: "linked h as ps \<Longrightarrow> t \<notin> set as \<Longrightarrow> linked (set_next h t n @ h') as ps"
  by (rule linked_cong) (auto simp: nth_append set_next_def nth_update)

lemma linked_append: "linked h as ps \<Longrightarrow> linked (h @ h') as ps"
  by (rule linked_cong) (auto simp: nth_append)

lemma linked_snoc:
  "linked h as ps \<Longrightarrow> distinct as \<Longrightarrow> last as = t \<Longrightarrow>
   linked (set_next h t (Some (length h)) @ [op_node p]) (as @ [length h]) (ps @ [p])"
proof (induction h as ps rule: linked.induct)
  case (1 h a)
  then show ?case by (simp add: nth_append op_node_def)
next
  case (2 h a b as q ps)
  have "b < length h" using 2(2) linked_less [of h "b # as" ps b] by simp
  moreover have "a \<noteq> t" using 2(3,4) last_in_set [of "b # as"] by (auto split: if_splits)
  ultimately show ?case using 2 by (simp add: nth_append)
qed auto

lemma linked_join:
  "linked h as ps \<Longrightarrow> linked h (b # bs) qs \<Longrightarrow> qs \<noteq> [] \<Longrightarrow> distinct (as @ b # bs) \<Longrightarrow> last as = t \<Longrightarrow>
   linked (set_next h t (nd_next (h ! b))) (as @ bs) (ps @ qs)"
proof (induction h as ps rule: linked.induct)
  case (1 h a)
  then obtain c cs r rs where cs: "bs = c # cs" "qs = r # rs" by (cases bs; cases qs) auto
  have "linked (set_next h t (nd_next (h ! b)) @ []) (c # cs) rs"
    using 1(2,4,5) cs by (intro linked_frame) auto
  with 1 cs show ?case by simp
next
  case (2 h a d as p ps)
  moreover have "a \<noteq> t" using 2(5,6) last_in_set [of "d # as"] by (auto split: if_splits)
  moreover have "d < length h" using 2(2) linked_less [of h "d # as" ps d] by simp
  ultimately show ?case by (simp add: nth_append)
qed auto

section \<open>Finishing\<close>

lemma linked_run:
  "linked h as ps \<Longrightarrow> distinct as \<Longrightarrow>
   \<exists>h'. h_run le (nd_next (h ! hd as)) h buf pos = Some (h', snd (run_ops le ps buf pos)) \<and>
     linked h' as (fst (run_ops le ps buf pos)) \<and> length h' = length h \<and> (\<forall>a. a \<notin> set (tl as) \<longrightarrow> h' ! a = h ! a)"
proof (induction as arbitrary: h ps buf pos rule: induct_list012)
  case (2 a)
  then show ?case by (cases ps) (auto simp: h_run.simps [of _ None])
next
  case (3 a b as)
  from "3.prems"(1) obtain p qs where ps: "ps = p # qs" by (cases ps) auto
  note link = "3.prems"(1) [unfolded ps linked.simps]
  obtain f buf' where run: "run_op le (op_fn p) buf pos = (f, buf')" by fastforce
  let ?h = "h[b := (h ! b)\<lparr>nd_op := Some (p\<lparr>op_fn := f\<rparr>)\<rparr>]"
  have b: "b < length h" "b \<notin> set as" "a \<noteq> b" "a \<notin> set as" "distinct (b # as)"
    using link "3.prems"(2) linked_less [of h "b # as" qs b] by auto
  have "linked ?h (b # as) qs"
    by (rule linked_cong [of h]) (use link b in \<open>auto simp: nth_update\<close>)
  from "3.IH"(2) [OF this b(5), of buf' "pos + op_len p"]
  obtain h' where h': "h_run le (nd_next (?h ! b)) ?h buf' (pos + op_len p) =
      Some (h', snd (run_ops le qs buf' (pos + op_len p)))"
      "linked h' (b # as) (fst (run_ops le qs buf' (pos + op_len p)))" "length h' = length h"
      "\<forall>c. c \<notin> set as \<longrightarrow> h' ! c = ?h ! c"
    by auto
  moreover have "h_run le (nd_next (h ! hd (a # b # as))) h buf pos = h_run le (nd_next (?h ! b)) ?h buf' (pos + op_len p)"
    using link run b by (simp add: h_run.simps [of _ "Some b"])
  ultimately show ?case using link run b by (intro exI [of _ h']) (auto simp: ps split_beta)
qed auto

section \<open>The relation of the two models\<close>

definition chain :: "node list \<Rightarrow> nat list \<Rightarrow> nat \<times> nat \<times> nat \<Rightarrow> op list \<times> nat \<Rightarrow> bool" where
  "chain h as p q \<longleftrightarrow> linked h as (fst q) \<and> fst p = hd as \<and> fst (snd p) = last as \<and>
     snd (snd p) = snd q \<and> snd q = sum_list (map op_len (fst q))"

fun chains :: "node list \<Rightarrow> nat list list \<Rightarrow> (nat \<times> nat \<times> nat) list \<Rightarrow> (op list \<times> nat) list \<Rightarrow> bool" where
  "chains h [] [] [] \<longleftrightarrow> True"
| "chains h (as # ss) (p # hs) (q # vs) \<longleftrightarrow> chain h as p q \<and> chains h ss hs vs"
| "chains h _ _ _ \<longleftrightarrow> False"

definition writer_rel :: "hwriter \<Rightarrow> writer \<Rightarrow> bool" where
  "writer_rel w v \<longleftrightarrow> (\<exists>as ss. chain (hw_heap w) as (hw_head w, hw_tail w, hw_len w) (w_ops v, w_len v) \<and>
     chains (hw_heap w) ss (hw_states w) (w_states v) \<and> distinct (as @ concat ss))"

lemma chains_mono:
  assumes "chains h ss hs vs" and "\<And>as ps. as \<in> set ss \<Longrightarrow> linked h as ps \<Longrightarrow> linked h' as ps"
  shows "chains h' ss hs vs"
  using assms by (induction h ss hs vs rule: chains.induct) (auto simp: chain_def)

lemma chains_less: "chains h ss hs vs \<Longrightarrow> as \<in> set ss \<Longrightarrow> a \<in> set as \<Longrightarrow> a < length h"
  by (induction h ss hs vs rule: chains.induct) (auto simp: chain_def dest: linked_less)

lemma rel_new: "writer_rel h_new new_writer"
  unfolding writer_rel_def
  by (intro exI [of _ "[0]"] exI [of _ "[]"]) (simp add: h_new_def new_writer_def chain_def noop_node_def)

lemma rel_push:
  assumes "writer_rel w v"
  shows "writer_rel (h_push f len w) (push f len v)"
proof -
  from assms obtain as ss where c: "chain (hw_heap w) as (hw_head w, hw_tail w, hw_len w) (w_ops v, w_len v)"
    and ss: "chains (hw_heap w) ss (hw_states w) (w_states v)" and d: "distinct (as @ concat ss)"
    by (auto simp: writer_rel_def)
  let ?n = "length (hw_heap w)"
  let ?h = "set_next (hw_heap w) (hw_tail w) (Some ?n) @ [op_node \<lparr>op_fn = f, op_len = len\<rparr>]"
  have as: "linked (hw_heap w) as (w_ops v)" "hw_tail w = last as" "as \<noteq> []"
    using c linked_not_Nil by (auto simp: chain_def)
  have new: "?n \<notin> set as \<union> set (concat ss)" using linked_less [OF as(1)] chains_less [OF ss] by force
  have "linked ?h (as @ [?n]) (w_ops v @ [\<lparr>op_fn = f, op_len = len\<rparr>])"
    using as d by (intro linked_snoc) auto
  then have "chain ?h (as @ [?n]) (hw_head w, ?n, hw_len w + len) (w_ops v @ [\<lparr>op_fn = f, op_len = len\<rparr>], w_len v + len)"
    using c as(3) by (simp add: chain_def)
  moreover have "chains ?h ss (hw_states w) (w_states v)"
    using as d by (intro chains_mono [OF ss] linked_frame) (auto dest: last_in_set)
  moreover have "distinct ((as @ [?n]) @ concat ss)" using d new by auto
  ultimately show ?thesis
    unfolding writer_rel_def by (intro exI [of _ "as @ [?n]"] exI [of _ ss]) (simp add: h_push_def push_def Let_def)
qed

lemma rel_restart:
  assumes "chains (hw_heap w) ss (hw_states w) vs" "distinct (concat ss)"
  shows "writer_rel (h_restart w) \<lparr>w_len = 0, w_ops = [], w_states = vs\<rparr>"
proof -
  let ?n = "length (hw_heap w)"
  have "chains (hw_heap w @ [noop_node]) ss (hw_states w) vs" using assms(1) by (rule chains_mono) (rule linked_append)
  moreover have "distinct ([?n] @ concat ss)" using assms chains_less [OF assms(1)] by force
  ultimately show ?thesis
    unfolding writer_rel_def
    by (intro exI [of _ "[?n]"] exI [of _ ss]) (simp add: h_restart_def Let_def chain_def noop_node_def)
qed

lemma rel_fork:
  assumes "writer_rel w v"
  shows "writer_rel (h_fork w) (fork v)"
proof -
  from assms obtain as ss where "chain (hw_heap w) as (hw_head w, hw_tail w, hw_len w) (w_ops v, w_len v)"
    and "chains (hw_heap w) ss (hw_states w) (w_states v)" and "distinct (as @ concat ss)"
    by (auto simp: writer_rel_def)
  then show ?thesis
    using rel_restart [of "w\<lparr>hw_states := (hw_head w, hw_tail w, hw_len w) # hw_states w\<rparr>" "as # ss"
        "(w_ops v, w_len v) # w_states v"]
    by (cases v) (simp add: h_fork_def fork_def)
qed

text \<open>
  Going back to the saved state while the list of the nested message is still in use: the two change places, and
  \<^verbatim>\<open>reset\<close> alone drops the latter.
\<close>

lemma rel_swap:
  assumes "writer_rel w v"
  shows "writer_rel ((h_reset w)\<lparr>hw_states := (hw_head w, hw_tail w, hw_len w) # hw_states (h_reset w)\<rparr>)
    ((writer_reset v)\<lparr>w_states := (w_ops v, w_len v) # w_states (writer_reset v)\<rparr>)"
proof -
  from assms obtain as ss where c: "chain (hw_heap w) as (hw_head w, hw_tail w, hw_len w) (w_ops v, w_len v)"
      "chains (hw_heap w) ss (hw_states w) (w_states v)" and d: "distinct (as @ concat ss)"
    by (auto simp: writer_rel_def)
  show ?thesis
  proof (cases "hw_states w")
    case Nil
    then have "w_states v = []" using c(2) by (cases ss; cases "w_states v"; simp)
    with rel_fork [OF assms] Nil show ?thesis
      by (cases w; cases v) (simp add: h_reset_def writer_reset_def h_fork_def fork_def h_restart_def Let_def)
  next
    case (Cons p hs)
    then obtain bs ss' q vs where "ss = bs # ss'" "w_states v = q # vs"
      using c(2) by (cases ss; cases "w_states v"; auto)
    then show ?thesis using c d Cons unfolding writer_rel_def
      by (intro exI [of _ bs] exI [of _ "as # ss'"], cases p; cases q) (auto simp: h_reset_def writer_reset_def)
  qed
qed

lemma rel_drop:
  assumes "writer_rel (w\<lparr>hw_states := p # hw_states w\<rparr>) (v\<lparr>w_states := q # w_states v\<rparr>)"
  shows "writer_rel w v"
proof -
  from assms obtain as ss where c: "chain (hw_heap w) as (hw_head w, hw_tail w, hw_len w) (w_ops v, w_len v)"
      "chains (hw_heap w) ss (p # hw_states w) (q # w_states v)" and d: "distinct (as @ concat ss)"
    by (auto simp: writer_rel_def)
  then obtain bs ss' where "ss = bs # ss'" by (cases ss) auto
  with c d show ?thesis unfolding writer_rel_def by (intro exI [of _ as] exI [of _ ss']) auto
qed

lemma rel_reset: "writer_rel w v \<Longrightarrow> writer_rel (h_reset w) (writer_reset v)"
  by (drule rel_swap, erule rel_drop)

lemma rel_uint32: "writer_rel w v \<Longrightarrow> writer_rel (h_uint32 value w) (write_uint32 value v)"
  by (simp add: h_uint32_def write_uint32_def Let_def rel_push)

lemma rel_splice:
  assumes rel: "writer_rel (w\<lparr>hw_states := (head, tail, len) # hw_states w\<rparr>) (v\<lparr>w_states := (ops, len) # w_states v\<rparr>)"
    and "len \<noteq> 0"
  shows "writer_rel
      (w\<lparr>hw_heap := set_next (hw_heap w) (hw_tail w) (nd_next (hw_heap w ! head)), hw_tail := tail, hw_len := hw_len w + len\<rparr>)
      (v\<lparr>w_ops := w_ops v @ ops, w_len := w_len v + len\<rparr>)"
proof -
  from rel obtain as ss where c: "chain (hw_heap w) as (hw_head w, hw_tail w, hw_len w) (w_ops v, w_len v)"
      "chains (hw_heap w) ss ((head, tail, len) # hw_states w) ((ops, len) # w_states v)" and d: "distinct (as @ concat ss)"
    by (auto simp: writer_rel_def)
  then obtain bs ss' where ss: "ss = bs # ss'" "chain (hw_heap w) bs (head, tail, len) (ops, len)"
      "chains (hw_heap w) ss' (hw_states w) (w_states v)" by (cases ss) auto
  then obtain cs where bs: "bs = head # cs" by (cases bs) (auto simp: chain_def)
  have ops: "ops \<noteq> []" using ss(2) assms(2) by (auto simp: chain_def)
  let ?h = "set_next (hw_heap w) (hw_tail w) (nd_next (hw_heap w ! head))"
  have "linked ?h (as @ cs) (w_ops v @ ops)"
    using c(1) ss bs ops d by (intro linked_join) (auto simp: chain_def)
  moreover have "as \<noteq> []" "cs \<noteq> []" using c(1) ss(2) bs ops by (auto simp: chain_def elim: linked.elims)
  ultimately have "chain ?h (as @ cs) (hw_head w, tail, hw_len w + len) (w_ops v @ ops, w_len v + len)"
    using c(1) ss(2) bs by (auto simp: chain_def)
  moreover have "chains (?h @ []) ss' (hw_states w) (w_states v)"
  proof (intro chains_mono [OF ss(3)] linked_frame)
    fix xs assume "xs \<in> set ss'"
    then have "set as \<inter> set xs = {}" using d ss(1) by auto
    moreover have "hw_tail w \<in> set as" using c(1) \<open>as \<noteq> []\<close> by (simp add: chain_def)
    ultimately show "hw_tail w \<notin> set xs" by blast
  qed
  moreover have "distinct ((as @ cs) @ concat ss')" using d ss(1) bs by auto
  ultimately show ?thesis unfolding writer_rel_def by (intro exI [of _ "as @ cs"] exI [of _ ss']) simp
qed

lemma uint32_states:
  "h_uint32 value (w\<lparr>hw_states := hs\<rparr>) = (h_uint32 value w)\<lparr>hw_states := hs\<rparr>" "hw_states (h_uint32 value w) = hw_states w"
  "write_uint32 value (v\<lparr>w_states := vs\<rparr>) = (write_uint32 value v)\<lparr>w_states := vs\<rparr>" "w_states (write_uint32 value v) = w_states v"
  by (simp_all add: h_uint32_def h_push_def write_uint32_def push_def Let_def)

lemma rel_len: "writer_rel w v \<Longrightarrow> hw_len w = w_len v"
  by (auto simp: writer_rel_def chain_def)

lemma rel_ldelim:
  assumes "writer_rel w v"
  shows "writer_rel (h_ldelim w) (ldelim v)"
proof (cases "w_len v = 0")
  case True
  with rel_uint32 [OF rel_reset [OF assms], of 0] rel_len [OF assms] show ?thesis
    by (simp add: h_ldelim_def ldelim_def Let_def)
next
  case False
  let ?w = "h_uint32 (int (w_len v)) (h_reset w)" and ?v = "write_uint32 (int (w_len v)) (writer_reset v)"
  have "writer_rel (?w\<lparr>hw_states := (hw_head w, hw_tail w, w_len v) # hw_states ?w\<rparr>)
      (?v\<lparr>w_states := (w_ops v, w_len v) # w_states ?v\<rparr>)"
    using rel_uint32 [OF rel_swap [OF assms], of "int (w_len v)"] rel_len [OF assms] by (simp add: uint32_states)
  from rel_splice [OF this False] False rel_len [OF assms] show ?thesis
    by (simp add: h_ldelim_def ldelim_def Let_def)
qed

lemma rel_call: "writer_rel w v \<Longrightarrow> writer_rel (heap_call c w) (list_call c v)"
  by (cases c) (simp_all add: rel_fork rel_reset rel_ldelim rel_uint32 rel_push Let_def
      h_int32_def write_int32_def h_sint32_def write_sint32_def h_uint64_def write_uint64_def h_sint64_def write_sint64_def
      h_bool_def write_bool_def h_fixed32_def write_fixed32_def h_fixed64_def write_fixed64_def h_float_def write_float_def
      h_double_def write_double_def h_bytes_def write_bytes_def h_string_def write_string_def)

lemma rel_finish:
  assumes "writer_rel w v"
  shows "\<exists>w'. h_finish le mem w = Some (fst (finish le mem v), w') \<and> writer_rel w' (snd (finish le mem v))"
proof -
  from assms obtain as ss where c: "chain (hw_heap w) as (hw_head w, hw_tail w, hw_len w) (w_ops v, w_len v)"
      "chains (hw_heap w) ss (hw_states w) (w_states v)" and d: "distinct (as @ concat ss)"
    by (auto simp: writer_rel_def)
  then have "linked (hw_heap w) as (w_ops v)" "distinct as" "hw_head w = hd as" by (auto simp: chain_def)
  from linked_run [OF this(1,2), of le mem 0] this(3) obtain h where
    h: "h_run le (nd_next (hw_heap w ! hw_head w)) (hw_heap w) mem 0 = Some (h, snd (run_ops le (w_ops v) mem 0))"
      "linked h as (fst (run_ops le (w_ops v) mem 0))" "length h = length (hw_heap w)"
      "\<forall>a. a \<notin> set (tl as) \<longrightarrow> h ! a = hw_heap w ! a" by auto
  have "map op_len (fst (run_ops le ps buf pos)) = map op_len ps" for ps buf pos
    by (induction ps arbitrary: buf pos) (auto simp: split_beta)
  then have "chain h as (hw_head w, hw_tail w, hw_len w) (fst (run_ops le (w_ops v) mem 0), w_len v)"
    using c(1) h(2) by (auto simp: chain_def)
  moreover have "chains h ss (hw_states w) (w_states v)"
  proof (rule chains_mono [OF c(2)])
    fix bs ps assume "bs \<in> set ss" and bs: "linked (hw_heap w) bs ps"
    then have "a \<notin> set (tl as)" if "a \<in> set bs" for a using d that by (cases as) auto
    then show "linked h bs ps" by (intro linked_cong [OF bs]) (use h linked_not_Nil [OF bs] in \<open>auto dest: list.set_sel(2)\<close>)
  qed
  ultimately show ?thesis using h(1) d
    by (intro exI [of _ "w\<lparr>hw_heap := h\<rparr>"]) (auto simp: h_finish_def finish_def writer_rel_def split_beta)
qed

section \<open>Sequences of calls\<close>

text \<open>What two writers share after any sequence of calls.\<close>

locale writer_simulation =
  fixes new :: 'w and call :: "call \<Rightarrow> 'w \<Rightarrow> 'w" and fin :: "bool \<Rightarrow> byte list \<Rightarrow> 'w \<Rightarrow> (byte list \<times> 'w) option"
    and rel :: "'w \<Rightarrow> writer \<Rightarrow> bool"
  assumes new: "rel new new_writer"
    and call: "rel w v \<Longrightarrow> rel (call c w) (list_call c v)"
    and fin: "rel w v \<Longrightarrow> \<exists>w'. fin le mem w = Some (fst (finish le mem v), w') \<and> rel w' (snd (finish le mem v))"
begin

lemma calls: "rel w v \<Longrightarrow> rel (fold call cs w) (fold list_call cs v)"
  by (induction cs arbitrary: w v) (simp_all add: call)

lemma calls_finish:
  "\<exists>w'. fin le mem (fold call cs new) = Some (fst (finish le mem (fold list_call cs new_writer)), w') \<and>
     rel w' (snd (finish le mem (fold list_call cs new_writer)))"
  using calls [OF new] by (rule fin)

end

interpretation heap_writer: writer_simulation h_new heap_call h_finish writer_rel
  using rel_new rel_call rel_finish by unfold_locales blast+

text \<open>
  C6: the linked operations implement the list of operations. After any sequence of calls of the methods, nested as
  they may be, following the pointers ends, and it fills the buffer exactly as the list model does; the writer that
  is left corresponds to the one the list model leaves, so this holds of later calls as well.
\<close>

theorem heap_writer_refines:
  "\<exists>w'. h_finish le mem (fold heap_call cs h_new) = Some (fst (finish le mem (fold list_call cs new_writer)), w') \<and>
     writer_rel w' (snd (finish le mem (fold list_call cs new_writer)))"
  by (rule heap_writer.calls_finish)

end
