(* ===== verification/Pb_Pool.thy ===== *)
theory Pb_Pool
  imports Pb_Bytes
begin

text \<open>
  The slab allocator \<^verbatim>\<open>pool\<close> that hands out the buffers of finished messages. The closure variables \<^verbatim>\<open>slab\<close> and \<^verbatim>\<open>offset\<close> are
  a record, with the slabs numbered in the order of their allocation; what it returns is a region, a part of a slab or
  an array of its own. The theorem shows that no two regions overlap, so that finishing a message never changes an
  earlier one.
\<close>

record pool_state =
  slab :: nat
  offset :: nat

datatype region = Fresh nat | Slab nat nat nat

definition new_pool :: "nat \<Rightarrow> pool_state" where
  "new_pool SIZE = \<lparr>slab = 0, offset = SIZE\<rparr>"

definition pool_alloc :: "nat \<Rightarrow> nat \<Rightarrow> pool_state \<Rightarrow> region \<times> pool_state" where
  "pool_alloc SIZE n st =
     (if n < 1 \<or> n > SIZE div 2 then (Fresh n, st)
      else let st = (if offset st + n > SIZE then \<lparr>slab = Suc (slab st), offset = 0\<rparr> else st);
               e = offset st + n;
               e' = (if e AND 7 \<noteq> 0 then (e OR 7) + 1 else e)
           in (Slab (slab st) (offset st) e, st\<lparr>offset := e'\<rparr>))"

fun pool_allocs :: "nat \<Rightarrow> nat list \<Rightarrow> pool_state \<Rightarrow> region list \<times> pool_state" where
  "pool_allocs SIZE [] st = ([], st)"
| "pool_allocs SIZE (n # ns) st =
     (let (r, st1) = pool_alloc SIZE n st; (rs, st2) = pool_allocs SIZE ns st1 in (r # rs, st2))"

section \<open>Regions\<close>

fun region_disjoint :: "region \<Rightarrow> region \<Rightarrow> bool" where
  "region_disjoint (Slab i a b) (Slab j c d) \<longleftrightarrow> i \<noteq> j \<or> b \<le> c \<or> d \<le> a"
| "region_disjoint _ _ \<longleftrightarrow> True"

fun region_ok :: "nat \<Rightarrow> nat \<Rightarrow> region \<Rightarrow> bool" where
  "region_ok SIZE n (Fresh m) \<longleftrightarrow> m = n"
| "region_ok SIZE n (Slab i a b) \<longleftrightarrow> b = a + n \<and> b \<le> SIZE \<and> a mod 8 = 0"

text \<open>The free part of a state: what the allocator may still hand out.\<close>

fun region_free :: "pool_state \<Rightarrow> region \<Rightarrow> bool" where
  "region_free st (Fresh n) \<longleftrightarrow> True"
| "region_free st (Slab i a b) \<longleftrightarrow> slab st < i \<or> slab st = i \<and> offset st \<le> a"

definition aligned :: "nat \<Rightarrow> pool_state \<Rightarrow> bool" where
  "aligned SIZE st \<longleftrightarrow> offset st mod 8 = 0 \<or> offset st \<ge> SIZE"

lemma round_up: "n \<le> (if n AND 7 \<noteq> 0 then (n OR 7) + 1 else n) \<and> (if n AND 7 \<noteq> 0 then (n OR 7) + 1 else n) mod 8 = 0"
  for n :: nat
proof -
  have "n AND 7 = n mod 8" using take_bit_eq_mask [of 3 n] by (simp add: mask_numeral take_bit_eq_mod)
  moreover have "n OR 7 = n div 8 * 8 + 7"
  proof (rule bit_eqI)
    fix k
    have "n div 8 * 8 + 7 = push_bit 3 (drop_bit 3 n) OR 7"
      by (subst or_push_bit_nat) (simp_all add: drop_bit_eq_div)
    moreover have "bit (7 :: nat) k \<longleftrightarrow> k < 3" using bit_mask_iff [of 3 k, where 'a = nat] by (simp add: mask_numeral)
    ultimately show "bit (n OR 7) k = bit (n div 8 * 8 + 7) k"
      by (auto simp: bit_or_iff bit_push_bit_iff bit_drop_bit_eq)
  qed
  moreover have "n = n div 8 * 8 + n mod 8" "n mod 8 < 8" by simp_all
  ultimately show ?thesis by (auto simp: mod_eq_0_iff_dvd) 
qed

lemma pool_alloc_step:
  assumes "pool_alloc SIZE n st = (r, st')" "aligned SIZE st"
  shows "region_ok SIZE n r \<and> region_free st r \<and> aligned SIZE st' \<and>
    (\<forall>q. region_free st' q \<longrightarrow> region_free st q \<and> region_disjoint r q)"
proof (cases "n < 1 \<or> n > SIZE div 2")
  case True
  then show ?thesis using assms by (auto simp: pool_alloc_def)
next
  case False
  define s where "s = (if offset st + n > SIZE then \<lparr>slab = Suc (slab st), offset = 0\<rparr> else st)"
  define e where "e = offset s + n"
  define e' where "e' = (if e AND 7 \<noteq> 0 then (e OR 7) + 1 else e)"
  have e': "e \<le> e'" "e' mod 8 = 0" using round_up [of e] by (simp_all add: e'_def)
  have eq: "r = Slab (slab s) (offset s) e" "st' = s\<lparr>offset := e'\<rparr>"
    using assms(1) by (simp_all only: pool_alloc_def Let_def False if_False s_def e_def e'_def prod.inject)
  have s: "offset s mod 8 = 0" "e \<le> SIZE" "slab st < slab s \<or> s = st"
    using assms(2) False by (auto simp: s_def e_def aligned_def)
  have "region_free st q \<and> region_disjoint r q" if "region_free st' q" for q
    using that s e' by (cases q) (auto simp: eq e_def)
  with s e' show ?thesis by (auto simp: eq e_def aligned_def)
qed

lemma pool_allocs_steps:
  "aligned SIZE st \<Longrightarrow> pool_allocs SIZE ns st = (rs, st') \<Longrightarrow>
   sorted_wrt region_disjoint rs \<and> list_all2 (region_ok SIZE) ns rs \<and> (\<forall>r\<in>set rs. region_free st r)"
proof (induction ns arbitrary: st rs)
  case (Cons n ns)
  obtain r st1 where a: "pool_alloc SIZE n st = (r, st1)" by fastforce
  obtain qs where qs: "pool_allocs SIZE ns st1 = (qs, st')" "rs = r # qs"
    using Cons.prems(2) a by (auto split: prod.splits)
  note step = pool_alloc_step [OF a Cons.prems(1)]
  from Cons.IH [OF _ qs(1)] step qs(2) show ?case by auto
qed simp

text \<open>
  C13: buffers do not overlap. Over any sequence of allocations from a new pool, every buffer has the requested size;
  one taken from a slab starts at a multiple of eight and ends within the slab; and no two buffers share a byte.
\<close>

theorem pool_disjoint:
  "case pool_allocs SIZE sizes (new_pool SIZE) of
     (rs, st) \<Rightarrow> list_all2 (region_ok SIZE) sizes rs \<and> sorted_wrt region_disjoint rs"
proof -
  have "aligned SIZE (new_pool SIZE)" by (simp add: aligned_def new_pool_def)
  then show ?thesis using pool_allocs_steps [of SIZE "new_pool SIZE" sizes] by (auto split: prod.splits)
qed

end
