(* ===== verification/Pb_Reader.thy ===== *)
theory Pb_Reader
  imports Pb_Writer
begin

text \<open>
  The class \<^verbatim>\<open>Reader\<close> of the codec. A reading routine takes a reader to its result, a value or an exception, and the
  reader afterwards: position and result both matter because the caller goes on from the position, also after an
  exception. Reading beyond the end of the buffer is no exception by itself, it yields \<^verbatim>\<open>undefined\<close>; which routine
  notices the end, and which does not, is part of the model. \<open>long\<close> says whether \<^verbatim>\<open>util.Long\<close> is present, that is, whether
  integers of 64 bits are returned as objects or as numbers.
\<close>

section \<open>State and exceptions\<close>

record reader =
  r_buf :: "byte list"
  r_pos :: nat
  r_len :: nat

datatype pb_error =
    IndexOutOfRange nat nat nat
  | InvalidVarint
  | InvalidWireType nat nat

type_synonym 'a reading = "reader \<Rightarrow> (pb_error + 'a) \<times> reader"

definition create_reader :: "byte list \<Rightarrow> reader" where
  "create_reader buffer = \<lparr>r_buf = buffer, r_pos = 0, r_len = length buffer\<rparr>"

definition bind_read :: "'a reading \<Rightarrow> ('a \<Rightarrow> 'b reading) \<Rightarrow> 'b reading" where
  "bind_read m f r = (case m r of (Inl e, r') \<Rightarrow> (Inl e, r') | (Inr x, r') \<Rightarrow> f x r')"

definition map_read :: "('a \<Rightarrow> 'b) \<Rightarrow> 'a reading \<Rightarrow> 'b reading" where
  "map_read f m r = (case m r of (Inl e, r') \<Rightarrow> (Inl e, r') | (Inr x, r') \<Rightarrow> (Inr (f x), r'))"

definition goto :: "nat \<Rightarrow> reader \<Rightarrow> reader" where
  "goto p r = r\<lparr>r_pos := p\<rparr>"

definition indexOutOfRange :: "nat \<Rightarrow> 'a reading" where
  "indexOutOfRange n r = (Inl (IndexOutOfRange (r_pos r) (if n = 0 then 1 else n) (r_len r)), r)"

section \<open>Variable-length integers\<close>

definition read_uint32 :: "u32 reading" where
  "read_uint32 r =
     (let b = r_buf r; p = r_pos r;
          v0 = byte_at b p AND 127;
          v1 = v0 OR push_bit 7 (byte_at b (p + 1) AND 127);
          v2 = v1 OR push_bit 14 (byte_at b (p + 2) AND 127);
          v3 = v2 OR push_bit 21 (byte_at b (p + 3) AND 127);
          v4 = v3 OR push_bit 28 (byte_at b (p + 4) AND 15)
      in if byte_below b p 128 then (Inr v0, goto (p + 1) r)
         else if byte_below b (p + 1) 128 then (Inr v1, goto (p + 2) r)
         else if byte_below b (p + 2) 128 then (Inr v2, goto (p + 3) r)
         else if byte_below b (p + 3) 128 then (Inr v3, goto (p + 4) r)
         else if byte_below b (p + 4) 128 then (Inr v4, goto (p + 5) r)
         else if p + 10 > r_len r then indexOutOfRange 10 (goto (r_len r) r)
         else (Inr v4, goto (p + 10) r))"

definition read_int32 :: "int reading" where
  "read_int32 = map_read sint read_uint32"

definition read_sint32 :: "int reading" where
  "read_sint32 = map_read (\<lambda>v. sint (drop_bit 1 v XOR - (v AND 1))) read_uint32"

definition read_bool :: "bool reading" where
  "read_bool = map_read (\<lambda>v. v \<noteq> 0) read_uint32"

text \<open>
  The loops of \<^verbatim>\<open>readLongVarint\<close>: each turn adds a byte to the bits and ends the routine when the byte is the last one.
  The left result is that of the routine, the right one is handed to the code behind the loop. \<open>check\<close> says whether
  the loop looks for the end of the buffer.
\<close>

definition lo_step :: "nat \<Rightarrow> u32 \<Rightarrow> long_bits \<Rightarrow> long_bits" where
  "lo_step i x b = b\<lparr>lo := lo b OR push_bit (i * 7) (x AND 127)\<rparr>"

definition mid_step :: "u32 \<Rightarrow> long_bits \<Rightarrow> long_bits" where
  "mid_step x b = b\<lparr>lo := lo b OR push_bit 28 (x AND 127), hi := hi b OR drop_bit 4 (x AND 127)\<rparr>"

definition hi_step :: "nat \<Rightarrow> u32 \<Rightarrow> long_bits \<Rightarrow> long_bits" where
  "hi_step i x b = b\<lparr>hi := hi b OR push_bit (i * 7 + 3) (x AND 127)\<rparr>"

fun long_loop :: "bool \<Rightarrow> (u32 \<Rightarrow> long_bits \<Rightarrow> long_bits) list \<Rightarrow> long_bits \<Rightarrow> reader \<Rightarrow>
    ((pb_error + long_bits) \<times> reader) + (long_bits \<times> reader)" where
  "long_loop check [] b r = Inr (b, r)"
| "long_loop check (f # fs) b r =
     (if check \<and> r_pos r \<ge> r_len r then Inl (indexOutOfRange 0 r)
      else let b' = f (byte_at (r_buf r) (r_pos r)) b; r' = goto (r_pos r + 1) r
           in if byte_below (r_buf r) (r_pos r) 128 then Inl (Inr b', r') else long_loop check fs b' r')"

definition readLongVarint :: "long_bits reading" where
  "readLongVarint r =
     (let b = LongBits 0 0
      in if r_len r > r_pos r + 4
         then case long_loop False [lo_step 0, lo_step 1, lo_step 2, lo_step 3, mid_step] b r of
                Inl res \<Rightarrow> res
              | Inr (b, r) \<Rightarrow>
                  (case long_loop (\<not> r_len r > r_pos r + 4) [hi_step 0, hi_step 1, hi_step 2, hi_step 3, hi_step 4] b r of
                     Inl res \<Rightarrow> res
                   | Inr (b, r) \<Rightarrow> (Inl InvalidVarint, r))
         else case long_loop True [lo_step 0, lo_step 1, lo_step 2] b r of
                Inl res \<Rightarrow> res
              | Inr (b, r) \<Rightarrow> (Inr (lo_step 3 (byte_at (r_buf r) (r_pos r)) b), goto (r_pos r + 1) r))"

text \<open>\<^verbatim>\<open>bits[fn](unsigned)\<close>, where \<^verbatim>\<open>fn\<close> is \<^verbatim>\<open>toLong\<close> or \<^verbatim>\<open>toNumber\<close>.\<close>

definition from_bits :: "bool \<Rightarrow> bool \<Rightarrow> long_bits \<Rightarrow> js_num64" where
  "from_bits long u b = (if long then Obj (toLong u b) else Num (toNumber u b))"

definition read_int64 :: "bool \<Rightarrow> js_num64 reading" where
  "read_int64 long = map_read (from_bits long False) readLongVarint"

definition read_uint64 :: "bool \<Rightarrow> js_num64 reading" where
  "read_uint64 long = map_read (from_bits long True) readLongVarint"

definition read_sint64 :: "bool \<Rightarrow> js_num64 reading" where
  "read_sint64 long = map_read (\<lambda>b. from_bits long False (zzDecode b)) readLongVarint"

section \<open>Fixed width\<close>

definition readFixed32_end :: "byte list \<Rightarrow> nat \<Rightarrow> u32" where
  "readFixed32_end buf e =
     byte_at buf (e - 4) OR push_bit 8 (byte_at buf (e - 3)) OR push_bit 16 (byte_at buf (e - 2)) OR
     push_bit 24 (byte_at buf (e - 1))"

definition read_fixed32 :: "u32 reading" where
  "read_fixed32 r =
     (if r_pos r + 4 > r_len r then indexOutOfRange 4 r
      else (Inr (readFixed32_end (r_buf r) (r_pos r + 4)), goto (r_pos r + 4) r))"

definition read_sfixed32 :: "int reading" where
  "read_sfixed32 r =
     (if r_pos r + 4 > r_len r then indexOutOfRange 4 r
      else (Inr (sint (readFixed32_end (r_buf r) (r_pos r + 4))), goto (r_pos r + 4) r))"

definition readFixed64 :: "long_bits reading" where
  "readFixed64 r =
     (if r_pos r + 8 > r_len r then indexOutOfRange 8 r
      else (Inr (LongBits (readFixed32_end (r_buf r) (r_pos r + 4)) (readFixed32_end (r_buf r) (r_pos r + 8))),
            goto (r_pos r + 8) r))"

definition read_fixed64 :: "bool \<Rightarrow> js_num64 reading" where
  "read_fixed64 long = map_read (from_bits long True) readFixed64"

definition read_sfixed64 :: "bool \<Rightarrow> js_num64 reading" where
  "read_sfixed64 long = map_read (from_bits long False) readFixed64"

text \<open>The typed array is filled byte by byte and read as a number; \<open>unview4\<close> is that reading.\<close>

definition unbytes4 :: "byte list \<Rightarrow> u32" where
  "unbytes4 bs = ucast (bs ! 0) OR push_bit 8 (ucast (bs ! 1)) OR push_bit 16 (ucast (bs ! 2)) OR push_bit 24 (ucast (bs ! 3))"

definition unbytes8 :: "byte list \<Rightarrow> u64" where
  "unbytes8 bs = ucast (unbytes4 bs) OR push_bit 32 (ucast (unbytes4 (drop 4 bs)))"

definition unview4 :: "bool \<Rightarrow> byte list \<Rightarrow> u32" where
  "unview4 le f8b = unbytes4 (if le then f8b else rev f8b)"

definition unview8 :: "bool \<Rightarrow> byte list \<Rightarrow> u64" where
  "unview8 le d8b = unbytes8 (if le then d8b else rev d8b)"

definition byte_of :: "byte list \<Rightarrow> nat \<Rightarrow> byte" where
  "byte_of buf i = ucast (byte_at buf i)"

definition readFloat_f32_cpy :: "bool \<Rightarrow> byte list \<Rightarrow> nat \<Rightarrow> u32" where
  "readFloat_f32_cpy le buf pos =
     unview4 le [byte_of buf pos, byte_of buf (pos + 1), byte_of buf (pos + 2), byte_of buf (pos + 3)]"

definition readFloat_f32_rev :: "bool \<Rightarrow> byte list \<Rightarrow> nat \<Rightarrow> u32" where
  "readFloat_f32_rev le buf pos =
     unview4 le [byte_of buf (pos + 3), byte_of buf (pos + 2), byte_of buf (pos + 1), byte_of buf pos]"

definition readFloatLE :: "bool \<Rightarrow> byte list \<Rightarrow> nat \<Rightarrow> u32" where
  "readFloatLE le = (if le then readFloat_f32_cpy le else readFloat_f32_rev le)"

definition readDouble_f64_cpy :: "bool \<Rightarrow> byte list \<Rightarrow> nat \<Rightarrow> u64" where
  "readDouble_f64_cpy le buf pos =
     unview8 le [byte_of buf pos, byte_of buf (pos + 1), byte_of buf (pos + 2), byte_of buf (pos + 3),
       byte_of buf (pos + 4), byte_of buf (pos + 5), byte_of buf (pos + 6), byte_of buf (pos + 7)]"

definition readDouble_f64_rev :: "bool \<Rightarrow> byte list \<Rightarrow> nat \<Rightarrow> u64" where
  "readDouble_f64_rev le buf pos =
     unview8 le [byte_of buf (pos + 7), byte_of buf (pos + 6), byte_of buf (pos + 5), byte_of buf (pos + 4),
       byte_of buf (pos + 3), byte_of buf (pos + 2), byte_of buf (pos + 1), byte_of buf pos]"

definition readDoubleLE :: "bool \<Rightarrow> byte list \<Rightarrow> nat \<Rightarrow> u64" where
  "readDoubleLE le = (if le then readDouble_f64_cpy le else readDouble_f64_rev le)"

definition read_float :: "bool \<Rightarrow> u32 reading" where
  "read_float le r =
     (if r_pos r + 4 > r_len r then indexOutOfRange 4 r
      else (Inr (readFloatLE le (r_buf r) (r_pos r)), goto (r_pos r + 4) r))"

definition read_double :: "bool \<Rightarrow> u64 reading" where
  "read_double le r =
     (if r_pos r + 8 > r_len r then indexOutOfRange 4 r
      else (Inr (readDoubleLE le (r_buf r) (r_pos r)), goto (r_pos r + 8) r))"

section \<open>Bytes, strings and skipping\<close>

definition read_bytes :: "byte list reading" where
  "read_bytes =
     bind_read read_uint32 (\<lambda>n r.
       let e = r_pos r + unat n
       in if e > r_len r then indexOutOfRange (unat n) r
          else (Inr (take (unat n) (drop (r_pos r) (r_buf r))), goto e r))"

definition read_string :: "js_string reading" where
  "read_string = map_read (\<lambda>bs. utf8_read bs 0 (length bs)) read_bytes"

definition skip_bytes :: "nat \<Rightarrow> unit reading" where
  "skip_bytes n r = (if r_pos r + n > r_len r then indexOutOfRange n r else (Inr (), goto (r_pos r + n) r))"

text \<open>The loop of \<^verbatim>\<open>skip()\<close> without argument; a byte beyond the buffer has no continuation bit.\<close>

function skip_varint :: "unit reading" where
  "skip_varint r =
     (if r_pos r \<ge> r_len r then indexOutOfRange 0 r
      else let r' = goto (r_pos r + 1) r
           in if byte_at (r_buf r) (r_pos r) AND 128 \<noteq> 0 then skip_varint r' else (Inr (), r'))"
  by pat_completeness auto
termination by (relation "measure (\<lambda>r. r_len r - r_pos r)") (auto simp: goto_def)

declare skip_varint.simps [simp del]

text \<open>
  \<^verbatim>\<open>skipType\<close> and the loop over the fields of a group call each other; \<open>None\<close> means that the fuel, which bounds the
  number of calls, was used up. \<open>skipType_returns\<close> shows that the number of remaining bytes is enough.
\<close>

fun skipType :: "nat \<Rightarrow> nat \<Rightarrow> reader \<Rightarrow> ((pb_error + unit) \<times> reader) option"
  and skip_group :: "nat \<Rightarrow> reader \<Rightarrow> ((pb_error + unit) \<times> reader) option" where
  "skipType 0 wireType r = None"
| "skipType (Suc fuel) wireType r =
     (if wireType = 0 then Some (skip_varint r)
      else if wireType = 1 then Some (skip_bytes 8 r)
      else if wireType = 2 then Some (bind_read read_uint32 (\<lambda>n. skip_bytes (unat n)) r)
      else if wireType = 3 then skip_group fuel r
      else if wireType = 5 then Some (skip_bytes 4 r)
      else Some (Inl (InvalidWireType wireType (r_pos r)), r))"
| "skip_group 0 r = None"
| "skip_group (Suc fuel) r =
     (case read_uint32 r of
        (Inl e, r') \<Rightarrow> Some (Inl e, r')
      | (Inr v, r') \<Rightarrow>
          (if unat (v AND 7) = 4 then Some (Inr (), r')
           else case skipType fuel (unat (v AND 7)) r' of
                  None \<Rightarrow> None
                | Some (Inl e, r'') \<Rightarrow> Some (Inl e, r'')
                | Some (Inr u, r'') \<Rightarrow> skip_group fuel r''))"

section \<open>What a routine reads\<close>

text \<open>\<open>reads m bs x\<close>: wherever the bytes \<open>bs\<close> stand, \<open>m\<close> returns \<open>x\<close> and leaves the reader right behind them.\<close>

declare push_bit_and [simp del] drop_bit_and [simp del]

definition reader_at :: "byte list \<Rightarrow> byte list \<Rightarrow> reader" where
  "reader_at pre rest = \<lparr>r_buf = pre @ rest, r_pos = length pre, r_len = length pre + length rest\<rparr>"

definition reads :: "'a reading \<Rightarrow> byte list \<Rightarrow> 'a \<Rightarrow> bool" where
  "reads m bs x \<longleftrightarrow> (\<forall>pre post. m (reader_at pre (bs @ post)) = (Inr x, reader_at (pre @ bs) post))"

lemma create_reader_at: "create_reader buf = reader_at [] buf"
  by (simp add: create_reader_def reader_at_def)

lemma reads_map: "reads m bs x \<Longrightarrow> reads (map_read f m) bs (f x)"
  by (simp add: reads_def map_read_def)

lemma reads_bind: "reads m as x \<Longrightarrow> reads (f x) bs y \<Longrightarrow> reads (bind_read m f) (as @ bs) y"
  by (simp add: reads_def bind_read_def)

lemma goto_reader_at: "goto (length pre + n) (reader_at pre (bs @ post)) = reader_at (pre @ bs) post" if "n = length bs"
  using that by (simp add: goto_def reader_at_def)

lemma u32_of_nat: "v = of_nat n \<longleftrightarrow> unat v = n mod 4294967296" for v :: u32
  by (simp add: word_unat_eq_iff unat_of_nat take_bit_eq_mod)

lemma varint_values:
  fixes x0 x1 x2 x3 x4 :: u32
  defines "v1 \<equiv> (x0 AND 127) OR push_bit 7 (x1 AND 127)"
  defines "v2 \<equiv> v1 OR push_bit 14 (x2 AND 127)"
  defines "v3 \<equiv> v2 OR push_bit 21 (x3 AND 127)"
  defines "v4 \<equiv> v3 OR push_bit 28 (x4 AND 15)"
  shows "unat v1 = unat x0 mod 128 + 128 * (unat x1 mod 128)"
    and "unat v2 = unat x0 mod 128 + 128 * (unat x1 mod 128) + 16384 * (unat x2 mod 128)"
    and "unat v3 = unat x0 mod 128 + 128 * (unat x1 mod 128) + 16384 * (unat x2 mod 128) + 2097152 * (unat x3 mod 128)"
    and "unat v4 = unat x0 mod 128 + 128 * (unat x1 mod 128) + 16384 * (unat x2 mod 128) + 2097152 * (unat x3 mod 128) +
      268435456 * (unat x4 mod 16)"
proof -
  have b: "unat x0 mod 128 < 128" "unat x1 mod 128 < 128" "unat x2 mod 128 < 128" "unat x3 mod 128 < 128" by simp_all
  show 1: "unat v1 = unat x0 mod 128 + 128 * (unat x1 mod 128)"
    unfolding v1_def by (subst unat_or_push_bit) simp_all
  have "unat v1 < 16384" using 1 b by linarith
  then show 2: "unat v2 = unat x0 mod 128 + 128 * (unat x1 mod 128) + 16384 * (unat x2 mod 128)"
    unfolding v2_def by (subst unat_or_push_bit) (simp_all add: 1)
  have "unat v2 < 2097152" using 2 b by linarith
  then show 3: "unat v3 = unat x0 mod 128 + 128 * (unat x1 mod 128) + 16384 * (unat x2 mod 128) + 2097152 * (unat x3 mod 128)"
    unfolding v3_def by (subst unat_or_push_bit) (simp_all add: 2)
  have "unat v3 < 268435456" using 3 b by linarith
  then show "unat v4 = unat x0 mod 128 + 128 * (unat x1 mod 128) + 16384 * (unat x2 mod 128) + 2097152 * (unat x3 mod 128) +
      268435456 * (unat x4 mod 16)"
    unfolding v4_def by (subst unat_or_push_bit) (simp_all add: 3)
qed

fun varint_form :: "byte list \<Rightarrow> bool" where
  "varint_form [] \<longleftrightarrow> False"
| "varint_form (b # bs) \<longleftrightarrow> (if bs = [] then unat b < 128 else \<not> unat b < 128 \<and> varint_form bs)"

lemma varint_form_leb128: "varint_form (leb128 n)"
proof (induction n rule: leb128.induct)
  case (1 n)
  then show ?case by (cases "n < 128") (simp_all add: leb128_small leb128_step)
qed

lemma byte_offsets:
  "byte_at (pre @ a # b # c # d # e # post) (length pre + 4) = ucast e"
  "byte_below (pre @ a # b # post) (length pre + 1) n \<longleftrightarrow> unat b < n"
  "byte_below (pre @ a # b # c # post) (length pre + 2) n \<longleftrightarrow> unat c < n"
  "byte_below (pre @ a # b # c # d # post) (length pre + 3) n \<longleftrightarrow> unat d < n"
  "byte_below (pre @ a # b # c # d # e # post) (length pre + 4) n \<longleftrightarrow> unat e < n"
  "byte_below (pre @ a # b # post) (Suc (length pre)) n \<longleftrightarrow> unat b < n"
  "byte_below (pre @ a # b # c # post) (Suc (Suc (length pre))) n \<longleftrightarrow> unat c < n"
  by (simp_all add: byte_at_def byte_below_def nth_append)

lemma mod_2_32: "(a + 268435456 * y) mod 4294967296 = a + 268435456 * (y mod 16)" if "a < 268435456" for a y :: nat
proof -
  have "a + 268435456 * y = (a + 268435456 * (y mod 16)) + 4294967296 * (y div 16)"
    using div_mult_mod_eq [of y 16] by linarith
  moreover have "a + 268435456 * (y mod 16) < 4294967296" using that mod_less_divisor [of 16 y] by linarith
  ultimately show ?thesis by (metis mod_mult_self2 mod_less)
qed

lemma leb128_value5: "leb128_value (b0 # b1 # b2 # b3 # bs) mod 4294967296 =
    unat b0 mod 128 + 128 * (unat b1 mod 128) + 16384 * (unat b2 mod 128) + 2097152 * (unat b3 mod 128) +
      268435456 * (leb128_value bs mod 16)"
proof -
  have "unat b0 mod 128 < 128" "unat b1 mod 128 < 128" "unat b2 mod 128 < 128" "unat b3 mod 128 < 128" by simp_all
  then have "unat b0 mod 128 + 128 * (unat b1 mod 128) + 16384 * (unat b2 mod 128) + 2097152 * (unat b3 mod 128) < 268435456"
    by linarith
  from mod_2_32 [OF this, of "leb128_value bs"] show ?thesis by (simp add: algebra_simps)
qed

lemma leb128_value_mod: "leb128_value (b # bs) mod 16 = unat b mod 16"
proof -
  have "leb128_value (b # bs) = unat b mod 128 + 16 * (8 * leb128_value bs)" by simp
  then have "leb128_value (b # bs) mod 16 = unat b mod 128 mod 16" by (metis mod_mult_self2)
  also have "\<dots> = unat b mod 16" by (rule mod_mod_cancel) simp
  finally show ?thesis .
qed

lemma read_uint32_bytes:
  fixes b0 b1 b2 b3 b4 :: byte
  shows "unat b0 < 128 \<Longrightarrow> reads read_uint32 [b0] (of_nat (leb128_value [b0]))"
  and "\<not> unat b0 < 128 \<Longrightarrow> unat b1 < 128 \<Longrightarrow> reads read_uint32 [b0, b1] (of_nat (leb128_value [b0, b1]))"
  and "\<not> unat b0 < 128 \<Longrightarrow> \<not> unat b1 < 128 \<Longrightarrow> unat b2 < 128 \<Longrightarrow>
    reads read_uint32 [b0, b1, b2] (of_nat (leb128_value [b0, b1, b2]))"
  and "\<not> unat b0 < 128 \<Longrightarrow> \<not> unat b1 < 128 \<Longrightarrow> \<not> unat b2 < 128 \<Longrightarrow> unat b3 < 128 \<Longrightarrow>
    reads read_uint32 [b0, b1, b2, b3] (of_nat (leb128_value [b0, b1, b2, b3]))"
  and "\<not> unat b0 < 128 \<Longrightarrow> \<not> unat b1 < 128 \<Longrightarrow> \<not> unat b2 < 128 \<Longrightarrow> \<not> unat b3 < 128 \<Longrightarrow>
    unat b4 < 128 \<and> bs = [] \<or> \<not> unat b4 < 128 \<and> length bs = 5 \<Longrightarrow>
    reads read_uint32 (b0 # b1 # b2 # b3 # b4 # bs) (of_nat (leb128_value (b0 # b1 # b2 # b3 # b4 # bs)))"
proof -
  let ?v0 = "ucast b0 AND 127 :: u32"
  let ?v1 = "?v0 OR push_bit 7 (ucast b1 AND 127)"
  let ?v2 = "?v1 OR push_bit 14 (ucast b2 AND 127)"
  let ?v3 = "?v2 OR push_bit 21 (ucast b3 AND 127)"
  let ?v4 = "?v3 OR push_bit 28 (ucast b4 AND 15)"
  have v: "?v0 = of_nat (leb128_value [b0])" "?v1 = of_nat (leb128_value [b0, b1])"
    "?v2 = of_nat (leb128_value [b0, b1, b2])"
    "?v3 = of_nat (leb128_value [b0, b1, b2, b3])"
    by (simp_all only: u32_of_nat leb128_value5 varint_values) simp_all
  have v4: "?v4 = of_nat (leb128_value (b0 # b1 # b2 # b3 # b4 # bs))" for bs
    by (simp only: u32_of_nat leb128_value5 leb128_value_mod varint_values) simp
  note read = reads_def read_uint32_def Let_def reader_at_def goto_def byte_offsets
  show "unat b0 < 128 \<Longrightarrow> reads read_uint32 [b0] (of_nat (leb128_value [b0]))"
    "\<not> unat b0 < 128 \<Longrightarrow> unat b1 < 128 \<Longrightarrow> reads read_uint32 [b0, b1] (of_nat (leb128_value [b0, b1]))"
    "\<not> unat b0 < 128 \<Longrightarrow> \<not> unat b1 < 128 \<Longrightarrow> unat b2 < 128 \<Longrightarrow>
      reads read_uint32 [b0, b1, b2] (of_nat (leb128_value [b0, b1, b2]))"
    "\<not> unat b0 < 128 \<Longrightarrow> \<not> unat b1 < 128 \<Longrightarrow> \<not> unat b2 < 128 \<Longrightarrow> unat b3 < 128 \<Longrightarrow>
      reads read_uint32 [b0, b1, b2, b3] (of_nat (leb128_value [b0, b1, b2, b3]))"
    "\<not> unat b0 < 128 \<Longrightarrow> \<not> unat b1 < 128 \<Longrightarrow> \<not> unat b2 < 128 \<Longrightarrow> \<not> unat b3 < 128 \<Longrightarrow>
      unat b4 < 128 \<and> bs = [] \<or> \<not> unat b4 < 128 \<and> length bs = 5 \<Longrightarrow>
      reads read_uint32 (b0 # b1 # b2 # b3 # b4 # bs) (of_nat (leb128_value (b0 # b1 # b2 # b3 # b4 # bs)))"
    by (auto simp: read simp del: leb128_value.simps simp flip: v v4)
qed


lemma reads_uint32_varint:
  assumes "varint_form bs" "length bs \<le> 5 \<or> length bs = 10"
  shows "reads read_uint32 bs (of_nat (leb128_value bs))"
proof -
  consider b0 where "bs = [b0]" | b0 b1 where "bs = [b0, b1]" | b0 b1 b2 where "bs = [b0, b1, b2]"
    | b0 b1 b2 b3 where "bs = [b0, b1, b2, b3]" | b0 b1 b2 b3 b4 cs where "bs = b0 # b1 # b2 # b3 # b4 # cs"
    using assms(1) by (metis neq_Nil_conv varint_form.simps(1))
  then show ?thesis
  proof cases
    case 5
    have "reads read_uint32 (b0 # b1 # b2 # b3 # b4 # cs) (of_nat (leb128_value (b0 # b1 # b2 # b3 # b4 # cs)))"
      using assms 5 by (intro read_uint32_bytes(5)) (auto split: if_splits)
    with 5 show ?thesis by simp
  qed (use assms read_uint32_bytes in auto)
qed

lemma reads_uint32: "reads read_uint32 (leb128 n) (of_nat n)"
  if "n < 4294967296 \<or> 9223372036854775808 \<le> n \<and> n < 18446744073709551616"
proof -
  have "length (leb128 n) \<le> 5 \<or> length (leb128 n) = 10" using that by (auto simp: leb128_lengths)
  with reads_uint32_varint [OF varint_form_leb128] show ?thesis by simp
qed

lemma reads_bytes: "length bs < 4294967296 \<Longrightarrow> reads read_bytes (leb128 (length bs) @ bs) bs"
  unfolding read_bytes_def
proof (rule reads_bind)
  assume b: "length bs < 4294967296"
  then show "reads read_uint32 (leb128 (length bs)) (of_nat (length bs))" by (simp add: reads_uint32)
  show "reads (\<lambda>r. let e = r_pos r + unat (of_nat (length bs) :: u32)
      in if e > r_len r then indexOutOfRange (unat (of_nat (length bs) :: u32)) r
         else (Inr (take (unat (of_nat (length bs) :: u32)) (drop (r_pos r) (r_buf r))), goto e r)) bs bs"
    using b by (simp add: reads_def reader_at_def goto_def)
qed

lemma reads_string:
  "utf8_length s < 4294967296 \<Longrightarrow> reads read_string (leb128 (utf8_length s) @ utf8_bytes s) s"
  using reads_map [OF reads_bytes [of "utf8_bytes s"], of "\<lambda>bs. utf8_read bs 0 (length bs)"] utf8_units_bytes [of "[]" s "[]"]
  by (simp add: read_string_def length_utf8_bytes utf8_read_eq)

lemma unbytes4_bytes4 [simp]: "unbytes4 (bytes4 v) = v"
proof (rule bit_word_eqI)
  fix n assume "n < LENGTH(32)"
  then consider "n < 8" | "8 \<le> n" "n < 16" | "16 \<le> n" "n < 24" | "24 \<le> n" "n < 32" by force
  then show "bit (unbytes4 (bytes4 v)) n = bit v n"
    by cases (auto simp: unbytes4_def bytes4_def bit_simps)
qed

lemma readFixed32_end_at: "readFixed32_end (pre @ bytes4 v @ post) (length pre + 4) = v"
proof -
  have "readFixed32_end (pre @ bytes4 v @ post) (length pre + 4) = unbytes4 (bytes4 v)"
    by (simp add: readFixed32_end_def unbytes4_def bytes4_def add.commute [of 3])
  then show ?thesis by simp
qed

lemma reads_fixed32: "reads read_fixed32 (bytes4 v) v"
  by (simp add: reads_def read_fixed32_def reader_at_def readFixed32_end_at goto_def)

lemma reads_sfixed32: "reads read_sfixed32 (bytes4 v) (sint v)"
  by (simp add: reads_def read_sfixed32_def reader_at_def readFixed32_end_at goto_def)

lemma reads_readFixed64: "reads readFixed64 (bytes4 (lo b) @ bytes4 (hi b)) b"
proof -
  have "LongBits (lo b) (hi b) = b" by (simp add: LongBits_def)
  moreover have "readFixed32_end (pre @ bytes4 (lo b) @ bytes4 (hi b) @ post) (length pre + 8) = hi b" for pre post
    using readFixed32_end_at [of "pre @ bytes4 (lo b)" "hi b" post] by (simp add: add.assoc)
  ultimately show ?thesis
    by (simp add: reads_def readFixed64_def reader_at_def readFixed32_end_at goto_def)
qed

lemma readFloatLE_at: "readFloatLE le (pre @ bytes4 v @ post) (length pre) = v"
proof -
  have "ucast (ucast x :: u32) = x" for x :: byte by (rule ucast_byteI) (simp add: unat_byte)
  then have "readFloatLE le (pre @ bytes4 v @ post) (length pre) = unbytes4 (bytes4 v)"
    by (simp add: readFloatLE_def readFloat_f32_cpy_def readFloat_f32_rev_def unview4_def byte_of_def bytes4_def)
  then show ?thesis by simp
qed

lemma unbytes8_bytes8 [simp]: "unbytes8 (bytes8 v) = v"
proof -
  have "unbytes4 (bytes8 v) = ucast v" 
    using unbytes4_bytes4 [of "ucast v"] by (simp add: bytes8_def unbytes4_def bytes4_def nth_append)
  then show ?thesis 
    by (intro bit_word_eqI) (auto simp: unbytes8_def bytes8_def bit_simps)
qed


lemma readDoubleLE_at: "readDoubleLE le (pre @ bytes8 v @ post) (length pre) = v"
proof -
  have "ucast (ucast x :: u32) = x" for x :: byte by (rule ucast_byteI) (simp add: unat_byte)
  then have b: "byte_of (pre @ bytes8 v @ post) (length pre + i) = bytes8 v ! i" if "i < 8" for i
    using that by (simp add: byte_of_def)
  have "bytes8 v = map ((!) (bytes8 v)) [0, 1, 2, 3, 4, 5, 6, 7]"
    by (simp add: bytes8_def bytes4_def)
  then have "readDoubleLE le (pre @ bytes8 v @ post) (length pre) = unbytes8 (bytes8 v)"
    using b [of 0] b [of 1] b [of 2] b [of 3] b [of 4] b [of 5] b [of 6] b [of 7]
    by (simp add: readDoubleLE_def readDouble_f64_cpy_def readDouble_f64_rev_def unview8_def)
  then show ?thesis by simp
qed

lemma reads_float: "reads (read_float le) (bytes4 v) v"
  by (simp add: reads_def read_float_def reader_at_def readFloatLE_at goto_def)

lemma reads_double: "reads (read_double le) (bytes8 v) v"
  by (simp add: reads_def read_double_def reader_at_def readDoubleLE_at goto_def)

section \<open>Long varints\<close>

text \<open>Every step of the loops adds seven bits at their place of the word of 64 bits.\<close>

definition adds_digit :: "(u32 \<Rightarrow> long_bits \<Rightarrow> long_bits) \<Rightarrow> nat \<Rightarrow> bool" where
  "adds_digit f k \<longleftrightarrow> (\<forall>x b. to64 (f x b) = to64 b OR push_bit (7 * k) (ucast (x AND 127)))"

lemma bit_and_127: "bit (x AND 127) n \<longleftrightarrow> bit x n \<and> n < 7" for x :: u32
proof -
  have "x AND 127 = take_bit 7 x" by (simp add: take_bit_eq_mask mask_numeral)
  then show ?thesis by (simp add: bit_take_bit_iff conj_commute)
qed

lemma adds_digit_lo: "i < 4 \<Longrightarrow> adds_digit (lo_step i) i"
  unfolding adds_digit_def lo_step_def
  by (intro allI bit_word_eqI) (auto simp: bit_to64 bit_or_iff bit_push_bit_iff bit_unsigned_iff bit_and_127 mult.commute)

lemma adds_digit_mid: "adds_digit mid_step 4"
  unfolding adds_digit_def mid_step_def
  by (intro allI bit_word_eqI) (auto simp: bit_to64 bit_or_iff bit_push_bit_iff bit_unsigned_iff bit_and_127 bit_drop_bit_eq)
lemma adds_digit_hi: "i < 5 \<Longrightarrow> adds_digit (hi_step i) (5 + i)"
  unfolding adds_digit_def hi_step_def
  by (intro allI bit_word_eqI) (auto simp: bit_to64 bit_or_iff bit_push_bit_iff bit_unsigned_iff bit_and_127 mult.commute [of i])


lemma of_nat_digits: "(of_nat (m + 128 ^ k * r) :: u64) = of_nat m OR push_bit (7 * k) (of_nat r)" if "m < 128 ^ k"
proof -
  have p: "(128 :: nat) ^ k = 2 ^ (7 * k)" "(128 :: u64) ^ k = 2 ^ (7 * k)" by (simp_all add: power_mult)
  have "take_bit (7 * k) m = m" using that by (simp add: take_bit_nat_eq_self p)
  then have "take_bit (7 * k) (of_nat m :: u64) = of_nat m" by (metis of_nat_take_bit)
  then have "of_nat m AND push_bit (7 * k) (of_nat r :: u64) = 0"
    by (intro bit_word_eqI) (metis bit_and_iff bit_push_bit_iff bit_take_bit_iff bit_0_eq bot_apply not_le bot_bool_def)
  then show ?thesis using disjunctive_add_eq_or [of "of_nat m" "push_bit (7 * k) (of_nat r) :: u64"]
    by (simp add: push_bit_eq_mult mult.commute p)
qed

lemma leb128_value_append: "leb128_value (xs @ ys) = leb128_value xs + 128 ^ length xs * leb128_value ys"
  by (induction xs) (simp_all add: algebra_simps)

lemma leb128_value_bound: "leb128_value xs < 128 ^ length xs"
proof (induction xs)
  case (Cons x xs)
  have "unat x mod 128 < 128" by simp
  with Cons show ?case by simp
qed simp

lemma of_nat_leb128_append:
  "(of_nat (leb128_value (xs @ ys)) :: u64) = of_nat (leb128_value xs) OR push_bit (7 * length xs) (of_nat (leb128_value ys))"
  unfolding leb128_value_append by (rule of_nat_digits [OF leb128_value_bound])

fun adds_digits :: "(u32 \<Rightarrow> long_bits \<Rightarrow> long_bits) list \<Rightarrow> nat \<Rightarrow> bool" where
  "adds_digits [] k = True"
| "adds_digits (f # fs) k = (adds_digit f k \<and> adds_digits fs (Suc k))"

lemma long_loop_reads:
  assumes "adds_digits fs k" "varint_form bs" "n = length fs"
  shows "\<exists>b'. to64 b' = to64 b OR push_bit (7 * k) (of_nat (leb128_value (take n bs))) \<and>
    long_loop check fs b (reader_at pre (bs @ post)) =
      (if length bs \<le> n then Inl (Inr b', reader_at (pre @ bs) post)
       else Inr (b', reader_at (pre @ take n bs) (drop n bs @ post)))"
  unfolding assms(3) using assms(1,2)
proof (induction fs arbitrary: k bs b pre)
  case Nil
  then show ?case by (cases bs) (auto intro: exI [of _ b])
next
  case (Cons f fs)
  obtain x cs where bs: "bs = x # cs" using Cons.prems(2) by (cases bs) auto
  let ?b = "f (ucast x) b"
  have rd: "\<not> r_len (reader_at pre (bs @ post)) \<le> r_pos (reader_at pre (bs @ post))"
    "byte_at (r_buf (reader_at pre (bs @ post))) (r_pos (reader_at pre (bs @ post))) = ucast x"
    "byte_below (r_buf (reader_at pre (bs @ post))) (r_pos (reader_at pre (bs @ post))) 128 \<longleftrightarrow> unat x < 128"
    "goto (r_pos (reader_at pre (bs @ post)) + 1) (reader_at pre (bs @ post)) = reader_at (pre @ [x]) (cs @ post)"
    by (simp_all add: reader_at_def bs goto_def)
  have "(ucast (ucast x AND 127 :: u32) :: u64) = of_nat (unat x mod 128)"
    by (simp add: word_unat_eq_iff unat_ucast_up unat_of_nat take_bit_nat_eq_self)
  then have b: "to64 ?b = to64 b OR push_bit (7 * k) (of_nat (unat x mod 128))"
    using Cons.prems(1) by (simp add: adds_digit_def)
  show ?case
  proof (cases "cs = []")
    case True
    then show ?thesis using Cons.prems(2) b rd bs
      by (intro exI [of _ ?b]) (simp add: Let_def)
  next
    case False
    then have cs: "varint_form cs" "\<not> unat x < 128" using Cons.prems(2) bs by simp_all
    from Cons.IH [OF _ cs(1), of "Suc k" ?b "pre @ [x]"] Cons.prems(1) obtain b' where
      b': "to64 b' = to64 ?b OR push_bit (7 * Suc k) (of_nat (leb128_value (take (length fs) cs)))"
      "long_loop check fs ?b (reader_at (pre @ [x]) (cs @ post)) =
        (if length cs \<le> length fs then Inl (Inr b', reader_at ((pre @ [x]) @ cs) post)
         else Inr (b', reader_at ((pre @ [x]) @ take (length fs) cs) (drop (length fs) cs @ post)))" by auto
    have "push_bit (7 * k) (of_nat (unat x mod 128)) OR push_bit (7 * Suc k) (of_nat r) =
        (push_bit (7 * k) (of_nat (unat x mod 128 + 128 * r)) :: u64)" for r
      using of_nat_digits [of "unat x mod 128" 1 r] by (simp add: add.commute push_bit_or)
    with b b' have "to64 b' = to64 b OR push_bit (7 * k) (of_nat (leb128_value (take (length (f # fs)) bs)))"
      by (simp add: bs or.assoc)
    with b' cs rd show ?thesis by (intro exI [of _ b']) (simp add: Let_def bs)
  qed
qed

lemma varint_form_drop: "varint_form bs \<Longrightarrow> n < length bs \<Longrightarrow> varint_form (drop n bs)"
proof (induction n arbitrary: bs)
  case (Suc n)
  then show ?case by (cases bs) (auto split: if_splits)
qed simp

lemma long_digits:
  "adds_digits [lo_step 0, lo_step 1, lo_step 2, lo_step 3, mid_step] 0"
  "adds_digits [lo_step 0, lo_step 1, lo_step 2] 0"
  "adds_digits [hi_step 0, hi_step 1, hi_step 2, hi_step 3, hi_step 4] 5"
  using adds_digit_lo [of 0] adds_digit_lo [of 1] adds_digit_lo [of 2] adds_digit_lo [of 3] adds_digit_mid
    adds_digit_hi [of 0] adds_digit_hi [of 1] adds_digit_hi [of 2] adds_digit_hi [of 3] adds_digit_hi [of 4]
  by (simp_all add: numeral_eq_Suc)

lemma readLongVarint_fast:
  assumes "varint_form bs" "length bs \<le> 10" "of_nat (leb128_value bs) = to64 b"
    and fast: "4 < length bs + length post"
  shows "readLongVarint (reader_at pre (bs @ post)) = (Inr b, reader_at (pre @ bs) post)"
proof -
  let ?b0 = "LongBits 0 0"
  have z: "to64 ?b0 = 0" by (simp add: to64_def)
  have r: "r_len (reader_at pre (bs @ post)) > r_pos (reader_at pre (bs @ post)) + 4"
    using fast by (simp add: reader_at_def)
  have "5 = length [lo_step 0, lo_step 1, lo_step 2, lo_step 3, mid_step]" by simp
  from long_loop_reads [OF long_digits(1) assms(1) this, of ?b0 False pre post] obtain b1 where
    b1: "to64 b1 = to64 ?b0 OR push_bit (7 * 0) (of_nat (leb128_value (take 5 bs)))"
    "long_loop False [lo_step 0, lo_step 1, lo_step 2, lo_step 3, mid_step] ?b0 (reader_at pre (bs @ post)) =
      (if length bs \<le> 5 then Inl (Inr b1, reader_at (pre @ bs) post)
       else Inr (b1, reader_at (pre @ take 5 bs) (drop 5 bs @ post)))"
    by blast
  show ?thesis
  proof (cases "length bs \<le> 5")
    case True
    then have "b1 = b" using b1(1) assms(3) by (simp add: z flip: to64_inject)
    with True b1(2) r show ?thesis by (simp add: readLongVarint_def del: long_loop.simps)
  next
    case False
    let ?r = "reader_at (pre @ take 5 bs) (drop 5 bs @ post)"
    have "varint_form (drop 5 bs)" using False assms(1) by (intro varint_form_drop) simp_all
    moreover have "5 = length [hi_step 0, hi_step 1, hi_step 2, hi_step 3, hi_step 4]" by simp
    ultimately obtain b2 where
      b2: "to64 b2 = to64 b1 OR push_bit (7 * 5) (of_nat (leb128_value (take 5 (drop 5 bs))))"
      "long_loop (\<not> r_len ?r > r_pos ?r + 4) [hi_step 0, hi_step 1, hi_step 2, hi_step 3, hi_step 4] b1 ?r =
        (if length (drop 5 bs) \<le> 5 then Inl (Inr b2, reader_at ((pre @ take 5 bs) @ drop 5 bs) post)
         else Inr (b2, reader_at ((pre @ take 5 bs) @ take 5 (drop 5 bs)) (drop 5 (drop 5 bs) @ post)))"
      using long_loop_reads [OF long_digits(3), of "drop 5 bs" 5 b1 "\<not> r_len ?r > r_pos ?r + 4" "pre @ take 5 bs" post]
      by blast
    have "to64 b2 = to64 b"
      using of_nat_leb128_append [of "take 5 bs" "drop 5 bs"] False b1(1) b2(1) assms(2,3) by (simp add: z)
    then have "b2 = b" by simp
    with False b1(2) b2(2) r assms(2) show ?thesis by (simp add: readLongVarint_def del: long_loop.simps)
  qed
qed

lemma readLongVarint_slow:
  assumes "varint_form bs" "of_nat (leb128_value bs) = to64 b" and slow: "length bs + length post \<le> 4"
  shows "readLongVarint (reader_at pre (bs @ post)) = (Inr b, reader_at (pre @ bs) post)"
proof -
  let ?b0 = "LongBits 0 0"
  have z: "to64 ?b0 = 0" by (simp add: to64_def)
  have r: "\<not> r_len (reader_at pre (bs @ post)) > r_pos (reader_at pre (bs @ post)) + 4"
    using slow by (simp add: reader_at_def)
  have "3 = length [lo_step 0, lo_step 1, lo_step 2]" by simp
  from long_loop_reads [OF long_digits(2) assms(1) this, of ?b0 True pre post] obtain b1 where
    b1: "to64 b1 = to64 ?b0 OR push_bit (7 * 0) (of_nat (leb128_value (take 3 bs)))"
    "long_loop True [lo_step 0, lo_step 1, lo_step 2] ?b0 (reader_at pre (bs @ post)) =
      (if length bs \<le> 3 then Inl (Inr b1, reader_at (pre @ bs) post)
       else Inr (b1, reader_at (pre @ take 3 bs) (drop 3 bs @ post)))"
    by blast
  show ?thesis
  proof (cases "length bs \<le> 3")
    case True
    then have "b1 = b" using b1(1) assms(2) by (simp add: z flip: to64_inject)
    with True b1(2) r show ?thesis by (simp add: readLongVarint_def del: long_loop.simps)
  next
    case False
    then have "length bs = 4" using slow by simp
    then obtain ys x where bs: "bs = ys @ [x]" and ys: "length ys = 3"
      by (cases bs rule: rev_cases) auto
    have "(ucast (ucast x AND 127 :: u32) :: u64) = of_nat (unat x mod 128)"
      by (simp add: word_unat_eq_iff unat_ucast_up unat_of_nat take_bit_nat_eq_self)
    then have "to64 (lo_step 3 (ucast x) b1) = to64 b1 OR push_bit 21 (of_nat (leb128_value [x]))"
      using adds_digit_lo [of 3] by (simp add: adds_digit_def)
    then have "to64 (lo_step 3 (ucast x) b1) = to64 b"
      using of_nat_leb128_append [of ys "[x]"] b1(1) assms(2) by (simp add: z bs ys)
    then have b: "lo_step 3 (ucast x) b1 = b" by simp
    let ?r = "reader_at (pre @ ys) ([x] @ post)"
    have "byte_at (r_buf ?r) (r_pos ?r) = ucast x"
      using byte_at_offsets(1) [of "pre @ ys" x post] by (simp add: reader_at_def)
    moreover have "goto (r_pos ?r + 1) ?r = reader_at (pre @ bs) post"
      by (simp add: reader_at_def goto_def bs)
    ultimately show ?thesis using b1(2) r b ys
      by (simp add: readLongVarint_def bs del: long_loop.simps)
  qed
qed

lemma reads_readLongVarint: "reads readLongVarint (leb128 (unat (to64 b))) b"
proof -
  have "unat (to64 b) < 18446744073709551616" by (rule unat_u64)
  then have "length (leb128 (unat (to64 b))) \<le> 10" by (simp add: leb128_lengths)
  with readLongVarint_fast [OF varint_form_leb128] readLongVarint_slow [OF varint_form_leb128] show ?thesis
    unfolding reads_def by (metis leb128_value_leb128 not_le of_nat_unat ucast_id)
qed

end
