(* ===== verification/Pb_Wire.thy ===== *)
theory Pb_Wire
  imports Pb_Reader
begin

text \<open>
  Writer and reader of the codec together. The locale \<open>wire_type\<close> is the contract between the writing and the reading
  routine of one type: an encoding which the one appends and the other reads back. It is interpreted for the scalar
  types; the client lemmas give round trips of single values and of repeated ones. Messages that mix types and nest
  are values of \<open>field\<close>; \<open>wire_roundtrip\<close> composes the contracts, the nesting by \<^verbatim>\<open>fork\<close> and \<^verbatim>\<open>ldelim\<close> and \<^verbatim>\<open>finish\<close>.
\<close>

section \<open>The contract of a type\<close>

locale wire_type =
  fixes wr :: "'v \<Rightarrow> writer \<Rightarrow> writer"
    and rd :: "'v reading"
    and enc :: "'v \<Rightarrow> byte list"
    and ok :: "'v \<Rightarrow> bool"
  assumes wr_appends: "ok v \<Longrightarrow> appends (wr v) (enc v)"
    and rd_reads: "ok v \<Longrightarrow> reads rd (enc v) v"
begin

fun rd_many :: "nat \<Rightarrow> 'v list reading" where
  "rd_many 0 r = (Inr [], r)"
| "rd_many (Suc n) r = bind_read rd (\<lambda>v. map_read ((#) v) (rd_many n)) r"

lemma rd_many_Suc: "rd_many (Suc n) = bind_read rd (\<lambda>v. map_read ((#) v) (rd_many n))"
  by (rule ext) simp

lemma appends_many: "list_all ok vs \<Longrightarrow> appends (fold wr vs) (concat (map enc vs))"
proof (induction vs)
  case (Cons v vs)
  then have "appends (\<lambda>w. fold wr vs (wr v w)) (enc v @ concat (map enc vs))"
    by (intro appends_comp) (simp_all add: wr_appends)
  then show ?case by (simp add: comp_def)
qed (simp add: appends_def)

lemma reads_many: "list_all ok vs \<Longrightarrow> reads (rd_many (length vs)) (concat (map enc vs)) vs"
proof (induction vs)
  case (Cons v vs)
  then have "reads (bind_read rd (\<lambda>v. map_read ((#) v) (rd_many (length vs)))) (enc v @ concat (map enc vs)) (v # vs)"
    by (intro reads_bind [of rd _ v] reads_map) (simp_all add: rd_reads)
  then show ?case by (simp add: rd_many_Suc del: rd_many.simps)
qed (simp add: reads_def)

end

section \<open>Scalar types\<close>

definition num64_ok :: "bool \<Rightarrow> bool \<Rightarrow> js_num64 \<Rightarrow> bool" where
  "num64_ok long u v =
     (case v of
        Num n \<Rightarrow> \<not> long \<and> (if u then 0 \<le> n else - (2 ^ 53) \<le> n) \<and> n \<le> 2 ^ 53
      | Obj l \<Rightarrow> long \<and> lng_unsigned l = u \<and> - (2 ^ 31) \<le> lng_low l \<and> lng_low l < 2 ^ 31 \<and>
          - (2 ^ 31) \<le> lng_high l \<and> lng_high l < 2 ^ 31)"

definition int32_ok :: "int \<Rightarrow> bool" where
  "int32_ok v \<longleftrightarrow> - (2 ^ 31) \<le> v \<and> v < 2 ^ 31"

definition uint32_ok :: "int \<Rightarrow> bool" where
  "uint32_ok v \<longleftrightarrow> 0 \<le> v \<and> v < 2 ^ 32"

lemma sint_word_of_int32: "int32_ok v \<Longrightarrow> sint (word_of_int v :: u32) = v"
  by (simp add: int32_ok_def signed_of_int signed_take_bit_int_eq_self)

lemma uint_word_of_int32: "uint32_ok v \<Longrightarrow> uint (word_of_int v :: u32) = v"
  by (simp add: uint32_ok_def uint_word_of_int)

lemma from_bits_LongBits_from: "num64_ok long u v \<Longrightarrow> from_bits long u (LongBits_from v) = v"
proof (cases v)
  case (Num n)
  assume "num64_ok long u v"
  moreover have "sint (word_of_int n :: u64) = n" if "- (2 ^ 53) \<le> n" "n \<le> 2 ^ 53"
    using that by (simp add: signed_of_int signed_take_bit_int_eq_self)
  moreover have "uint (word_of_int n :: u64) = n" if "0 \<le> n" "n \<le> 2 ^ 53"
    using that by (simp add: uint_word_of_int)
  ultimately show ?thesis
    by (auto simp: Num num64_ok_def from_bits_def LongBits_from_def toNumber_signed toNumber_unsigned to64_fromNumber
        split: if_splits)
next
  case (Obj l)
  assume "num64_ok long u v"
  then have "long" "lng_unsigned l = u" "int32_ok (lng_low l)" "int32_ok (lng_high l)"
    by (auto simp: Obj num64_ok_def int32_ok_def)
  then show ?thesis
    by (auto simp: Obj from_bits_def LongBits_from_def toLong_def sint_word_of_int32 zero_bits_def LongBits_def)
qed

interpretation w_uint32: wire_type write_uint32 "map_read uint read_uint32" "\<lambda>v. leb128 (unat (word_of_int v :: u32))" uint32_ok
proof
  fix v assume "uint32_ok v"
  show "appends (write_uint32 v) (leb128 (unat (word_of_int v :: u32)))" by (rule appends_uint32)
  have "reads read_uint32 (leb128 (unat (word_of_int v :: u32))) (word_of_int v)"
    using reads_uint32 [of "unat (word_of_int v :: u32)"] unat_u32 [of "word_of_int v"] by simp
  from reads_map [OF this, of uint] show "reads (map_read uint read_uint32) (leb128 (unat (word_of_int v :: u32))) v"
    by (simp only: uint_word_of_int32 [OF \<open>uint32_ok v\<close>])
qed


interpretation w_int32: wire_type write_int32 read_int32 "\<lambda>v. leb128 (unat (word_of_int v :: u64))" int32_ok
proof
  fix v assume ok: "int32_ok v"
  then show "appends (write_int32 v) (leb128 (unat (word_of_int v :: u64)))"
    by (intro appends_int32) (simp_all add: int32_ok_def)
  have u: "uint (word_of_int v :: u64) = (if v < 0 then v + 18446744073709551616 else v)"
    using ok mod_pos_pos_trivial [of "v + 18446744073709551616" 18446744073709551616]
    by (simp add: int32_ok_def uint_word_of_int)
  then have "unat (word_of_int v :: u64) < 4294967296 \<or>
      9223372036854775808 \<le> unat (word_of_int v :: u64) \<and> unat (word_of_int v :: u64) < 18446744073709551616"
    using ok by (auto simp: int32_ok_def unat_eq_nat_uint)
  from reads_uint32 [OF this] have "reads read_uint32 (leb128 (unat (word_of_int v :: u64))) (word_of_int v)"
  proof -
    assume "reads read_uint32 (leb128 (unat (word_of_int v :: u64))) (of_nat (unat (word_of_int v :: u64)))"
    moreover have "(of_nat (unat (word_of_int v :: u64)) :: u32) = word_of_int v"
      by (simp add: word_of_int_eq_iff take_bit_eq_mod mod_mod_cancel unat_eq_nat_uint uint_word_of_int del: of_nat_unat)
    ultimately show ?thesis by simp
  qed
  from reads_map [OF this, of sint] show "reads read_int32 (leb128 (unat (word_of_int v :: u64))) v"
    by (simp add: read_int32_def sint_word_of_int32 [OF ok])
qed

definition zigzag32 :: "u32 \<Rightarrow> u32" where
  "zigzag32 v = push_bit 1 v XOR signed_drop_bit 31 v"

lemma unzigzag32: "drop_bit 1 (zigzag32 v) XOR - (zigzag32 v AND 1) = v"
  for v :: u32
proof (rule bit_word_eqI)
  fix n assume n: "n < LENGTH(32)"
  define z where "z = zigzag32 v"
  have z: "bit z k \<longleftrightarrow> (0 < k \<and> bit v (k - 1)) \<noteq> bit v 31" if "k < 32" for k
    using that bit_word_sign [of k v] by (simp add: z_def zigzag32_def bit_xor_iff bit_word_double)
  have "\<not> bit z 32" using bit_imp_le_length [of z 32] by auto
  then have "bit (drop_bit 1 z XOR - (z AND 1)) n \<longleftrightarrow> (n < 31 \<and> bit z (Suc n)) \<noteq> bit z 0"
    using n by (cases "n = 31") (auto simp: bit_xor_iff bit_minus_lowest bit_drop_bit_eq simp del: bit_0)
  also have "\<dots> \<longleftrightarrow> bit v n" using n z [of 0] z [of "Suc n"] by (cases "n = 31") auto
  finally show "bit (drop_bit 1 (zigzag32 v) XOR - (zigzag32 v AND 1)) n = bit v n" by (simp only: z_def)
qed

interpretation w_sint32: wire_type write_sint32 read_sint32
  "\<lambda>v. leb128 (unat (zigzag32 (word_of_int v)))" int32_ok
proof
  fix v assume ok: "int32_ok v"
  let ?z = "zigzag32 (word_of_int v)"
  show "appends (write_sint32 v) (leb128 (unat ?z))"
    using appends_uint32 [of "uint ?z"] by (simp only: write_sint32_def [abs_def] Let_def word_of_int_uint zigzag32_def)
  have "reads read_uint32 (leb128 (unat ?z)) ?z"
    using reads_uint32 [of "unat ?z"] unat_u32 [of ?z] by (metis of_nat_unat ucast_id)
  from reads_map [OF this, of "\<lambda>v. sint (drop_bit 1 v XOR - (v AND 1))"]
  show "reads read_sint32 (leb128 (unat ?z)) v"
    by (simp only: read_sint32_def unzigzag32 sint_word_of_int32 [OF ok])
qed

interpretation w_bool: wire_type write_bool read_bool "\<lambda>v. [if v then 1 else 0]" "\<lambda>v. True"
proof
  fix v :: bool
  show "appends (write_bool v) [if v then 1 else 0]" by (rule appends_bool)
  have "reads read_uint32 (leb128 (if v then 1 else 0)) (of_nat (if v then 1 else 0))" by (rule reads_uint32) simp
  from reads_map [OF this, of "\<lambda>v. v \<noteq> 0"] show "reads read_bool [if v then 1 else 0] v"
    by (cases v) (simp_all add: read_bool_def leb128_small)
qed

interpretation w_uint64: wire_type write_uint64 "read_uint64 long"
  "\<lambda>v. leb128 (unat (to64 (LongBits_from v)))" "num64_ok long True" for long
proof
  fix v assume "num64_ok long True v"
  then show "reads (read_uint64 long) (leb128 (unat (to64 (LongBits_from v)))) v"
    using reads_map [OF reads_readLongVarint, of "from_bits long True" "LongBits_from v"]
    by (simp add: read_uint64_def from_bits_LongBits_from)
qed (rule appends_uint64)

interpretation w_int64: wire_type write_uint64 "read_int64 long"
  "\<lambda>v. leb128 (unat (to64 (LongBits_from v)))" "num64_ok long False" for long
proof
  fix v assume "num64_ok long False v"
  then show "reads (read_int64 long) (leb128 (unat (to64 (LongBits_from v)))) v"
    using reads_map [OF reads_readLongVarint, of "from_bits long False" "LongBits_from v"]
    by (simp add: read_int64_def from_bits_LongBits_from)
qed (rule appends_uint64)

interpretation w_sint64: wire_type write_sint64 "read_sint64 long"
  "\<lambda>v. leb128 (unat (to64 (zzEncode (LongBits_from v))))" "num64_ok long False" for long
proof
  fix v assume "num64_ok long False v"
  then show "reads (read_sint64 long) (leb128 (unat (to64 (zzEncode (LongBits_from v))))) v"
    using reads_map [OF reads_readLongVarint, of "\<lambda>b. from_bits long False (zzDecode b)" "zzEncode (LongBits_from v)"]
    by (simp add: read_sint64_def from_bits_LongBits_from)
qed (rule appends_sint64)

interpretation w_fixed32: wire_type write_fixed32 "map_read uint read_fixed32" "\<lambda>v. bytes4 (word_of_int v)" uint32_ok
proof
  fix v assume "uint32_ok v"
  then show "reads (map_read uint read_fixed32) (bytes4 (word_of_int v)) v"
    using reads_map [OF reads_fixed32, of uint "word_of_int v"] by (simp only: uint_word_of_int32)
qed (rule appends_fixed32)

interpretation w_sfixed32: wire_type write_fixed32 read_sfixed32 "\<lambda>v. bytes4 (word_of_int v)" int32_ok
proof
  fix v assume "int32_ok v"
  then show "reads read_sfixed32 (bytes4 (word_of_int v)) v"
    using reads_sfixed32 [of "word_of_int v"] by (simp only: sint_word_of_int32)
qed (rule appends_fixed32)

interpretation w_fixed64: wire_type write_fixed64 "read_fixed64 long"
  "\<lambda>v. bytes4 (lo (LongBits_from v)) @ bytes4 (hi (LongBits_from v))" "num64_ok long True" for long
proof
  fix v assume "num64_ok long True v"
  then show "reads (read_fixed64 long) (bytes4 (lo (LongBits_from v)) @ bytes4 (hi (LongBits_from v))) v"
    using reads_map [OF reads_readFixed64, of "from_bits long True" "LongBits_from v"]
    by (simp add: read_fixed64_def from_bits_LongBits_from)
qed (rule appends_fixed64)

interpretation w_sfixed64: wire_type write_fixed64 "read_sfixed64 long"
  "\<lambda>v. bytes4 (lo (LongBits_from v)) @ bytes4 (hi (LongBits_from v))" "num64_ok long False" for long
proof
  fix v assume "num64_ok long False v"
  then show "reads (read_sfixed64 long) (bytes4 (lo (LongBits_from v)) @ bytes4 (hi (LongBits_from v))) v"
    using reads_map [OF reads_readFixed64, of "from_bits long False" "LongBits_from v"]
    by (simp add: read_sfixed64_def from_bits_LongBits_from)
qed (rule appends_fixed64)

interpretation w_float: wire_type write_float "read_float le" bytes4 "\<lambda>v. True" for le
  by unfold_locales (rule appends_float, rule reads_float)

interpretation w_double: wire_type write_double "read_double le" bytes8 "\<lambda>v. True" for le
  by unfold_locales (rule appends_double, rule reads_double)

interpretation w_bytes: wire_type write_bytes read_bytes "\<lambda>v. leb128 (length v) @ v" "\<lambda>v. length v < 2 ^ 32"
  by unfold_locales (simp_all add: appends_bytes reads_bytes)

interpretation w_string: wire_type write_string read_string "\<lambda>v. leb128 (utf8_length v) @ utf8_bytes v"
  "\<lambda>v. utf8_length v < 2 ^ 32"
  by unfold_locales (simp_all add: appends_string reads_string)


section \<open>Messages\<close>

text \<open>A message is a list of values, written one after the other; messages nest.\<close>

datatype field =
    F_uint32 int | F_int32 int | F_sint32 int | F_bool bool
  | F_uint64 js_num64 | F_int64 js_num64 | F_sint64 js_num64
  | F_fixed32 int | F_sfixed32 int | F_fixed64 js_num64 | F_sfixed64 js_num64
  | F_float u32 | F_double u64 | F_bytes "byte list" | F_string js_string
  | F_message "field list"

datatype kind =
    K_uint32 | K_int32 | K_sint32 | K_bool | K_uint64 | K_int64 | K_sint64
  | K_fixed32 | K_sfixed32 | K_fixed64 | K_sfixed64 | K_float | K_double | K_bytes | K_string
  | K_message "kind list"

fun kind_of :: "field \<Rightarrow> kind" where
  "kind_of (F_uint32 _) = K_uint32" | "kind_of (F_int32 _) = K_int32" | "kind_of (F_sint32 _) = K_sint32"
| "kind_of (F_bool _) = K_bool" | "kind_of (F_uint64 _) = K_uint64" | "kind_of (F_int64 _) = K_int64"
| "kind_of (F_sint64 _) = K_sint64" | "kind_of (F_fixed32 _) = K_fixed32" | "kind_of (F_sfixed32 _) = K_sfixed32"
| "kind_of (F_fixed64 _) = K_fixed64" | "kind_of (F_sfixed64 _) = K_sfixed64" | "kind_of (F_float _) = K_float"
| "kind_of (F_double _) = K_double" | "kind_of (F_bytes _) = K_bytes" | "kind_of (F_string _) = K_string"
| "kind_of (F_message fs) = K_message (map kind_of fs)"

fun write_field :: "field \<Rightarrow> writer \<Rightarrow> writer" and write_fields :: "field list \<Rightarrow> writer \<Rightarrow> writer" where
  "write_field (F_uint32 v) w = write_uint32 v w"
| "write_field (F_int32 v) w = write_int32 v w"
| "write_field (F_sint32 v) w = write_sint32 v w"
| "write_field (F_bool v) w = write_bool v w"
| "write_field (F_uint64 v) w = write_uint64 v w"
| "write_field (F_int64 v) w = write_uint64 v w"
| "write_field (F_sint64 v) w = write_sint64 v w"
| "write_field (F_fixed32 v) w = write_fixed32 v w"
| "write_field (F_sfixed32 v) w = write_fixed32 v w"
| "write_field (F_fixed64 v) w = write_fixed64 v w"
| "write_field (F_sfixed64 v) w = write_fixed64 v w"
| "write_field (F_float v) w = write_float v w"
| "write_field (F_double v) w = write_double v w"
| "write_field (F_bytes v) w = write_bytes v w"
| "write_field (F_string v) w = write_string v w"
| "write_field (F_message fs) w = ldelim (write_fields fs (fork w))"
| "write_fields [] w = w"
| "write_fields (f # fs) w = write_fields fs (write_field f w)"

text \<open>A nested message ends where its length says; reading it must end there, too.\<close>

definition read_delimited :: "'a reading \<Rightarrow> 'a reading" where
  "read_delimited m = bind_read read_uint32 (\<lambda>n r.
     case m r of
       (Inl e, r') \<Rightarrow> (Inl e, r')
     | (Inr x, r') \<Rightarrow> if r_pos r' = r_pos r + unat n then (Inr x, r') else indexOutOfRange (unat n) r')"

fun read_kind :: "bool \<Rightarrow> bool \<Rightarrow> kind \<Rightarrow> field reading" and read_kinds :: "bool \<Rightarrow> bool \<Rightarrow> kind list \<Rightarrow> field list reading" where
  "read_kind long le K_uint32 r = map_read F_uint32 (map_read uint read_uint32) r"
| "read_kind long le K_int32 r = map_read F_int32 read_int32 r"
| "read_kind long le K_sint32 r = map_read F_sint32 read_sint32 r"
| "read_kind long le K_bool r = map_read F_bool read_bool r"
| "read_kind long le K_uint64 r = map_read F_uint64 (read_uint64 long) r"
| "read_kind long le K_int64 r = map_read F_int64 (read_int64 long) r"
| "read_kind long le K_sint64 r = map_read F_sint64 (read_sint64 long) r"
| "read_kind long le K_fixed32 r = map_read F_fixed32 (map_read uint read_fixed32) r"
| "read_kind long le K_sfixed32 r = map_read F_sfixed32 read_sfixed32 r"
| "read_kind long le K_fixed64 r = map_read F_fixed64 (read_fixed64 long) r"
| "read_kind long le K_sfixed64 r = map_read F_sfixed64 (read_sfixed64 long) r"
| "read_kind long le K_float r = map_read F_float (read_float le) r"
| "read_kind long le K_double r = map_read F_double (read_double le) r"
| "read_kind long le K_bytes r = map_read F_bytes read_bytes r"
| "read_kind long le K_string r = map_read F_string read_string r"
| "read_kind long le (K_message ks) r = map_read F_message (read_delimited (read_kinds long le ks)) r"
| "read_kinds long le [] r = (Inr [], r)"
| "read_kinds long le (k # ks) r = bind_read (read_kind long le k) (\<lambda>f. map_read ((#) f) (read_kinds long le ks)) r"

fun field_bytes :: "field \<Rightarrow> byte list" and fields_bytes :: "field list \<Rightarrow> byte list" where
  "field_bytes (F_uint32 v) = leb128 (unat (word_of_int v :: u32))"
| "field_bytes (F_int32 v) = leb128 (unat (word_of_int v :: u64))"
| "field_bytes (F_sint32 v) = leb128 (unat (zigzag32 (word_of_int v)))"
| "field_bytes (F_bool v) = [if v then 1 else 0]"
| "field_bytes (F_uint64 v) = leb128 (unat (to64 (LongBits_from v)))"
| "field_bytes (F_int64 v) = leb128 (unat (to64 (LongBits_from v)))"
| "field_bytes (F_sint64 v) = leb128 (unat (to64 (zzEncode (LongBits_from v))))"
| "field_bytes (F_fixed32 v) = bytes4 (word_of_int v)"
| "field_bytes (F_sfixed32 v) = bytes4 (word_of_int v)"
| "field_bytes (F_fixed64 v) = bytes4 (lo (LongBits_from v)) @ bytes4 (hi (LongBits_from v))"
| "field_bytes (F_sfixed64 v) = bytes4 (lo (LongBits_from v)) @ bytes4 (hi (LongBits_from v))"
| "field_bytes (F_float v) = bytes4 v"
| "field_bytes (F_double v) = bytes8 v"
| "field_bytes (F_bytes v) = leb128 (length v) @ v"
| "field_bytes (F_string v) = leb128 (utf8_length v) @ utf8_bytes v"
| "field_bytes (F_message fs) = leb128 (length (fields_bytes fs)) @ fields_bytes fs"
| "fields_bytes [] = []"
| "fields_bytes (f # fs) = field_bytes f @ fields_bytes fs"

fun field_ok :: "bool \<Rightarrow> field \<Rightarrow> bool" and fields_ok :: "bool \<Rightarrow> field list \<Rightarrow> bool" where
  "field_ok long (F_uint32 v) = uint32_ok v"
| "field_ok long (F_int32 v) = int32_ok v"
| "field_ok long (F_sint32 v) = int32_ok v"
| "field_ok long (F_bool v) = True"
| "field_ok long (F_uint64 v) = num64_ok long True v"
| "field_ok long (F_int64 v) = num64_ok long False v"
| "field_ok long (F_sint64 v) = num64_ok long False v"
| "field_ok long (F_fixed32 v) = uint32_ok v"
| "field_ok long (F_sfixed32 v) = int32_ok v"
| "field_ok long (F_fixed64 v) = num64_ok long True v"
| "field_ok long (F_sfixed64 v) = num64_ok long False v"
| "field_ok long (F_float v) = True"
| "field_ok long (F_double v) = True"
| "field_ok long (F_bytes v) = (length v < 2 ^ 32)"
| "field_ok long (F_string v) = (utf8_length v < 2 ^ 32)"
| "field_ok long (F_message fs) = (fields_ok long fs \<and> length (fields_bytes fs) < 2 ^ 32)"
| "fields_ok long [] = True"
| "fields_ok long (f # fs) = (field_ok long f \<and> fields_ok long fs)"

lemma reads_delimited: "reads m bs x \<Longrightarrow> length bs < 4294967296 \<Longrightarrow> reads (read_delimited m) (leb128 (length bs) @ bs) x"
  unfolding read_delimited_def
proof (rule reads_bind)
  assume m: "reads m bs x" and n: "length bs < 4294967296"
  then show "reads read_uint32 (leb128 (length bs)) (of_nat (length bs))" by (simp add: reads_uint32)
  have "r_pos (reader_at (pre @ bs) post) = r_pos (reader_at pre (bs @ post)) + length bs" for pre post
    by (simp add: reader_at_def)
  with m n show "reads (\<lambda>r. case m r of (Inl e, r') \<Rightarrow> (Inl e, r')
      | (Inr x, r') \<Rightarrow> if r_pos r' = r_pos r + unat (of_nat (length bs) :: u32) then (Inr x, r')
          else indexOutOfRange (unat (of_nat (length bs) :: u32)) r') bs x"
    by (simp add: reads_def)
qed

lemma write_field_eta [simp]:
  "write_field (F_uint32 a) = write_uint32 a" "write_field (F_int32 a) = write_int32 a"
  "write_field (F_sint32 a) = write_sint32 a" "write_field (F_bool b) = write_bool b"
  "write_field (F_uint64 c) = write_uint64 c" "write_field (F_int64 c) = write_uint64 c"
  "write_field (F_sint64 c) = write_sint64 c" "write_field (F_fixed32 a) = write_fixed32 a"
  "write_field (F_sfixed32 a) = write_fixed32 a" "write_field (F_fixed64 c) = write_fixed64 c"
  "write_field (F_sfixed64 c) = write_fixed64 c" "write_field (F_float d) = write_float d"
  "write_field (F_double e) = write_double e" "write_field (F_bytes x) = write_bytes x"
  "write_field (F_string y) = write_string y"
  "write_field (F_message fs) = (\<lambda>w. ldelim (write_fields fs (fork w)))"
  "write_fields (f # fs) = (\<lambda>w. write_fields fs (write_field f w))" "write_fields [] = (\<lambda>w. w)"
  by (simp_all add: fun_eq_iff)

lemma read_kind_eta [simp]:
  "read_kind long le K_uint32 = map_read F_uint32 (map_read uint read_uint32)"
  "read_kind long le K_int32 = map_read F_int32 read_int32"
  "read_kind long le K_sint32 = map_read F_sint32 read_sint32"
  "read_kind long le K_bool = map_read F_bool read_bool"
  "read_kind long le K_uint64 = map_read F_uint64 (read_uint64 long)"
  "read_kind long le K_int64 = map_read F_int64 (read_int64 long)"
  "read_kind long le K_sint64 = map_read F_sint64 (read_sint64 long)"
  "read_kind long le K_fixed32 = map_read F_fixed32 (map_read uint read_fixed32)"
  "read_kind long le K_sfixed32 = map_read F_sfixed32 read_sfixed32"
  "read_kind long le K_fixed64 = map_read F_fixed64 (read_fixed64 long)"
  "read_kind long le K_sfixed64 = map_read F_sfixed64 (read_sfixed64 long)"
  "read_kind long le K_float = map_read F_float (read_float le)"
  "read_kind long le K_double = map_read F_double (read_double le)"
  "read_kind long le K_bytes = map_read F_bytes read_bytes"
  "read_kind long le K_string = map_read F_string read_string"
  "read_kind long le (K_message ks) = map_read F_message (read_delimited (read_kinds long le ks))"
  "read_kinds long le (k # ks) = bind_read (read_kind long le k) (\<lambda>f. map_read ((#) f) (read_kinds long le ks))"
  by (simp_all add: fun_eq_iff)

lemmas scalar_appends = w_uint32.wr_appends w_int32.wr_appends w_sint32.wr_appends w_bool.wr_appends
  w_uint64.wr_appends w_int64.wr_appends w_sint64.wr_appends w_fixed32.wr_appends w_sfixed32.wr_appends
  w_fixed64.wr_appends w_sfixed64.wr_appends w_float.wr_appends w_double.wr_appends w_bytes.wr_appends
  w_string.wr_appends

lemmas scalar_reads = w_uint32.rd_reads w_int32.rd_reads w_sint32.rd_reads w_bool.rd_reads
  w_uint64.rd_reads w_int64.rd_reads w_sint64.rd_reads w_fixed32.rd_reads w_sfixed32.rd_reads
  w_fixed64.rd_reads w_sfixed64.rd_reads w_float.rd_reads w_double.rd_reads w_bytes.rd_reads w_string.rd_reads

lemma write_field_appends:
  "field_ok long f \<Longrightarrow> appends (write_field f) (field_bytes f)"
  "fields_ok long fs \<Longrightarrow> appends (write_fields fs) (fields_bytes fs)"
proof (induction f and fs rule: field_bytes_fields_bytes.induct)
  case (16 fs)
  then show ?case by (simp add: appends_ldelim)
next
  case 17
  then show ?case by (simp add: appends_def)
next
  case (18 f fs)
  then show ?case by (simp add: appends_comp)
qed (simp_all add: scalar_appends)

lemma read_kind_reads:
  "field_ok long f \<Longrightarrow> reads (read_kind long le (kind_of f)) (field_bytes f) f"
  "fields_ok long fs \<Longrightarrow> reads (read_kinds long le (map kind_of fs)) (fields_bytes fs) fs"
proof (induction f and fs rule: field_bytes_fields_bytes.induct)
  case (16 fs)
  then show ?case using reads_map [OF reads_delimited [of "read_kinds long le (map kind_of fs)" "fields_bytes fs" fs], of F_message]
    by simp
next
  case 17
  then show ?case by (simp add: reads_def)
next
  case (18 f fs)
  then have "reads (bind_read (read_kind long le (kind_of f)) (\<lambda>f. map_read ((#) f) (read_kinds long le (map kind_of fs))))
      (field_bytes f @ fields_bytes fs) (f # fs)"
    by (intro reads_bind [of _ _ f] reads_map) simp_all
  then show ?case by simp
qed (simp_all add: reads_map scalar_reads)

text \<open>
  C2: the wire format is read back. Let a message of any values within the ranges of their types, nested to any depth,
  be written with the operations of the writer, its nested messages between \<^verbatim>\<open>fork\<close> and \<^verbatim>\<open>ldelim\<close>, and finished into memory
  of any content. Then reading values of the same types from the buffer gives exactly the message, ends at the end of
  the buffer and throws nothing, whatever the byte orders of the two platforms are.
\<close>

theorem wire_roundtrip:
  assumes "fields_ok long fs" "w = write_fields fs new_writer" "length mem = w_len w" "buf = fst (finish le mem w)"
  shows "read_kinds long le' (map kind_of fs) (create_reader buf) =
    (Inr fs, \<lparr>r_buf = buf, r_pos = w_len w, r_len = w_len w\<rparr>)"
proof -
  have "writer_ok new_writer" "written new_writer = []"
    by (simp_all add: writer_ok_def ops_ok_def written_def new_writer_def)
  then have w: "writer_ok w" "written w = fields_bytes fs"
    using write_field_appends(2) [OF assms(1)] by (simp_all add: appends_def assms(2))
  then have buf: "buf = fields_bytes fs @ []" "w_len w = length (fields_bytes fs)"
    using finish_written [OF w(1) assms(3)] w_len_written [OF w(1)] by (simp_all add: assms(4))
  have "read_kinds long le' (map kind_of fs) (reader_at [] (fields_bytes fs @ [])) =
      (Inr fs, reader_at ([] @ fields_bytes fs) [])"
    using read_kind_reads(2) [OF assms(1)] by (simp only: reads_def)
  then show ?thesis using buf by (simp add: create_reader_at reader_at_def)
qed

definition sample_message :: "field list" where
  "sample_message =
     [F_uint32 10, F_string [72, 55357, 56960, 233], F_int32 (- 5), F_sint64 (Num (- 300)),
      F_message [F_fixed32 7, F_message [], F_bool True]]"

definition sample_wire :: "byte list" where
  "sample_wire =
     [10, 7, 72, 240, 159, 154, 128, 195, 169, 251, 255, 255, 255, 255, 255, 255, 255, 255, 1, 215, 4,
      6, 7, 0, 0, 0, 0, 1]"

theorem wire_roundtrip_witness:
  "fst (finish True (replicate 28 255) (write_fields sample_message new_writer)) = sample_wire \<and>
   read_kinds False False (map kind_of sample_message) (create_reader sample_wire) =
     (Inr sample_message, \<lparr>r_buf = sample_wire, r_pos = 28, r_len = 28\<rparr>)"
proof -
  have ok: "fields_ok False sample_message"
    by (simp add: sample_message_def uint32_ok_def int32_ok_def num64_ok_def is_high_def is_low_def next_low_def leb128_small)
  have len: "w_len (write_fields sample_message new_writer) = 28" by code_simp
  have wire: "sample_wire = fst (finish True (replicate 28 255) (write_fields sample_message new_writer))" by code_simp
  from wire_roundtrip [OF ok refl _ wire, of False] len wire show ?thesis by simp
qed

end
