(* ===== verification/Pb_Skip.thy ===== *)
theory Pb_Skip
  imports Pb_Wire
begin

text \<open>
  Skipping unknown fields, and the ends of the buffer. \<^verbatim>\<open>skipType\<close> passes over a value without decoding it, so it must
  find the same end as the routine that decodes it (\<open>skip_field\<close>); on arbitrary input it must return
  (\<open>skipType_returns\<close>), which needs that every routine that does not throw stays within the buffer (\<open>stays_within\<close>).
  The last section has the inputs on which the codec does not notice the end, or finds a wrong one.
\<close>

section \<open>Skipping what was written\<close>

fun wire_type_of :: "field \<Rightarrow> nat" where
  "wire_type_of (F_fixed64 _) = 1" | "wire_type_of (F_sfixed64 _) = 1" | "wire_type_of (F_double _) = 1"
| "wire_type_of (F_bytes _) = 2" | "wire_type_of (F_string _) = 2" | "wire_type_of (F_message _) = 2"
| "wire_type_of (F_fixed32 _) = 5" | "wire_type_of (F_sfixed32 _) = 5" | "wire_type_of (F_float _) = 5"
| "wire_type_of _ = 0"

lemma continuation_bit: "ucast b AND 128 = (0 :: u32) \<longleftrightarrow> unat b < 128" for b :: byte
proof -
  have "\<forall>n\<in>set [0..<256]. (of_nat n AND 128 = (0 :: u32)) = (n < 128)" by code_simp
  then have "(of_nat n AND 128 = (0 :: u32)) = (n < 128)" if "n < 256" for n using that by simp
  from this [OF unat_byte [of b]] show ?thesis by (metis ucast_eq_of_nat)
qed

lemma reads_skip_varint: "varint_form bs \<Longrightarrow> reads skip_varint bs ()"
proof (induction bs)
  case (Cons b bs)
  have step: "skip_varint (reader_at pre ((b # bs) @ post)) =
      (if unat b < 128 then (Inr (), reader_at (pre @ [b]) (bs @ post)) else skip_varint (reader_at (pre @ [b]) (bs @ post)))"
    for pre post
    by (subst skip_varint.simps) (simp add: reader_at_def Let_def goto_def continuation_bit)
  show ?case
  proof (cases "bs = []")
    case True
    then show ?thesis unfolding reads_def step using Cons.prems by simp
  next
    case False
    then have "reads skip_varint bs ()" using Cons by simp
    with False Cons.prems show ?thesis unfolding reads_def step by simp
  qed
qed simp

lemma reads_skip_bytes: "n = length bs \<Longrightarrow> reads (skip_bytes n) bs ()"
  by (simp add: reads_def skip_bytes_def reader_at_def goto_def)

lemma reads_skip_delimited:
  "length bs < 4294967296 \<Longrightarrow> reads (bind_read read_uint32 (\<lambda>n. skip_bytes (unat n))) (leb128 (length bs) @ bs) ()"
  by (rule reads_bind [of _ _ "of_nat (length bs)"]) (simp_all add: reads_uint32 reads_skip_bytes)

lemma skip_field_cases:
  assumes "field_ok long f"
  shows "wire_type_of f = 0 \<and> varint_form (field_bytes f) \<or> wire_type_of f = 1 \<and> length (field_bytes f) = 8 \<or>
    wire_type_of f = 5 \<and> length (field_bytes f) = 4 \<or>
    wire_type_of f = 2 \<and> (\<exists>bs. length bs < 4294967296 \<and> field_bytes f = leb128 (length bs) @ bs)"
  using assms
  by (cases f) (auto simp: varint_form_leb128 intro: exI [of _ "utf8_bytes _"] simp flip: length_utf8_bytes)

text \<open>
  C7: unknown fields are skipped exactly. For a value of any type the writer produces, \<^verbatim>\<open>skipType\<close> with the wire type of
  that value leaves the reader right behind it, where the next field begins.
\<close>

theorem skip_field:
  assumes "field_ok long f"
  shows "skipType (Suc fuel) (wire_type_of f) (reader_at pre (field_bytes f @ post)) =
    Some (Inr (), reader_at (pre @ field_bytes f) post)"
  using skip_field_cases [OF assms] reads_skip_varint [of "field_bytes f"] reads_skip_bytes [of _ "field_bytes f"]
    reads_skip_delimited
  by (auto simp: reads_def)

theorem skip_field_witness:
  "skipType 1 2 (reader_at [9] [3, 97, 98, 99, 7]) = Some (Inr (), reader_at [9, 3, 97, 98, 99] [7])"
  using skip_field [of False "F_bytes [97, 98, 99]" 0 "[9]" "[7]"] by (simp add: leb128_small)

section \<open>Skipping anything\<close>

definition inside :: "reader \<Rightarrow> bool" where
  "inside r \<longleftrightarrow> r_pos r \<le> r_len r \<and> r_len r = length (r_buf r)"

definition same_buf :: "reader \<Rightarrow> reader \<Rightarrow> bool" where
  "same_buf r r' \<longleftrightarrow> r_buf r' = r_buf r \<and> r_len r' = r_len r"

definition stays_within :: "nat \<Rightarrow> 'a reading \<Rightarrow> bool" where
  "stays_within n m \<longleftrightarrow> (\<forall>r x r'. inside r \<longrightarrow> m r = (Inr x, r') \<longrightarrow>
     inside r' \<and> same_buf r r' \<and> r_pos r + n \<le> r_pos r')"

lemma uint32_stays_within: "stays_within 1 read_uint32"
  unfolding stays_within_def inside_def same_buf_def
  by (auto simp: read_uint32_def Let_def byte_below_def goto_def indexOutOfRange_def split: if_splits)

lemma skip_bytes_stays_within: "stays_within 0 (skip_bytes n)"
  by (auto simp: stays_within_def inside_def same_buf_def skip_bytes_def goto_def indexOutOfRange_def split: if_splits)

lemma skip_varint_stays_within: "stays_within 0 skip_varint"
proof -
  have "inside r \<Longrightarrow> skip_varint r = (Inr x, r') \<Longrightarrow> inside r' \<and> same_buf r r' \<and> r_pos r \<le> r_pos r'" for r r' x
  proof (induction r rule: skip_varint.induct)
    case (1 r)
    show ?case
    proof (cases "r_pos r \<ge> r_len r")
      case True
      then show ?thesis using 1(3) by (subst (asm) skip_varint.simps) (simp add: indexOutOfRange_def)
    next
      case False
      define r1 where "r1 = goto (r_pos r + 1) r"
      have r1: "inside r1" "same_buf r r1" "r_pos r \<le> r_pos r1"
        using False 1(2) by (simp_all add: r1_def inside_def same_buf_def goto_def)
      have eq: "skip_varint r = (if byte_at (r_buf r) (r_pos r) AND 128 \<noteq> 0 then skip_varint r1 else (Inr (), r1))"
        using False by (subst skip_varint.simps) (simp add: r1_def)
      show ?thesis
      proof (cases "byte_at (r_buf r) (r_pos r) AND 128 \<noteq> 0")
        case True
        then have "inside r' \<and> same_buf r1 r' \<and> r_pos r1 \<le> r_pos r'"
          using 1(1) [OF False r1_def True r1(1)] 1(3) eq by simp
        with r1 show ?thesis by (auto simp: same_buf_def)
      next
        case False
        with eq 1(3) r1 show ?thesis by simp
      qed
    qed
  qed
  then show ?thesis by (auto simp: stays_within_def)
qed

lemma stays_withinD:
  "stays_within n m \<Longrightarrow> inside r \<Longrightarrow> m r = (Inr x, r') \<Longrightarrow> inside r' \<and> same_buf r r' \<and> r_pos r + n \<le> r_pos r'"
  unfolding stays_within_def by blast

lemma same_buf_trans: "same_buf r r' \<Longrightarrow> same_buf r' r'' \<Longrightarrow> same_buf r r''"
  by (simp add: same_buf_def)

lemma bind_stays_within:
  assumes "stays_within m f" "\<And>x. stays_within n (g x)"
  shows "stays_within (m + n) (bind_read f g)"
  unfolding stays_within_def
proof (intro allI impI)
  fix r y r'' assume r: "inside r" and eq: "bind_read f g r = (Inr y, r'')"
  then obtain x r' where f: "f r = (Inr x, r')" and g: "g x r' = (Inr y, r'')"
    by (auto simp: bind_read_def split: prod.splits sum.splits)
  note 1 = stays_withinD [OF assms(1) r f]
  note 2 = stays_withinD [OF assms(2) conjunct1 [OF 1] g]
  from 1 2 same_buf_trans show "inside r'' \<and> same_buf r r'' \<and> r_pos r + (m + n) \<le> r_pos r''"
    by (metis add.assoc add_le_mono1 le_trans)
qed

lemma skipType_stays_within:
  "inside r \<Longrightarrow> skipType fuel wt r = Some (Inr x, r') \<Longrightarrow> inside r' \<and> same_buf r r' \<and> r_pos r \<le> r_pos r'"
  "inside r \<Longrightarrow> skip_group fuel r = Some (Inr x, r') \<Longrightarrow> inside r' \<and> same_buf r r' \<and> r_pos r \<le> r_pos r'"
proof (induction fuel wt r and fuel r arbitrary: x r' and x r' rule: skipType_skip_group.induct)
  case (2 fuel wt r)
  note delim = stays_withinD [OF bind_stays_within [OF uint32_stays_within skip_bytes_stays_within]]
  from 2 show ?case
    using stays_withinD [OF skip_varint_stays_within, of r x r'] stays_withinD [OF skip_bytes_stays_within, of r _ x r']
      delim [of r unat x r']
    by (auto split: if_splits)
next
  case (4 fuel r)
  obtain res r1 where u: "read_uint32 r = (res, r1)" by fastforce
  show ?case
  proof (cases res)
    case (Inl e)
    with 4 u show ?thesis by simp
  next
    case (Inr v)
    note r1 = stays_withinD [OF uint32_stays_within 4(3) u [unfolded Inr]]
    show ?thesis
    proof (cases "unat (v AND 7) = 4")
      case True
      with 4(4) u Inr r1 show ?thesis by simp
    next
      case False
      with 4(4) u Inr obtain y r2 where
        t: "skipType fuel (unat (v AND 7)) r1 = Some (Inr y, r2)" and g: "skip_group fuel r2 = Some (Inr x, r')"
        by (auto split: option.splits sum.splits prod.splits)
      from 4(1) [OF u [symmetric] _ False _ t] r1 have r2: "inside r2 \<and> same_buf r1 r2 \<and> r_pos r1 \<le> r_pos r2"
        by (simp add: Inr)
      from 4(2) [OF u [symmetric] _ False t _ _ _ g] r2 have "inside r' \<and> same_buf r2 r' \<and> r_pos r2 \<le> r_pos r'"
        by (simp add: Inr)
      with r1 r2 same_buf_trans show ?thesis by (metis add_leE le_trans)
    qed
  qed
qed simp_all

lemma skipType_enough:
  "inside r \<Longrightarrow> 2 * (r_len r - r_pos r) + 1 < fuel \<Longrightarrow> skipType fuel wt r \<noteq> None"
  "inside r \<Longrightarrow> 2 * (r_len r - r_pos r) < fuel \<Longrightarrow> skip_group fuel r \<noteq> None"
proof (induction fuel wt r and fuel r rule: skipType_skip_group.induct)
  case (4 fuel r)
  obtain res r1 where u: "read_uint32 r = (res, r1)" by fastforce
  show ?case
  proof (cases res)
    case (Inr v)
    note r1 = stays_withinD [OF uint32_stays_within 4(3) u [unfolded Inr]]
    then have m1: "2 * (r_len r1 - r_pos r1) + 1 < fuel" using 4(3,4) by (auto simp: inside_def same_buf_def)
    show ?thesis
    proof (cases "unat (v AND 7) = 4")
      case False
      with 4(1) [OF u [symmetric] Inr False conjunct1 [OF r1] m1]
      obtain res2 r2 where t: "skipType fuel (unat (v AND 7)) r1 = Some (res2, r2)" by auto
      show ?thesis
      proof (cases res2)
        case (Inr y)
        note r2 = skipType_stays_within(1) [OF conjunct1 [OF r1] t [unfolded Inr]]
        then have "2 * (r_len r2 - r_pos r2) < fuel" using m1 by (auto simp: inside_def same_buf_def)
        with 4(2) [OF u [symmetric] \<open>res = Inr v\<close> False t refl Inr] r2 have "skip_group fuel r2 \<noteq> None" by simp
        with u t Inr \<open>res = Inr v\<close> False show ?thesis by simp
      qed (use u t \<open>res = Inr v\<close> False in simp)
    qed (use u Inr in simp)
  qed (use u in simp)
qed simp_all



section \<open>Ends that are not noticed\<close>

text \<open>
  A varint of 64 bits that is cut off after three bytes at the end of the buffer is returned as if it were complete,
  and the position is then behind the end.
\<close>

lemma truncated_long_accepted:
  assumes "\<not> unat a < 128" "\<not> unat b < 128" "\<not> unat c < 128"
  shows "\<exists>bits r'. readLongVarint (reader_at pre [a, b, c]) = (Inr bits, r') \<and> r_pos r' = r_len r' + 1"
  using assms
  by (simp add: readLongVarint_def reader_at_def goto_def byte_offsets byte_below_nth Let_def)

text \<open>
  A varint of six to nine bytes, which is legal for a field of 32 bits, moves the reader by ten bytes instead.
\<close>

lemma varint_form_nth: "varint_form bs \<Longrightarrow> Suc i < length bs \<Longrightarrow> \<not> unat (bs ! i) < 128"
proof (induction i arbitrary: bs)
  case 0
  then show ?case by (cases bs) (auto split: if_splits)
next
  case (Suc i)
  then show ?case by (cases bs) (auto split: if_splits)
qed

lemma long_varint_overshoots:
  assumes "varint_form bs" "5 < length bs" "10 \<le> length bs + length post"
  shows "\<exists>v. read_uint32 (reader_at pre (bs @ post)) = (Inr v, goto (length pre + 10) (reader_at pre (bs @ post)))"
proof -
  have "\<not> unat (bs ! i) < 128" if "i < 5" for i using varint_form_nth [OF assms(1)] assms(2) that by simp
  then have "\<not> byte_below (pre @ bs @ post) (length pre + i) 128" if "i < 5" for i
    using that assms(2) by (simp add: byte_below_def nth_append)
  from this [of 0] this [of 1] this [of 2] this [of 3] this [of 4] show ?thesis using assms(3)
    by (simp add: read_uint32_def reader_at_def Let_def goto_def)
qed

text \<open>
  \<^verbatim>\<open>writeVarint64\<close> consumes the bits of its operation: a second \<^verbatim>\<open>finish\<close> of the same writer gives other bytes than the
  first one. Here the number 300 becomes 2, followed by what was in the memory before.
\<close>

lemma finish_twice_differs:
  "let w = write_uint64 (Num 300) new_writer; (buf, w') = finish True [0, 0] w
   in buf = [172, 2] \<and> fst (finish True [0, 99] w') = [2, 99]"
  by code_simp

end
