(* ===== verification/Spec2Isabelle.thy ===== *)
theory Spec2Isabelle
  imports Eth_Ledger Eth_Listings Eth_Store Eth_Tokens Poly_Batch Poly_Listings Poly_Loading Poly_Multicall
    Poly_Progress Poly_Rarity Poly_Snapshot Poly_Trades Squid_Head Squid_Indices Pb_Events Pb_Heap Pb_Pool Pb_Skip
begin

text \<open>
  A verification of two programs of the repository: the marketplace indexer under \<^verbatim>\<open>src/contracts/squid/src\<close> and
  the wire codec of the scene runtime, \<^verbatim>\<open>index.js\<close> under
  \<^verbatim>\<open>src/crates/dcl-one-sdk/experiments/protobufjs-minimal-replacement\<close>. They do not call each other; the theories
  of the codec have names that begin with \<open>Pb_\<close> and share the prelude with the others.

  \<^bold>\<open>The indexer.\<close> Two processors, one for Ethereum (\<^verbatim>\<open>eth/\<close>) and one for Polygon (\<^verbatim>\<open>polygon/\<close>), read the
  blocks of their chain in batches and keep the tables of a marketplace: tokens (NFT), orders, bids,
  sales, accounts, collections, items, counters and daily analytics. A batch has four stages: the logs
  are scanned, which fills queues of decoded events and sets of ids; the rows with these ids are
  loaded; the handlers take the events of the queues in order and change the rows in memory; and the
  rows are written back. Shared code is in \<^verbatim>\<open>common/\<close>, the entities are in \<^verbatim>\<open>model/generated\<close>.

  \<^bold>\<open>Modelling.\<close> \<open>Squid_Prelude\<close> says how JavaScript is read: exceptions are values of \<open>js_error + 'a\<close>, a
  \<^verbatim>\<open>Map\<close> is an association list in insertion order, \<^verbatim>\<open>undefined\<close> and \<^verbatim>\<open>null\<close> are \<open>None\<close>, \<^verbatim>\<open>bigint\<close> and whole
  numbers are \<open>int\<close>, division of \<^verbatim>\<open>bigint\<close> truncates. An entity is a record with one field per column;
  a handler that mutates the maps of the batch is a function from state to state, in the result type
  where it can throw. Everything outside the sources is a parameter: reads of contracts (\<open>eth_rpc\<close>,
  \<open>poly_rpc\<close>), the database (\<open>eth_db\<close>, \<open>poly_db\<close>), failing queries (\<open>index_faults\<close>, \<open>head_faults\<close>), the
  environment variables and catalogue tables (\<open>env\<close>), and whether a message can be published. Decoded
  events are the input: the generated decoders are not modelled. All recursion of the indexer is structural or
  has a measure, so no fuel is used; its unbounded loops are loops over the events of a batch.

  \<^bold>\<open>Shared components.\<close>
  \<^item> \<open>Squid_Prelude\<close>, \<open>Squid_Strings\<close>: maps, sets, exceptions, string functions. The locales \<open>map_interface\<close>
    and \<open>batch\<close> are the contracts of a \<^verbatim>\<open>Map\<close> and of an event loop that keeps an invariant.
  \<^item> \<open>Squid_Model\<close>, \<open>Squid_Model2\<close>: the entities of \<^verbatim>\<open>model/generated\<close>.
  \<^item> \<open>Squid_Addresses\<close>, \<open>Squid_Config\<close>: contract addresses, \<^verbatim>\<open>config.ts\<close>, keys (\<^verbatim>\<open>common/utils/{addresses,
    category,catalyst,network}.ts\<close>). Keys of tokens are unambiguous.
  \<^item> \<open>Squid_Data\<close>: \<^verbatim>\<open>common/utils/{utils,data}.ts\<close>, the parser of land metadata and the normalisation of
    expiry dates, with a round trip and the ranges.
  \<^item> \<open>Squid_Counts\<close>: \<^verbatim>\<open>common/modules/{account,count,analytics}.ts\<close>.
  \<^item> \<open>Squid_Trades\<close>: \<^verbatim>\<open>common/utils/marketplaceV3.ts\<close>, the classification of trades.
  \<^item> \<open>Squid_Orders\<close>: \<^verbatim>\<open>common/utils/nft.ts\<close> and the invariant \<open>order_book\<close>.
  \<^item> \<open>Squid_Metadata\<close>: item metadata (\<^verbatim>\<open>polygon/modules/metadata\<close>), with a round trip.
  \<^item> \<open>Squid_Sales\<close>, \<open>Squid_Ledger\<close>, \<open>Squid_Market\<close>: what the sale and market handlers of both processors share,
    and the abstract books every sale is entered in.
  \<^item> \<open>Squid_Simulation\<close>, \<open>Squid_Listings\<close>: refinement and progress of event loops as locales that extend
    \<open>batch\<close>, and the abstract marketplace, a labelled transition relation on listings.
  \<^item> \<open>Squid_Indices\<close>: \<^verbatim>\<open>common/utils/indexManager.ts\<close> and the bulk index mode of both \<^verbatim>\<open>main.ts\<close>: the mode is
    a state machine over batches, restarts and failing queries.
  \<^item> \<open>Squid_Head\<close>: \<^verbatim>\<open>common/utils/head-notification.ts\<close>, announced at most once over restarts.

  \<^bold>\<open>Ethereum.\<close>
  \<^item> \<open>Eth_Land\<close>, \<open>Eth_Wearable\<close>: \<^verbatim>\<open>eth/modules/{land,wearable,ens}.ts\<close>, \<^verbatim>\<open>eth/LANDs/utils.ts\<close>; token ids pack
    signed coordinates, token URIs carry wearable and issue.
  \<^item> \<open>Eth_State\<close>, \<open>Eth_Marketplace\<close>, \<open>Eth_Bid\<close>, \<open>Eth_Estate\<close>, \<open>Eth_Nft\<close>: the state of a batch and the handlers of
    \<^verbatim>\<open>eth/handlers\<close>, \<^verbatim>\<open>eth/modules/analytics.ts\<close>.
  \<^item> \<open>Eth_Main\<close>, \<open>Eth_Store\<close>: the stages of \<^verbatim>\<open>eth/main.ts\<close>, \<^verbatim>\<open>eth/state.ts\<close> and the queries of \<^verbatim>\<open>eth/store.ts\<close>.
    What the market handlers look up has been asked for by the scan and is loaded.
  \<^item> \<open>Eth_Book\<close>: every event keeps the order book; \<open>Eth_Ledger\<close>: every sale is booked once;
    \<open>Eth_Listings\<close>: the processor refines the abstract marketplace; \<open>Eth_Tokens\<close>: effects of single events.

  \<^bold>\<open>Polygon.\<close>
  \<^item> \<open>Poly_State\<close>, \<open>Poly_Rarity\<close>, \<open>Poly_Analytics\<close>, \<open>Poly_Issue\<close>, \<open>Poly_Nft\<close>, \<open>Poly_Collection\<close>, \<open>Poly_Market\<close>: state,
    contract data and handlers (\<^verbatim>\<open>polygon/{state,types}.ts\<close>, \<^verbatim>\<open>polygon/modules\<close>, \<^verbatim>\<open>polygon/handlers\<close>,
    \<^verbatim>\<open>polygon/utils/issueLog.ts\<close>). The split of a price neither creates nor loses money, trades consume
    the logs of issued items in order, the two rarity contracts stay apart.
  \<^item> \<open>Poly_Scan\<close>, \<open>Poly_Main\<close>: the stages of \<^verbatim>\<open>polygon/main.ts\<close>, \<^verbatim>\<open>polygon/store.ts\<close> and
    \<^verbatim>\<open>polygon/utils/collectionMulticall.ts\<close>.
  \<^item> \<open>Poly_Snapshot\<close>: the snapshot of the rarities that is shared between events is equivalent to a copy per
    log. \<open>Poly_Multicall\<close>: every collection gets its own results. \<open>Poly_Loading\<close>: what is loaded and what
    is not. \<open>Poly_Batch\<close>: tokens are written in two passes, gifts are announced once.
  \<^item> \<open>Poly_Book\<close>, \<open>Poly_Ledger\<close>, \<open>Poly_Listings\<close>: order book, books and refinement, as on Ethereum.
    \<open>Poly_Items\<close>: supply and collectors of items. \<open>Poly_Progress\<close>: no event stops the processor.
    \<open>Poly_Trades\<close>: the terms of items that are minted by a trade.

  \<^bold>\<open>The wire codec.\<close> Every message between a scene and its host is encoded by a \<^verbatim>\<open>Writer\<close> and decoded by a \<^verbatim>\<open>Reader\<close>.
  The writer collects operations and their total length, nests messages with \<^verbatim>\<open>fork\<close> and \<^verbatim>\<open>ldelim\<close>, and fills a buffer
  from a slab pool when it is finished; the reader takes values from a buffer and skips fields it does not know.
  \<^item> \<open>Pb_Bytes\<close>: bytes and words, typed arrays as lists (\<open>put\<close>, \<open>byte_at\<close>), the variable-length format \<open>leb128\<close> as
    the specification of what is on the wire.
  \<^item> \<open>Pb_Long\<close>: \<^verbatim>\<open>LongBits\<close>, integers of 64 bits as two halves, refined to words of 64 bits. Numbers are \<open>int\<close>; JavaScript
    holds them exactly up to \<open>2 ^ 53\<close>.
  \<^item> \<open>Pb_Utf8\<close>, \<open>Pb_Base64\<close>: the objects \<^verbatim>\<open>utf8\<close> and \<^verbatim>\<open>base64\<close>, with round trips. Strings are lists of UTF-16 units, so lone
    surrogates are included.
  \<^item> \<open>Pb_Writer\<close>, \<open>Pb_Heap\<close>: \<^verbatim>\<open>Writer\<close> with a list of operations, and with the linked nodes of the source. The first has
    the invariant that every operation announces the number of bytes it writes, the second refines it: \<^verbatim>\<open>finish\<close>,
    a partial function that follows pointers, returns after every sequence of calls.
  \<^item> \<open>Pb_Reader\<close>: \<^verbatim>\<open>Reader\<close>, with reads beyond the end of the buffer and the positions after exceptions.
  \<^item> \<open>Pb_Wire\<close>: the contract \<open>wire_type\<close> of a writing and a reading method, interpreted on the fifteen types, and the
    round trip of nested messages. Memory before it is written (\<open>mem\<close>), the byte orders of the platforms (\<open>le\<close>) and
    the presence of \<^verbatim>\<open>util.Long\<close> (\<open>long\<close>) are parameters.
  \<^item> \<open>Pb_Skip\<close>: \<^verbatim>\<open>skipType\<close>. Fuel counts the calls of \<^verbatim>\<open>skipType\<close> and of the loop over a group; \<open>2 * n + 2\<close> is enough for
    \<open>n\<close> remaining bytes, because every turn of the loop reads at least one byte.
  \<^item> \<open>Pb_Pool\<close>: the slab allocator \<^verbatim>\<open>pool\<close>; its buffers never overlap.
  \<^item> \<open>Pb_Events\<close>: \<^verbatim>\<open>EventEmitter\<close>, whose listeners may change the emitter while it emits, \<^verbatim>\<open>Service\<close>, remote calls that
    are answered once and end once, and the object helpers \<^verbatim>\<open>merge\<close> and \<^verbatim>\<open>oneOf\<close>. Loops over arrays that grow meanwhile
    need not end, so \<^verbatim>\<open>emit\<close> is a partial function; it returns if no listener makes the array longer.

  \<^bold>\<open>How the theorems are obtained.\<close> Each invariant of the indexer is proved handler by handler and then carried through
  whole queues by an interpretation of \<open>batch\<close> on the dispatch function of the processor; refinement,
  equivalence and progress are interpretations of \<open>labelled\<close>, \<open>simulation\<close> and \<open>progress\<close> on the same
  functions. Assumptions about events (\<open>market_event_ok\<close> and its kin) state what the contracts emit, for
  example that a new order has a fresh id. Where the code does something else than its comments say, a
  theorem describes what it does.

  This theory closes with the books of the Ethereum processor over all stages of a batch: scanning,
  loading and handling together.

  \<^bold>\<open>Not modelled.\<close> The generated decoders of \<^verbatim>\<open>abi/\<close>, the subscriptions of \<^verbatim>\<open>processor.ts\<close>, the archive
  client, the object mapper and the database itself, message queue and chat (\<^verbatim>\<open>event_publisher.ts\<close>,
  \<^verbatim>\<open>slack.ts\<close>), logging and timing, the command line tools of \<^verbatim>\<open>polygon/tools\<close> and \<^verbatim>\<open>tools\<close>: they are input
  and output, generated, or code of other packages. The tables of \<^verbatim>\<open>eth/data/wearables\<close> are data and
  enter as a parameter. Of the codec: \<^verbatim>\<open>BufferWriter\<close> and \<^verbatim>\<open>BufferReader\<close>, which exist only under node and hand over to
  its \<^verbatim>\<open>Buffer\<close>; the arithmetic fallback for engines without typed arrays; base64 text as an argument of \<^verbatim>\<open>bytes\<close>;
  \<^verbatim>\<open>inquire\<close>, \<^verbatim>\<open>newError\<close> and \<^verbatim>\<open>asPromise\<close>, which reflect on JavaScript objects; the depth of the stack in nested groups. Database errors while a batch is written are not modelled; the Ethereum
  processor logs and ignores them. Unicode case mapping and numbers beyond exact integers are not
  modelled; the values concerned are hexadecimal addresses and integers. The other programs of the
  repository (services, sites and clients) are left out.
\<close>

section \<open>A batch from the database to the books\<close>

text \<open>
  C4: the books of the Ethereum processor from end to end. For whatever is stored in the database and
  whatever the blocks of a batch contain, when scanning, loading and handling end without exception,
  the sales and the MANA volume of the global counter and of the analytics of the days, and the
  purchases, expenses, sales and earnings of all accounts have grown over the loaded rows by exactly
  the number and the total price of the sale rows the batch adds, and the sale rows have different
  ids.
\<close>

theorem eth_batch_end_to_end:
  assumes "eth_batch e rpc db tokenURIs landCoordinates marketCut bidCut blocks = Inr (sc, s)"
    and "s0 = eth_getStoredData e db sc"
    and "n = int (length (es_sales s))" and "mana = msum sal_price (es_sales s)"
  shows "distinct (mkeys (es_sales s)) \<and>
    cnt_salesTotal (buildCount (es_counts s) ETHEREUM) = cnt_salesTotal (buildCount (es_counts s0) ETHEREUM) + n \<and>
    cnt_salesManaTotal (buildCount (es_counts s) ETHEREUM) =
      cnt_salesManaTotal (buildCount (es_counts s0) ETHEREUM) + mana \<and>
    msum add_sales (es_analytics s) = msum add_sales (es_analytics s0) + n \<and>
    msum add_volume (es_analytics s) = msum add_volume (es_analytics s0) + mana \<and>
    msum acc_purchases (es_accounts s) = msum acc_purchases (es_accounts s0) + n \<and>
    msum acc_spent (es_accounts s) = msum acc_spent (es_accounts s0) + mana \<and>
    msum acc_sales (es_accounts s) = msum acc_sales (es_accounts s0) + n \<and>
    msum acc_earned (es_accounts s) = msum acc_earned (es_accounts s0) + mana"
proof -
  from assms(1) obtain uris s1 where
    load: "eth_load e db uris landCoordinates sc = Inr s1" and run: "handle_queues e rpc sc s1 = Inr s"
    by (auto simp: eth_batch_def bindR_eq_Inr)
  note books = eth_batch_books_every_sale [OF loaded_ledger_ok(1) [OF load] run]
  have "eth_ledger s = eth_ledger s0" using books loaded_ledger_ok(2) [OF load] assms(2) by simp
  moreover have "es_sales s0 = []"
    by (simp add: assms(2) eth_getStoredData_def eth_empty_def Let_def)
  moreover have "mwf (es_sales s)" using books by (simp add: eth_ledger_ok_def ledger_ok_def)
  ultimately show ?thesis by (simp add: assms(3,4) eth_ledger_def ledger_def mwf_def)
qed

text \<open>A batch in which a token is minted, listed and sold.\<close>

definition sample_log :: "string \<Rightarrow> eth_event \<Rightarrow> eth_log" where
  "sample_log a ev = \<lparr>log_address = a, log_txHash = ''0xt'', log_txIndex = 0, log_event = ev\<rparr>"

definition sample_batch_blocks :: "eth_block_data list" where
  "sample_batch_blocks =
     [\<lparr>bd_header = sample_block 2,
       bd_logs = [sample_log sample_contract (Ev_Transfer \<lparr>te_from = ZERO_ADDRESS, te_to = ''0xa'', te_tokenId = 5\<rparr>),
         sample_log ''0xm'' (Ev_OrderCreated \<lparr>oc_id = ''o1'', oc_assetId = 5, oc_seller = ''0xa'',
           oc_nftAddress = sample_contract, oc_priceInWei = 70, oc_expiresAt = 7\<rparr>)]\<rparr>,
      \<lparr>bd_header = sample_block 3,
       bd_logs = [sample_log ''0xm'' (Ev_OrderSuccessful \<lparr>os_id = ''o1'', os_assetId = 5, os_seller = ''0xa'',
         os_nftAddress = sample_contract, os_totalPrice = 70, os_buyer = ''0xb''\<rparr>)]\<rparr>]"

theorem eth_batch_end_to_end_witness:
  "\<exists>sc s. eth_batch sample_env sample_rpc sample_eth_db [] [] (Some 25000) (Some 25000) sample_batch_blocks =
       Inr (sc, s) \<and>
     map (\<lambda>(k, sale). (k, sal_price sale)) (es_sales s) = [(''1-ETHEREUM'', 70)] \<and>
     msum acc_spent (es_accounts s) =
       msum acc_spent (es_accounts (eth_getStoredData sample_env sample_eth_db sc)) + msum sal_price (es_sales s)"
proof -
  let ?run = "eth_batch sample_env sample_rpc sample_eth_db [] [] (Some 25000) (Some 25000) sample_batch_blocks"
  have "case ?run of Inl err \<Rightarrow> False
    | Inr (sc, s) \<Rightarrow> map (\<lambda>(k, sale). (k, sal_price sale)) (es_sales s) = [(''1-ETHEREUM'', 70)]"
    by code_simp
  then obtain sc s where run: "?run = Inr (sc, s)"
    and sales: "map (\<lambda>(k, sale). (k, sal_price sale)) (es_sales s) = [(''1-ETHEREUM'', 70)]"
    by (auto split: sum.splits prod.splits)
  from eth_batch_end_to_end [OF run refl refl refl] sales show ?thesis
    by (intro exI [of _ sc] exI [of _ s] conjI run) simp_all
qed

end
